(* ===== verification/Prelude.thy ===== *)
theory Prelude
  imports Main "HOL-Library.Word"
begin

unbundle bit_operations_syntax

section \<open>Shared vocabulary: machine integers, text and fallible computations\<close>

text \<open>
  The generic part of the development: the machine integer types of the Rust
  sources, the pieces of the Rust standard library the sources call on text
  (integer formatting and parsing, \<^verbatim>\<open>str::split\<close>, \<^verbatim>\<open>str::trim\<close>,
  \<^verbatim>\<open>str::lines\<close>, padding in format strings) and the lemmas about them that
  several components share.

  Text is a list of characters that stand for bytes.  The program's own texts
  (syscall names, flag names, rendered arguments) are ASCII; where the standard
  library's notion of white space is Unicode, only its ASCII part is modelled.
\<close>

subsection \<open>Machine integers\<close>

type_synonym u8 = "8 word"
type_synonym u32 = "32 word"
type_synonym u64 = "64 word"
type_synonym i32 = "32 word"
type_synonym i64 = "64 word"

text \<open>
  Signed integers are words read with \<^term>\<open>sint\<close>; unsigned ones are read with
  \<^term>\<open>unat\<close>.  A cast \<^verbatim>\<open>x as u32\<close> is \<^term>\<open>ucast\<close>.
\<close>

text \<open>Rust's \<^verbatim>\<open>u32::try_from(x: u64)\<close> and \<^verbatim>\<open>saturating_sub\<close>.\<close>

definition u32_try_from :: "u64 \<Rightarrow> u32 option" where
  "u32_try_from x = (if unat x < 2 ^ 32 then Some (ucast x) else None)"

definition saturating_sub :: "u64 \<Rightarrow> u64 \<Rightarrow> u64" where
  "saturating_sub a b = (if a < b then 0 else a - b)"

lemma unat_saturating_sub: "unat (saturating_sub a b) = unat a - unat b"
  by (auto simp: saturating_sub_def word_less_nat_alt unat_sub word_le_nat_alt)

lemma unat_u32_ucast: "unat (x :: u64) < 2 ^ 32 \<Longrightarrow> unat (ucast x :: u32) = unat x"
  by (simp add: unsigned_ucast_eq take_bit_nat_eq_self)

lemma u32_try_from_Some: "u32_try_from x = Some n \<longleftrightarrow> unat x = unat n"
proof
  assume "u32_try_from x = Some n"
  then show "unat x = unat n"
    by (auto simp: u32_try_from_def unat_u32_ucast split: if_splits)
next
  assume eq: "unat x = unat n"
  have "unat n < 2 ^ 32" using unsigned_less [of n] by simp
  with eq have "unat x < 2 ^ 32" by simp
  moreover from this eq have "unat (ucast x :: u32) = unat n" by (simp only: unat_u32_ucast)
  ultimately show "u32_try_from x = Some n"
    by (simp add: u32_try_from_def word_unat_eq_iff)
qed

subsection \<open>Digits\<close>

definition digit_char :: "nat \<Rightarrow> char" where
  "digit_char d = ''0123456789abcdef'' ! d"

definition digit_table :: "(char \<times> nat) list" where
  "digit_table =
     zip ''0123456789abcdef'' [0, 1, 2, 3, 4, 5, 6, 7, 8, 9, 10, 11, 12, 13, 14, 15]
     @ zip ''ABCDEF'' [10, 11, 12, 13, 14, 15]"

text \<open>\<^verbatim>\<open>char::to_digit\<close> for a radix of at most 16.\<close>

definition to_digit :: "nat \<Rightarrow> char \<Rightarrow> nat option" where
  "to_digit b c =
     (case map_of digit_table c of Some d \<Rightarrow> if d < b then Some d else None | None \<Rightarrow> None)"

text \<open>The digits of a number in radix \<open>b\<close>, most significant first.\<close>

fun to_radix :: "nat \<Rightarrow> nat \<Rightarrow> string" where
  "to_radix b n =
     (if b < 2 \<or> n < b then [digit_char n]
      else to_radix b (n div b) @ [digit_char (n mod b)])"

declare to_radix.simps [simp del]

definition dec :: "nat \<Rightarrow> string" where
  "dec n = to_radix 10 n"

definition dec_int :: "int \<Rightarrow> string" where
  "dec_int i = (if i < 0 then CHR ''-'' # dec (nat (- i)) else dec (nat i))"

text \<open>\<^verbatim>\<open>{:#x}\<close> and \<^verbatim>\<open>{:o}\<close>.\<close>

definition hex :: "nat \<Rightarrow> string" where
  "hex n = ''0x'' @ to_radix 16 n"

definition oct :: "nat \<Rightarrow> string" where
  "oct n = to_radix 8 n"

fun digits_val :: "nat \<Rightarrow> nat \<Rightarrow> string \<Rightarrow> nat option" where
  "digits_val b acc [] = Some acc"
| "digits_val b acc (c # cs) =
     (case to_digit b c of None \<Rightarrow> None | Some d \<Rightarrow> digits_val b (acc * b + d) cs)"

text \<open>
  \<^verbatim>\<open>from_str_radix\<close> and \<^verbatim>\<open>parse\<close> on an unsigned type of \<open>w\<close> bits: an optional plus sign,
  at least one digit, no overflow.
\<close>

definition parse_uint :: "nat \<Rightarrow> nat \<Rightarrow> string \<Rightarrow> nat option" where
  "parse_uint w b s =
     (let ds = (case s of c # cs \<Rightarrow> if c = CHR ''+'' then cs else s | [] \<Rightarrow> [])
      in if ds = [] then None
         else case digits_val b 0 ds of
                None \<Rightarrow> None
              | Some v \<Rightarrow> if v < 2 ^ w then Some v else None)"

subsection \<open>Text\<close>

definition newline :: char where
  "newline = CHR 0x0A"

definition whitespace :: "char list" where
  "whitespace = [CHR '' '', CHR 0x09, CHR 0x0A, CHR 0x0B, CHR 0x0C, CHR 0x0D]"

definition is_ws :: "char \<Rightarrow> bool" where
  "is_ws c \<longleftrightarrow> c \<in> set whitespace"

definition trim :: "string \<Rightarrow> string" where
  "trim s = rev (dropWhile is_ws (rev (dropWhile is_ws s)))"

text \<open>\<^verbatim>\<open>str::split\<close> on a character predicate: never empty.\<close>

fun split_by :: "(char \<Rightarrow> bool) \<Rightarrow> string \<Rightarrow> string list" where
  "split_by p [] = [[]]"
| "split_by p (c # cs) =
     (if p c then [] # split_by p cs
      else (case split_by p cs of [] \<Rightarrow> [[c]] | w # ws \<Rightarrow> (c # w) # ws))"

definition split_whitespace :: "string \<Rightarrow> string list" where
  "split_whitespace s = filter (\<lambda>w. w \<noteq> []) (split_by is_ws s)"

definition split_once :: "char \<Rightarrow> string \<Rightarrow> (string \<times> string) option" where
  "split_once c s =
     (case dropWhile (\<lambda>x. x \<noteq> c) s of
        [] \<Rightarrow> None
      | _ # rest \<Rightarrow> Some (takeWhile (\<lambda>x. x \<noteq> c) s, rest))"

fun strip_prefix :: "string \<Rightarrow> string \<Rightarrow> string option" where
  "strip_prefix [] s = Some s"
| "strip_prefix (p # ps) [] = None"
| "strip_prefix (p # ps) (c # cs) = (if p = c then strip_prefix ps cs else None)"

definition starts_with :: "string \<Rightarrow> string \<Rightarrow> bool" where
  "starts_with s p \<longleftrightarrow> strip_prefix p s \<noteq> None"

text \<open>
  \<^verbatim>\<open>str::lines\<close>: lines end at a newline, a carriage return before it belongs to the
  ending, and no empty last line is produced.
\<close>

definition strip_cr :: "string \<Rightarrow> string" where
  "strip_cr r = (case r of c # cs \<Rightarrow> if c = CHR 0x0D then cs else r | [] \<Rightarrow> [])"

fun lines_acc :: "string \<Rightarrow> string \<Rightarrow> string list" where
  "lines_acc cur [] = (if cur = [] then [] else [rev cur])"
| "lines_acc cur (c # cs) =
     (if c = CHR 0x0A then rev (strip_cr cur) # lines_acc [] cs
      else lines_acc (c # cur) cs)"

definition str_lines :: "string \<Rightarrow> string list" where
  "str_lines s = lines_acc [] s"

fun join :: "string \<Rightarrow> string list \<Rightarrow> string" where
  "join sep [] = []"
| "join sep [w] = w"
| "join sep (w # v # ws) = w @ sep @ join sep (v # ws)"

text \<open>Alignment in format strings: \<^verbatim>\<open>{:>n}\<close> and \<^verbatim>\<open>{:<n}\<close> with a fill character.\<close>

definition pad_left :: "char \<Rightarrow> nat \<Rightarrow> string \<Rightarrow> string" where
  "pad_left c n s = replicate (n - length s) c @ s"

definition pad_right :: "char \<Rightarrow> nat \<Rightarrow> string \<Rightarrow> string" where
  "pad_right c n s = s @ replicate (n - length s) c"

definition upper_lower :: "(char \<times> char) list" where
  "upper_lower = zip ''ABCDEFGHIJKLMNOPQRSTUVWXYZ'' ''abcdefghijklmnopqrstuvwxyz''"

definition ascii_lower :: "char \<Rightarrow> char" where
  "ascii_lower c = (case map_of upper_lower c of Some l \<Rightarrow> l | None \<Rightarrow> c)"

definition eq_ignore_ascii_case :: "string \<Rightarrow> string \<Rightarrow> bool" where
  "eq_ignore_ascii_case s t \<longleftrightarrow> map ascii_lower s = map ascii_lower t"

subsection \<open>Digits and numbers: parsing inverts printing\<close>

lemma digit_table_digit_char: "\<forall>d \<in> set [0..<16]. map_of digit_table (digit_char d) = Some d"
  by code_simp

lemma to_digit_digit_char:
  assumes "d < b" "b \<le> 16"
  shows "to_digit b (digit_char d) = Some d"
proof -
  from assms have "d \<in> set [0..<16]" by simp
  with digit_table_digit_char have "map_of digit_table (digit_char d) = Some d" by blast
  with assms(1) show ?thesis by (simp add: to_digit_def)
qed

lemma digits_val_append:
  "digits_val b acc (s @ t) =
     (case digits_val b acc s of None \<Rightarrow> None | Some v \<Rightarrow> digits_val b v t)"
  by (induction b acc s rule: digits_val.induct) (auto split: option.split)

lemma to_radix_nonempty [simp]: "to_radix b n \<noteq> []"
  by (subst to_radix.simps) simp

lemma digits_val_to_radix:
  assumes "2 \<le> b" "b \<le> 16"
  shows "digits_val b 0 (to_radix b n) = Some n"
  using assms
proof (induction b n rule: to_radix.induct)
  case (1 b n)
  then show ?case
    by (cases "n < b")
      (simp_all add: to_radix.simps [of b n] digits_val_append to_digit_digit_char)
qed

lemma to_radix_chars:
  assumes "2 \<le> b" "b \<le> 16"
  shows "set (to_radix b n) \<subseteq> digit_char ` {..<b}"
  using assms
proof (induction b n rule: to_radix.induct)
  case (1 b n)
  then show ?case
    by (cases "n < b") (auto simp: to_radix.simps [of b n])
qed

lemma to_radix_inject:
  assumes "2 \<le> b" "b \<le> 16"
  shows "to_radix b m = to_radix b n \<longleftrightarrow> m = n"
  by (metis assms digits_val_to_radix option.inject)

lemma digit_char_set: "digit_char ` {..<16} = set ''0123456789abcdef''"
  by (auto simp: digit_char_def lessThan_nat_numeral lessThan_Suc)

lemma to_radix_hex_chars:
  assumes "2 \<le> b" "b \<le> 16"
  shows "set (to_radix b n) \<subseteq> set ''0123456789abcdef''"
proof -
  have "digit_char ` {..<b} \<subseteq> digit_char ` {..<16}" using assms by (intro image_mono) auto
  with to_radix_chars [OF assms, of n] show ?thesis
    unfolding digit_char_set by blast
qed

lemma parse_uint_to_radix:
  assumes "2 \<le> b" "b \<le> 16" "n < 2 ^ w"
  shows "parse_uint w b (to_radix b n) = Some n"
proof -
  obtain c cs where s: "to_radix b n = c # cs" by (cases "to_radix b n") auto
  with to_radix_hex_chars [OF assms(1,2), of n] have "c \<noteq> CHR ''+''" by auto
  with s digits_val_to_radix [OF assms(1,2), of n] assms(3) show ?thesis
    by (simp add: parse_uint_def)
qed

subsection \<open>Splitting, joining and trimming\<close>

lemma split_by_none: "(\<And>x. x \<in> set w \<Longrightarrow> \<not> p x) \<Longrightarrow> split_by p w = [w]"
  by (induction w) auto

lemma split_by_append:
  "(\<And>x. x \<in> set w \<Longrightarrow> \<not> p x) \<Longrightarrow> p c \<Longrightarrow> split_by p (w @ c # s) = w # split_by p s"
  by (induction w) auto

lemma split_by_nonempty [simp]: "split_by p s \<noteq> []"
  by (induction s) (auto split: list.split)

lemma split_by_pieces: "w \<in> set (split_by p s) \<Longrightarrow> x \<in> set w \<Longrightarrow> \<not> p x"
proof (induction s arbitrary: w)
  case (Cons a s)
  obtain v vs where vs: "split_by p s = v # vs" by (cases "split_by p s") auto
  with Cons.IH [of v] Cons.IH [of w] Cons.prems show ?case by (auto split: if_splits)
qed simp

lemma split_by_join:
  assumes "ws \<noteq> []" "\<And>w. w \<in> set ws \<Longrightarrow> c \<notin> set w"
  shows "split_by (\<lambda>x. x = c) (join [c] ws) = ws"
  using assms
proof (induction "[c]" ws rule: join.induct)
  case 1
  then show ?case by simp
next
  case (2 w)
  then show ?case by (auto intro: split_by_none)
next
  case (3 w v ws)
  then have "split_by (\<lambda>x. x = c) (join [c] (v # ws)) = v # ws" by auto
  moreover have "c \<notin> set w" using 3 by auto
  ultimately show ?case by simp (subst split_by_append, auto)
qed

lemma lines_acc_append:
  assumes "CHR 0x0A \<notin> set l"
  shows "lines_acc cur (l @ CHR 0x0A # s) = rev (strip_cr (rev l @ cur)) # lines_acc [] s"
  using assms by (induction l arbitrary: cur) auto

lemma str_lines_concat:
  assumes "\<And>l. l \<in> set ls \<Longrightarrow> CHR 0x0A \<notin> set l \<and> CHR 0x0D \<notin> set l"
  shows "str_lines (concat (map (\<lambda>l. l @ [CHR 0x0A]) ls)) = ls"
  using assms
proof (induction ls)
  case Nil
  then show ?case by (simp add: str_lines_def)
next
  case (Cons l ls)
  then have "CHR 0x0D \<notin> set (rev l)" by auto
  then have "strip_cr (rev l) = rev l"
    by (cases "rev l") (auto simp: strip_cr_def)
  moreover have "CHR 0x0A \<notin> set l" using Cons.prems by auto
  ultimately show ?case
    using Cons lines_acc_append [of l "[]" "concat (map (\<lambda>l. l @ [CHR 0x0A]) ls)"]
    by (simp add: str_lines_def)
qed

lemma strip_prefix_Some: "strip_prefix p s = Some r \<longleftrightarrow> s = p @ r"
  by (induction p s rule: strip_prefix.induct) auto

lemma starts_with_iff: "starts_with s p \<longleftrightarrow> (\<exists>r. s = p @ r)"
  by (auto simp: starts_with_def strip_prefix_Some)

lemma span_char:
  assumes "c \<notin> set a"
  shows "dropWhile (\<lambda>x. x \<noteq> c) (a @ c # b) = c # b"
    and "takeWhile (\<lambda>x. x \<noteq> c) (a @ c # b) = a"
  using assms by (induction a) auto

lemma split_once_None: "split_once c s = None \<longleftrightarrow> c \<notin> set s"
proof -
  have "split_once c s = None \<longleftrightarrow> dropWhile (\<lambda>x. x \<noteq> c) s = []"
    unfolding split_once_def by (split list.split) simp
  then show ?thesis by auto
qed

lemma split_once_append: "c \<notin> set a \<Longrightarrow> split_once c (a @ c # b) = Some (a, b)"
  by (simp add: split_once_def span_char)

lemma split_once_Some:
  "split_once c s = Some (a, b) \<longleftrightarrow> s = a @ c # b \<and> c \<notin> set a"
proof
  assume eq: "split_once c s = Some (a, b)"
  then have "c \<in> set s" using split_once_None [of c s] by auto
  then obtain u v where s: "s = u @ c # v" "c \<notin> set u" by (meson split_list_first)
  with eq show "s = a @ c # b \<and> c \<notin> set a" by (simp add: split_once_append)
qed (auto simp: split_once_append)

lemma dropWhile_hd: "s \<noteq> [] \<Longrightarrow> \<not> P (hd s) \<Longrightarrow> dropWhile P s = s"
  by (cases s) auto

lemma trim_noop:
  assumes "s \<noteq> []" "\<not> is_ws (hd s)" "\<not> is_ws (last s)"
  shows "trim s = s"
  using assms by (simp add: trim_def dropWhile_hd hd_rev)

subsection \<open>Padding, decimal and hexadecimal text, letter case\<close>

lemma length_pad_left [simp]: "length (pad_left c n s) = max n (length s)"
  by (simp add: pad_left_def)

lemma length_pad_right [simp]: "length (pad_right c n s) = max n (length s)"
  by (simp add: pad_right_def)

lemma dec_inject [simp]: "dec m = dec n \<longleftrightarrow> m = n"
  by (simp add: dec_def to_radix_inject)

lemma hex_inject [simp]: "hex m = hex n \<longleftrightarrow> m = n"
  by (simp add: hex_def to_radix_inject)

lemma set_dec: "set (dec n) \<subseteq> set ''0123456789''"
proof -
  have "digit_char ` {..<10} = set ''0123456789''"
    by (auto simp: digit_char_def lessThan_nat_numeral lessThan_Suc)
  with to_radix_chars [of 10 n] show ?thesis by (simp add: dec_def)
qed

lemma dec_nonempty [simp]: "dec n \<noteq> []"
  by (simp add: dec_def)

lemma parse_dec: "n < 2 ^ w \<Longrightarrow> parse_uint w 10 (dec n) = Some n"
  by (simp add: dec_def parse_uint_to_radix)

lemma upper_lower_fixed: "\<forall>(u, l) \<in> set upper_lower. map_of upper_lower l = None"
  by (simp add: upper_lower_def)

lemma ascii_lower_idem [simp]: "ascii_lower (ascii_lower c) = ascii_lower c"
proof (cases "map_of upper_lower c")
  case (Some l)
  then have "map_of upper_lower l = None" using upper_lower_fixed by (auto dest: map_of_SomeD)
  with Some show ?thesis by (simp add: ascii_lower_def)
qed (simp add: ascii_lower_def)

subsection \<open>Positions\<close>

text \<open>\<^verbatim>\<open>Iterator::position\<close> and \<^verbatim>\<open>rposition\<close>: the first and the last index where a test holds.\<close>

fun position :: "('a \<Rightarrow> bool) \<Rightarrow> 'a list \<Rightarrow> nat option" where
  "position p [] = None"
| "position p (x # xs) = (if p x then Some 0 else map_option Suc (position p xs))"

fun rposition :: "('a \<Rightarrow> bool) \<Rightarrow> 'a list \<Rightarrow> nat option" where
  "rposition p [] = None"
| "rposition p (x # xs) =
     (case rposition p xs of Some i \<Rightarrow> Some (Suc i) | None \<Rightarrow> if p x then Some 0 else None)"

lemma position_None: "position p xs = None \<longleftrightarrow> (\<forall>x \<in> set xs. \<not> p x)"
  by (induction xs) auto

lemma position_Some:
  "position p xs = Some i \<Longrightarrow> i < length xs \<and> p (xs ! i) \<and> (\<forall>x \<in> set (take i xs). \<not> p x)"
  by (induction xs arbitrary: i) (auto split: if_splits)

lemma position_takeWhile:
  "position p xs = Some i \<Longrightarrow> take i xs = takeWhile (\<lambda>x. \<not> p x) xs"
  by (induction xs arbitrary: i) (auto split: if_splits)

lemma rposition_None: "rposition p xs = None \<longleftrightarrow> (\<forall>x \<in> set xs. \<not> p x)"
  by (induction xs) (auto split: option.splits)

lemma rposition_Some:
  "rposition p xs = Some i \<Longrightarrow>
     i < length xs \<and> p (xs ! i) \<and> (\<forall>x \<in> set (drop (Suc i) xs). \<not> p x)"
proof (induction xs arbitrary: i)
  case (Cons x xs)
  then show ?case
    by (cases "rposition p xs") (auto simp: rposition_None split: if_splits)
qed simp

subsection \<open>Comparing many words at once\<close>

text \<open>
  A word read as a number in base 256.  It lets the simplifier compare the hundreds of
  names of a table as numerals instead of character by character.
\<close>

definition str_code :: "string \<Rightarrow> int" where
  "str_code s = foldl (\<lambda>n c. n * 256 + of_char c) 0 s"

lemma distinct_by_code: "distinct (map str_code xs) \<Longrightarrow> distinct xs"
  by (simp add: distinct_map)

lemma find_key_unique:
  assumes "distinct (map f xs)" "x \<in> set xs"
  shows "find (\<lambda>y. f y = f x) xs = Some x"
  using assms by (induction xs) (auto simp: image_iff)

lemma find_SomeD: "find P xs = Some x \<Longrightarrow> x \<in> set xs \<and> P x"
  by (induction xs) (auto split: if_splits)

text \<open>A strictly ascending list, checked one neighbour at a time.\<close>

fun ascending :: "'a::linorder list \<Rightarrow> bool" where
  "ascending (x # y # zs) \<longleftrightarrow> x < y \<and> ascending (y # zs)"
| "ascending _ \<longleftrightarrow> True"

lemma ascending_iff: "ascending xs \<longleftrightarrow> sorted_wrt (<) xs"
  by (induction xs rule: ascending.induct)
    (auto simp: sorted_wrt2 sorted_wrt1 simp del: sorted_wrt.simps(2))

lemma ascending_distinct: "ascending xs \<Longrightarrow> sorted xs \<and> distinct xs"
  by (simp add: ascending_iff strict_sorted_iff)

subsection \<open>Evaluation\<close>

text \<open>
  The defining equations the simplifier needs to run the standard library model on
  closed terms; the components add their own.
\<close>

named_theorems exec

declare to_radix.simps [exec] dec_def [exec] dec_int_def [exec] hex_def [exec] oct_def [exec]
  digit_char_def [exec] digit_table_def [exec] to_digit_def [exec] parse_uint_def [exec]
  whitespace_def [exec] is_ws_def [exec] trim_def [exec] split_whitespace_def [exec]
  split_once_def [exec] starts_with_def [exec] strip_cr_def [exec] str_lines_def [exec]
  pad_left_def [exec] pad_right_def [exec] upper_lower_def [exec] ascii_lower_def [exec]
  eq_ignore_ascii_case_def [exec] u32_try_from_def [exec] saturating_sub_def [exec]

end
