(* ===== verification/Gen_Table.thy ===== *)
theory Gen_Table
  imports Prelude "HOL-Library.Monad_Syntax" "HOL-Library.Multiset"
begin

section \<open>The kernel's syscall table (\<^verbatim>\<open>crates/syren-gen/src/table.rs\<close>)\<close>

text \<open>
  The parser of \<^verbatim>\<open>syscall_64.tbl\<close>.  A row is
  \<^verbatim>\<open><number> <abi> <name> [<entry point>]\<close> separated by white space; comments, blank
  lines and rows that do not parse are dropped, rows of the x32 ABI are skipped and the
  rest is sorted by number with Rust's stable \<^verbatim>\<open>sort_by_key\<close>.
\<close>

datatype abi = Common | B64 | X32

definition abi_parse :: "string \<Rightarrow> abi option" where
  "abi_parse s =
     (if s = ''common'' then Some Common
      else if s = ''64'' then Some B64
      else if s = ''x32'' then Some X32
      else None)"

record syscall_entry =
  ent_number :: u32
  ent_abi :: abi
  ent_name :: string
  ent_entry :: "string option"

text \<open>\<^verbatim>\<open>Iterator::next\<close> on the columns of a row.\<close>

fun next_col :: "'a list \<Rightarrow> ('a \<times> 'a list) option" where
  "next_col [] = None"
| "next_col (c # cs) = Some (c, cs)"

definition parse_line :: "string \<Rightarrow> syscall_entry option" where
  "parse_line raw =
     (let line = trim raw in
      if line = [] \<or> starts_with line ''#'' then None
      else do {
        (num, cols) \<leftarrow> next_col (split_whitespace line);
        n \<leftarrow> parse_uint 32 10 num;
        (ab, cols) \<leftarrow> next_col cols;
        abi \<leftarrow> abi_parse ab;
        (name, cols) \<leftarrow> next_col cols;
        Some \<lparr>ent_number = of_nat n, ent_abi = abi, ent_name = name,
              ent_entry = map_option fst (next_col cols)\<rparr>
      })"

definition parse_tbl :: "string \<Rightarrow> syscall_entry list" where
  "parse_tbl input =
     sort_key ent_number
       (filter (\<lambda>e. ent_abi e \<noteq> X32) (List.map_filter parse_line (str_lines input)))"

declare abi_parse_def [exec] parse_line_def [exec]

subsection \<open>Printing a table\<close>

text \<open>
  The reference printer of the documented format, used to state that the parser reads back what
  the format writes: rows with their columns separated by blanks, which may go on after the
  entry point, comments, and blank lines.
\<close>

definition abi_text :: "abi \<Rightarrow> string" where
  "abi_text a = (case a of Common \<Rightarrow> ''common'' | B64 \<Rightarrow> ''64'' | X32 \<Rightarrow> ''x32'')"

definition row_cols :: "syscall_entry \<Rightarrow> string list" where
  "row_cols e =
     [dec (unat (ent_number e)), abi_text (ent_abi e), ent_name e]
     @ (case ent_entry e of None \<Rightarrow> [] | Some s \<Rightarrow> [s])"

datatype tbl_line =
    RowLine string syscall_entry "string list"
  | CommentLine string
  | BlankLine string

fun line_text :: "tbl_line \<Rightarrow> string" where
  "line_text (RowLine sep e extra) = join sep (row_cols e @ extra)"
| "line_text (CommentLine c) = ''#'' @ c"
| "line_text (BlankLine s) = s"

definition word_ok :: "string \<Rightarrow> bool" where
  "word_ok w \<longleftrightarrow> w \<noteq> [] \<and> list_all (\<lambda>c. \<not> is_ws c) w"

definition entry_ok :: "syscall_entry \<Rightarrow> bool" where
  "entry_ok e \<longleftrightarrow> word_ok (ent_name e) \<and> (case ent_entry e of None \<Rightarrow> True | Some s \<Rightarrow> word_ok s)"

definition blanks :: "string \<Rightarrow> bool" where
  "blanks s \<longleftrightarrow> list_all (\<lambda>c. c = CHR '' '' \<or> c = CHR 0x09) s"

fun line_ok :: "tbl_line \<Rightarrow> bool" where
  "line_ok (RowLine sep e extra) \<longleftrightarrow> sep \<noteq> [] \<and> blanks sep \<and> entry_ok e
     \<and> list_all word_ok extra \<and> (extra \<noteq> [] \<longrightarrow> ent_entry e \<noteq> None)"
| "line_ok (CommentLine c) \<longleftrightarrow> CHR 0x0A \<notin> set c \<and> CHR 0x0D \<notin> set c"
| "line_ok (BlankLine s) \<longleftrightarrow> blanks s"

fun line_entry :: "tbl_line \<Rightarrow> syscall_entry option" where
  "line_entry (RowLine sep e extra) = Some e"
| "line_entry (CommentLine c) = None"
| "line_entry (BlankLine s) = None"

declare word_ok_def [exec] entry_ok_def [exec] abi_text_def [exec] row_cols_def [exec]
  blanks_def [exec]

lemma abi_parse_text [simp]: "abi_parse (abi_text a) = Some a"
  by (cases a) (simp_all add: abi_parse_def abi_text_def)

lemma is_ws_digit: "c \<in> set ''0123456789'' \<Longrightarrow> \<not> is_ws c"
  by (auto simp: is_ws_def whitespace_def)

lemma word_ok_dec: "word_ok (dec n)"
proof -
  have "\<forall>c \<in> set (dec n). \<not> is_ws c" using set_dec [of n] is_ws_digit by blast
  then show ?thesis by (simp add: word_ok_def list_all_iff)
qed

lemma word_ok_abi: "word_ok (abi_text a)"
  by (cases a) (simp_all add: abi_text_def word_ok_def is_ws_def whitespace_def)

lemma row_cols_ok: "entry_ok e \<Longrightarrow> list_all word_ok extra \<Longrightarrow> w \<in> set (row_cols e @ extra) \<Longrightarrow> word_ok w"
  by (auto simp: entry_ok_def row_cols_def word_ok_dec word_ok_abi list_all_iff split: option.splits)

text \<open>Splitting at white space, a word at a time.\<close>

lemma blanks_ws: "blanks s \<Longrightarrow> c \<in> set s \<Longrightarrow> is_ws c"
  by (auto simp: blanks_def list_all_iff is_ws_def whitespace_def)

lemma split_whitespace_blanks: "blanks s \<Longrightarrow> split_whitespace (s @ t) = split_whitespace t"
  by (induction s) (auto simp: blanks_def split_whitespace_def is_ws_def whitespace_def)

lemma split_whitespace_single: "word_ok w \<Longrightarrow> split_whitespace w = [w]"
  using split_by_none [of w is_ws] by (auto simp: split_whitespace_def word_ok_def list_all_iff)

lemma split_whitespace_word:
  assumes "word_ok w" "sep \<noteq> []" "blanks sep"
  shows "split_whitespace (w @ sep @ t) = w # split_whitespace t"
proof -
  obtain c s where sep: "sep = c # s" using assms(2) by (cases sep) auto
  have "split_by is_ws (w @ c # (s @ t)) = w # split_by is_ws (s @ t)"
    using assms(1) blanks_ws [OF assms(3), of c]
    by (intro split_by_append) (auto simp: word_ok_def list_all_iff sep)
  then have "split_whitespace (w @ sep @ t) = w # split_whitespace (s @ t)"
    using assms(1) by (simp add: split_whitespace_def sep word_ok_def)
  moreover have "blanks s" using assms(3) by (simp add: blanks_def sep)
  ultimately show ?thesis by (simp add: split_whitespace_blanks)
qed

lemma split_whitespace_join:
  assumes "sep \<noteq> []" "blanks sep" "\<And>w. w \<in> set ws \<Longrightarrow> word_ok w"
  shows "split_whitespace (join sep ws) = ws"
  using assms(3)
proof (induction ws)
  case Nil
  then show ?case by (simp add: split_whitespace_def)
next
  case (Cons w ws)
  then show ?case using split_whitespace_word [OF _ assms(1,2), of w "join sep ws"]
    by (cases ws) (simp_all add: split_whitespace_single)
qed

lemma join_ends:
  assumes "ws \<noteq> []" "\<And>w. w \<in> set ws \<Longrightarrow> w \<noteq> []"
  shows "join sep ws \<noteq> [] \<and> hd (join sep ws) = hd (hd ws) \<and> last (join sep ws) = last (last ws)"
  using assms by (induction sep ws rule: join.induct) auto

lemma parse_line_row:
  assumes "line_ok (RowLine sep e extra)"
  shows "parse_line (line_text (RowLine sep e extra)) = Some e"
proof -
  let ?cols = "row_cols e @ extra" and ?line = "join sep (row_cols e @ extra)"
  from assms have sep: "sep \<noteq> []" "blanks sep" and e: "entry_ok e" "list_all word_ok extra"
    and extra: "extra \<noteq> [] \<Longrightarrow> ent_entry e \<noteq> None" by simp_all
  note ok = row_cols_ok [OF e]
  have ne: "?cols \<noteq> []" by (simp add: row_cols_def)
  have ends: "?line \<noteq> []" "hd ?line = hd (hd ?cols)" "last ?line = last (last ?cols)"
    using join_ends [OF ne, of sep] ok by (auto simp: word_ok_def)
  have trim: "trim ?line = ?line"
    using ends ok [OF hd_in_set [OF ne]] ok [OF last_in_set [OF ne]]
    by (intro trim_noop) (auto simp: word_ok_def list_all_iff)
  have "hd ?line \<in> set ''0123456789''"
    using subsetD [OF set_dec hd_in_set [OF dec_nonempty]] ends(2) by (simp add: row_cols_def)
  then have "\<not> starts_with ?line ''#''" by (auto simp: starts_with_iff)
  moreover have "split_whitespace ?line = ?cols" by (rule split_whitespace_join [OF sep ok])
  moreover have "unat (ent_number e) < 2 ^ 32" using unsigned_less [of "ent_number e"] by simp
  ultimately show ?thesis
    using trim ends(1) extra by (cases extra) (auto simp: parse_line_def row_cols_def parse_dec split: option.split)
qed

lemma parse_line_text: "line_ok l \<Longrightarrow> parse_line (line_text l) = line_entry l"
proof (cases l)
  case (CommentLine c)
  have "\<not> is_ws CHR ''#''" by (simp add: is_ws_def whitespace_def)
  then have "dropWhile is_ws (rev c @ ''#'') = dropWhile is_ws (rev c) @ ''#''"
    by (induction "rev c" arbitrary: c rule: list.induct) (auto simp: dropWhile_append)
  with CommentLine show ?thesis by (simp add: parse_line_def trim_def starts_with_iff is_ws_def whitespace_def)
next
  case (BlankLine s)
  assume "line_ok l"
  then have "dropWhile is_ws s = []" using blanks_ws BlankLine by auto
  then have "trim s = []" unfolding trim_def by (simp only: rev.simps dropWhile.simps)
  with BlankLine show ?thesis by (simp add: parse_line_def)
qed (simp_all add: parse_line_row del: line_text.simps line_ok.simps)

lemma line_text_chars:
  assumes "line_ok l"
  shows "CHR 0x0A \<notin> set (line_text l) \<and> CHR 0x0D \<notin> set (line_text l)"
proof (cases l)
  case (RowLine sep e extra)
  have join: "c \<in> set (join sep ws) \<Longrightarrow> c \<in> set sep \<or> (\<exists>w \<in> set ws. c \<in> set w)" for c ws
    by (induction sep ws rule: join.induct) auto
  have cols: "\<not> (c = CHR 0x0A \<or> c = CHR 0x0D)" if "c \<in> set w" "w \<in> set (row_cols e @ extra)" for c w
  proof -
    have "word_ok w" using assms by (intro row_cols_ok [OF _ _ that(2)]) (simp_all add: RowLine)
    with that(1) have "\<not> is_ws c" by (simp add: word_ok_def list_all_iff)
    then show ?thesis by (auto simp: is_ws_def whitespace_def)
  qed
  have seps: "\<not> (c = CHR 0x0A \<or> c = CHR 0x0D)" if "c \<in> set sep" for c
  proof -
    have "\<forall>c\<in>set sep. c = CHR '' '' \<or> c = CHR 0x09" using assms by (simp add: RowLine blanks_def list_all_iff)
    with that have "c = CHR '' '' \<or> c = CHR 0x09" by (rule bspec [rotated])
    then show ?thesis by auto
  qed
  have "\<not> (c = CHR 0x0A \<or> c = CHR 0x0D)" if "c \<in> set (line_text l)" for c
  proof -
    from that join have "c \<in> set sep \<or> (\<exists>w \<in> set (row_cols e @ extra). c \<in> set w)" by (simp only: RowLine line_text.simps)
    then show ?thesis
    proof
      assume "c \<in> set sep"
      then show ?thesis by (rule seps)
    next
      assume "\<exists>w \<in> set (row_cols e @ extra). c \<in> set w"
      then obtain w where "w \<in> set (row_cols e @ extra)" "c \<in> set w" ..
      then show ?thesis by (intro cols)
    qed
  qed
  then show ?thesis by blast
next
  case (BlankLine s)
  then have "\<forall>c\<in>set s. c = CHR '' '' \<or> c = CHR 0x09" using assms by (simp add: blanks_def list_all_iff)
  then have "CHR 0x0A \<notin> set s" "CHR 0x0D \<notin> set s" by (auto dest: bspec)
  then show ?thesis by (simp add: BlankLine)
qed (use assms in simp)

lemma parse_tbl_sorted: "sorted (map ent_number (parse_tbl s))"
  by (simp add: parse_tbl_def)

lemma parse_tbl_stable:
  "filter (\<lambda>e. ent_number e = k) (parse_tbl s) =
     filter (\<lambda>e. ent_number e = k \<and> ent_abi e \<noteq> X32) (List.map_filter parse_line (str_lines s))"
  by (simp add: parse_tbl_def sort_key_stable conj_commute)

lemma parse_tbl_mem:
  "e \<in> set (parse_tbl s) \<longleftrightarrow> ent_abi e \<noteq> X32 \<and> (\<exists>l \<in> set (str_lines s). parse_line l = Some e)"
  by (force simp: parse_tbl_def List.map_filter_def)

subsection \<open>Properties\<close>

text \<open>
  C12. \<open>parse_tbl\<close> returns exactly the well-formed rows outside the x32 block, ordered by
  number, rows of equal number in file order: it is the only list with these properties.
\<close>

theorem parse_tbl_characterised:
  "parse_tbl s = es \<longleftrightarrow>
     sorted (map ent_number es) \<and>
     (\<forall>k. filter (\<lambda>e. ent_number e = k) es =
        filter (\<lambda>e. ent_number e = k \<and> ent_abi e \<noteq> X32) (List.map_filter parse_line (str_lines s)))"
proof
  assume *: "sorted (map ent_number es) \<and>
     (\<forall>k. filter (\<lambda>e. ent_number e = k) es =
        filter (\<lambda>e. ent_number e = k \<and> ent_abi e \<noteq> X32) (List.map_filter parse_line (str_lines s)))"
  let ?rows = "filter (\<lambda>e. ent_abi e \<noteq> X32) (List.map_filter parse_line (str_lines s))"
  have keys: "filter (\<lambda>e. k = ent_number e) ?rows = filter (\<lambda>e. k = ent_number e) es" for k
    using * by (simp add: eq_commute [of k] conj_commute)
  have "mset ?rows = mset es"
  proof (rule multiset_eqI)
    fix e :: syscall_entry
    have "count (mset xs) e = count (mset (filter (\<lambda>x. ent_number e = ent_number x) xs)) e" for xs
      by (induction xs) auto
    then show "count (mset ?rows) e = count (mset es) e" using keys by metis
  qed
  then have "sort_key ent_number ?rows = es"
    using * keys by (intro properties_for_sort_key) auto
  then show "parse_tbl s = es" by (simp add: parse_tbl_def)
qed (auto simp: parse_tbl_sorted parse_tbl_stable)



end
