(* ===== verification/Gen_Category.thy ===== *)
theory Gen_Category
  imports Prelude
begin

section \<open>Classification of syscalls (\<^verbatim>\<open>crates/syren-gen/src/category.rs\<close>)\<close>

text \<open>
  The build-time generator puts every syscall name into one of ten coarse categories:
  an explicit table first, then the first matching prefix rule, then \<^verbatim>\<open>Other\<close>.
  The name lists below are the arms of the \<^verbatim>\<open>match\<close> in \<^verbatim>\<open>exact\<close>, in the order of the source.
\<close>

datatype gen_category =
    GFs | GNet | GMemory | GProcess | GSignal | GIpc | GTime | GSecurity | GSystem | GOther

definition ident :: "gen_category \<Rightarrow> string" where
  "ident c = (case c of
        GFs \<Rightarrow> ''Fs''
     | GNet \<Rightarrow> ''Net''
     | GMemory \<Rightarrow> ''Memory''
     | GProcess \<Rightarrow> ''Process''
     | GSignal \<Rightarrow> ''Signal''
     | GIpc \<Rightarrow> ''Ipc''
     | GTime \<Rightarrow> ''Time''
     | GSecurity \<Rightarrow> ''Security''
     | GSystem \<Rightarrow> ''System''
     | GOther \<Rightarrow> ''Other'')"

definition fs_names :: "string list" where
  "fs_names = [
    ''read'', ''write'', ''open'', ''openat'', ''openat2'', ''close'', ''close_range'',
    ''stat'', ''fstat'', ''lstat'', ''newfstatat'', ''statx'', ''lseek'', ''pread64'',
    ''pwrite64'', ''readv'', ''writev'', ''preadv'', ''pwritev'', ''preadv2'', ''pwritev2'',
    ''access'', ''faccessat'', ''faccessat2'', ''dup'', ''dup2'', ''dup3'', ''pipe'',
    ''pipe2'', ''getdents'', ''getdents64'', ''getcwd'', ''chdir'', ''fchdir'', ''rename'',
    ''renameat'', ''renameat2'', ''mkdir'', ''mkdirat'', ''rmdir'', ''creat'', ''link'',
    ''linkat'', ''unlink'', ''unlinkat'', ''symlink'', ''symlinkat'', ''readlink'',
    ''readlinkat'', ''chmod'', ''fchmod'', ''fchmodat'', ''chown'', ''fchown'', ''lchown'',
    ''fchownat'', ''umask'', ''truncate'', ''ftruncate'', ''fallocate'', ''fadvise64'',
    ''flock'', ''fsync'', ''fdatasync'', ''sync'', ''syncfs'', ''sync_file_range'', ''statfs'',
    ''fstatfs'', ''getxattr'', ''lgetxattr'', ''fgetxattr'', ''setxattr'', ''lsetxattr'',
    ''fsetxattr'', ''listxattr'', ''llistxattr'', ''flistxattr'', ''removexattr'',
    ''lremovexattr'', ''fremovexattr'', ''sendfile'', ''copy_file_range'', ''splice'', ''tee'',
    ''vmsplice'', ''fcntl'', ''mknod'', ''mknodat'']"

definition net_names :: "string list" where
  "net_names = [
    ''socket'', ''socketpair'', ''bind'', ''listen'', ''accept'', ''accept4'', ''connect'',
    ''getsockname'', ''getpeername'', ''sendto'', ''recvfrom'', ''sendmsg'', ''recvmsg'',
    ''sendmmsg'', ''recvmmsg'', ''shutdown'', ''setsockopt'', ''getsockopt'', ''sethostname'',
    ''setdomainname'']"

definition memory_names :: "string list" where
  "memory_names = [
    ''mmap'', ''munmap'', ''mremap'', ''mprotect'', ''brk'', ''msync'', ''mincore'',
    ''madvise'', ''mlock'', ''mlock2'', ''munlock'', ''mlockall'', ''munlockall'', ''mbind'',
    ''set_mempolicy'', ''get_mempolicy'', ''migrate_pages'', ''move_pages'', ''memfd_create'',
    ''memfd_secret'', ''pkey_alloc'', ''pkey_free'', ''pkey_mprotect'', ''remap_file_pages'']"

definition process_names :: "string list" where
  "process_names = [
    ''clone'', ''clone3'', ''fork'', ''vfork'', ''execve'', ''execveat'', ''exit'',
    ''exit_group'', ''wait4'', ''waitid'', ''getpid'', ''getppid'', ''gettid'',
    ''set_tid_address'', ''set_robust_list'', ''get_robust_list'', ''unshare'', ''setns'',
    ''prctl'', ''arch_prctl'', ''personality'', ''getpgid'', ''setpgid'', ''getpgrp'',
    ''getsid'', ''setsid'', ''getpriority'', ''setpriority'']"

definition signal_names :: "string list" where
  "signal_names = [
    ''rt_sigaction'', ''rt_sigprocmask'', ''rt_sigreturn'', ''rt_sigpending'',
    ''rt_sigtimedwait'', ''rt_sigqueueinfo'', ''rt_tgsigqueueinfo'', ''rt_sigsuspend'',
    ''sigaltstack'', ''kill'', ''tkill'', ''tgkill'', ''pidfd_send_signal'', ''signalfd'',
    ''signalfd4'', ''pause'', ''restart_syscall'']"

definition ipc_names :: "string list" where
  "ipc_names = [
    ''futex'', ''futex_waitv'', ''get_robust_list2'', ''eventfd'', ''eventfd2'', ''shmget'',
    ''shmat'', ''shmdt'', ''shmctl'', ''semget'', ''semop'', ''semtimedop'', ''semctl'',
    ''msgget'', ''msgsnd'', ''msgrcv'', ''msgctl'', ''mq_open'', ''mq_unlink'',
    ''mq_timedsend'', ''mq_timedreceive'', ''mq_notify'', ''mq_getsetattr'',
    ''process_vm_readv'', ''process_vm_writev'', ''pidfd_open'', ''pidfd_getfd'']"

definition time_names :: "string list" where
  "time_names = [
    ''nanosleep'', ''clock_nanosleep'', ''gettimeofday'', ''settimeofday'', ''time'',
    ''times'', ''getitimer'', ''setitimer'', ''alarm'', ''adjtimex'', ''clock_adjtime'']"

definition security_names :: "string list" where
  "security_names = [
    ''setuid'', ''setgid'', ''setreuid'', ''setregid'', ''setresuid'', ''setresgid'',
    ''setfsuid'', ''setfsgid'', ''getuid'', ''geteuid'', ''getgid'', ''getegid'',
    ''getresuid'', ''getresgid'', ''getgroups'', ''setgroups'', ''capget'', ''capset'',
    ''seccomp'', ''keyctl'', ''add_key'', ''request_key'', ''landlock_create_ruleset'',
    ''landlock_add_rule'', ''landlock_restrict_self'']"

definition system_names :: "string list" where
  "system_names = [
    ''ioctl'', ''uname'', ''sysinfo'', ''syslog'', ''reboot'', ''getrlimit'', ''setrlimit'',
    ''prlimit64'', ''getrusage'', ''sysctl'', ''_sysctl'', ''ptrace'', ''bpf'',
    ''perf_event_open'', ''kcmp'', ''getcpu'', ''sysfs'', ''ustat'', ''quotactl'',
    ''quotactl_fd'']"

text \<open>Explicit overrides where prefixes would mislead.\<close>

definition exact :: "string \<Rightarrow> gen_category option" where
  "exact name =
     (if name \<in> set fs_names then Some GFs
      else if name \<in> set net_names then Some GNet
      else if name \<in> set memory_names then Some GMemory
      else if name \<in> set process_names then Some GProcess
      else if name \<in> set signal_names then Some GSignal
      else if name \<in> set ipc_names then Some GIpc
      else if name \<in> set time_names then Some GTime
      else if name \<in> set security_names then Some GSecurity
      else if name \<in> set system_names then Some GSystem
      else None)"

text \<open>The prefix rules, tried in order.\<close>

definition prefix_rules :: "(string \<times> gen_category) list" where
  "prefix_rules = [
    (''inotify'', GFs),
    (''fanotify'', GFs),
    (''epoll'', GFs),
    (''eventfd'', GIpc),
    (''io_uring'', GFs),
    (''io_'', GFs),
    (''aio_'', GFs),
    (''name_to_handle'', GFs),
    (''open_by_handle'', GFs),
    (''clock_'', GTime),
    (''timer_'', GTime),
    (''timerfd'', GTime),
    (''sched_'', GSystem),
    (''rt_sig'', GSignal),
    (''sig'', GSignal),
    (''sem'', GIpc),
    (''shm'', GIpc),
    (''msg'', GIpc),
    (''mq_'', GIpc),
    (''key'', GSecurity),
    (''landlock'', GSecurity),
    (''socket'', GNet),
    (''get'', GProcess),
    (''set'', GProcess)]"

definition by_prefix :: "string \<Rightarrow> gen_category option" where
  "by_prefix name = map_option snd (find (\<lambda>(prefix, cat). starts_with name prefix) prefix_rules)"

definition categorize :: "string \<Rightarrow> gen_category" where
  "categorize name =
     (case exact name of
        Some cat \<Rightarrow> cat
      | None \<Rightarrow> (case by_prefix name of Some cat \<Rightarrow> cat | None \<Rightarrow> GOther))"

lemmas category_names =
  fs_names_def net_names_def memory_names_def process_names_def signal_names_def
  ipc_names_def time_names_def security_names_def system_names_def

declare category_names [exec] exact_def [exec] prefix_rules_def [exec] by_prefix_def [exec]
  categorize_def [exec] ident_def [exec]

subsection \<open>The arms of the match are disjoint\<close>

text \<open>The names listed for a category.\<close>

definition arm :: "gen_category \<Rightarrow> string list" where
  "arm c = (case c of GFs \<Rightarrow> fs_names | GNet \<Rightarrow> net_names | GMemory \<Rightarrow> memory_names
     | GProcess \<Rightarrow> process_names | GSignal \<Rightarrow> signal_names | GIpc \<Rightarrow> ipc_names
     | GTime \<Rightarrow> time_names | GSecurity \<Rightarrow> security_names | GSystem \<Rightarrow> system_names
     | GOther \<Rightarrow> [])"

definition all_names :: "string list" where
  "all_names = fs_names @ net_names @ memory_names @ process_names @ signal_names
     @ ipc_names @ time_names @ security_names @ system_names"

lemma all_names_codes: "distinct (map str_code all_names)"
  by (simp add: all_names_def category_names str_code_def)

lemma distinct_all_names: "distinct all_names"
  by (rule distinct_by_code [OF all_names_codes])

lemma exact_iff_arm: "exact name = Some c \<longleftrightarrow> name \<in> set (arm c)"
proof -
  have "distinct (fs_names @ net_names @ memory_names @ process_names @ signal_names
     @ ipc_names @ time_names @ security_names @ system_names)"
    using distinct_all_names by (simp only: all_names_def)
  then show ?thesis
    by (cases c) (auto simp: exact_def arm_def)
qed

lemma ident_inject: "ident c = ident d \<longleftrightarrow> c = d"
  by (cases c; cases d) (simp_all add: ident_def)

subsection \<open>Properties\<close>

text \<open>
  The arms of the big \<^verbatim>\<open>match\<close> never overlap: a name gets the category of the one arm
  that lists it, and exactly the listed names bypass the prefix rules.
\<close>

lemma exact_arms:
  "(exact name = Some c \<longleftrightarrow> name \<in> set (arm c)) \<and> (exact name = None \<longleftrightarrow> name \<notin> set all_names)"
proof
  show "exact name = Some c \<longleftrightarrow> name \<in> set (arm c)" by (rule exact_iff_arm)
  show "exact name = None \<longleftrightarrow> name \<notin> set all_names"
    unfolding exact_def all_names_def by (simp only: set_append Un_iff) (simp split: if_split)
qed

end
