(* ===== verification/Gen_Meta.thy ===== *)
theory Gen_Meta
  imports Prelude
begin

section \<open>Argument metadata (\<^verbatim>\<open>crates/syren-gen/src/meta.rs\<close>)\<close>

text \<open>
  The hand-maintained prototypes of the hot syscalls.  As in the source an argument's
  kind is kept as the identifier text the \<^verbatim>\<open>syscall_meta!\<close> macro stringifies; the
  table below lists the rows of \<^verbatim>\<open>METADATA\<close> in the order of the source.
\<close>

datatype arg_kind = KFd | KPath | KBuf | KSize | KInt | KUint | KHex | KOffset | KFlags | KPtr

text \<open>\<^verbatim>\<open>ArgKind::ident\<close>.\<close>

definition kind_ident :: "arg_kind \<Rightarrow> string" where
  "kind_ident k = (case k of
        KFd \<Rightarrow> ''Fd''
      | KPath \<Rightarrow> ''Path''
      | KBuf \<Rightarrow> ''Buf''
      | KSize \<Rightarrow> ''Size''
      | KInt \<Rightarrow> ''Int''
      | KUint \<Rightarrow> ''Uint''
      | KHex \<Rightarrow> ''Hex''
      | KOffset \<Rightarrow> ''Offset''
      | KFlags \<Rightarrow> ''Flags''
      | KPtr \<Rightarrow> ''Ptr'')"

record arg_meta =
  am_name :: string
  am_kind :: string

record syscall_meta =
  sm_name :: string
  sm_args :: "arg_meta list"

text \<open>The \<^verbatim>\<open>const fn a\<close> and the macro that build one row.\<close>

definition a_meta :: "string \<Rightarrow> string \<Rightarrow> arg_meta" where
  "a_meta name kind = \<lparr>am_name = name, am_kind = kind\<rparr>"

definition syscall_row :: "string \<Rightarrow> (string \<times> string) list \<Rightarrow> syscall_meta" where
  "syscall_row name args = \<lparr>sm_name = name, sm_args = map (\<lambda>(an, ak). a_meta an ak) args\<rparr>"

definition METADATA :: "syscall_meta list" where
  "METADATA = [
    syscall_row ''read'' [(''fd'', ''Fd''), (''buf'', ''Buf''), (''count'', ''Size'')],
    syscall_row ''write'' [(''fd'', ''Fd''), (''buf'', ''Buf''), (''count'', ''Size'')],
    syscall_row ''pread64'' [
      (''fd'', ''Fd''), (''buf'', ''Buf''),
      (''count'', ''Size''), (''pos'', ''Offset'')],
    syscall_row ''pwrite64'' [
      (''fd'', ''Fd''), (''buf'', ''Buf''),
      (''count'', ''Size''), (''pos'', ''Offset'')],
    syscall_row ''readv'' [(''fd'', ''Fd''), (''iov'', ''Ptr''), (''iovcnt'', ''Int'')],
    syscall_row ''writev'' [(''fd'', ''Fd''), (''iov'', ''Ptr''), (''iovcnt'', ''Int'')],
    syscall_row ''open'' [(''filename'', ''Path''), (''flags'', ''Flags''), (''mode'', ''Int'')],
    syscall_row ''openat'' [
      (''dfd'', ''Fd''), (''filename'', ''Path''),
      (''flags'', ''Flags''), (''mode'', ''Int'')],
    syscall_row ''creat'' [(''pathname'', ''Path''), (''mode'', ''Int'')],
    syscall_row ''close'' [(''fd'', ''Fd'')],
    syscall_row ''lseek'' [(''fd'', ''Fd''), (''offset'', ''Offset''), (''whence'', ''Int'')],
    syscall_row ''dup'' [(''fildes'', ''Fd'')],
    syscall_row ''dup2'' [(''oldfd'', ''Fd''), (''newfd'', ''Fd'')],
    syscall_row ''dup3'' [(''oldfd'', ''Fd''), (''newfd'', ''Fd''), (''flags'', ''Flags'')],
    syscall_row ''pipe'' [(''filedes'', ''Ptr'')],
    syscall_row ''pipe2'' [(''filedes'', ''Ptr''), (''flags'', ''Flags'')],
    syscall_row ''fcntl'' [(''fd'', ''Fd''), (''cmd'', ''Int''), (''arg'', ''Hex'')],
    syscall_row ''ioctl'' [(''fd'', ''Fd''), (''request'', ''Hex''), (''arg'', ''Hex'')],
    syscall_row ''getdents64'' [(''fd'', ''Fd''), (''dirent'', ''Ptr''), (''count'', ''Size'')],
    syscall_row ''fsync'' [(''fd'', ''Fd'')],
    syscall_row ''fdatasync'' [(''fd'', ''Fd'')],
    syscall_row ''ftruncate'' [(''fd'', ''Fd''), (''length'', ''Offset'')],
    syscall_row ''truncate'' [(''path'', ''Path''), (''length'', ''Offset'')],
    syscall_row ''stat'' [(''filename'', ''Path''), (''statbuf'', ''Ptr'')],
    syscall_row ''lstat'' [(''filename'', ''Path''), (''statbuf'', ''Ptr'')],
    syscall_row ''fstat'' [(''fd'', ''Fd''), (''statbuf'', ''Ptr'')],
    syscall_row ''newfstatat'' [
      (''dfd'', ''Fd''), (''filename'', ''Path''),
      (''statbuf'', ''Ptr''), (''flag'', ''Flags'')],
    syscall_row ''statx'' [
      (''dfd'', ''Fd''), (''path'', ''Path''),
      (''flags'', ''Flags''), (''mask'', ''Uint''), (''buf'', ''Ptr'')],
    syscall_row ''access'' [(''filename'', ''Path''), (''mode'', ''Int'')],
    syscall_row ''faccessat'' [(''dfd'', ''Fd''), (''filename'', ''Path''), (''mode'', ''Int'')],
    syscall_row ''faccessat2'' [
      (''dfd'', ''Fd''), (''filename'', ''Path''),
      (''mode'', ''Int''), (''flags'', ''Flags'')],
    syscall_row ''readlink'' [(''path'', ''Path''), (''buf'', ''Buf''), (''bufsiz'', ''Size'')],
    syscall_row ''readlinkat'' [
      (''dfd'', ''Fd''), (''path'', ''Path''),
      (''buf'', ''Buf''), (''bufsiz'', ''Size'')],
    syscall_row ''getcwd'' [(''buf'', ''Buf''), (''size'', ''Size'')],
    syscall_row ''chdir'' [(''filename'', ''Path'')],
    syscall_row ''fchdir'' [(''fd'', ''Fd'')],
    syscall_row ''rename'' [(''oldname'', ''Path''), (''newname'', ''Path'')],
    syscall_row ''renameat2'' [
      (''olddfd'', ''Fd''), (''oldname'', ''Path''),
      (''newdfd'', ''Fd''), (''newname'', ''Path''), (''flags'', ''Flags'')],
    syscall_row ''mkdir'' [(''pathname'', ''Path''), (''mode'', ''Int'')],
    syscall_row ''mkdirat'' [(''dfd'', ''Fd''), (''pathname'', ''Path''), (''mode'', ''Int'')],
    syscall_row ''rmdir'' [(''pathname'', ''Path'')],
    syscall_row ''unlink'' [(''pathname'', ''Path'')],
    syscall_row ''unlinkat'' [(''dfd'', ''Fd''), (''pathname'', ''Path''), (''flag'', ''Flags'')],
    syscall_row ''symlink'' [(''oldname'', ''Path''), (''newname'', ''Path'')],
    syscall_row ''chmod'' [(''filename'', ''Path''), (''mode'', ''Int'')],
    syscall_row ''fchmod'' [(''fd'', ''Fd''), (''mode'', ''Int'')],
    syscall_row ''umask'' [(''mask'', ''Int'')],
    syscall_row ''mmap'' [
      (''addr'', ''Ptr''), (''len'', ''Size''), (''prot'', ''Flags''),
      (''flags'', ''Flags''), (''fd'', ''Fd''), (''off'', ''Offset'')],
    syscall_row ''munmap'' [(''addr'', ''Ptr''), (''len'', ''Size'')],
    syscall_row ''mprotect'' [(''addr'', ''Ptr''), (''len'', ''Size''), (''prot'', ''Flags'')],
    syscall_row ''mremap'' [
      (''addr'', ''Ptr''), (''old_len'', ''Size''),
      (''new_len'', ''Size''), (''flags'', ''Flags''), (''new_addr'', ''Ptr'')],
    syscall_row ''brk'' [(''brk'', ''Ptr'')],
    syscall_row ''madvise'' [(''addr'', ''Ptr''), (''len'', ''Size''), (''advice'', ''Int'')],
    syscall_row ''execve'' [(''filename'', ''Path''), (''argv'', ''Ptr''), (''envp'', ''Ptr'')],
    syscall_row ''execveat'' [
      (''dfd'', ''Fd''), (''filename'', ''Path''),
      (''argv'', ''Ptr''), (''envp'', ''Ptr''), (''flags'', ''Flags'')],
    syscall_row ''clone'' [
      (''flags'', ''Flags''), (''stack'', ''Ptr''),
      (''parent_tid'', ''Ptr''), (''child_tid'', ''Ptr''), (''tls'', ''Hex'')],
    syscall_row ''wait4'' [
      (''pid'', ''Int''), (''stat_addr'', ''Ptr''),
      (''options'', ''Flags''), (''rusage'', ''Ptr'')],
    syscall_row ''exit'' [(''status'', ''Int'')],
    syscall_row ''exit_group'' [(''status'', ''Int'')],
    syscall_row ''getpid'' [],
    syscall_row ''getppid'' [],
    syscall_row ''gettid'' [],
    syscall_row ''set_tid_address'' [(''tidptr'', ''Ptr'')],
    syscall_row ''set_robust_list'' [(''head'', ''Ptr''), (''len'', ''Size'')],
    syscall_row ''prctl'' [
      (''option'', ''Int''), (''arg2'', ''Hex''),
      (''arg3'', ''Hex''), (''arg4'', ''Hex''), (''arg5'', ''Hex'')],
    syscall_row ''arch_prctl'' [(''code'', ''Int''), (''addr'', ''Hex'')],
    syscall_row ''rseq'' [
      (''rseq'', ''Ptr''), (''rseq_len'', ''Uint''),
      (''flags'', ''Flags''), (''sig'', ''Uint'')],
    syscall_row ''rt_sigaction'' [
      (''sig'', ''Int''), (''act'', ''Ptr''),
      (''oact'', ''Ptr''), (''sigsetsize'', ''Size'')],
    syscall_row ''rt_sigprocmask'' [
      (''how'', ''Int''), (''set'', ''Ptr''),
      (''oset'', ''Ptr''), (''sigsetsize'', ''Size'')],
    syscall_row ''kill'' [(''pid'', ''Int''), (''sig'', ''Int'')],
    syscall_row ''tgkill'' [(''tgid'', ''Int''), (''pid'', ''Int''), (''sig'', ''Int'')],
    syscall_row ''socket'' [(''family'', ''Int''), (''type'', ''Int''), (''protocol'', ''Int'')],
    syscall_row ''connect'' [(''fd'', ''Fd''), (''uservaddr'', ''Ptr''), (''addrlen'', ''Int'')],
    syscall_row ''accept'' [(''fd'', ''Fd''), (''upeer'', ''Ptr''), (''upeer_addrlen'', ''Ptr'')],
    syscall_row ''accept4'' [
      (''fd'', ''Fd''), (''upeer'', ''Ptr''),
      (''upeer_addrlen'', ''Ptr''), (''flags'', ''Flags'')],
    syscall_row ''bind'' [(''fd'', ''Fd''), (''umyaddr'', ''Ptr''), (''addrlen'', ''Int'')],
    syscall_row ''listen'' [(''fd'', ''Fd''), (''backlog'', ''Int'')],
    syscall_row ''sendto'' [
      (''fd'', ''Fd''), (''buff'', ''Buf''), (''len'', ''Size''),
      (''flags'', ''Flags''), (''addr'', ''Ptr''), (''addrlen'', ''Int'')],
    syscall_row ''recvfrom'' [
      (''fd'', ''Fd''), (''ubuf'', ''Buf''), (''size'', ''Size''),
      (''flags'', ''Flags''), (''addr'', ''Ptr''), (''addrlen'', ''Ptr'')],
    syscall_row ''setsockopt'' [
      (''fd'', ''Fd''), (''level'', ''Int''),
      (''optname'', ''Int''), (''optval'', ''Ptr''), (''optlen'', ''Int'')],
    syscall_row ''getsockopt'' [
      (''fd'', ''Fd''), (''level'', ''Int''),
      (''optname'', ''Int''), (''optval'', ''Ptr''), (''optlen'', ''Ptr'')],
    syscall_row ''poll'' [(''ufds'', ''Ptr''), (''nfds'', ''Uint''), (''timeout'', ''Int'')],
    syscall_row ''ppoll'' [
      (''ufds'', ''Ptr''), (''nfds'', ''Uint''),
      (''tsp'', ''Ptr''), (''sigmask'', ''Ptr''), (''sigsetsize'', ''Size'')],
    syscall_row ''select'' [
      (''n'', ''Int''), (''inp'', ''Ptr''),
      (''outp'', ''Ptr''), (''exp'', ''Ptr''), (''tvp'', ''Ptr'')],
    syscall_row ''epoll_create1'' [(''flags'', ''Flags'')],
    syscall_row ''epoll_ctl'' [
      (''epfd'', ''Fd''), (''op'', ''Int''),
      (''fd'', ''Fd''), (''event'', ''Ptr'')],
    syscall_row ''epoll_wait'' [
      (''epfd'', ''Fd''), (''events'', ''Ptr''),
      (''maxevents'', ''Int''), (''timeout'', ''Int'')],
    syscall_row ''eventfd2'' [(''count'', ''Uint''), (''flags'', ''Flags'')],
    syscall_row ''nanosleep'' [(''rqtp'', ''Ptr''), (''rmtp'', ''Ptr'')],
    syscall_row ''clock_gettime'' [(''which_clock'', ''Int''), (''tp'', ''Ptr'')],
    syscall_row ''clock_nanosleep'' [
      (''which_clock'', ''Int''), (''flags'', ''Flags''),
      (''rqtp'', ''Ptr''), (''rmtp'', ''Ptr'')],
    syscall_row ''gettimeofday'' [(''tv'', ''Ptr''), (''tz'', ''Ptr'')],
    syscall_row ''futex'' [
      (''uaddr'', ''Ptr''), (''op'', ''Flags''), (''val'', ''Uint''),
      (''utime'', ''Ptr''), (''uaddr2'', ''Ptr''), (''val3'', ''Uint'')],
    syscall_row ''getrandom'' [(''buf'', ''Buf''), (''count'', ''Size''), (''flags'', ''Flags'')]]"

definition metadata :: "syscall_meta list" where
  "metadata = METADATA"

definition meta_lookup :: "string \<Rightarrow> syscall_meta option" where
  "meta_lookup name = find (\<lambda>m. sm_name m = name) METADATA"

declare a_meta_def [exec] syscall_row_def [exec] METADATA_def [exec] metadata_def [exec]
  meta_lookup_def [exec] kind_ident_def [exec]

end
