(* ===== verification/Common_Table.thy ===== *)
theory Common_Table
  imports Gen_Table Gen_Category Gen_Meta
begin

section \<open>The syscall table and its lookups (\<^verbatim>\<open>crates/syren-common/src/lib.rs\<close>)\<close>

text \<open>
  The vocabulary every other crate shares: categories, argument types, the static
  description of a syscall and the lookups into the table.  The table \<^verbatim>\<open>SYSCALLS\<close> is
  generated at build time; the lookups take it as an argument, and
  \<open>table_of\<close> says which table the generator's rows denote.
\<close>

subsection \<open>Categories\<close>

datatype category =
    Fs | Net | Memory | Process | Signal | Ipc | Time | Security | System | Other

definition ALL_CATEGORIES :: "category list" where
  "ALL_CATEGORIES = [Fs, Net, Memory, Process, Signal, Ipc, Time, Security, System, Other]"

definition as_str :: "category \<Rightarrow> string" where
  "as_str c = (case c of
       Fs \<Rightarrow> ''fs''
     | Net \<Rightarrow> ''net''
     | Memory \<Rightarrow> ''memory''
     | Process \<Rightarrow> ''process''
     | Signal \<Rightarrow> ''signal''
     | Ipc \<Rightarrow> ''ipc''
     | Time \<Rightarrow> ''time''
     | Security \<Rightarrow> ''security''
     | System \<Rightarrow> ''system''
     | Other \<Rightarrow> ''other'')"

definition category_parse :: "string \<Rightarrow> category option" where
  "category_parse s = find (\<lambda>c. eq_ignore_ascii_case (as_str c) s) ALL_CATEGORIES"

subsection \<open>Argument types, syscall descriptions\<close>

datatype arg_type =
    TyFd | TyPath | TyBuf | TySize | TyInt | TyUint | TyHex | TyOffset | TyFlags | TyPtr

record arg_info =
  ai_name :: string
  ai_ty :: arg_type

record syscall_info =
  si_number :: u32
  si_name :: string
  si_category :: category
  si_args :: "arg_info list"

subsection \<open>Lookups\<close>

text \<open>
  The standard library's \<^verbatim>\<open>binary_search_by_key\<close>: the search narrows a window of
  \<open>sz\<close> elements from \<open>base\<close> and compares once at the end.
\<close>

fun bsearch_loop :: "('a \<Rightarrow> 'k::linorder) \<Rightarrow> 'a list \<Rightarrow> 'k \<Rightarrow> nat \<Rightarrow> nat \<Rightarrow> nat" where
  "bsearch_loop key xs k base sz =
     (if sz \<le> 1 then base
      else let half = sz div 2; mid = base + half in
        bsearch_loop key xs k (if k < key (xs ! mid) then base else mid) (sz - half))"

declare bsearch_loop.simps [simp del]

definition binary_search_by_key ::
    "'a list \<Rightarrow> 'k::linorder \<Rightarrow> ('a \<Rightarrow> 'k) \<Rightarrow> nat option" where
  "binary_search_by_key xs k key =
     (if xs = [] then None
      else let i = bsearch_loop key xs k 0 (length xs) in
        if key (xs ! i) = k then Some i else None)"

definition syscall_by_number :: "syscall_info list \<Rightarrow> u32 \<Rightarrow> syscall_info option" where
  "syscall_by_number T number =
     map_option (\<lambda>i. T ! i) (binary_search_by_key T number si_number)"

definition syscall_by_name :: "syscall_info list \<Rightarrow> string \<Rightarrow> syscall_info option" where
  "syscall_by_name T name = find (\<lambda>s. si_name s = name) T"

definition syscall_name :: "syscall_info list \<Rightarrow> u64 \<Rightarrow> string" where
  "syscall_name T nr =
     (case Option.bind (u32_try_from nr) (syscall_by_number T) of
        Some info \<Rightarrow> si_name info
      | None \<Rightarrow> ''syscall_'' @ dec (unat nr))"

subsection \<open>The table the generated rows denote\<close>

text \<open>
  The generator writes \<^verbatim>\<open>crate::Category::<ident>\<close> and \<^verbatim>\<open>crate::ArgType::<ident>\<close>; the
  compiler resolves the identifiers in this crate, or rejects the file.
\<close>

definition category_of_ident :: "string \<Rightarrow> category option" where
  "category_of_ident s = map_of
     [(''Fs'', Fs), (''Net'', Net), (''Memory'', Memory), (''Process'', Process),
      (''Signal'', Signal), (''Ipc'', Ipc), (''Time'', Time), (''Security'', Security),
      (''System'', System), (''Other'', Other)] s"

definition arg_type_of_ident :: "string \<Rightarrow> arg_type option" where
  "arg_type_of_ident s = map_of
     [(''Fd'', TyFd), (''Path'', TyPath), (''Buf'', TyBuf), (''Size'', TySize), (''Int'', TyInt),
      (''Uint'', TyUint), (''Hex'', TyHex), (''Offset'', TyOffset), (''Flags'', TyFlags),
      (''Ptr'', TyPtr)] s"

definition arg_info_of :: "arg_meta \<Rightarrow> arg_info option" where
  "arg_info_of m =
     map_option (\<lambda>ty. \<lparr>ai_name = am_name m, ai_ty = ty\<rparr>) (arg_type_of_ident (am_kind m))"

definition args_of :: "string \<Rightarrow> arg_info list option" where
  "args_of name =
     (case meta_lookup name of
        None \<Rightarrow> Some []
      | Some m \<Rightarrow> those (map arg_info_of (sm_args m)))"

definition info_of :: "syscall_entry \<Rightarrow> syscall_info option" where
  "info_of e = do {
     cat \<leftarrow> category_of_ident (ident (categorize (ent_name e)));
     args \<leftarrow> args_of (ent_name e);
     Some \<lparr>si_number = ent_number e, si_name = ent_name e, si_category = cat, si_args = args\<rparr>
   }"

definition table_of :: "string \<Rightarrow> syscall_info list option" where
  "table_of tbl = those (map info_of (parse_tbl tbl))"

declare ALL_CATEGORIES_def [exec] as_str_def [exec] category_parse_def [exec]
  bsearch_loop.simps [exec] binary_search_by_key_def [exec] syscall_by_number_def [exec]
  syscall_by_name_def [exec] syscall_name_def [exec] category_of_ident_def [exec]
  arg_type_of_ident_def [exec] arg_info_of_def [exec] args_of_def [exec] info_of_def [exec]
  table_of_def [exec] parse_tbl_def [exec]

subsection \<open>Category names\<close>

text \<open>
  The categories are finitely many, listed by \<open>ALL_CATEGORIES\<close>: a statement about all of them is
  decided by evaluation.
\<close>

instantiation category :: enum
begin

definition enum_category :: "category list" where
  "enum_category = ALL_CATEGORIES"

definition enum_all_category :: "(category \<Rightarrow> bool) \<Rightarrow> bool" where
  "enum_all_category P \<longleftrightarrow> list_all P ALL_CATEGORIES"

definition enum_ex_category :: "(category \<Rightarrow> bool) \<Rightarrow> bool" where
  "enum_ex_category P \<longleftrightarrow> list_ex P ALL_CATEGORIES"

instance
proof
  have mem: "c \<in> set ALL_CATEGORIES" for c by (cases c) (simp_all add: ALL_CATEGORIES_def)
  show "(UNIV :: category set) = set enum_class.enum" by (auto simp: enum_category_def mem)
  show "distinct (enum_class.enum :: category list)" by (simp add: enum_category_def ALL_CATEGORIES_def)
  show "enum_class.enum_all P \<longleftrightarrow> Ball UNIV P" for P :: "category \<Rightarrow> bool"
    by (auto simp: enum_all_category_def list_all_iff mem)
  show "enum_class.enum_ex P \<longleftrightarrow> Bex UNIV P" for P :: "category \<Rightarrow> bool"
    by (auto simp: enum_ex_category_def list_ex_iff mem)
qed

end

lemma category_parse_as_str: "\<forall>c. category_parse (as_str c) = Some c"
  by code_simp

lemma as_str_lower: "map ascii_lower (as_str c) = as_str c"
  by (cases c) (simp_all add: as_str_def ascii_lower_def upper_lower_def)

lemma as_str_inject [simp]: "as_str c = as_str d \<longleftrightarrow> c = d"
  using category_parse_as_str by (metis option.inject)

lemma category_parse_iff: "category_parse s = Some c \<longleftrightarrow> map ascii_lower s = as_str c"
proof -
  have eq: "eq_ignore_ascii_case (as_str d) s \<longleftrightarrow> map ascii_lower s = as_str d" for d
    by (auto simp: eq_ignore_ascii_case_def as_str_lower)
  show ?thesis
  proof
    assume "category_parse s = Some c"
    then show "map ascii_lower s = as_str c"
      unfolding category_parse_def using eq by (auto dest: find_SomeD)
  next
    assume "map ascii_lower s = as_str c"
    then show "category_parse s = Some c"
      unfolding category_parse_def eq
      by (cases c) (simp_all add: ALL_CATEGORIES_def)
  qed
qed

subsection \<open>Binary search\<close>

lemma bsearch_loop_less:
  "base + sz \<le> length xs \<Longrightarrow> 0 < sz \<Longrightarrow> bsearch_loop key xs k base sz < length xs"
proof (induction key xs k base sz rule: bsearch_loop.induct)
  case (1 key xs k base sz)
  show ?case
  proof (cases "sz \<le> 1")
    case True
    with 1 show ?thesis by (subst bsearch_loop.simps) simp
  next
    case False
    with 1 show ?thesis by (subst bsearch_loop.simps) (auto simp: Let_def)
  qed
qed

text \<open>The window always holds the position of the key, if the key is there at all.\<close>

lemma bsearch_loop_hit:
  assumes "sorted_wrt (\<lambda>x y. key x < key y) xs" "key (xs ! j) = k"
  shows "base \<le> j \<Longrightarrow> j < base + sz \<Longrightarrow> base + sz \<le> length xs \<Longrightarrow>
    bsearch_loop key xs k base sz = j"
proof (induction sz arbitrary: base rule: less_induct)
  case (less sz)
  show ?case
  proof (cases "sz \<le> 1")
    case True
    with less.prems show ?thesis by (subst bsearch_loop.simps) simp
  next
    case False
    let ?half = "sz div 2"
    let ?mid = "base + ?half"
    have mid: "?mid < length xs" "0 < ?half" "?half < sz" using False less.prems by auto
    have "j < length xs" using less.prems by simp
    have cmp: "k < key (xs ! ?mid) \<longleftrightarrow> j < ?mid"
      using sorted_wrt_nth_less [OF assms(1), of j ?mid]
        sorted_wrt_nth_less [OF assms(1), of ?mid j] mid(1) \<open>j < length xs\<close> assms(2)
      by (metis linorder_neqE_nat order_less_asym)
    let ?base = "if k < key (xs ! ?mid) then base else ?mid"
    have "bsearch_loop key xs k ?base (sz - ?half) = j"
      by (rule less.IH) (use less.prems mid cmp in auto)
    with False show ?thesis by (subst bsearch_loop.simps) (simp add: Let_def)
  qed
qed

lemma binary_search_by_key_Some:
  assumes "sorted_wrt (\<lambda>x y. key x < key y) xs" "i < length xs"
  shows "binary_search_by_key xs (key (xs ! i)) key = Some i"
  using bsearch_loop_hit [OF assms(1) refl, of 0 i "length xs"] assms(2)
  by (auto simp: binary_search_by_key_def Let_def)

lemma binary_search_by_key_SomeD:
  assumes "binary_search_by_key xs k key = Some i"
  shows "i < length xs \<and> key (xs ! i) = k"
  using assms bsearch_loop_less [of 0 "length xs" xs key k]
  by (auto simp: binary_search_by_key_def Let_def split: if_splits)

subsection \<open>Lookup by number\<close>

text \<open>A table as the generator orders it, with no number twice.\<close>

definition table_sorted :: "syscall_info list \<Rightarrow> bool" where
  "table_sorted T \<longleftrightarrow> sorted_wrt (\<lambda>x y. si_number x < si_number y) T"

lemma syscall_by_number_SomeD:
  "syscall_by_number T n = Some s \<Longrightarrow> s \<in> set T \<and> si_number s = n"
  by (auto simp: syscall_by_number_def dest: binary_search_by_key_SomeD)

lemma syscall_by_number_iff:
  assumes "table_sorted T"
  shows "syscall_by_number T n = Some s \<longleftrightarrow> s \<in> set T \<and> si_number s = n"
proof
  assume "s \<in> set T \<and> si_number s = n"
  then obtain i where "i < length T" "T ! i = s" "si_number (T ! i) = n"
    by (auto simp: in_set_conv_nth)
  then show "syscall_by_number T n = Some s"
    using binary_search_by_key_Some [of si_number T i] assms
    by (simp add: syscall_by_number_def table_sorted_def)
qed (simp add: syscall_by_number_SomeD)

lemma syscall_by_number_find:
  assumes "table_sorted T"
  shows "syscall_by_number T n = find (\<lambda>s. si_number s = n) T"
proof (cases "syscall_by_number T n")
  case None
  then have "\<not> (\<exists>s \<in> set T. si_number s = n)"
    using syscall_by_number_iff [OF assms, of n] by auto
  then have "find (\<lambda>s. si_number s = n) T = None" by (auto simp: find_None_iff)
  with None show ?thesis by simp
next
  case (Some s)
  have "sorted_wrt (<) (map si_number T)"
    using assms by (simp add: table_sorted_def sorted_wrt_map)
  then have "distinct (map si_number T)" by (simp add: strict_sorted_iff)
  with Some find_key_unique [of si_number T s] show ?thesis
    using syscall_by_number_SomeD [OF Some] by auto
qed

subsection \<open>Every generated row compiles\<close>

lemma category_of_ident_ex: "\<exists>d. category_of_ident (ident c) = Some d"
  by (cases c) (simp_all add: category_of_ident_def ident_def)

lemma metadata_resolves:
  "list_all (\<lambda>m. length (sm_args m) \<le> 6 \<and> list_all (\<lambda>x. arg_info_of x \<noteq> None) (sm_args m)) METADATA"
  by (simp add: METADATA_def syscall_row_def a_meta_def arg_info_of_def arg_type_of_ident_def)

lemma those_Some: "list_all (\<lambda>x. f x \<noteq> None) xs \<Longrightarrow> \<exists>ys. those (map f xs) = Some ys"
  by (induction xs) auto

lemma those_length: "those xs = Some ys \<Longrightarrow> length ys = length xs"
  by (induction xs arbitrary: ys) (auto split: option.splits)

lemma those_nth: "those xs = Some ys \<Longrightarrow> i < length xs \<Longrightarrow> xs ! i = Some (ys ! i)"
  by (induction xs arbitrary: ys i) (auto simp: nth_Cons split: option.splits nat.splits)

lemma those_mem: "those (map f xs) = Some ys \<Longrightarrow> x \<in> set xs \<Longrightarrow> f x = Some y \<Longrightarrow> y \<in> set ys"
  by (induction xs arbitrary: ys) (auto split: option.splits)

lemma args_of_Some: "\<exists>as. args_of name = Some as \<and> length as \<le> 6"
proof (cases "meta_lookup name")
  case None
  then show ?thesis by (simp add: args_of_def)
next
  case (Some m)
  then have "m \<in> set METADATA" by (auto simp: meta_lookup_def dest: find_SomeD)
  with metadata_resolves have "length (sm_args m) \<le> 6"
    and "list_all (\<lambda>x. arg_info_of x \<noteq> None) (sm_args m)" by (auto simp: list_all_iff)
  with those_Some [OF this(2)] Some show ?thesis
    by (fastforce simp: args_of_def dest: those_length)
qed

lemma info_of_Some: "\<exists>i. info_of e = Some i"
  using args_of_Some [of "ent_name e"] category_of_ident_ex [of "categorize (ent_name e)"]
  by (auto simp: info_of_def)

lemma table_of_Some: "\<exists>T. table_of tbl = Some T"
  unfolding table_of_def by (rule those_Some) (use info_of_Some in \<open>auto simp: list_all_iff\<close>)

lemma info_of_fields:
  "info_of e = Some i \<Longrightarrow> si_number i = ent_number e \<and> si_name i = ent_name e"
  by (auto simp: info_of_def split: bind_splits)

lemma table_of_map:
  assumes "table_of tbl = Some T"
  shows "map si_number T = map ent_number (parse_tbl tbl)"
    and "map si_name T = map ent_name (parse_tbl tbl)"
proof -
  have len: "length T = length (parse_tbl tbl)"
    using those_length assms by (fastforce simp: table_of_def)
  have "info_of (parse_tbl tbl ! i) = Some (T ! i)" if "i < length T" for i
    using those_nth [of "map info_of (parse_tbl tbl)" T i] assms that len
    by (simp add: table_of_def)
  then have "si_number (T ! i) = ent_number (parse_tbl tbl ! i)
      \<and> si_name (T ! i) = ent_name (parse_tbl tbl ! i)" if "i < length T" for i
    using that info_of_fields by blast
  with len show "map si_number T = map ent_number (parse_tbl tbl)"
    and "map si_name T = map ent_name (parse_tbl tbl)"
    by (auto intro!: map_equality_iff [THEN iffD2])
qed

lemma table_of_sorted:
  assumes "table_of tbl = Some T" "distinct (map ent_number (parse_tbl tbl))"
  shows "table_sorted T"
proof -
  have "sorted_wrt (<) (map si_number T)"
    using assms parse_tbl_sorted [of tbl] by (simp add: table_of_map strict_sorted_iff)
  then show ?thesis by (simp add: table_sorted_def sorted_wrt_map)
qed

subsection \<open>Properties\<close>

text \<open>
  C21. On a table with strictly ascending numbers the binary search finds what a linear
  search finds: the row of that number, or nothing.
\<close>

theorem by_number_linear:
  assumes "table_sorted T"
  shows "syscall_by_number T n = find (\<lambda>s. si_number s = n) T"
  by (rule syscall_by_number_find [OF assms])

theorem by_number_linear_witness:
  "syscall_by_number
     [\<lparr>si_number = 0, si_name = ''read'', si_category = Fs, si_args = []\<rparr>,
      \<lparr>si_number = 3, si_name = ''close'', si_category = Fs, si_args = []\<rparr>,
      \<lparr>si_number = 7, si_name = ''poll'', si_category = Fs, si_args = []\<rparr>] 3
   = Some \<lparr>si_number = 3, si_name = ''close'', si_category = Fs, si_args = []\<rparr>"
  by (subst by_number_linear) (simp_all add: table_sorted_def)

text \<open>
  \<open>Category::parse\<close> accepts exactly the ten names, in any letter case, and inverts
  \<open>as_str\<close>.
\<close>

lemma category_names_parse:
  "category_parse s = Some c \<longleftrightarrow> map ascii_lower s = as_str c"
  by (rule category_parse_iff)

end
