(* ===== verification/Gen_Codegen.thy ===== *)
theory Gen_Codegen
  imports Common_Table
begin

section \<open>The generated source file (\<^verbatim>\<open>crates/syren-gen/src/codegen.rs\<close>)\<close>

text \<open>
  \<open>generate\<close> writes the Rust source of the syscall table from the text of the kernel
  table.  \<open>table_source\<close> is the independent reading of that file: the Rust literal of
  every \<^verbatim>\<open>SyscallInfo\<close> of the table the rows denote.
\<close>

text \<open>\<^verbatim>\<open>{:?}\<close> on an ASCII string.\<close>

definition debug_char :: "char \<Rightarrow> string" where
  "debug_char c =
     (if c = CHR 0x22 then [CHR 0x5C, CHR 0x22]
      else if c = CHR 0x5C then [CHR 0x5C, CHR 0x5C]
      else if c = CHR 0x0A then [CHR 0x5C, CHR ''n'']
      else if c = CHR 0x0D then [CHR 0x5C, CHR ''r'']
      else if c = CHR 0x09 then [CHR 0x5C, CHR ''t'']
      else if c = CHR 0x00 then [CHR 0x5C, CHR ''0'']
      else if of_char c < (32 :: nat) \<or> of_char c = (127 :: nat)
        then [CHR 0x5C] @ ''u{'' @ to_radix 16 (of_char c) @ ''}''
      else [c])"

definition debug_str :: "string \<Rightarrow> string" where
  "debug_str s = [CHR 0x22] @ concat (map debug_char s) @ [CHR 0x22]"

subsection \<open>The generator\<close>

definition render_arg_meta :: "arg_meta \<Rightarrow> string" where
  "render_arg_meta arg =
     ''crate::ArgInfo { name: '' @ debug_str (am_name arg) @ '', ty: crate::ArgType::''
     @ am_kind arg @ '' }''"

text \<open>The loop of \<^verbatim>\<open>render_args\<close>: a separator before every argument but the first.\<close>

fun render_arg_list :: "nat \<Rightarrow> arg_meta list \<Rightarrow> string" where
  "render_arg_list i [] = []"
| "render_arg_list i (arg # rest) =
     (if i > 0 then '', '' else []) @ render_arg_meta arg @ render_arg_list (Suc i) rest"

definition render_args :: "string \<Rightarrow> string" where
  "render_args name =
     (case meta_lookup name of
        None \<Rightarrow> ''&[]''
      | Some m \<Rightarrow> if sm_args m = [] then ''&[]''
                  else ''&['' @ render_arg_list 0 (sm_args m) @ '']'')"

definition em_dash :: "string" where
  "em_dash = [CHR 0xE2, CHR 0x80, CHR 0x94]"

definition header :: "nat \<Rightarrow> string" where
  "header n =
     ''// @generated by syren-gen '' @ em_dash @ '' DO NOT EDIT.'' @ [CHR 0x0A]
     @ ''// Regenerated from crates/syren-common/data/syscall_64.tbl at build time.''
     @ [CHR 0x0A, CHR 0x0A]
     @ ''/// Number of syscalls known to syren on this ABI.'' @ [CHR 0x0A]
     @ ''pub const SYSCALL_COUNT: usize = '' @ dec n @ '';'' @ [CHR 0x0A, CHR 0x0A]
     @ ''/// All known syscalls, sorted by syscall number.'' @ [CHR 0x0A]
     @ ''pub static SYSCALLS: &[crate::SyscallInfo] = &['' @ [CHR 0x0A]"

definition generate_row :: "syscall_entry \<Rightarrow> string" where
  "generate_row e =
     ''    crate::SyscallInfo { number: '' @ dec (unat (ent_number e))
     @ '', name: '' @ debug_str (ent_name e)
     @ '', category: crate::Category::'' @ ident (categorize (ent_name e))
     @ '', args: '' @ render_args (ent_name e) @ '' },'' @ [CHR 0x0A]"

definition generate :: "string \<Rightarrow> string" where
  "generate tbl =
     (let entries = parse_tbl tbl in
      header (length entries) @ concat (map generate_row entries) @ ''];'' @ [CHR 0x0A])"

declare debug_char_def [exec] debug_str_def [exec] render_arg_meta_def [exec]
  render_args_def [exec] em_dash_def [exec] header_def [exec] generate_row_def [exec]
  generate_def [exec]

subsection \<open>The literal of a table\<close>

definition category_source :: "category \<Rightarrow> string" where
  "category_source c = (case c of
       Fs \<Rightarrow> ''Fs'' | Net \<Rightarrow> ''Net'' | Memory \<Rightarrow> ''Memory'' | Process \<Rightarrow> ''Process''
     | Signal \<Rightarrow> ''Signal'' | Ipc \<Rightarrow> ''Ipc'' | Time \<Rightarrow> ''Time'' | Security \<Rightarrow> ''Security''
     | System \<Rightarrow> ''System'' | Other \<Rightarrow> ''Other'')"

definition arg_type_source :: "arg_type \<Rightarrow> string" where
  "arg_type_source t = (case t of
       TyFd \<Rightarrow> ''Fd'' | TyPath \<Rightarrow> ''Path'' | TyBuf \<Rightarrow> ''Buf'' | TySize \<Rightarrow> ''Size''
     | TyInt \<Rightarrow> ''Int'' | TyUint \<Rightarrow> ''Uint'' | TyHex \<Rightarrow> ''Hex'' | TyOffset \<Rightarrow> ''Offset''
     | TyFlags \<Rightarrow> ''Flags'' | TyPtr \<Rightarrow> ''Ptr'')"

definition arg_source :: "arg_info \<Rightarrow> string" where
  "arg_source a = ''crate::ArgInfo { name: '' @ debug_str (ai_name a)
     @ '', ty: crate::ArgType::'' @ arg_type_source (ai_ty a) @ '' }''"

definition info_source :: "syscall_info \<Rightarrow> string" where
  "info_source i =
     ''    crate::SyscallInfo { number: '' @ dec (unat (si_number i))
     @ '', name: '' @ debug_str (si_name i)
     @ '', category: crate::Category::'' @ category_source (si_category i)
     @ '', args: &['' @ join '', '' (map arg_source (si_args i)) @ ''] },'' @ [CHR 0x0A]"

definition table_source :: "syscall_info list \<Rightarrow> string" where
  "table_source T = header (length T) @ concat (map info_source T) @ ''];'' @ [CHR 0x0A]"

lemma category_source_ident: "category_of_ident (ident g) = Some c \<Longrightarrow> category_source c = ident g"
  by (cases g) (auto simp: category_of_ident_def ident_def category_source_def)

lemma map_of_Some_iff_if: "map_of ((k, v) # xs) x = Some y \<longleftrightarrow> (if x = k then y = v else map_of xs x = Some y)"
  by auto

lemma arg_type_source_ident: "arg_type_of_ident s = Some t \<Longrightarrow> arg_type_source t = s"
  unfolding arg_type_of_ident_def map_of_Some_iff_if
  by (auto simp: arg_type_source_def split: if_splits)

lemma render_arg_list_join:
  "render_arg_list i as = (if i > 0 \<and> as \<noteq> [] then '', '' else []) @ join '', '' (map render_arg_meta as)"
proof (induction as arbitrary: i)
  case (Cons a as)
  then show ?case by (cases as) auto
qed simp

lemma arg_source_of: "arg_info_of m = Some i \<Longrightarrow> arg_source i = render_arg_meta m"
  by (auto simp: arg_info_of_def arg_source_def render_arg_meta_def arg_type_source_ident)

lemma those_map_eq:
  "those (map f xs) = Some ys \<Longrightarrow> (\<And>x y. f x = Some y \<Longrightarrow> g y = h x) \<Longrightarrow> map g ys = map h xs"
  by (induction xs arbitrary: ys) (auto split: option.splits)

lemma render_args_source:
  assumes "args_of name = Some as"
  shows "render_args name = ''&['' @ join '', '' (map arg_source as) @ '']''"
proof (cases "meta_lookup name")
  case None
  with assms show ?thesis by (simp add: args_of_def render_args_def)
next
  case (Some m)
  with assms have "those (map arg_info_of (sm_args m)) = Some as" by (simp add: args_of_def)
  then have "map arg_source as = map render_arg_meta (sm_args m)"
    by (rule those_map_eq) (rule arg_source_of)
  with Some show ?thesis by (simp add: render_args_def render_arg_list_join)
qed

lemma info_source_row: "info_of e = Some i \<Longrightarrow> info_source i = generate_row e"
  by (auto simp: info_of_def info_source_def generate_row_def render_args_source
      category_source_ident split: bind_splits)

lemma generate_table_source:
  assumes "table_of tbl = Some T"
  shows "generate tbl = table_source T"
proof -
  from assms have those: "those (map info_of (parse_tbl tbl)) = Some T" by (simp add: table_of_def)
  have "map info_source T = map generate_row (parse_tbl tbl)"
    using those by (rule those_map_eq) (rule info_source_row)
  with those_length [OF those] show ?thesis by (simp add: generate_def table_source_def Let_def)
qed

subsection \<open>Properties\<close>

text \<open>
  For every input file the generator's output is the source text of the table its rows
  denote: every identifier it writes resolves in the common crate.
\<close>

lemma generate_denotes:
  "\<exists>T. table_of tbl = Some T \<and> generate tbl = table_source T"
  using table_of_Some [of tbl] generate_table_source by auto

end
