(* ===== verification/Gen_Data.thy ===== *)
theory Gen_Data
  imports Common_Table
begin

section \<open>The vendored table (\<^verbatim>\<open>crates/syren-common/data/syscall_64.tbl\<close>)\<close>

text \<open>
  The text of the vendored kernel table, line by line, and the rows the model of the
  parser reads from it.  \<open>SYSCALLS\<close> is the table the generator makes of it; the build
  script \<^verbatim>\<open>crates/syren-common/build.rs\<close> passes exactly this file to the generator.
\<close>

definition tbl_block_1 :: "string list" where
  \<open>tbl_block_1 = [
    ''#'',
    ''# 64-bit system call numbers and entry vectors'',
    ''#'',
    ''# The format is:'',
    ''# <number> <abi> <name> <entry point>'',
    ''#'',
    ''# The __x64_sys_*() stubs are created on-the-fly for sys_*() system calls'',
    ''#'',
    ''# The abi is '' @ [CHR 0x22] @ ''common'' @ [CHR 0x22] @ '', '' @ [CHR 0x22] @ ''64'' @ [CHR 0x22] @ '' or '' @ [CHR 0x22] @ ''x32'' @ [CHR 0x22] @ '' for this file.'',
    ''#'',
    ''0'' @ [CHR 0x09] @ ''common'' @ [CHR 0x09] @ ''read'' @ [CHR 0x09, CHR 0x09, CHR 0x09] @ ''sys_read'',
    ''1'' @ [CHR 0x09] @ ''common'' @ [CHR 0x09] @ ''write'' @ [CHR 0x09, CHR 0x09, CHR 0x09] @ ''sys_write'',
    ''2'' @ [CHR 0x09] @ ''common'' @ [CHR 0x09] @ ''open'' @ [CHR 0x09, CHR 0x09, CHR 0x09] @ ''sys_open'',
    ''3'' @ [CHR 0x09] @ ''common'' @ [CHR 0x09] @ ''close'' @ [CHR 0x09, CHR 0x09, CHR 0x09] @ ''sys_close'',
    ''4'' @ [CHR 0x09] @ ''common'' @ [CHR 0x09] @ ''stat'' @ [CHR 0x09, CHR 0x09, CHR 0x09] @ ''sys_newstat'',
    ''5'' @ [CHR 0x09] @ ''common'' @ [CHR 0x09] @ ''fstat'' @ [CHR 0x09, CHR 0x09, CHR 0x09] @ ''sys_newfstat'',
    ''6'' @ [CHR 0x09] @ ''common'' @ [CHR 0x09] @ ''lstat'' @ [CHR 0x09, CHR 0x09, CHR 0x09] @ ''sys_newlstat'',
    ''7'' @ [CHR 0x09] @ ''common'' @ [CHR 0x09] @ ''poll'' @ [CHR 0x09, CHR 0x09, CHR 0x09] @ ''sys_poll'',
    ''8'' @ [CHR 0x09] @ ''common'' @ [CHR 0x09] @ ''lseek'' @ [CHR 0x09, CHR 0x09, CHR 0x09] @ ''sys_lseek'',
    ''9'' @ [CHR 0x09] @ ''common'' @ [CHR 0x09] @ ''mmap'' @ [CHR 0x09, CHR 0x09, CHR 0x09] @ ''sys_mmap'',
    ''10'' @ [CHR 0x09] @ ''common'' @ [CHR 0x09] @ ''mprotect'' @ [CHR 0x09, CHR 0x09] @ ''sys_mprotect'',
    ''11'' @ [CHR 0x09] @ ''common'' @ [CHR 0x09] @ ''munmap'' @ [CHR 0x09, CHR 0x09, CHR 0x09] @ ''sys_munmap'',
    ''12'' @ [CHR 0x09] @ ''common'' @ [CHR 0x09] @ ''brk'' @ [CHR 0x09, CHR 0x09, CHR 0x09] @ ''sys_brk'',
    ''13'' @ [CHR 0x09] @ ''64'' @ [CHR 0x09] @ ''rt_sigaction'' @ [CHR 0x09, CHR 0x09] @ ''sys_rt_sigaction'',
    ''14'' @ [CHR 0x09] @ ''common'' @ [CHR 0x09] @ ''rt_sigprocmask'' @ [CHR 0x09, CHR 0x09] @ ''sys_rt_sigprocmask'',
    ''15'' @ [CHR 0x09] @ ''64'' @ [CHR 0x09] @ ''rt_sigreturn'' @ [CHR 0x09, CHR 0x09] @ ''sys_rt_sigreturn'',
    ''16'' @ [CHR 0x09] @ ''64'' @ [CHR 0x09] @ ''ioctl'' @ [CHR 0x09, CHR 0x09, CHR 0x09] @ ''sys_ioctl'',
    ''17'' @ [CHR 0x09] @ ''common'' @ [CHR 0x09] @ ''pread64'' @ [CHR 0x09, CHR 0x09, CHR 0x09] @ ''sys_pread64'',
    ''18'' @ [CHR 0x09] @ ''common'' @ [CHR 0x09] @ ''pwrite64'' @ [CHR 0x09, CHR 0x09] @ ''sys_pwrite64'',
    ''19'' @ [CHR 0x09] @ ''64'' @ [CHR 0x09] @ ''readv'' @ [CHR 0x09, CHR 0x09, CHR 0x09] @ ''sys_readv'',
    ''20'' @ [CHR 0x09] @ ''64'' @ [CHR 0x09] @ ''writev'' @ [CHR 0x09, CHR 0x09, CHR 0x09] @ ''sys_writev'',
    ''21'' @ [CHR 0x09] @ ''common'' @ [CHR 0x09] @ ''access'' @ [CHR 0x09, CHR 0x09, CHR 0x09] @ ''sys_access'',
    ''22'' @ [CHR 0x09] @ ''common'' @ [CHR 0x09] @ ''pipe'' @ [CHR 0x09, CHR 0x09, CHR 0x09] @ ''sys_pipe'',
    ''23'' @ [CHR 0x09] @ ''common'' @ [CHR 0x09] @ ''select'' @ [CHR 0x09, CHR 0x09, CHR 0x09] @ ''sys_select'',
    ''24'' @ [CHR 0x09] @ ''common'' @ [CHR 0x09] @ ''sched_yield'' @ [CHR 0x09, CHR 0x09] @ ''sys_sched_yield'',
    ''25'' @ [CHR 0x09] @ ''common'' @ [CHR 0x09] @ ''mremap'' @ [CHR 0x09, CHR 0x09, CHR 0x09] @ ''sys_mremap'']\<close>

definition tbl_block_2 :: "string list" where
  \<open>tbl_block_2 = [
    ''26'' @ [CHR 0x09] @ ''common'' @ [CHR 0x09] @ ''msync'' @ [CHR 0x09, CHR 0x09, CHR 0x09] @ ''sys_msync'',
    ''27'' @ [CHR 0x09] @ ''common'' @ [CHR 0x09] @ ''mincore'' @ [CHR 0x09, CHR 0x09, CHR 0x09] @ ''sys_mincore'',
    ''28'' @ [CHR 0x09] @ ''common'' @ [CHR 0x09] @ ''madvise'' @ [CHR 0x09, CHR 0x09, CHR 0x09] @ ''sys_madvise'',
    ''29'' @ [CHR 0x09] @ ''common'' @ [CHR 0x09] @ ''shmget'' @ [CHR 0x09, CHR 0x09, CHR 0x09] @ ''sys_shmget'',
    ''30'' @ [CHR 0x09] @ ''common'' @ [CHR 0x09] @ ''shmat'' @ [CHR 0x09, CHR 0x09, CHR 0x09] @ ''sys_shmat'',
    ''31'' @ [CHR 0x09] @ ''common'' @ [CHR 0x09] @ ''shmctl'' @ [CHR 0x09, CHR 0x09, CHR 0x09] @ ''sys_shmctl'',
    ''32'' @ [CHR 0x09] @ ''common'' @ [CHR 0x09] @ ''dup'' @ [CHR 0x09, CHR 0x09, CHR 0x09] @ ''sys_dup'',
    ''33'' @ [CHR 0x09] @ ''common'' @ [CHR 0x09] @ ''dup2'' @ [CHR 0x09, CHR 0x09, CHR 0x09] @ ''sys_dup2'',
    ''34'' @ [CHR 0x09] @ ''common'' @ [CHR 0x09] @ ''pause'' @ [CHR 0x09, CHR 0x09, CHR 0x09] @ ''sys_pause'',
    ''35'' @ [CHR 0x09] @ ''common'' @ [CHR 0x09] @ ''nanosleep'' @ [CHR 0x09, CHR 0x09] @ ''sys_nanosleep'',
    ''36'' @ [CHR 0x09] @ ''common'' @ [CHR 0x09] @ ''getitimer'' @ [CHR 0x09, CHR 0x09] @ ''sys_getitimer'',
    ''37'' @ [CHR 0x09] @ ''common'' @ [CHR 0x09] @ ''alarm'' @ [CHR 0x09, CHR 0x09, CHR 0x09] @ ''sys_alarm'',
    ''38'' @ [CHR 0x09] @ ''common'' @ [CHR 0x09] @ ''setitimer'' @ [CHR 0x09, CHR 0x09] @ ''sys_setitimer'',
    ''39'' @ [CHR 0x09] @ ''common'' @ [CHR 0x09] @ ''getpid'' @ [CHR 0x09, CHR 0x09, CHR 0x09] @ ''sys_getpid'',
    ''40'' @ [CHR 0x09] @ ''common'' @ [CHR 0x09] @ ''sendfile'' @ [CHR 0x09, CHR 0x09] @ ''sys_sendfile64'',
    ''41'' @ [CHR 0x09] @ ''common'' @ [CHR 0x09] @ ''socket'' @ [CHR 0x09, CHR 0x09, CHR 0x09] @ ''sys_socket'',
    ''42'' @ [CHR 0x09] @ ''common'' @ [CHR 0x09] @ ''connect'' @ [CHR 0x09, CHR 0x09, CHR 0x09] @ ''sys_connect'',
    ''43'' @ [CHR 0x09] @ ''common'' @ [CHR 0x09] @ ''accept'' @ [CHR 0x09, CHR 0x09, CHR 0x09] @ ''sys_accept'',
    ''44'' @ [CHR 0x09] @ ''common'' @ [CHR 0x09] @ ''sendto'' @ [CHR 0x09, CHR 0x09, CHR 0x09] @ ''sys_sendto'',
    ''45'' @ [CHR 0x09] @ ''64'' @ [CHR 0x09] @ ''recvfrom'' @ [CHR 0x09, CHR 0x09] @ ''sys_recvfrom'',
    ''46'' @ [CHR 0x09] @ ''64'' @ [CHR 0x09] @ ''sendmsg'' @ [CHR 0x09, CHR 0x09, CHR 0x09] @ ''sys_sendmsg'',
    ''47'' @ [CHR 0x09] @ ''64'' @ [CHR 0x09] @ ''recvmsg'' @ [CHR 0x09, CHR 0x09, CHR 0x09] @ ''sys_recvmsg'',
    ''48'' @ [CHR 0x09] @ ''common'' @ [CHR 0x09] @ ''shutdown'' @ [CHR 0x09, CHR 0x09] @ ''sys_shutdown'',
    ''49'' @ [CHR 0x09] @ ''common'' @ [CHR 0x09] @ ''bind'' @ [CHR 0x09, CHR 0x09, CHR 0x09] @ ''sys_bind'',
    ''50'' @ [CHR 0x09] @ ''common'' @ [CHR 0x09] @ ''listen'' @ [CHR 0x09, CHR 0x09, CHR 0x09] @ ''sys_listen'',
    ''51'' @ [CHR 0x09] @ ''common'' @ [CHR 0x09] @ ''getsockname'' @ [CHR 0x09, CHR 0x09] @ ''sys_getsockname'',
    ''52'' @ [CHR 0x09] @ ''common'' @ [CHR 0x09] @ ''getpeername'' @ [CHR 0x09, CHR 0x09] @ ''sys_getpeername'',
    ''53'' @ [CHR 0x09] @ ''common'' @ [CHR 0x09] @ ''socketpair'' @ [CHR 0x09, CHR 0x09] @ ''sys_socketpair'',
    ''54'' @ [CHR 0x09] @ ''64'' @ [CHR 0x09] @ ''setsockopt'' @ [CHR 0x09, CHR 0x09] @ ''sys_setsockopt'',
    ''55'' @ [CHR 0x09] @ ''64'' @ [CHR 0x09] @ ''getsockopt'' @ [CHR 0x09, CHR 0x09] @ ''sys_getsockopt'',
    ''56'' @ [CHR 0x09] @ ''common'' @ [CHR 0x09] @ ''clone'' @ [CHR 0x09, CHR 0x09, CHR 0x09] @ ''sys_clone'',
    ''57'' @ [CHR 0x09] @ ''common'' @ [CHR 0x09] @ ''fork'' @ [CHR 0x09, CHR 0x09, CHR 0x09] @ ''sys_fork'',
    ''58'' @ [CHR 0x09] @ ''common'' @ [CHR 0x09] @ ''vfork'' @ [CHR 0x09, CHR 0x09, CHR 0x09] @ ''sys_vfork'',
    ''59'' @ [CHR 0x09] @ ''64'' @ [CHR 0x09] @ ''execve'' @ [CHR 0x09, CHR 0x09, CHR 0x09] @ ''sys_execve'',
    ''60'' @ [CHR 0x09] @ ''common'' @ [CHR 0x09] @ ''exit'' @ [CHR 0x09, CHR 0x09, CHR 0x09] @ ''sys_exit'',
    ''61'' @ [CHR 0x09] @ ''common'' @ [CHR 0x09] @ ''wait4'' @ [CHR 0x09, CHR 0x09, CHR 0x09] @ ''sys_wait4'']\<close>

definition tbl_block_3 :: "string list" where
  \<open>tbl_block_3 = [
    ''62'' @ [CHR 0x09] @ ''common'' @ [CHR 0x09] @ ''kill'' @ [CHR 0x09, CHR 0x09, CHR 0x09] @ ''sys_kill'',
    ''63'' @ [CHR 0x09] @ ''common'' @ [CHR 0x09] @ ''uname'' @ [CHR 0x09, CHR 0x09, CHR 0x09] @ ''sys_newuname'',
    ''64'' @ [CHR 0x09] @ ''common'' @ [CHR 0x09] @ ''semget'' @ [CHR 0x09, CHR 0x09, CHR 0x09] @ ''sys_semget'',
    ''65'' @ [CHR 0x09] @ ''common'' @ [CHR 0x09] @ ''semop'' @ [CHR 0x09, CHR 0x09, CHR 0x09] @ ''sys_semop'',
    ''66'' @ [CHR 0x09] @ ''common'' @ [CHR 0x09] @ ''semctl'' @ [CHR 0x09, CHR 0x09, CHR 0x09] @ ''sys_semctl'',
    ''67'' @ [CHR 0x09] @ ''common'' @ [CHR 0x09] @ ''shmdt'' @ [CHR 0x09, CHR 0x09, CHR 0x09] @ ''sys_shmdt'',
    ''68'' @ [CHR 0x09] @ ''common'' @ [CHR 0x09] @ ''msgget'' @ [CHR 0x09, CHR 0x09, CHR 0x09] @ ''sys_msgget'',
    ''69'' @ [CHR 0x09] @ ''common'' @ [CHR 0x09] @ ''msgsnd'' @ [CHR 0x09, CHR 0x09, CHR 0x09] @ ''sys_msgsnd'',
    ''70'' @ [CHR 0x09] @ ''common'' @ [CHR 0x09] @ ''msgrcv'' @ [CHR 0x09, CHR 0x09, CHR 0x09] @ ''sys_msgrcv'',
    ''71'' @ [CHR 0x09] @ ''common'' @ [CHR 0x09] @ ''msgctl'' @ [CHR 0x09, CHR 0x09, CHR 0x09] @ ''sys_msgctl'',
    ''72'' @ [CHR 0x09] @ ''common'' @ [CHR 0x09] @ ''fcntl'' @ [CHR 0x09, CHR 0x09, CHR 0x09] @ ''sys_fcntl'',
    ''73'' @ [CHR 0x09] @ ''common'' @ [CHR 0x09] @ ''flock'' @ [CHR 0x09, CHR 0x09, CHR 0x09] @ ''sys_flock'',
    ''74'' @ [CHR 0x09] @ ''common'' @ [CHR 0x09] @ ''fsync'' @ [CHR 0x09, CHR 0x09, CHR 0x09] @ ''sys_fsync'',
    ''75'' @ [CHR 0x09] @ ''common'' @ [CHR 0x09] @ ''fdatasync'' @ [CHR 0x09, CHR 0x09] @ ''sys_fdatasync'',
    ''76'' @ [CHR 0x09] @ ''common'' @ [CHR 0x09] @ ''truncate'' @ [CHR 0x09, CHR 0x09] @ ''sys_truncate'',
    ''77'' @ [CHR 0x09] @ ''common'' @ [CHR 0x09] @ ''ftruncate'' @ [CHR 0x09, CHR 0x09] @ ''sys_ftruncate'',
    ''78'' @ [CHR 0x09] @ ''common'' @ [CHR 0x09] @ ''getdents'' @ [CHR 0x09, CHR 0x09] @ ''sys_getdents'',
    ''79'' @ [CHR 0x09] @ ''common'' @ [CHR 0x09] @ ''getcwd'' @ [CHR 0x09, CHR 0x09, CHR 0x09] @ ''sys_getcwd'',
    ''80'' @ [CHR 0x09] @ ''common'' @ [CHR 0x09] @ ''chdir'' @ [CHR 0x09, CHR 0x09, CHR 0x09] @ ''sys_chdir'',
    ''81'' @ [CHR 0x09] @ ''common'' @ [CHR 0x09] @ ''fchdir'' @ [CHR 0x09, CHR 0x09, CHR 0x09] @ ''sys_fchdir'',
    ''82'' @ [CHR 0x09] @ ''common'' @ [CHR 0x09] @ ''rename'' @ [CHR 0x09, CHR 0x09, CHR 0x09] @ ''sys_rename'',
    ''83'' @ [CHR 0x09] @ ''common'' @ [CHR 0x09] @ ''mkdir'' @ [CHR 0x09, CHR 0x09, CHR 0x09] @ ''sys_mkdir'',
    ''84'' @ [CHR 0x09] @ ''common'' @ [CHR 0x09] @ ''rmdir'' @ [CHR 0x09, CHR 0x09, CHR 0x09] @ ''sys_rmdir'',
    ''85'' @ [CHR 0x09] @ ''common'' @ [CHR 0x09] @ ''creat'' @ [CHR 0x09, CHR 0x09, CHR 0x09] @ ''sys_creat'',
    ''86'' @ [CHR 0x09] @ ''common'' @ [CHR 0x09] @ ''link'' @ [CHR 0x09, CHR 0x09, CHR 0x09] @ ''sys_link'',
    ''87'' @ [CHR 0x09] @ ''common'' @ [CHR 0x09] @ ''unlink'' @ [CHR 0x09, CHR 0x09, CHR 0x09] @ ''sys_unlink'',
    ''88'' @ [CHR 0x09] @ ''common'' @ [CHR 0x09] @ ''symlink'' @ [CHR 0x09, CHR 0x09, CHR 0x09] @ ''sys_symlink'',
    ''89'' @ [CHR 0x09] @ ''common'' @ [CHR 0x09] @ ''readlink'' @ [CHR 0x09, CHR 0x09] @ ''sys_readlink'',
    ''90'' @ [CHR 0x09] @ ''common'' @ [CHR 0x09] @ ''chmod'' @ [CHR 0x09, CHR 0x09, CHR 0x09] @ ''sys_chmod'',
    ''91'' @ [CHR 0x09] @ ''common'' @ [CHR 0x09] @ ''fchmod'' @ [CHR 0x09, CHR 0x09, CHR 0x09] @ ''sys_fchmod'',
    ''92'' @ [CHR 0x09] @ ''common'' @ [CHR 0x09] @ ''chown'' @ [CHR 0x09, CHR 0x09, CHR 0x09] @ ''sys_chown'',
    ''93'' @ [CHR 0x09] @ ''common'' @ [CHR 0x09] @ ''fchown'' @ [CHR 0x09, CHR 0x09, CHR 0x09] @ ''sys_fchown'',
    ''94'' @ [CHR 0x09] @ ''common'' @ [CHR 0x09] @ ''lchown'' @ [CHR 0x09, CHR 0x09, CHR 0x09] @ ''sys_lchown'',
    ''95'' @ [CHR 0x09] @ ''common'' @ [CHR 0x09] @ ''umask'' @ [CHR 0x09, CHR 0x09, CHR 0x09] @ ''sys_umask'',
    ''96'' @ [CHR 0x09] @ ''common'' @ [CHR 0x09] @ ''gettimeofday'' @ [CHR 0x09, CHR 0x09] @ ''sys_gettimeofday'',
    ''97'' @ [CHR 0x09] @ ''common'' @ [CHR 0x09] @ ''getrlimit'' @ [CHR 0x09, CHR 0x09] @ ''sys_getrlimit'']\<close>

definition tbl_block_4 :: "string list" where
  \<open>tbl_block_4 = [
    ''98'' @ [CHR 0x09] @ ''common'' @ [CHR 0x09] @ ''getrusage'' @ [CHR 0x09, CHR 0x09] @ ''sys_getrusage'',
    ''99'' @ [CHR 0x09] @ ''common'' @ [CHR 0x09] @ ''sysinfo'' @ [CHR 0x09, CHR 0x09, CHR 0x09] @ ''sys_sysinfo'',
    ''100'' @ [CHR 0x09] @ ''common'' @ [CHR 0x09] @ ''times'' @ [CHR 0x09, CHR 0x09, CHR 0x09] @ ''sys_times'',
    ''101'' @ [CHR 0x09] @ ''64'' @ [CHR 0x09] @ ''ptrace'' @ [CHR 0x09, CHR 0x09, CHR 0x09] @ ''sys_ptrace'',
    ''102'' @ [CHR 0x09] @ ''common'' @ [CHR 0x09] @ ''getuid'' @ [CHR 0x09, CHR 0x09, CHR 0x09] @ ''sys_getuid'',
    ''103'' @ [CHR 0x09] @ ''common'' @ [CHR 0x09] @ ''syslog'' @ [CHR 0x09, CHR 0x09, CHR 0x09] @ ''sys_syslog'',
    ''104'' @ [CHR 0x09] @ ''common'' @ [CHR 0x09] @ ''getgid'' @ [CHR 0x09, CHR 0x09, CHR 0x09] @ ''sys_getgid'',
    ''105'' @ [CHR 0x09] @ ''common'' @ [CHR 0x09] @ ''setuid'' @ [CHR 0x09, CHR 0x09, CHR 0x09] @ ''sys_setuid'',
    ''106'' @ [CHR 0x09] @ ''common'' @ [CHR 0x09] @ ''setgid'' @ [CHR 0x09, CHR 0x09, CHR 0x09] @ ''sys_setgid'',
    ''107'' @ [CHR 0x09] @ ''common'' @ [CHR 0x09] @ ''geteuid'' @ [CHR 0x09, CHR 0x09, CHR 0x09] @ ''sys_geteuid'',
    ''108'' @ [CHR 0x09] @ ''common'' @ [CHR 0x09] @ ''getegid'' @ [CHR 0x09, CHR 0x09, CHR 0x09] @ ''sys_getegid'',
    ''109'' @ [CHR 0x09] @ ''common'' @ [CHR 0x09] @ ''setpgid'' @ [CHR 0x09, CHR 0x09, CHR 0x09] @ ''sys_setpgid'',
    ''110'' @ [CHR 0x09] @ ''common'' @ [CHR 0x09] @ ''getppid'' @ [CHR 0x09, CHR 0x09, CHR 0x09] @ ''sys_getppid'',
    ''111'' @ [CHR 0x09] @ ''common'' @ [CHR 0x09] @ ''getpgrp'' @ [CHR 0x09, CHR 0x09, CHR 0x09] @ ''sys_getpgrp'',
    ''112'' @ [CHR 0x09] @ ''common'' @ [CHR 0x09] @ ''setsid'' @ [CHR 0x09, CHR 0x09, CHR 0x09] @ ''sys_setsid'',
    ''113'' @ [CHR 0x09] @ ''common'' @ [CHR 0x09] @ ''setreuid'' @ [CHR 0x09, CHR 0x09] @ ''sys_setreuid'',
    ''114'' @ [CHR 0x09] @ ''common'' @ [CHR 0x09] @ ''setregid'' @ [CHR 0x09, CHR 0x09] @ ''sys_setregid'',
    ''115'' @ [CHR 0x09] @ ''common'' @ [CHR 0x09] @ ''getgroups'' @ [CHR 0x09, CHR 0x09] @ ''sys_getgroups'',
    ''116'' @ [CHR 0x09] @ ''common'' @ [CHR 0x09] @ ''setgroups'' @ [CHR 0x09, CHR 0x09] @ ''sys_setgroups'',
    ''117'' @ [CHR 0x09] @ ''common'' @ [CHR 0x09] @ ''setresuid'' @ [CHR 0x09, CHR 0x09] @ ''sys_setresuid'',
    ''118'' @ [CHR 0x09] @ ''common'' @ [CHR 0x09] @ ''getresuid'' @ [CHR 0x09, CHR 0x09] @ ''sys_getresuid'',
    ''119'' @ [CHR 0x09] @ ''common'' @ [CHR 0x09] @ ''setresgid'' @ [CHR 0x09, CHR 0x09] @ ''sys_setresgid'',
    ''120'' @ [CHR 0x09] @ ''common'' @ [CHR 0x09] @ ''getresgid'' @ [CHR 0x09, CHR 0x09] @ ''sys_getresgid'',
    ''121'' @ [CHR 0x09] @ ''common'' @ [CHR 0x09] @ ''getpgid'' @ [CHR 0x09, CHR 0x09, CHR 0x09] @ ''sys_getpgid'',
    ''122'' @ [CHR 0x09] @ ''common'' @ [CHR 0x09] @ ''setfsuid'' @ [CHR 0x09, CHR 0x09] @ ''sys_setfsuid'',
    ''123'' @ [CHR 0x09] @ ''common'' @ [CHR 0x09] @ ''setfsgid'' @ [CHR 0x09, CHR 0x09] @ ''sys_setfsgid'',
    ''124'' @ [CHR 0x09] @ ''common'' @ [CHR 0x09] @ ''getsid'' @ [CHR 0x09, CHR 0x09, CHR 0x09] @ ''sys_getsid'',
    ''125'' @ [CHR 0x09] @ ''common'' @ [CHR 0x09] @ ''capget'' @ [CHR 0x09, CHR 0x09, CHR 0x09] @ ''sys_capget'',
    ''126'' @ [CHR 0x09] @ ''common'' @ [CHR 0x09] @ ''capset'' @ [CHR 0x09, CHR 0x09, CHR 0x09] @ ''sys_capset'',
    ''127'' @ [CHR 0x09] @ ''64'' @ [CHR 0x09] @ ''rt_sigpending'' @ [CHR 0x09, CHR 0x09] @ ''sys_rt_sigpending'',
    ''128'' @ [CHR 0x09] @ ''64'' @ [CHR 0x09] @ ''rt_sigtimedwait'' @ [CHR 0x09, CHR 0x09] @ ''sys_rt_sigtimedwait'',
    ''129'' @ [CHR 0x09] @ ''64'' @ [CHR 0x09] @ ''rt_sigqueueinfo'' @ [CHR 0x09, CHR 0x09] @ ''sys_rt_sigqueueinfo'',
    ''130'' @ [CHR 0x09] @ ''common'' @ [CHR 0x09] @ ''rt_sigsuspend'' @ [CHR 0x09, CHR 0x09] @ ''sys_rt_sigsuspend'',
    ''131'' @ [CHR 0x09] @ ''64'' @ [CHR 0x09] @ ''sigaltstack'' @ [CHR 0x09, CHR 0x09] @ ''sys_sigaltstack'',
    ''132'' @ [CHR 0x09] @ ''common'' @ [CHR 0x09] @ ''utime'' @ [CHR 0x09, CHR 0x09, CHR 0x09] @ ''sys_utime'',
    ''133'' @ [CHR 0x09] @ ''common'' @ [CHR 0x09] @ ''mknod'' @ [CHR 0x09, CHR 0x09, CHR 0x09] @ ''sys_mknod'']\<close>

definition tbl_block_5 :: "string list" where
  \<open>tbl_block_5 = [
    ''134'' @ [CHR 0x09] @ ''64'' @ [CHR 0x09] @ ''uselib'',
    ''135'' @ [CHR 0x09] @ ''common'' @ [CHR 0x09] @ ''personality'' @ [CHR 0x09, CHR 0x09] @ ''sys_personality'',
    ''136'' @ [CHR 0x09] @ ''common'' @ [CHR 0x09] @ ''ustat'' @ [CHR 0x09, CHR 0x09, CHR 0x09] @ ''sys_ustat'',
    ''137'' @ [CHR 0x09] @ ''common'' @ [CHR 0x09] @ ''statfs'' @ [CHR 0x09, CHR 0x09, CHR 0x09] @ ''sys_statfs'',
    ''138'' @ [CHR 0x09] @ ''common'' @ [CHR 0x09] @ ''fstatfs'' @ [CHR 0x09, CHR 0x09, CHR 0x09] @ ''sys_fstatfs'',
    ''139'' @ [CHR 0x09] @ ''common'' @ [CHR 0x09] @ ''sysfs'' @ [CHR 0x09, CHR 0x09, CHR 0x09] @ ''sys_sysfs'',
    ''140'' @ [CHR 0x09] @ ''common'' @ [CHR 0x09] @ ''getpriority'' @ [CHR 0x09, CHR 0x09] @ ''sys_getpriority'',
    ''141'' @ [CHR 0x09] @ ''common'' @ [CHR 0x09] @ ''setpriority'' @ [CHR 0x09, CHR 0x09] @ ''sys_setpriority'',
    ''142'' @ [CHR 0x09] @ ''common'' @ [CHR 0x09] @ ''sched_setparam'' @ [CHR 0x09, CHR 0x09] @ ''sys_sched_setparam'',
    ''143'' @ [CHR 0x09] @ ''common'' @ [CHR 0x09] @ ''sched_getparam'' @ [CHR 0x09, CHR 0x09] @ ''sys_sched_getparam'',
    ''144'' @ [CHR 0x09] @ ''common'' @ [CHR 0x09] @ ''sched_setscheduler'' @ [CHR 0x09] @ ''sys_sched_setscheduler'',
    ''145'' @ [CHR 0x09] @ ''common'' @ [CHR 0x09] @ ''sched_getscheduler'' @ [CHR 0x09] @ ''sys_sched_getscheduler'',
    ''146'' @ [CHR 0x09] @ ''common'' @ [CHR 0x09] @ ''sched_get_priority_max'' @ [CHR 0x09] @ ''sys_sched_get_priority_max'',
    ''147'' @ [CHR 0x09] @ ''common'' @ [CHR 0x09] @ ''sched_get_priority_min'' @ [CHR 0x09] @ ''sys_sched_get_priority_min'',
    ''148'' @ [CHR 0x09] @ ''common'' @ [CHR 0x09] @ ''sched_rr_get_interval'' @ [CHR 0x09] @ ''sys_sched_rr_get_interval'',
    ''149'' @ [CHR 0x09] @ ''common'' @ [CHR 0x09] @ ''mlock'' @ [CHR 0x09, CHR 0x09, CHR 0x09] @ ''sys_mlock'',
    ''150'' @ [CHR 0x09] @ ''common'' @ [CHR 0x09] @ ''munlock'' @ [CHR 0x09, CHR 0x09, CHR 0x09] @ ''sys_munlock'',
    ''151'' @ [CHR 0x09] @ ''common'' @ [CHR 0x09] @ ''mlockall'' @ [CHR 0x09, CHR 0x09] @ ''sys_mlockall'',
    ''152'' @ [CHR 0x09] @ ''common'' @ [CHR 0x09] @ ''munlockall'' @ [CHR 0x09, CHR 0x09] @ ''sys_munlockall'',
    ''153'' @ [CHR 0x09] @ ''common'' @ [CHR 0x09] @ ''vhangup'' @ [CHR 0x09, CHR 0x09, CHR 0x09] @ ''sys_vhangup'',
    ''154'' @ [CHR 0x09] @ ''common'' @ [CHR 0x09] @ ''modify_ldt'' @ [CHR 0x09, CHR 0x09] @ ''sys_modify_ldt'',
    ''155'' @ [CHR 0x09] @ ''common'' @ [CHR 0x09] @ ''pivot_root'' @ [CHR 0x09, CHR 0x09] @ ''sys_pivot_root'',
    ''156'' @ [CHR 0x09] @ ''64'' @ [CHR 0x09] @ ''_sysctl'' @ [CHR 0x09, CHR 0x09, CHR 0x09] @ ''sys_ni_syscall'',
    ''157'' @ [CHR 0x09] @ ''common'' @ [CHR 0x09] @ ''prctl'' @ [CHR 0x09, CHR 0x09, CHR 0x09] @ ''sys_prctl'',
    ''158'' @ [CHR 0x09] @ ''common'' @ [CHR 0x09] @ ''arch_prctl'' @ [CHR 0x09, CHR 0x09] @ ''sys_arch_prctl'',
    ''159'' @ [CHR 0x09] @ ''common'' @ [CHR 0x09] @ ''adjtimex'' @ [CHR 0x09, CHR 0x09] @ ''sys_adjtimex'',
    ''160'' @ [CHR 0x09] @ ''common'' @ [CHR 0x09] @ ''setrlimit'' @ [CHR 0x09, CHR 0x09] @ ''sys_setrlimit'',
    ''161'' @ [CHR 0x09] @ ''common'' @ [CHR 0x09] @ ''chroot'' @ [CHR 0x09, CHR 0x09, CHR 0x09] @ ''sys_chroot'',
    ''162'' @ [CHR 0x09] @ ''common'' @ [CHR 0x09] @ ''sync'' @ [CHR 0x09, CHR 0x09, CHR 0x09] @ ''sys_sync'',
    ''163'' @ [CHR 0x09] @ ''common'' @ [CHR 0x09] @ ''acct'' @ [CHR 0x09, CHR 0x09, CHR 0x09] @ ''sys_acct'',
    ''164'' @ [CHR 0x09] @ ''common'' @ [CHR 0x09] @ ''settimeofday'' @ [CHR 0x09, CHR 0x09] @ ''sys_settimeofday'',
    ''165'' @ [CHR 0x09] @ ''common'' @ [CHR 0x09] @ ''mount'' @ [CHR 0x09, CHR 0x09, CHR 0x09] @ ''sys_mount'',
    ''166'' @ [CHR 0x09] @ ''common'' @ [CHR 0x09] @ ''umount2'' @ [CHR 0x09, CHR 0x09, CHR 0x09] @ ''sys_umount'',
    ''167'' @ [CHR 0x09] @ ''common'' @ [CHR 0x09] @ ''swapon'' @ [CHR 0x09, CHR 0x09, CHR 0x09] @ ''sys_swapon'',
    ''168'' @ [CHR 0x09] @ ''common'' @ [CHR 0x09] @ ''swapoff'' @ [CHR 0x09, CHR 0x09, CHR 0x09] @ ''sys_swapoff'',
    ''169'' @ [CHR 0x09] @ ''common'' @ [CHR 0x09] @ ''reboot'' @ [CHR 0x09, CHR 0x09, CHR 0x09] @ ''sys_reboot'']\<close>

definition tbl_block_6 :: "string list" where
  \<open>tbl_block_6 = [
    ''170'' @ [CHR 0x09] @ ''common'' @ [CHR 0x09] @ ''sethostname'' @ [CHR 0x09, CHR 0x09] @ ''sys_sethostname'',
    ''171'' @ [CHR 0x09] @ ''common'' @ [CHR 0x09] @ ''setdomainname'' @ [CHR 0x09, CHR 0x09] @ ''sys_setdomainname'',
    ''172'' @ [CHR 0x09] @ ''common'' @ [CHR 0x09] @ ''iopl'' @ [CHR 0x09, CHR 0x09, CHR 0x09] @ ''sys_iopl'',
    ''173'' @ [CHR 0x09] @ ''common'' @ [CHR 0x09] @ ''ioperm'' @ [CHR 0x09, CHR 0x09, CHR 0x09] @ ''sys_ioperm'',
    ''174'' @ [CHR 0x09] @ ''64'' @ [CHR 0x09] @ ''create_module'',
    ''175'' @ [CHR 0x09] @ ''common'' @ [CHR 0x09] @ ''init_module'' @ [CHR 0x09, CHR 0x09] @ ''sys_init_module'',
    ''176'' @ [CHR 0x09] @ ''common'' @ [CHR 0x09] @ ''delete_module'' @ [CHR 0x09, CHR 0x09] @ ''sys_delete_module'',
    ''177'' @ [CHR 0x09] @ ''64'' @ [CHR 0x09] @ ''get_kernel_syms'',
    ''178'' @ [CHR 0x09] @ ''64'' @ [CHR 0x09] @ ''query_module'',
    ''179'' @ [CHR 0x09] @ ''common'' @ [CHR 0x09] @ ''quotactl'' @ [CHR 0x09, CHR 0x09] @ ''sys_quotactl'',
    ''180'' @ [CHR 0x09] @ ''64'' @ [CHR 0x09] @ ''nfsservctl'',
    ''181'' @ [CHR 0x09] @ ''common'' @ [CHR 0x09] @ ''getpmsg'',
    ''182'' @ [CHR 0x09] @ ''common'' @ [CHR 0x09] @ ''putpmsg'',
    ''183'' @ [CHR 0x09] @ ''common'' @ [CHR 0x09] @ ''afs_syscall'',
    ''184'' @ [CHR 0x09] @ ''common'' @ [CHR 0x09] @ ''tuxcall'',
    ''185'' @ [CHR 0x09] @ ''common'' @ [CHR 0x09] @ ''security'',
    ''186'' @ [CHR 0x09] @ ''common'' @ [CHR 0x09] @ ''gettid'' @ [CHR 0x09, CHR 0x09, CHR 0x09] @ ''sys_gettid'',
    ''187'' @ [CHR 0x09] @ ''common'' @ [CHR 0x09] @ ''readahead'' @ [CHR 0x09, CHR 0x09] @ ''sys_readahead'',
    ''188'' @ [CHR 0x09] @ ''common'' @ [CHR 0x09] @ ''setxattr'' @ [CHR 0x09, CHR 0x09] @ ''sys_setxattr'',
    ''189'' @ [CHR 0x09] @ ''common'' @ [CHR 0x09] @ ''lsetxattr'' @ [CHR 0x09, CHR 0x09] @ ''sys_lsetxattr'',
    ''190'' @ [CHR 0x09] @ ''common'' @ [CHR 0x09] @ ''fsetxattr'' @ [CHR 0x09, CHR 0x09] @ ''sys_fsetxattr'',
    ''191'' @ [CHR 0x09] @ ''common'' @ [CHR 0x09] @ ''getxattr'' @ [CHR 0x09, CHR 0x09] @ ''sys_getxattr'',
    ''192'' @ [CHR 0x09] @ ''common'' @ [CHR 0x09] @ ''lgetxattr'' @ [CHR 0x09, CHR 0x09] @ ''sys_lgetxattr'',
    ''193'' @ [CHR 0x09] @ ''common'' @ [CHR 0x09] @ ''fgetxattr'' @ [CHR 0x09, CHR 0x09] @ ''sys_fgetxattr'',
    ''194'' @ [CHR 0x09] @ ''common'' @ [CHR 0x09] @ ''listxattr'' @ [CHR 0x09, CHR 0x09] @ ''sys_listxattr'',
    ''195'' @ [CHR 0x09] @ ''common'' @ [CHR 0x09] @ ''llistxattr'' @ [CHR 0x09, CHR 0x09] @ ''sys_llistxattr'',
    ''196'' @ [CHR 0x09] @ ''common'' @ [CHR 0x09] @ ''flistxattr'' @ [CHR 0x09, CHR 0x09] @ ''sys_flistxattr'',
    ''197'' @ [CHR 0x09] @ ''common'' @ [CHR 0x09] @ ''removexattr'' @ [CHR 0x09, CHR 0x09] @ ''sys_removexattr'',
    ''198'' @ [CHR 0x09] @ ''common'' @ [CHR 0x09] @ ''lremovexattr'' @ [CHR 0x09, CHR 0x09] @ ''sys_lremovexattr'',
    ''199'' @ [CHR 0x09] @ ''common'' @ [CHR 0x09] @ ''fremovexattr'' @ [CHR 0x09, CHR 0x09] @ ''sys_fremovexattr'',
    ''200'' @ [CHR 0x09] @ ''common'' @ [CHR 0x09] @ ''tkill'' @ [CHR 0x09, CHR 0x09, CHR 0x09] @ ''sys_tkill'',
    ''201'' @ [CHR 0x09] @ ''common'' @ [CHR 0x09] @ ''time'' @ [CHR 0x09, CHR 0x09, CHR 0x09] @ ''sys_time'',
    ''202'' @ [CHR 0x09] @ ''common'' @ [CHR 0x09] @ ''futex'' @ [CHR 0x09, CHR 0x09, CHR 0x09] @ ''sys_futex'',
    ''203'' @ [CHR 0x09] @ ''common'' @ [CHR 0x09] @ ''sched_setaffinity'' @ [CHR 0x09] @ ''sys_sched_setaffinity'',
    ''204'' @ [CHR 0x09] @ ''common'' @ [CHR 0x09] @ ''sched_getaffinity'' @ [CHR 0x09] @ ''sys_sched_getaffinity'',
    ''205'' @ [CHR 0x09] @ ''64'' @ [CHR 0x09] @ ''set_thread_area'']\<close>

definition tbl_block_7 :: "string list" where
  \<open>tbl_block_7 = [
    ''206'' @ [CHR 0x09] @ ''64'' @ [CHR 0x09] @ ''io_setup'' @ [CHR 0x09, CHR 0x09] @ ''sys_io_setup'',
    ''207'' @ [CHR 0x09] @ ''common'' @ [CHR 0x09] @ ''io_destroy'' @ [CHR 0x09, CHR 0x09] @ ''sys_io_destroy'',
    ''208'' @ [CHR 0x09] @ ''common'' @ [CHR 0x09] @ ''io_getevents'' @ [CHR 0x09, CHR 0x09] @ ''sys_io_getevents'',
    ''209'' @ [CHR 0x09] @ ''64'' @ [CHR 0x09] @ ''io_submit'' @ [CHR 0x09, CHR 0x09] @ ''sys_io_submit'',
    ''210'' @ [CHR 0x09] @ ''common'' @ [CHR 0x09] @ ''io_cancel'' @ [CHR 0x09, CHR 0x09] @ ''sys_io_cancel'',
    ''211'' @ [CHR 0x09] @ ''64'' @ [CHR 0x09] @ ''get_thread_area'',
    ''212'' @ [CHR 0x09] @ ''common'' @ [CHR 0x09] @ ''lookup_dcookie'',
    ''213'' @ [CHR 0x09] @ ''common'' @ [CHR 0x09] @ ''epoll_create'' @ [CHR 0x09, CHR 0x09] @ ''sys_epoll_create'',
    ''214'' @ [CHR 0x09] @ ''64'' @ [CHR 0x09] @ ''epoll_ctl_old'',
    ''215'' @ [CHR 0x09] @ ''64'' @ [CHR 0x09] @ ''epoll_wait_old'',
    ''216'' @ [CHR 0x09] @ ''common'' @ [CHR 0x09] @ ''remap_file_pages'' @ [CHR 0x09] @ ''sys_remap_file_pages'',
    ''217'' @ [CHR 0x09] @ ''common'' @ [CHR 0x09] @ ''getdents64'' @ [CHR 0x09, CHR 0x09] @ ''sys_getdents64'',
    ''218'' @ [CHR 0x09] @ ''common'' @ [CHR 0x09] @ ''set_tid_address'' @ [CHR 0x09, CHR 0x09] @ ''sys_set_tid_address'',
    ''219'' @ [CHR 0x09] @ ''common'' @ [CHR 0x09] @ ''restart_syscall'' @ [CHR 0x09, CHR 0x09] @ ''sys_restart_syscall'',
    ''220'' @ [CHR 0x09] @ ''common'' @ [CHR 0x09] @ ''semtimedop'' @ [CHR 0x09, CHR 0x09] @ ''sys_semtimedop'',
    ''221'' @ [CHR 0x09] @ ''common'' @ [CHR 0x09] @ ''fadvise64'' @ [CHR 0x09, CHR 0x09] @ ''sys_fadvise64'',
    ''222'' @ [CHR 0x09] @ ''64'' @ [CHR 0x09] @ ''timer_create'' @ [CHR 0x09, CHR 0x09] @ ''sys_timer_create'',
    ''223'' @ [CHR 0x09] @ ''common'' @ [CHR 0x09] @ ''timer_settime'' @ [CHR 0x09, CHR 0x09] @ ''sys_timer_settime'',
    ''224'' @ [CHR 0x09] @ ''common'' @ [CHR 0x09] @ ''timer_gettime'' @ [CHR 0x09, CHR 0x09] @ ''sys_timer_gettime'',
    ''225'' @ [CHR 0x09] @ ''common'' @ [CHR 0x09] @ ''timer_getoverrun'' @ [CHR 0x09] @ ''sys_timer_getoverrun'',
    ''226'' @ [CHR 0x09] @ ''common'' @ [CHR 0x09] @ ''timer_delete'' @ [CHR 0x09, CHR 0x09] @ ''sys_timer_delete'',
    ''227'' @ [CHR 0x09] @ ''common'' @ [CHR 0x09] @ ''clock_settime'' @ [CHR 0x09, CHR 0x09] @ ''sys_clock_settime'',
    ''228'' @ [CHR 0x09] @ ''common'' @ [CHR 0x09] @ ''clock_gettime'' @ [CHR 0x09, CHR 0x09] @ ''sys_clock_gettime'',
    ''229'' @ [CHR 0x09] @ ''common'' @ [CHR 0x09] @ ''clock_getres'' @ [CHR 0x09, CHR 0x09] @ ''sys_clock_getres'',
    ''230'' @ [CHR 0x09] @ ''common'' @ [CHR 0x09] @ ''clock_nanosleep'' @ [CHR 0x09, CHR 0x09] @ ''sys_clock_nanosleep'',
    ''231'' @ [CHR 0x09] @ ''common'' @ [CHR 0x09] @ ''exit_group'' @ [CHR 0x09, CHR 0x09] @ ''sys_exit_group'',
    ''232'' @ [CHR 0x09] @ ''common'' @ [CHR 0x09] @ ''epoll_wait'' @ [CHR 0x09, CHR 0x09] @ ''sys_epoll_wait'',
    ''233'' @ [CHR 0x09] @ ''common'' @ [CHR 0x09] @ ''epoll_ctl'' @ [CHR 0x09, CHR 0x09] @ ''sys_epoll_ctl'',
    ''234'' @ [CHR 0x09] @ ''common'' @ [CHR 0x09] @ ''tgkill'' @ [CHR 0x09, CHR 0x09, CHR 0x09] @ ''sys_tgkill'',
    ''235'' @ [CHR 0x09] @ ''common'' @ [CHR 0x09] @ ''utimes'' @ [CHR 0x09, CHR 0x09, CHR 0x09] @ ''sys_utimes'',
    ''236'' @ [CHR 0x09] @ ''64'' @ [CHR 0x09] @ ''vserver'',
    ''237'' @ [CHR 0x09] @ ''common'' @ [CHR 0x09] @ ''mbind'' @ [CHR 0x09, CHR 0x09, CHR 0x09] @ ''sys_mbind'',
    ''238'' @ [CHR 0x09] @ ''common'' @ [CHR 0x09] @ ''set_mempolicy'' @ [CHR 0x09, CHR 0x09] @ ''sys_set_mempolicy'',
    ''239'' @ [CHR 0x09] @ ''common'' @ [CHR 0x09] @ ''get_mempolicy'' @ [CHR 0x09, CHR 0x09] @ ''sys_get_mempolicy'',
    ''240'' @ [CHR 0x09] @ ''common'' @ [CHR 0x09] @ ''mq_open'' @ [CHR 0x09, CHR 0x09, CHR 0x09] @ ''sys_mq_open'',
    ''241'' @ [CHR 0x09] @ ''common'' @ [CHR 0x09] @ ''mq_unlink'' @ [CHR 0x09, CHR 0x09] @ ''sys_mq_unlink'']\<close>

definition tbl_block_8 :: "string list" where
  \<open>tbl_block_8 = [
    ''242'' @ [CHR 0x09] @ ''common'' @ [CHR 0x09] @ ''mq_timedsend'' @ [CHR 0x09, CHR 0x09] @ ''sys_mq_timedsend'',
    ''243'' @ [CHR 0x09] @ ''common'' @ [CHR 0x09] @ ''mq_timedreceive'' @ [CHR 0x09, CHR 0x09] @ ''sys_mq_timedreceive'',
    ''244'' @ [CHR 0x09] @ ''64'' @ [CHR 0x09] @ ''mq_notify'' @ [CHR 0x09, CHR 0x09] @ ''sys_mq_notify'',
    ''245'' @ [CHR 0x09] @ ''common'' @ [CHR 0x09] @ ''mq_getsetattr'' @ [CHR 0x09, CHR 0x09] @ ''sys_mq_getsetattr'',
    ''246'' @ [CHR 0x09] @ ''64'' @ [CHR 0x09] @ ''kexec_load'' @ [CHR 0x09, CHR 0x09] @ ''sys_kexec_load'',
    ''247'' @ [CHR 0x09] @ ''64'' @ [CHR 0x09] @ ''waitid'' @ [CHR 0x09, CHR 0x09, CHR 0x09] @ ''sys_waitid'',
    ''248'' @ [CHR 0x09] @ ''common'' @ [CHR 0x09] @ ''add_key'' @ [CHR 0x09, CHR 0x09, CHR 0x09] @ ''sys_add_key'',
    ''249'' @ [CHR 0x09] @ ''common'' @ [CHR 0x09] @ ''request_key'' @ [CHR 0x09, CHR 0x09] @ ''sys_request_key'',
    ''250'' @ [CHR 0x09] @ ''common'' @ [CHR 0x09] @ ''keyctl'' @ [CHR 0x09, CHR 0x09, CHR 0x09] @ ''sys_keyctl'',
    ''251'' @ [CHR 0x09] @ ''common'' @ [CHR 0x09] @ ''ioprio_set'' @ [CHR 0x09, CHR 0x09] @ ''sys_ioprio_set'',
    ''252'' @ [CHR 0x09] @ ''common'' @ [CHR 0x09] @ ''ioprio_get'' @ [CHR 0x09, CHR 0x09] @ ''sys_ioprio_get'',
    ''253'' @ [CHR 0x09] @ ''common'' @ [CHR 0x09] @ ''inotify_init'' @ [CHR 0x09, CHR 0x09] @ ''sys_inotify_init'',
    ''254'' @ [CHR 0x09] @ ''common'' @ [CHR 0x09] @ ''inotify_add_watch'' @ [CHR 0x09] @ ''sys_inotify_add_watch'',
    ''255'' @ [CHR 0x09] @ ''common'' @ [CHR 0x09] @ ''inotify_rm_watch'' @ [CHR 0x09] @ ''sys_inotify_rm_watch'',
    ''256'' @ [CHR 0x09] @ ''common'' @ [CHR 0x09] @ ''migrate_pages'' @ [CHR 0x09, CHR 0x09] @ ''sys_migrate_pages'',
    ''257'' @ [CHR 0x09] @ ''common'' @ [CHR 0x09] @ ''openat'' @ [CHR 0x09, CHR 0x09, CHR 0x09] @ ''sys_openat'',
    ''258'' @ [CHR 0x09] @ ''common'' @ [CHR 0x09] @ ''mkdirat'' @ [CHR 0x09, CHR 0x09, CHR 0x09] @ ''sys_mkdirat'',
    ''259'' @ [CHR 0x09] @ ''common'' @ [CHR 0x09] @ ''mknodat'' @ [CHR 0x09, CHR 0x09, CHR 0x09] @ ''sys_mknodat'',
    ''260'' @ [CHR 0x09] @ ''common'' @ [CHR 0x09] @ ''fchownat'' @ [CHR 0x09, CHR 0x09] @ ''sys_fchownat'',
    ''261'' @ [CHR 0x09] @ ''common'' @ [CHR 0x09] @ ''futimesat'' @ [CHR 0x09, CHR 0x09] @ ''sys_futimesat'',
    ''262'' @ [CHR 0x09] @ ''common'' @ [CHR 0x09] @ ''newfstatat'' @ [CHR 0x09, CHR 0x09] @ ''sys_newfstatat'',
    ''263'' @ [CHR 0x09] @ ''common'' @ [CHR 0x09] @ ''unlinkat'' @ [CHR 0x09, CHR 0x09] @ ''sys_unlinkat'',
    ''264'' @ [CHR 0x09] @ ''common'' @ [CHR 0x09] @ ''renameat'' @ [CHR 0x09, CHR 0x09] @ ''sys_renameat'',
    ''265'' @ [CHR 0x09] @ ''common'' @ [CHR 0x09] @ ''linkat'' @ [CHR 0x09, CHR 0x09, CHR 0x09] @ ''sys_linkat'',
    ''266'' @ [CHR 0x09] @ ''common'' @ [CHR 0x09] @ ''symlinkat'' @ [CHR 0x09, CHR 0x09] @ ''sys_symlinkat'',
    ''267'' @ [CHR 0x09] @ ''common'' @ [CHR 0x09] @ ''readlinkat'' @ [CHR 0x09, CHR 0x09] @ ''sys_readlinkat'',
    ''268'' @ [CHR 0x09] @ ''common'' @ [CHR 0x09] @ ''fchmodat'' @ [CHR 0x09, CHR 0x09] @ ''sys_fchmodat'',
    ''269'' @ [CHR 0x09] @ ''common'' @ [CHR 0x09] @ ''faccessat'' @ [CHR 0x09, CHR 0x09] @ ''sys_faccessat'',
    ''270'' @ [CHR 0x09] @ ''common'' @ [CHR 0x09] @ ''pselect6'' @ [CHR 0x09, CHR 0x09] @ ''sys_pselect6'',
    ''271'' @ [CHR 0x09] @ ''common'' @ [CHR 0x09] @ ''ppoll'' @ [CHR 0x09, CHR 0x09, CHR 0x09] @ ''sys_ppoll'',
    ''272'' @ [CHR 0x09] @ ''common'' @ [CHR 0x09] @ ''unshare'' @ [CHR 0x09, CHR 0x09, CHR 0x09] @ ''sys_unshare'',
    ''273'' @ [CHR 0x09] @ ''64'' @ [CHR 0x09] @ ''set_robust_list'' @ [CHR 0x09, CHR 0x09] @ ''sys_set_robust_list'',
    ''274'' @ [CHR 0x09] @ ''64'' @ [CHR 0x09] @ ''get_robust_list'' @ [CHR 0x09, CHR 0x09] @ ''sys_get_robust_list'',
    ''275'' @ [CHR 0x09] @ ''common'' @ [CHR 0x09] @ ''splice'' @ [CHR 0x09, CHR 0x09, CHR 0x09] @ ''sys_splice'',
    ''276'' @ [CHR 0x09] @ ''common'' @ [CHR 0x09] @ ''tee'' @ [CHR 0x09, CHR 0x09, CHR 0x09] @ ''sys_tee'',
    ''277'' @ [CHR 0x09] @ ''common'' @ [CHR 0x09] @ ''sync_file_range'' @ [CHR 0x09, CHR 0x09] @ ''sys_sync_file_range'']\<close>

definition tbl_block_9 :: "string list" where
  \<open>tbl_block_9 = [
    ''278'' @ [CHR 0x09] @ ''64'' @ [CHR 0x09] @ ''vmsplice'' @ [CHR 0x09, CHR 0x09] @ ''sys_vmsplice'',
    ''279'' @ [CHR 0x09] @ ''64'' @ [CHR 0x09] @ ''move_pages'' @ [CHR 0x09, CHR 0x09] @ ''sys_move_pages'',
    ''280'' @ [CHR 0x09] @ ''common'' @ [CHR 0x09] @ ''utimensat'' @ [CHR 0x09, CHR 0x09] @ ''sys_utimensat'',
    ''281'' @ [CHR 0x09] @ ''common'' @ [CHR 0x09] @ ''epoll_pwait'' @ [CHR 0x09, CHR 0x09] @ ''sys_epoll_pwait'',
    ''282'' @ [CHR 0x09] @ ''common'' @ [CHR 0x09] @ ''signalfd'' @ [CHR 0x09, CHR 0x09] @ ''sys_signalfd'',
    ''283'' @ [CHR 0x09] @ ''common'' @ [CHR 0x09] @ ''timerfd_create'' @ [CHR 0x09, CHR 0x09] @ ''sys_timerfd_create'',
    ''284'' @ [CHR 0x09] @ ''common'' @ [CHR 0x09] @ ''eventfd'' @ [CHR 0x09, CHR 0x09, CHR 0x09] @ ''sys_eventfd'',
    ''285'' @ [CHR 0x09] @ ''common'' @ [CHR 0x09] @ ''fallocate'' @ [CHR 0x09, CHR 0x09] @ ''sys_fallocate'',
    ''286'' @ [CHR 0x09] @ ''common'' @ [CHR 0x09] @ ''timerfd_settime'' @ [CHR 0x09, CHR 0x09] @ ''sys_timerfd_settime'',
    ''287'' @ [CHR 0x09] @ ''common'' @ [CHR 0x09] @ ''timerfd_gettime'' @ [CHR 0x09, CHR 0x09] @ ''sys_timerfd_gettime'',
    ''288'' @ [CHR 0x09] @ ''common'' @ [CHR 0x09] @ ''accept4'' @ [CHR 0x09, CHR 0x09, CHR 0x09] @ ''sys_accept4'',
    ''289'' @ [CHR 0x09] @ ''common'' @ [CHR 0x09] @ ''signalfd4'' @ [CHR 0x09, CHR 0x09] @ ''sys_signalfd4'',
    ''290'' @ [CHR 0x09] @ ''common'' @ [CHR 0x09] @ ''eventfd2'' @ [CHR 0x09, CHR 0x09] @ ''sys_eventfd2'',
    ''291'' @ [CHR 0x09] @ ''common'' @ [CHR 0x09] @ ''epoll_create1'' @ [CHR 0x09, CHR 0x09] @ ''sys_epoll_create1'',
    ''292'' @ [CHR 0x09] @ ''common'' @ [CHR 0x09] @ ''dup3'' @ [CHR 0x09, CHR 0x09, CHR 0x09] @ ''sys_dup3'',
    ''293'' @ [CHR 0x09] @ ''common'' @ [CHR 0x09] @ ''pipe2'' @ [CHR 0x09, CHR 0x09, CHR 0x09] @ ''sys_pipe2'',
    ''294'' @ [CHR 0x09] @ ''common'' @ [CHR 0x09] @ ''inotify_init1'' @ [CHR 0x09, CHR 0x09] @ ''sys_inotify_init1'',
    ''295'' @ [CHR 0x09] @ ''64'' @ [CHR 0x09] @ ''preadv'' @ [CHR 0x09, CHR 0x09, CHR 0x09] @ ''sys_preadv'',
    ''296'' @ [CHR 0x09] @ ''64'' @ [CHR 0x09] @ ''pwritev'' @ [CHR 0x09, CHR 0x09, CHR 0x09] @ ''sys_pwritev'',
    ''297'' @ [CHR 0x09] @ ''64'' @ [CHR 0x09] @ ''rt_tgsigqueueinfo'' @ [CHR 0x09] @ ''sys_rt_tgsigqueueinfo'',
    ''298'' @ [CHR 0x09] @ ''common'' @ [CHR 0x09] @ ''perf_event_open'' @ [CHR 0x09, CHR 0x09] @ ''sys_perf_event_open'',
    ''299'' @ [CHR 0x09] @ ''64'' @ [CHR 0x09] @ ''recvmmsg'' @ [CHR 0x09, CHR 0x09] @ ''sys_recvmmsg'',
    ''300'' @ [CHR 0x09] @ ''common'' @ [CHR 0x09] @ ''fanotify_init'' @ [CHR 0x09, CHR 0x09] @ ''sys_fanotify_init'',
    ''301'' @ [CHR 0x09] @ ''common'' @ [CHR 0x09] @ ''fanotify_mark'' @ [CHR 0x09, CHR 0x09] @ ''sys_fanotify_mark'',
    ''302'' @ [CHR 0x09] @ ''common'' @ [CHR 0x09] @ ''prlimit64'' @ [CHR 0x09, CHR 0x09] @ ''sys_prlimit64'',
    ''303'' @ [CHR 0x09] @ ''common'' @ [CHR 0x09] @ ''name_to_handle_at'' @ [CHR 0x09] @ ''sys_name_to_handle_at'',
    ''304'' @ [CHR 0x09] @ ''common'' @ [CHR 0x09] @ ''open_by_handle_at'' @ [CHR 0x09] @ ''sys_open_by_handle_at'',
    ''305'' @ [CHR 0x09] @ ''common'' @ [CHR 0x09] @ ''clock_adjtime'' @ [CHR 0x09, CHR 0x09] @ ''sys_clock_adjtime'',
    ''306'' @ [CHR 0x09] @ ''common'' @ [CHR 0x09] @ ''syncfs'' @ [CHR 0x09, CHR 0x09, CHR 0x09] @ ''sys_syncfs'',
    ''307'' @ [CHR 0x09] @ ''64'' @ [CHR 0x09] @ ''sendmmsg'' @ [CHR 0x09, CHR 0x09] @ ''sys_sendmmsg'',
    ''308'' @ [CHR 0x09] @ ''common'' @ [CHR 0x09] @ ''setns'' @ [CHR 0x09, CHR 0x09, CHR 0x09] @ ''sys_setns'',
    ''309'' @ [CHR 0x09] @ ''common'' @ [CHR 0x09] @ ''getcpu'' @ [CHR 0x09, CHR 0x09, CHR 0x09] @ ''sys_getcpu'',
    ''310'' @ [CHR 0x09] @ ''64'' @ [CHR 0x09] @ ''process_vm_readv'' @ [CHR 0x09] @ ''sys_process_vm_readv'',
    ''311'' @ [CHR 0x09] @ ''64'' @ [CHR 0x09] @ ''process_vm_writev'' @ [CHR 0x09] @ ''sys_process_vm_writev'',
    ''312'' @ [CHR 0x09] @ ''common'' @ [CHR 0x09] @ ''kcmp'' @ [CHR 0x09, CHR 0x09, CHR 0x09] @ ''sys_kcmp'',
    ''313'' @ [CHR 0x09] @ ''common'' @ [CHR 0x09] @ ''finit_module'' @ [CHR 0x09, CHR 0x09] @ ''sys_finit_module'']\<close>

definition tbl_block_10 :: "string list" where
  \<open>tbl_block_10 = [
    ''314'' @ [CHR 0x09] @ ''common'' @ [CHR 0x09] @ ''sched_setattr'' @ [CHR 0x09, CHR 0x09] @ ''sys_sched_setattr'',
    ''315'' @ [CHR 0x09] @ ''common'' @ [CHR 0x09] @ ''sched_getattr'' @ [CHR 0x09, CHR 0x09] @ ''sys_sched_getattr'',
    ''316'' @ [CHR 0x09] @ ''common'' @ [CHR 0x09] @ ''renameat2'' @ [CHR 0x09, CHR 0x09] @ ''sys_renameat2'',
    ''317'' @ [CHR 0x09] @ ''common'' @ [CHR 0x09] @ ''seccomp'' @ [CHR 0x09, CHR 0x09, CHR 0x09] @ ''sys_seccomp'',
    ''318'' @ [CHR 0x09] @ ''common'' @ [CHR 0x09] @ ''getrandom'' @ [CHR 0x09, CHR 0x09] @ ''sys_getrandom'',
    ''319'' @ [CHR 0x09] @ ''common'' @ [CHR 0x09] @ ''memfd_create'' @ [CHR 0x09, CHR 0x09] @ ''sys_memfd_create'',
    ''320'' @ [CHR 0x09] @ ''common'' @ [CHR 0x09] @ ''kexec_file_load'' @ [CHR 0x09, CHR 0x09] @ ''sys_kexec_file_load'',
    ''321'' @ [CHR 0x09] @ ''common'' @ [CHR 0x09] @ ''bpf'' @ [CHR 0x09, CHR 0x09, CHR 0x09] @ ''sys_bpf'',
    ''322'' @ [CHR 0x09] @ ''64'' @ [CHR 0x09] @ ''execveat'' @ [CHR 0x09, CHR 0x09] @ ''sys_execveat'',
    ''323'' @ [CHR 0x09] @ ''common'' @ [CHR 0x09] @ ''userfaultfd'' @ [CHR 0x09, CHR 0x09] @ ''sys_userfaultfd'',
    ''324'' @ [CHR 0x09] @ ''common'' @ [CHR 0x09] @ ''membarrier'' @ [CHR 0x09, CHR 0x09] @ ''sys_membarrier'',
    ''325'' @ [CHR 0x09] @ ''common'' @ [CHR 0x09] @ ''mlock2'' @ [CHR 0x09, CHR 0x09, CHR 0x09] @ ''sys_mlock2'',
    ''326'' @ [CHR 0x09] @ ''common'' @ [CHR 0x09] @ ''copy_file_range'' @ [CHR 0x09, CHR 0x09] @ ''sys_copy_file_range'',
    ''327'' @ [CHR 0x09] @ ''64'' @ [CHR 0x09] @ ''preadv2'' @ [CHR 0x09, CHR 0x09, CHR 0x09] @ ''sys_preadv2'',
    ''328'' @ [CHR 0x09] @ ''64'' @ [CHR 0x09] @ ''pwritev2'' @ [CHR 0x09, CHR 0x09] @ ''sys_pwritev2'',
    ''329'' @ [CHR 0x09] @ ''common'' @ [CHR 0x09] @ ''pkey_mprotect'' @ [CHR 0x09, CHR 0x09] @ ''sys_pkey_mprotect'',
    ''330'' @ [CHR 0x09] @ ''common'' @ [CHR 0x09] @ ''pkey_alloc'' @ [CHR 0x09, CHR 0x09] @ ''sys_pkey_alloc'',
    ''331'' @ [CHR 0x09] @ ''common'' @ [CHR 0x09] @ ''pkey_free'' @ [CHR 0x09, CHR 0x09] @ ''sys_pkey_free'',
    ''332'' @ [CHR 0x09] @ ''common'' @ [CHR 0x09] @ ''statx'' @ [CHR 0x09, CHR 0x09, CHR 0x09] @ ''sys_statx'',
    ''333'' @ [CHR 0x09] @ ''common'' @ [CHR 0x09] @ ''io_pgetevents'' @ [CHR 0x09, CHR 0x09] @ ''sys_io_pgetevents'',
    ''334'' @ [CHR 0x09] @ ''common'' @ [CHR 0x09] @ ''rseq'' @ [CHR 0x09, CHR 0x09, CHR 0x09] @ ''sys_rseq'',
    ''# don'' @ [CHR 0x27] @ ''t use numbers 387 through 423, add new calls after the last'',
    ''# '' @ [CHR 0x27] @ ''common'' @ [CHR 0x27] @ '' entry'',
    ''424'' @ [CHR 0x09] @ ''common'' @ [CHR 0x09] @ ''pidfd_send_signal'' @ [CHR 0x09] @ ''sys_pidfd_send_signal'',
    ''425'' @ [CHR 0x09] @ ''common'' @ [CHR 0x09] @ ''io_uring_setup'' @ [CHR 0x09, CHR 0x09] @ ''sys_io_uring_setup'',
    ''426'' @ [CHR 0x09] @ ''common'' @ [CHR 0x09] @ ''io_uring_enter'' @ [CHR 0x09, CHR 0x09] @ ''sys_io_uring_enter'',
    ''427'' @ [CHR 0x09] @ ''common'' @ [CHR 0x09] @ ''io_uring_register'' @ [CHR 0x09] @ ''sys_io_uring_register'',
    ''428'' @ [CHR 0x09] @ ''common'' @ [CHR 0x09] @ ''open_tree'' @ [CHR 0x09, CHR 0x09] @ ''sys_open_tree'',
    ''429'' @ [CHR 0x09] @ ''common'' @ [CHR 0x09] @ ''move_mount'' @ [CHR 0x09, CHR 0x09] @ ''sys_move_mount'',
    ''430'' @ [CHR 0x09] @ ''common'' @ [CHR 0x09] @ ''fsopen'' @ [CHR 0x09, CHR 0x09, CHR 0x09] @ ''sys_fsopen'',
    ''431'' @ [CHR 0x09] @ ''common'' @ [CHR 0x09] @ ''fsconfig'' @ [CHR 0x09, CHR 0x09] @ ''sys_fsconfig'',
    ''432'' @ [CHR 0x09] @ ''common'' @ [CHR 0x09] @ ''fsmount'' @ [CHR 0x09, CHR 0x09, CHR 0x09] @ ''sys_fsmount'',
    ''433'' @ [CHR 0x09] @ ''common'' @ [CHR 0x09] @ ''fspick'' @ [CHR 0x09, CHR 0x09, CHR 0x09] @ ''sys_fspick'',
    ''434'' @ [CHR 0x09] @ ''common'' @ [CHR 0x09] @ ''pidfd_open'' @ [CHR 0x09, CHR 0x09] @ ''sys_pidfd_open'',
    ''435'' @ [CHR 0x09] @ ''common'' @ [CHR 0x09] @ ''clone3'' @ [CHR 0x09, CHR 0x09, CHR 0x09] @ ''sys_clone3'',
    ''436'' @ [CHR 0x09] @ ''common'' @ [CHR 0x09] @ ''close_range'' @ [CHR 0x09, CHR 0x09] @ ''sys_close_range'']\<close>

definition tbl_block_11 :: "string list" where
  \<open>tbl_block_11 = [
    ''437'' @ [CHR 0x09] @ ''common'' @ [CHR 0x09] @ ''openat2'' @ [CHR 0x09, CHR 0x09, CHR 0x09] @ ''sys_openat2'',
    ''438'' @ [CHR 0x09] @ ''common'' @ [CHR 0x09] @ ''pidfd_getfd'' @ [CHR 0x09, CHR 0x09] @ ''sys_pidfd_getfd'',
    ''439'' @ [CHR 0x09] @ ''common'' @ [CHR 0x09] @ ''faccessat2'' @ [CHR 0x09, CHR 0x09] @ ''sys_faccessat2'',
    ''440'' @ [CHR 0x09] @ ''common'' @ [CHR 0x09] @ ''process_madvise'' @ [CHR 0x09, CHR 0x09] @ ''sys_process_madvise'',
    ''441'' @ [CHR 0x09] @ ''common'' @ [CHR 0x09] @ ''epoll_pwait2'' @ [CHR 0x09, CHR 0x09] @ ''sys_epoll_pwait2'',
    ''442'' @ [CHR 0x09] @ ''common'' @ [CHR 0x09] @ ''mount_setattr'' @ [CHR 0x09, CHR 0x09] @ ''sys_mount_setattr'',
    ''443'' @ [CHR 0x09] @ ''common'' @ [CHR 0x09] @ ''quotactl_fd'' @ [CHR 0x09, CHR 0x09] @ ''sys_quotactl_fd'',
    ''444'' @ [CHR 0x09] @ ''common'' @ [CHR 0x09] @ ''landlock_create_ruleset'' @ [CHR 0x09] @ ''sys_landlock_create_ruleset'',
    ''445'' @ [CHR 0x09] @ ''common'' @ [CHR 0x09] @ ''landlock_add_rule'' @ [CHR 0x09] @ ''sys_landlock_add_rule'',
    ''446'' @ [CHR 0x09] @ ''common'' @ [CHR 0x09] @ ''landlock_restrict_self'' @ [CHR 0x09] @ ''sys_landlock_restrict_self'',
    ''447'' @ [CHR 0x09] @ ''common'' @ [CHR 0x09] @ ''memfd_secret'' @ [CHR 0x09, CHR 0x09] @ ''sys_memfd_secret'',
    ''448'' @ [CHR 0x09] @ ''common'' @ [CHR 0x09] @ ''process_mrelease'' @ [CHR 0x09] @ ''sys_process_mrelease'',
    ''449'' @ [CHR 0x09] @ ''common'' @ [CHR 0x09] @ ''futex_waitv'' @ [CHR 0x09, CHR 0x09] @ ''sys_futex_waitv'',
    ''450'' @ [CHR 0x09] @ ''common'' @ [CHR 0x09] @ ''set_mempolicy_home_node'' @ [CHR 0x09] @ ''sys_set_mempolicy_home_node'',
    ''451'' @ [CHR 0x09] @ ''common'' @ [CHR 0x09] @ ''cachestat'' @ [CHR 0x09, CHR 0x09] @ ''sys_cachestat'',
    ''452'' @ [CHR 0x09] @ ''common'' @ [CHR 0x09] @ ''fchmodat2'' @ [CHR 0x09, CHR 0x09] @ ''sys_fchmodat2'',
    ''453'' @ [CHR 0x09] @ ''64'' @ [CHR 0x09] @ ''map_shadow_stack'' @ [CHR 0x09] @ ''sys_map_shadow_stack'',
    ''454'' @ [CHR 0x09] @ ''common'' @ [CHR 0x09] @ ''futex_wake'' @ [CHR 0x09, CHR 0x09] @ ''sys_futex_wake'',
    ''455'' @ [CHR 0x09] @ ''common'' @ [CHR 0x09] @ ''futex_wait'' @ [CHR 0x09, CHR 0x09] @ ''sys_futex_wait'',
    ''456'' @ [CHR 0x09] @ ''common'' @ [CHR 0x09] @ ''futex_requeue'' @ [CHR 0x09, CHR 0x09] @ ''sys_futex_requeue'',
    ''457'' @ [CHR 0x09] @ ''common'' @ [CHR 0x09] @ ''statmount'' @ [CHR 0x09, CHR 0x09] @ ''sys_statmount'',
    ''458'' @ [CHR 0x09] @ ''common'' @ [CHR 0x09] @ ''listmount'' @ [CHR 0x09, CHR 0x09] @ ''sys_listmount'',
    ''459'' @ [CHR 0x09] @ ''common'' @ [CHR 0x09] @ ''lsm_get_self_attr'' @ [CHR 0x09] @ ''sys_lsm_get_self_attr'',
    ''460'' @ [CHR 0x09] @ ''common'' @ [CHR 0x09] @ ''lsm_set_self_attr'' @ [CHR 0x09] @ ''sys_lsm_set_self_attr'',
    ''461'' @ [CHR 0x09] @ ''common'' @ [CHR 0x09] @ ''lsm_list_modules'' @ [CHR 0x09] @ ''sys_lsm_list_modules'',
    [],
    ''#'',
    ''# Due to a historical design error, certain syscalls are numbered differently'',
    ''# in x32 as compared to native x86_64.  These syscalls have numbers 512-547.'',
    ''# Do not add new syscalls to this range.  Numbers 548 and above are available'',
    ''# for non-x32 use.'',
    ''#'',
    ''512'' @ [CHR 0x09] @ ''x32'' @ [CHR 0x09] @ ''rt_sigaction'' @ [CHR 0x09, CHR 0x09] @ ''compat_sys_rt_sigaction'',
    ''513'' @ [CHR 0x09] @ ''x32'' @ [CHR 0x09] @ ''rt_sigreturn'' @ [CHR 0x09, CHR 0x09] @ ''compat_sys_x32_rt_sigreturn'',
    ''514'' @ [CHR 0x09] @ ''x32'' @ [CHR 0x09] @ ''ioctl'' @ [CHR 0x09, CHR 0x09, CHR 0x09] @ ''compat_sys_ioctl'',
    ''515'' @ [CHR 0x09] @ ''x32'' @ [CHR 0x09] @ ''readv'' @ [CHR 0x09, CHR 0x09, CHR 0x09] @ ''sys_readv'']\<close>

definition tbl_block_12 :: "string list" where
  \<open>tbl_block_12 = [
    ''516'' @ [CHR 0x09] @ ''x32'' @ [CHR 0x09] @ ''writev'' @ [CHR 0x09, CHR 0x09, CHR 0x09] @ ''sys_writev'',
    ''517'' @ [CHR 0x09] @ ''x32'' @ [CHR 0x09] @ ''recvfrom'' @ [CHR 0x09, CHR 0x09] @ ''compat_sys_recvfrom'',
    ''518'' @ [CHR 0x09] @ ''x32'' @ [CHR 0x09] @ ''sendmsg'' @ [CHR 0x09, CHR 0x09, CHR 0x09] @ ''compat_sys_sendmsg'',
    ''519'' @ [CHR 0x09] @ ''x32'' @ [CHR 0x09] @ ''recvmsg'' @ [CHR 0x09, CHR 0x09, CHR 0x09] @ ''compat_sys_recvmsg'',
    ''520'' @ [CHR 0x09] @ ''x32'' @ [CHR 0x09] @ ''execve'' @ [CHR 0x09, CHR 0x09, CHR 0x09] @ ''compat_sys_execve'',
    ''521'' @ [CHR 0x09] @ ''x32'' @ [CHR 0x09] @ ''ptrace'' @ [CHR 0x09, CHR 0x09, CHR 0x09] @ ''compat_sys_ptrace'',
    ''522'' @ [CHR 0x09] @ ''x32'' @ [CHR 0x09] @ ''rt_sigpending'' @ [CHR 0x09, CHR 0x09] @ ''compat_sys_rt_sigpending'',
    ''523'' @ [CHR 0x09] @ ''x32'' @ [CHR 0x09] @ ''rt_sigtimedwait'' @ [CHR 0x09, CHR 0x09] @ ''compat_sys_rt_sigtimedwait_time64'',
    ''524'' @ [CHR 0x09] @ ''x32'' @ [CHR 0x09] @ ''rt_sigqueueinfo'' @ [CHR 0x09, CHR 0x09] @ ''compat_sys_rt_sigqueueinfo'',
    ''525'' @ [CHR 0x09] @ ''x32'' @ [CHR 0x09] @ ''sigaltstack'' @ [CHR 0x09, CHR 0x09] @ ''compat_sys_sigaltstack'',
    ''526'' @ [CHR 0x09] @ ''x32'' @ [CHR 0x09] @ ''timer_create'' @ [CHR 0x09, CHR 0x09] @ ''compat_sys_timer_create'',
    ''527'' @ [CHR 0x09] @ ''x32'' @ [CHR 0x09] @ ''mq_notify'' @ [CHR 0x09, CHR 0x09] @ ''compat_sys_mq_notify'',
    ''528'' @ [CHR 0x09] @ ''x32'' @ [CHR 0x09] @ ''kexec_load'' @ [CHR 0x09, CHR 0x09] @ ''compat_sys_kexec_load'',
    ''529'' @ [CHR 0x09] @ ''x32'' @ [CHR 0x09] @ ''waitid'' @ [CHR 0x09, CHR 0x09, CHR 0x09] @ ''compat_sys_waitid'',
    ''530'' @ [CHR 0x09] @ ''x32'' @ [CHR 0x09] @ ''set_robust_list'' @ [CHR 0x09, CHR 0x09] @ ''compat_sys_set_robust_list'',
    ''531'' @ [CHR 0x09] @ ''x32'' @ [CHR 0x09] @ ''get_robust_list'' @ [CHR 0x09, CHR 0x09] @ ''compat_sys_get_robust_list'',
    ''532'' @ [CHR 0x09] @ ''x32'' @ [CHR 0x09] @ ''vmsplice'' @ [CHR 0x09, CHR 0x09] @ ''sys_vmsplice'',
    ''533'' @ [CHR 0x09] @ ''x32'' @ [CHR 0x09] @ ''move_pages'' @ [CHR 0x09, CHR 0x09] @ ''sys_move_pages'',
    ''534'' @ [CHR 0x09] @ ''x32'' @ [CHR 0x09] @ ''preadv'' @ [CHR 0x09, CHR 0x09, CHR 0x09] @ ''compat_sys_preadv64'',
    ''535'' @ [CHR 0x09] @ ''x32'' @ [CHR 0x09] @ ''pwritev'' @ [CHR 0x09, CHR 0x09, CHR 0x09] @ ''compat_sys_pwritev64'',
    ''536'' @ [CHR 0x09] @ ''x32'' @ [CHR 0x09] @ ''rt_tgsigqueueinfo'' @ [CHR 0x09] @ ''compat_sys_rt_tgsigqueueinfo'',
    ''537'' @ [CHR 0x09] @ ''x32'' @ [CHR 0x09] @ ''recvmmsg'' @ [CHR 0x09, CHR 0x09] @ ''compat_sys_recvmmsg_time64'',
    ''538'' @ [CHR 0x09] @ ''x32'' @ [CHR 0x09] @ ''sendmmsg'' @ [CHR 0x09, CHR 0x09] @ ''compat_sys_sendmmsg'',
    ''539'' @ [CHR 0x09] @ ''x32'' @ [CHR 0x09] @ ''process_vm_readv'' @ [CHR 0x09] @ ''sys_process_vm_readv'',
    ''540'' @ [CHR 0x09] @ ''x32'' @ [CHR 0x09] @ ''process_vm_writev'' @ [CHR 0x09] @ ''sys_process_vm_writev'',
    ''541'' @ [CHR 0x09] @ ''x32'' @ [CHR 0x09] @ ''setsockopt'' @ [CHR 0x09, CHR 0x09] @ ''sys_setsockopt'',
    ''542'' @ [CHR 0x09] @ ''x32'' @ [CHR 0x09] @ ''getsockopt'' @ [CHR 0x09, CHR 0x09] @ ''sys_getsockopt'',
    ''543'' @ [CHR 0x09] @ ''x32'' @ [CHR 0x09] @ ''io_setup'' @ [CHR 0x09, CHR 0x09] @ ''compat_sys_io_setup'',
    ''544'' @ [CHR 0x09] @ ''x32'' @ [CHR 0x09] @ ''io_submit'' @ [CHR 0x09, CHR 0x09] @ ''compat_sys_io_submit'',
    ''545'' @ [CHR 0x09] @ ''x32'' @ [CHR 0x09] @ ''execveat'' @ [CHR 0x09, CHR 0x09] @ ''compat_sys_execveat'',
    ''546'' @ [CHR 0x09] @ ''x32'' @ [CHR 0x09] @ ''preadv2'' @ [CHR 0x09, CHR 0x09, CHR 0x09] @ ''compat_sys_preadv64v2'',
    ''547'' @ [CHR 0x09] @ ''x32'' @ [CHR 0x09] @ ''pwritev2'' @ [CHR 0x09, CHR 0x09] @ ''compat_sys_pwritev64v2'',
    ''# This is the end of the legacy x32 range.  Numbers 548 and above are'',
    ''# not special and are not to be used for x32-specific syscalls.'']\<close>

definition SYSCALL_64_LINES :: "string list" where
  "SYSCALL_64_LINES = tbl_block_1 @
    tbl_block_2 @
    tbl_block_3 @
    tbl_block_4 @
    tbl_block_5 @
    tbl_block_6 @
    tbl_block_7 @
    tbl_block_8 @
    tbl_block_9 @
    tbl_block_10 @
    tbl_block_11 @
    tbl_block_12"

definition SYSCALL_64_TBL :: "string" where
  "SYSCALL_64_TBL = concat (map (\<lambda>l. l @ [CHR 0x0A]) SYSCALL_64_LINES)"

definition SYSCALLS :: "syscall_info list" where
  "SYSCALLS = the (table_of SYSCALL_64_TBL)"

subsection \<open>What the parser reads\<close>

definition row :: "u32 \<Rightarrow> abi \<Rightarrow> string \<Rightarrow> string option \<Rightarrow> syscall_entry" where
  "row n ab nm en = \<lparr>ent_number = n, ent_abi = ab, ent_name = nm, ent_entry = en\<rparr>"

definition rows_1 :: "syscall_entry list" where
  "rows_1 = [
    row 0 Common ''read'' (Some ''sys_read''),
    row 1 Common ''write'' (Some ''sys_write''),
    row 2 Common ''open'' (Some ''sys_open''),
    row 3 Common ''close'' (Some ''sys_close''),
    row 4 Common ''stat'' (Some ''sys_newstat''),
    row 5 Common ''fstat'' (Some ''sys_newfstat''),
    row 6 Common ''lstat'' (Some ''sys_newlstat''),
    row 7 Common ''poll'' (Some ''sys_poll''),
    row 8 Common ''lseek'' (Some ''sys_lseek''),
    row 9 Common ''mmap'' (Some ''sys_mmap''),
    row 10 Common ''mprotect'' (Some ''sys_mprotect''),
    row 11 Common ''munmap'' (Some ''sys_munmap''),
    row 12 Common ''brk'' (Some ''sys_brk''),
    row 13 B64 ''rt_sigaction'' (Some ''sys_rt_sigaction''),
    row 14 Common ''rt_sigprocmask'' (Some ''sys_rt_sigprocmask''),
    row 15 B64 ''rt_sigreturn'' (Some ''sys_rt_sigreturn''),
    row 16 B64 ''ioctl'' (Some ''sys_ioctl''),
    row 17 Common ''pread64'' (Some ''sys_pread64''),
    row 18 Common ''pwrite64'' (Some ''sys_pwrite64''),
    row 19 B64 ''readv'' (Some ''sys_readv''),
    row 20 B64 ''writev'' (Some ''sys_writev''),
    row 21 Common ''access'' (Some ''sys_access''),
    row 22 Common ''pipe'' (Some ''sys_pipe''),
    row 23 Common ''select'' (Some ''sys_select''),
    row 24 Common ''sched_yield'' (Some ''sys_sched_yield''),
    row 25 Common ''mremap'' (Some ''sys_mremap'')]"

definition rows_2 :: "syscall_entry list" where
  "rows_2 = [
    row 26 Common ''msync'' (Some ''sys_msync''),
    row 27 Common ''mincore'' (Some ''sys_mincore''),
    row 28 Common ''madvise'' (Some ''sys_madvise''),
    row 29 Common ''shmget'' (Some ''sys_shmget''),
    row 30 Common ''shmat'' (Some ''sys_shmat''),
    row 31 Common ''shmctl'' (Some ''sys_shmctl''),
    row 32 Common ''dup'' (Some ''sys_dup''),
    row 33 Common ''dup2'' (Some ''sys_dup2''),
    row 34 Common ''pause'' (Some ''sys_pause''),
    row 35 Common ''nanosleep'' (Some ''sys_nanosleep''),
    row 36 Common ''getitimer'' (Some ''sys_getitimer''),
    row 37 Common ''alarm'' (Some ''sys_alarm''),
    row 38 Common ''setitimer'' (Some ''sys_setitimer''),
    row 39 Common ''getpid'' (Some ''sys_getpid''),
    row 40 Common ''sendfile'' (Some ''sys_sendfile64''),
    row 41 Common ''socket'' (Some ''sys_socket''),
    row 42 Common ''connect'' (Some ''sys_connect''),
    row 43 Common ''accept'' (Some ''sys_accept''),
    row 44 Common ''sendto'' (Some ''sys_sendto''),
    row 45 B64 ''recvfrom'' (Some ''sys_recvfrom''),
    row 46 B64 ''sendmsg'' (Some ''sys_sendmsg''),
    row 47 B64 ''recvmsg'' (Some ''sys_recvmsg''),
    row 48 Common ''shutdown'' (Some ''sys_shutdown''),
    row 49 Common ''bind'' (Some ''sys_bind''),
    row 50 Common ''listen'' (Some ''sys_listen''),
    row 51 Common ''getsockname'' (Some ''sys_getsockname''),
    row 52 Common ''getpeername'' (Some ''sys_getpeername''),
    row 53 Common ''socketpair'' (Some ''sys_socketpair''),
    row 54 B64 ''setsockopt'' (Some ''sys_setsockopt''),
    row 55 B64 ''getsockopt'' (Some ''sys_getsockopt''),
    row 56 Common ''clone'' (Some ''sys_clone''),
    row 57 Common ''fork'' (Some ''sys_fork''),
    row 58 Common ''vfork'' (Some ''sys_vfork''),
    row 59 B64 ''execve'' (Some ''sys_execve''),
    row 60 Common ''exit'' (Some ''sys_exit''),
    row 61 Common ''wait4'' (Some ''sys_wait4'')]"

definition rows_3 :: "syscall_entry list" where
  "rows_3 = [
    row 62 Common ''kill'' (Some ''sys_kill''),
    row 63 Common ''uname'' (Some ''sys_newuname''),
    row 64 Common ''semget'' (Some ''sys_semget''),
    row 65 Common ''semop'' (Some ''sys_semop''),
    row 66 Common ''semctl'' (Some ''sys_semctl''),
    row 67 Common ''shmdt'' (Some ''sys_shmdt''),
    row 68 Common ''msgget'' (Some ''sys_msgget''),
    row 69 Common ''msgsnd'' (Some ''sys_msgsnd''),
    row 70 Common ''msgrcv'' (Some ''sys_msgrcv''),
    row 71 Common ''msgctl'' (Some ''sys_msgctl''),
    row 72 Common ''fcntl'' (Some ''sys_fcntl''),
    row 73 Common ''flock'' (Some ''sys_flock''),
    row 74 Common ''fsync'' (Some ''sys_fsync''),
    row 75 Common ''fdatasync'' (Some ''sys_fdatasync''),
    row 76 Common ''truncate'' (Some ''sys_truncate''),
    row 77 Common ''ftruncate'' (Some ''sys_ftruncate''),
    row 78 Common ''getdents'' (Some ''sys_getdents''),
    row 79 Common ''getcwd'' (Some ''sys_getcwd''),
    row 80 Common ''chdir'' (Some ''sys_chdir''),
    row 81 Common ''fchdir'' (Some ''sys_fchdir''),
    row 82 Common ''rename'' (Some ''sys_rename''),
    row 83 Common ''mkdir'' (Some ''sys_mkdir''),
    row 84 Common ''rmdir'' (Some ''sys_rmdir''),
    row 85 Common ''creat'' (Some ''sys_creat''),
    row 86 Common ''link'' (Some ''sys_link''),
    row 87 Common ''unlink'' (Some ''sys_unlink''),
    row 88 Common ''symlink'' (Some ''sys_symlink''),
    row 89 Common ''readlink'' (Some ''sys_readlink''),
    row 90 Common ''chmod'' (Some ''sys_chmod''),
    row 91 Common ''fchmod'' (Some ''sys_fchmod''),
    row 92 Common ''chown'' (Some ''sys_chown''),
    row 93 Common ''fchown'' (Some ''sys_fchown''),
    row 94 Common ''lchown'' (Some ''sys_lchown''),
    row 95 Common ''umask'' (Some ''sys_umask''),
    row 96 Common ''gettimeofday'' (Some ''sys_gettimeofday''),
    row 97 Common ''getrlimit'' (Some ''sys_getrlimit'')]"

definition rows_4 :: "syscall_entry list" where
  "rows_4 = [
    row 98 Common ''getrusage'' (Some ''sys_getrusage''),
    row 99 Common ''sysinfo'' (Some ''sys_sysinfo''),
    row 100 Common ''times'' (Some ''sys_times''),
    row 101 B64 ''ptrace'' (Some ''sys_ptrace''),
    row 102 Common ''getuid'' (Some ''sys_getuid''),
    row 103 Common ''syslog'' (Some ''sys_syslog''),
    row 104 Common ''getgid'' (Some ''sys_getgid''),
    row 105 Common ''setuid'' (Some ''sys_setuid''),
    row 106 Common ''setgid'' (Some ''sys_setgid''),
    row 107 Common ''geteuid'' (Some ''sys_geteuid''),
    row 108 Common ''getegid'' (Some ''sys_getegid''),
    row 109 Common ''setpgid'' (Some ''sys_setpgid''),
    row 110 Common ''getppid'' (Some ''sys_getppid''),
    row 111 Common ''getpgrp'' (Some ''sys_getpgrp''),
    row 112 Common ''setsid'' (Some ''sys_setsid''),
    row 113 Common ''setreuid'' (Some ''sys_setreuid''),
    row 114 Common ''setregid'' (Some ''sys_setregid''),
    row 115 Common ''getgroups'' (Some ''sys_getgroups''),
    row 116 Common ''setgroups'' (Some ''sys_setgroups''),
    row 117 Common ''setresuid'' (Some ''sys_setresuid''),
    row 118 Common ''getresuid'' (Some ''sys_getresuid''),
    row 119 Common ''setresgid'' (Some ''sys_setresgid''),
    row 120 Common ''getresgid'' (Some ''sys_getresgid''),
    row 121 Common ''getpgid'' (Some ''sys_getpgid''),
    row 122 Common ''setfsuid'' (Some ''sys_setfsuid''),
    row 123 Common ''setfsgid'' (Some ''sys_setfsgid''),
    row 124 Common ''getsid'' (Some ''sys_getsid''),
    row 125 Common ''capget'' (Some ''sys_capget''),
    row 126 Common ''capset'' (Some ''sys_capset''),
    row 127 B64 ''rt_sigpending'' (Some ''sys_rt_sigpending''),
    row 128 B64 ''rt_sigtimedwait'' (Some ''sys_rt_sigtimedwait''),
    row 129 B64 ''rt_sigqueueinfo'' (Some ''sys_rt_sigqueueinfo''),
    row 130 Common ''rt_sigsuspend'' (Some ''sys_rt_sigsuspend''),
    row 131 B64 ''sigaltstack'' (Some ''sys_sigaltstack''),
    row 132 Common ''utime'' (Some ''sys_utime''),
    row 133 Common ''mknod'' (Some ''sys_mknod'')]"

definition rows_5 :: "syscall_entry list" where
  "rows_5 = [
    row 134 B64 ''uselib'' None,
    row 135 Common ''personality'' (Some ''sys_personality''),
    row 136 Common ''ustat'' (Some ''sys_ustat''),
    row 137 Common ''statfs'' (Some ''sys_statfs''),
    row 138 Common ''fstatfs'' (Some ''sys_fstatfs''),
    row 139 Common ''sysfs'' (Some ''sys_sysfs''),
    row 140 Common ''getpriority'' (Some ''sys_getpriority''),
    row 141 Common ''setpriority'' (Some ''sys_setpriority''),
    row 142 Common ''sched_setparam'' (Some ''sys_sched_setparam''),
    row 143 Common ''sched_getparam'' (Some ''sys_sched_getparam''),
    row 144 Common ''sched_setscheduler'' (Some ''sys_sched_setscheduler''),
    row 145 Common ''sched_getscheduler'' (Some ''sys_sched_getscheduler''),
    row 146 Common ''sched_get_priority_max'' (Some ''sys_sched_get_priority_max''),
    row 147 Common ''sched_get_priority_min'' (Some ''sys_sched_get_priority_min''),
    row 148 Common ''sched_rr_get_interval'' (Some ''sys_sched_rr_get_interval''),
    row 149 Common ''mlock'' (Some ''sys_mlock''),
    row 150 Common ''munlock'' (Some ''sys_munlock''),
    row 151 Common ''mlockall'' (Some ''sys_mlockall''),
    row 152 Common ''munlockall'' (Some ''sys_munlockall''),
    row 153 Common ''vhangup'' (Some ''sys_vhangup''),
    row 154 Common ''modify_ldt'' (Some ''sys_modify_ldt''),
    row 155 Common ''pivot_root'' (Some ''sys_pivot_root''),
    row 156 B64 ''_sysctl'' (Some ''sys_ni_syscall''),
    row 157 Common ''prctl'' (Some ''sys_prctl''),
    row 158 Common ''arch_prctl'' (Some ''sys_arch_prctl''),
    row 159 Common ''adjtimex'' (Some ''sys_adjtimex''),
    row 160 Common ''setrlimit'' (Some ''sys_setrlimit''),
    row 161 Common ''chroot'' (Some ''sys_chroot''),
    row 162 Common ''sync'' (Some ''sys_sync''),
    row 163 Common ''acct'' (Some ''sys_acct''),
    row 164 Common ''settimeofday'' (Some ''sys_settimeofday''),
    row 165 Common ''mount'' (Some ''sys_mount''),
    row 166 Common ''umount2'' (Some ''sys_umount''),
    row 167 Common ''swapon'' (Some ''sys_swapon''),
    row 168 Common ''swapoff'' (Some ''sys_swapoff''),
    row 169 Common ''reboot'' (Some ''sys_reboot'')]"

definition rows_6 :: "syscall_entry list" where
  "rows_6 = [
    row 170 Common ''sethostname'' (Some ''sys_sethostname''),
    row 171 Common ''setdomainname'' (Some ''sys_setdomainname''),
    row 172 Common ''iopl'' (Some ''sys_iopl''),
    row 173 Common ''ioperm'' (Some ''sys_ioperm''),
    row 174 B64 ''create_module'' None,
    row 175 Common ''init_module'' (Some ''sys_init_module''),
    row 176 Common ''delete_module'' (Some ''sys_delete_module''),
    row 177 B64 ''get_kernel_syms'' None,
    row 178 B64 ''query_module'' None,
    row 179 Common ''quotactl'' (Some ''sys_quotactl''),
    row 180 B64 ''nfsservctl'' None,
    row 181 Common ''getpmsg'' None,
    row 182 Common ''putpmsg'' None,
    row 183 Common ''afs_syscall'' None,
    row 184 Common ''tuxcall'' None,
    row 185 Common ''security'' None,
    row 186 Common ''gettid'' (Some ''sys_gettid''),
    row 187 Common ''readahead'' (Some ''sys_readahead''),
    row 188 Common ''setxattr'' (Some ''sys_setxattr''),
    row 189 Common ''lsetxattr'' (Some ''sys_lsetxattr''),
    row 190 Common ''fsetxattr'' (Some ''sys_fsetxattr''),
    row 191 Common ''getxattr'' (Some ''sys_getxattr''),
    row 192 Common ''lgetxattr'' (Some ''sys_lgetxattr''),
    row 193 Common ''fgetxattr'' (Some ''sys_fgetxattr''),
    row 194 Common ''listxattr'' (Some ''sys_listxattr''),
    row 195 Common ''llistxattr'' (Some ''sys_llistxattr''),
    row 196 Common ''flistxattr'' (Some ''sys_flistxattr''),
    row 197 Common ''removexattr'' (Some ''sys_removexattr''),
    row 198 Common ''lremovexattr'' (Some ''sys_lremovexattr''),
    row 199 Common ''fremovexattr'' (Some ''sys_fremovexattr''),
    row 200 Common ''tkill'' (Some ''sys_tkill''),
    row 201 Common ''time'' (Some ''sys_time''),
    row 202 Common ''futex'' (Some ''sys_futex''),
    row 203 Common ''sched_setaffinity'' (Some ''sys_sched_setaffinity''),
    row 204 Common ''sched_getaffinity'' (Some ''sys_sched_getaffinity''),
    row 205 B64 ''set_thread_area'' None]"

definition rows_7 :: "syscall_entry list" where
  "rows_7 = [
    row 206 B64 ''io_setup'' (Some ''sys_io_setup''),
    row 207 Common ''io_destroy'' (Some ''sys_io_destroy''),
    row 208 Common ''io_getevents'' (Some ''sys_io_getevents''),
    row 209 B64 ''io_submit'' (Some ''sys_io_submit''),
    row 210 Common ''io_cancel'' (Some ''sys_io_cancel''),
    row 211 B64 ''get_thread_area'' None,
    row 212 Common ''lookup_dcookie'' None,
    row 213 Common ''epoll_create'' (Some ''sys_epoll_create''),
    row 214 B64 ''epoll_ctl_old'' None,
    row 215 B64 ''epoll_wait_old'' None,
    row 216 Common ''remap_file_pages'' (Some ''sys_remap_file_pages''),
    row 217 Common ''getdents64'' (Some ''sys_getdents64''),
    row 218 Common ''set_tid_address'' (Some ''sys_set_tid_address''),
    row 219 Common ''restart_syscall'' (Some ''sys_restart_syscall''),
    row 220 Common ''semtimedop'' (Some ''sys_semtimedop''),
    row 221 Common ''fadvise64'' (Some ''sys_fadvise64''),
    row 222 B64 ''timer_create'' (Some ''sys_timer_create''),
    row 223 Common ''timer_settime'' (Some ''sys_timer_settime''),
    row 224 Common ''timer_gettime'' (Some ''sys_timer_gettime''),
    row 225 Common ''timer_getoverrun'' (Some ''sys_timer_getoverrun''),
    row 226 Common ''timer_delete'' (Some ''sys_timer_delete''),
    row 227 Common ''clock_settime'' (Some ''sys_clock_settime''),
    row 228 Common ''clock_gettime'' (Some ''sys_clock_gettime''),
    row 229 Common ''clock_getres'' (Some ''sys_clock_getres''),
    row 230 Common ''clock_nanosleep'' (Some ''sys_clock_nanosleep''),
    row 231 Common ''exit_group'' (Some ''sys_exit_group''),
    row 232 Common ''epoll_wait'' (Some ''sys_epoll_wait''),
    row 233 Common ''epoll_ctl'' (Some ''sys_epoll_ctl''),
    row 234 Common ''tgkill'' (Some ''sys_tgkill''),
    row 235 Common ''utimes'' (Some ''sys_utimes''),
    row 236 B64 ''vserver'' None,
    row 237 Common ''mbind'' (Some ''sys_mbind''),
    row 238 Common ''set_mempolicy'' (Some ''sys_set_mempolicy''),
    row 239 Common ''get_mempolicy'' (Some ''sys_get_mempolicy''),
    row 240 Common ''mq_open'' (Some ''sys_mq_open''),
    row 241 Common ''mq_unlink'' (Some ''sys_mq_unlink'')]"

definition rows_8 :: "syscall_entry list" where
  "rows_8 = [
    row 242 Common ''mq_timedsend'' (Some ''sys_mq_timedsend''),
    row 243 Common ''mq_timedreceive'' (Some ''sys_mq_timedreceive''),
    row 244 B64 ''mq_notify'' (Some ''sys_mq_notify''),
    row 245 Common ''mq_getsetattr'' (Some ''sys_mq_getsetattr''),
    row 246 B64 ''kexec_load'' (Some ''sys_kexec_load''),
    row 247 B64 ''waitid'' (Some ''sys_waitid''),
    row 248 Common ''add_key'' (Some ''sys_add_key''),
    row 249 Common ''request_key'' (Some ''sys_request_key''),
    row 250 Common ''keyctl'' (Some ''sys_keyctl''),
    row 251 Common ''ioprio_set'' (Some ''sys_ioprio_set''),
    row 252 Common ''ioprio_get'' (Some ''sys_ioprio_get''),
    row 253 Common ''inotify_init'' (Some ''sys_inotify_init''),
    row 254 Common ''inotify_add_watch'' (Some ''sys_inotify_add_watch''),
    row 255 Common ''inotify_rm_watch'' (Some ''sys_inotify_rm_watch''),
    row 256 Common ''migrate_pages'' (Some ''sys_migrate_pages''),
    row 257 Common ''openat'' (Some ''sys_openat''),
    row 258 Common ''mkdirat'' (Some ''sys_mkdirat''),
    row 259 Common ''mknodat'' (Some ''sys_mknodat''),
    row 260 Common ''fchownat'' (Some ''sys_fchownat''),
    row 261 Common ''futimesat'' (Some ''sys_futimesat''),
    row 262 Common ''newfstatat'' (Some ''sys_newfstatat''),
    row 263 Common ''unlinkat'' (Some ''sys_unlinkat''),
    row 264 Common ''renameat'' (Some ''sys_renameat''),
    row 265 Common ''linkat'' (Some ''sys_linkat''),
    row 266 Common ''symlinkat'' (Some ''sys_symlinkat''),
    row 267 Common ''readlinkat'' (Some ''sys_readlinkat''),
    row 268 Common ''fchmodat'' (Some ''sys_fchmodat''),
    row 269 Common ''faccessat'' (Some ''sys_faccessat''),
    row 270 Common ''pselect6'' (Some ''sys_pselect6''),
    row 271 Common ''ppoll'' (Some ''sys_ppoll''),
    row 272 Common ''unshare'' (Some ''sys_unshare''),
    row 273 B64 ''set_robust_list'' (Some ''sys_set_robust_list''),
    row 274 B64 ''get_robust_list'' (Some ''sys_get_robust_list''),
    row 275 Common ''splice'' (Some ''sys_splice''),
    row 276 Common ''tee'' (Some ''sys_tee''),
    row 277 Common ''sync_file_range'' (Some ''sys_sync_file_range'')]"

definition rows_9 :: "syscall_entry list" where
  "rows_9 = [
    row 278 B64 ''vmsplice'' (Some ''sys_vmsplice''),
    row 279 B64 ''move_pages'' (Some ''sys_move_pages''),
    row 280 Common ''utimensat'' (Some ''sys_utimensat''),
    row 281 Common ''epoll_pwait'' (Some ''sys_epoll_pwait''),
    row 282 Common ''signalfd'' (Some ''sys_signalfd''),
    row 283 Common ''timerfd_create'' (Some ''sys_timerfd_create''),
    row 284 Common ''eventfd'' (Some ''sys_eventfd''),
    row 285 Common ''fallocate'' (Some ''sys_fallocate''),
    row 286 Common ''timerfd_settime'' (Some ''sys_timerfd_settime''),
    row 287 Common ''timerfd_gettime'' (Some ''sys_timerfd_gettime''),
    row 288 Common ''accept4'' (Some ''sys_accept4''),
    row 289 Common ''signalfd4'' (Some ''sys_signalfd4''),
    row 290 Common ''eventfd2'' (Some ''sys_eventfd2''),
    row 291 Common ''epoll_create1'' (Some ''sys_epoll_create1''),
    row 292 Common ''dup3'' (Some ''sys_dup3''),
    row 293 Common ''pipe2'' (Some ''sys_pipe2''),
    row 294 Common ''inotify_init1'' (Some ''sys_inotify_init1''),
    row 295 B64 ''preadv'' (Some ''sys_preadv''),
    row 296 B64 ''pwritev'' (Some ''sys_pwritev''),
    row 297 B64 ''rt_tgsigqueueinfo'' (Some ''sys_rt_tgsigqueueinfo''),
    row 298 Common ''perf_event_open'' (Some ''sys_perf_event_open''),
    row 299 B64 ''recvmmsg'' (Some ''sys_recvmmsg''),
    row 300 Common ''fanotify_init'' (Some ''sys_fanotify_init''),
    row 301 Common ''fanotify_mark'' (Some ''sys_fanotify_mark''),
    row 302 Common ''prlimit64'' (Some ''sys_prlimit64''),
    row 303 Common ''name_to_handle_at'' (Some ''sys_name_to_handle_at''),
    row 304 Common ''open_by_handle_at'' (Some ''sys_open_by_handle_at''),
    row 305 Common ''clock_adjtime'' (Some ''sys_clock_adjtime''),
    row 306 Common ''syncfs'' (Some ''sys_syncfs''),
    row 307 B64 ''sendmmsg'' (Some ''sys_sendmmsg''),
    row 308 Common ''setns'' (Some ''sys_setns''),
    row 309 Common ''getcpu'' (Some ''sys_getcpu''),
    row 310 B64 ''process_vm_readv'' (Some ''sys_process_vm_readv''),
    row 311 B64 ''process_vm_writev'' (Some ''sys_process_vm_writev''),
    row 312 Common ''kcmp'' (Some ''sys_kcmp''),
    row 313 Common ''finit_module'' (Some ''sys_finit_module'')]"

definition rows_10 :: "syscall_entry list" where
  "rows_10 = [
    row 314 Common ''sched_setattr'' (Some ''sys_sched_setattr''),
    row 315 Common ''sched_getattr'' (Some ''sys_sched_getattr''),
    row 316 Common ''renameat2'' (Some ''sys_renameat2''),
    row 317 Common ''seccomp'' (Some ''sys_seccomp''),
    row 318 Common ''getrandom'' (Some ''sys_getrandom''),
    row 319 Common ''memfd_create'' (Some ''sys_memfd_create''),
    row 320 Common ''kexec_file_load'' (Some ''sys_kexec_file_load''),
    row 321 Common ''bpf'' (Some ''sys_bpf''),
    row 322 B64 ''execveat'' (Some ''sys_execveat''),
    row 323 Common ''userfaultfd'' (Some ''sys_userfaultfd''),
    row 324 Common ''membarrier'' (Some ''sys_membarrier''),
    row 325 Common ''mlock2'' (Some ''sys_mlock2''),
    row 326 Common ''copy_file_range'' (Some ''sys_copy_file_range''),
    row 327 B64 ''preadv2'' (Some ''sys_preadv2''),
    row 328 B64 ''pwritev2'' (Some ''sys_pwritev2''),
    row 329 Common ''pkey_mprotect'' (Some ''sys_pkey_mprotect''),
    row 330 Common ''pkey_alloc'' (Some ''sys_pkey_alloc''),
    row 331 Common ''pkey_free'' (Some ''sys_pkey_free''),
    row 332 Common ''statx'' (Some ''sys_statx''),
    row 333 Common ''io_pgetevents'' (Some ''sys_io_pgetevents''),
    row 334 Common ''rseq'' (Some ''sys_rseq''),
    row 424 Common ''pidfd_send_signal'' (Some ''sys_pidfd_send_signal''),
    row 425 Common ''io_uring_setup'' (Some ''sys_io_uring_setup''),
    row 426 Common ''io_uring_enter'' (Some ''sys_io_uring_enter''),
    row 427 Common ''io_uring_register'' (Some ''sys_io_uring_register''),
    row 428 Common ''open_tree'' (Some ''sys_open_tree''),
    row 429 Common ''move_mount'' (Some ''sys_move_mount''),
    row 430 Common ''fsopen'' (Some ''sys_fsopen''),
    row 431 Common ''fsconfig'' (Some ''sys_fsconfig''),
    row 432 Common ''fsmount'' (Some ''sys_fsmount''),
    row 433 Common ''fspick'' (Some ''sys_fspick''),
    row 434 Common ''pidfd_open'' (Some ''sys_pidfd_open''),
    row 435 Common ''clone3'' (Some ''sys_clone3''),
    row 436 Common ''close_range'' (Some ''sys_close_range'')]"

definition rows_11 :: "syscall_entry list" where
  "rows_11 = [
    row 437 Common ''openat2'' (Some ''sys_openat2''),
    row 438 Common ''pidfd_getfd'' (Some ''sys_pidfd_getfd''),
    row 439 Common ''faccessat2'' (Some ''sys_faccessat2''),
    row 440 Common ''process_madvise'' (Some ''sys_process_madvise''),
    row 441 Common ''epoll_pwait2'' (Some ''sys_epoll_pwait2''),
    row 442 Common ''mount_setattr'' (Some ''sys_mount_setattr''),
    row 443 Common ''quotactl_fd'' (Some ''sys_quotactl_fd''),
    row 444 Common ''landlock_create_ruleset'' (Some ''sys_landlock_create_ruleset''),
    row 445 Common ''landlock_add_rule'' (Some ''sys_landlock_add_rule''),
    row 446 Common ''landlock_restrict_self'' (Some ''sys_landlock_restrict_self''),
    row 447 Common ''memfd_secret'' (Some ''sys_memfd_secret''),
    row 448 Common ''process_mrelease'' (Some ''sys_process_mrelease''),
    row 449 Common ''futex_waitv'' (Some ''sys_futex_waitv''),
    row 450 Common ''set_mempolicy_home_node'' (Some ''sys_set_mempolicy_home_node''),
    row 451 Common ''cachestat'' (Some ''sys_cachestat''),
    row 452 Common ''fchmodat2'' (Some ''sys_fchmodat2''),
    row 453 B64 ''map_shadow_stack'' (Some ''sys_map_shadow_stack''),
    row 454 Common ''futex_wake'' (Some ''sys_futex_wake''),
    row 455 Common ''futex_wait'' (Some ''sys_futex_wait''),
    row 456 Common ''futex_requeue'' (Some ''sys_futex_requeue''),
    row 457 Common ''statmount'' (Some ''sys_statmount''),
    row 458 Common ''listmount'' (Some ''sys_listmount''),
    row 459 Common ''lsm_get_self_attr'' (Some ''sys_lsm_get_self_attr''),
    row 460 Common ''lsm_set_self_attr'' (Some ''sys_lsm_set_self_attr''),
    row 461 Common ''lsm_list_modules'' (Some ''sys_lsm_list_modules''),
    row 512 X32 ''rt_sigaction'' (Some ''compat_sys_rt_sigaction''),
    row 513 X32 ''rt_sigreturn'' (Some ''compat_sys_x32_rt_sigreturn''),
    row 514 X32 ''ioctl'' (Some ''compat_sys_ioctl''),
    row 515 X32 ''readv'' (Some ''sys_readv'')]"

definition rows_12 :: "syscall_entry list" where
  "rows_12 = [
    row 516 X32 ''writev'' (Some ''sys_writev''),
    row 517 X32 ''recvfrom'' (Some ''compat_sys_recvfrom''),
    row 518 X32 ''sendmsg'' (Some ''compat_sys_sendmsg''),
    row 519 X32 ''recvmsg'' (Some ''compat_sys_recvmsg''),
    row 520 X32 ''execve'' (Some ''compat_sys_execve''),
    row 521 X32 ''ptrace'' (Some ''compat_sys_ptrace''),
    row 522 X32 ''rt_sigpending'' (Some ''compat_sys_rt_sigpending''),
    row 523 X32 ''rt_sigtimedwait'' (Some ''compat_sys_rt_sigtimedwait_time64''),
    row 524 X32 ''rt_sigqueueinfo'' (Some ''compat_sys_rt_sigqueueinfo''),
    row 525 X32 ''sigaltstack'' (Some ''compat_sys_sigaltstack''),
    row 526 X32 ''timer_create'' (Some ''compat_sys_timer_create''),
    row 527 X32 ''mq_notify'' (Some ''compat_sys_mq_notify''),
    row 528 X32 ''kexec_load'' (Some ''compat_sys_kexec_load''),
    row 529 X32 ''waitid'' (Some ''compat_sys_waitid''),
    row 530 X32 ''set_robust_list'' (Some ''compat_sys_set_robust_list''),
    row 531 X32 ''get_robust_list'' (Some ''compat_sys_get_robust_list''),
    row 532 X32 ''vmsplice'' (Some ''sys_vmsplice''),
    row 533 X32 ''move_pages'' (Some ''sys_move_pages''),
    row 534 X32 ''preadv'' (Some ''compat_sys_preadv64''),
    row 535 X32 ''pwritev'' (Some ''compat_sys_pwritev64''),
    row 536 X32 ''rt_tgsigqueueinfo'' (Some ''compat_sys_rt_tgsigqueueinfo''),
    row 537 X32 ''recvmmsg'' (Some ''compat_sys_recvmmsg_time64''),
    row 538 X32 ''sendmmsg'' (Some ''compat_sys_sendmmsg''),
    row 539 X32 ''process_vm_readv'' (Some ''sys_process_vm_readv''),
    row 540 X32 ''process_vm_writev'' (Some ''sys_process_vm_writev''),
    row 541 X32 ''setsockopt'' (Some ''sys_setsockopt''),
    row 542 X32 ''getsockopt'' (Some ''sys_getsockopt''),
    row 543 X32 ''io_setup'' (Some ''compat_sys_io_setup''),
    row 544 X32 ''io_submit'' (Some ''compat_sys_io_submit''),
    row 545 X32 ''execveat'' (Some ''compat_sys_execveat''),
    row 546 X32 ''preadv2'' (Some ''compat_sys_preadv64v2''),
    row 547 X32 ''pwritev2'' (Some ''compat_sys_pwritev64v2'')]"

lemma parse_block_1: "List.map_filter parse_line tbl_block_1 = rows_1"
  by (simp add: exec tbl_block_1_def rows_1_def row_def)

lemma parse_block_2: "List.map_filter parse_line tbl_block_2 = rows_2"
  by (simp add: exec tbl_block_2_def rows_2_def row_def)

lemma parse_block_3: "List.map_filter parse_line tbl_block_3 = rows_3"
  by (simp add: exec tbl_block_3_def rows_3_def row_def)

lemma parse_block_4: "List.map_filter parse_line tbl_block_4 = rows_4"
  by (simp add: exec tbl_block_4_def rows_4_def row_def)

lemma parse_block_5: "List.map_filter parse_line tbl_block_5 = rows_5"
  by (simp add: exec tbl_block_5_def rows_5_def row_def)

lemma parse_block_6: "List.map_filter parse_line tbl_block_6 = rows_6"
  by (simp add: exec tbl_block_6_def rows_6_def row_def)

lemma parse_block_7: "List.map_filter parse_line tbl_block_7 = rows_7"
  by (simp add: exec tbl_block_7_def rows_7_def row_def)

lemma parse_block_8: "List.map_filter parse_line tbl_block_8 = rows_8"
  by (simp add: exec tbl_block_8_def rows_8_def row_def)

lemma parse_block_9: "List.map_filter parse_line tbl_block_9 = rows_9"
  by (simp add: exec tbl_block_9_def rows_9_def row_def)

lemma parse_block_10: "List.map_filter parse_line tbl_block_10 = rows_10"
  by (simp add: exec tbl_block_10_def rows_10_def row_def)

lemma parse_block_11: "List.map_filter parse_line tbl_block_11 = rows_11"
  by (simp add: exec tbl_block_11_def rows_11_def row_def)

lemma parse_block_12: "List.map_filter parse_line tbl_block_12 = rows_12"
  by (simp add: exec tbl_block_12_def rows_12_def row_def)

lemma lines_block_1:
  "\<forall>l \<in> set tbl_block_1. CHR 0x0A \<notin> set l \<and> CHR 0x0D \<notin> set l"
  by (simp add: tbl_block_1_def)

lemma lines_block_2:
  "\<forall>l \<in> set tbl_block_2. CHR 0x0A \<notin> set l \<and> CHR 0x0D \<notin> set l"
  by (simp add: tbl_block_2_def)

lemma lines_block_3:
  "\<forall>l \<in> set tbl_block_3. CHR 0x0A \<notin> set l \<and> CHR 0x0D \<notin> set l"
  by (simp add: tbl_block_3_def)

lemma lines_block_4:
  "\<forall>l \<in> set tbl_block_4. CHR 0x0A \<notin> set l \<and> CHR 0x0D \<notin> set l"
  by (simp add: tbl_block_4_def)

lemma lines_block_5:
  "\<forall>l \<in> set tbl_block_5. CHR 0x0A \<notin> set l \<and> CHR 0x0D \<notin> set l"
  by (simp add: tbl_block_5_def)

lemma lines_block_6:
  "\<forall>l \<in> set tbl_block_6. CHR 0x0A \<notin> set l \<and> CHR 0x0D \<notin> set l"
  by (simp add: tbl_block_6_def)

lemma lines_block_7:
  "\<forall>l \<in> set tbl_block_7. CHR 0x0A \<notin> set l \<and> CHR 0x0D \<notin> set l"
  by (simp add: tbl_block_7_def)

lemma lines_block_8:
  "\<forall>l \<in> set tbl_block_8. CHR 0x0A \<notin> set l \<and> CHR 0x0D \<notin> set l"
  by (simp add: tbl_block_8_def)

lemma lines_block_9:
  "\<forall>l \<in> set tbl_block_9. CHR 0x0A \<notin> set l \<and> CHR 0x0D \<notin> set l"
  by (simp add: tbl_block_9_def)

lemma lines_block_10:
  "\<forall>l \<in> set tbl_block_10. CHR 0x0A \<notin> set l \<and> CHR 0x0D \<notin> set l"
  by (simp add: tbl_block_10_def)

lemma lines_block_11:
  "\<forall>l \<in> set tbl_block_11. CHR 0x0A \<notin> set l \<and> CHR 0x0D \<notin> set l"
  by (simp add: tbl_block_11_def)

lemma lines_block_12:
  "\<forall>l \<in> set tbl_block_12. CHR 0x0A \<notin> set l \<and> CHR 0x0D \<notin> set l"
  by (simp add: tbl_block_12_def)

lemmas lines_blocks = lines_block_1 lines_block_2 lines_block_3 lines_block_4 lines_block_5 lines_block_6 lines_block_7 lines_block_8 lines_block_9 lines_block_10 lines_block_11 lines_block_12

lemmas parse_blocks = parse_block_1 parse_block_2 parse_block_3 parse_block_4 parse_block_5 parse_block_6 parse_block_7 parse_block_8 parse_block_9 parse_block_10 parse_block_11 parse_block_12

lemmas rows_defs = rows_1_def rows_2_def rows_3_def rows_4_def rows_5_def rows_6_def rows_7_def rows_8_def rows_9_def rows_10_def rows_11_def rows_12_def

definition SYSCALL_ROWS :: "syscall_entry list" where
  "SYSCALL_ROWS = rows_1 @ rows_2 @ rows_3 @ rows_4 @ rows_5 @ rows_6 @ rows_7 @ rows_8 @ rows_9 @ rows_10 @ rows_11 @ rows_12"

lemma map_filter_append:
  "List.map_filter f (xs @ ys) = List.map_filter f xs @ List.map_filter f ys"
  by (induction xs) (auto split: option.split)

lemma str_lines_tbl: "str_lines SYSCALL_64_TBL = SYSCALL_64_LINES"
  unfolding SYSCALL_64_TBL_def
  by (rule str_lines_concat) (use lines_blocks in \<open>auto simp: SYSCALL_64_LINES_def\<close>)

lemma parse_lines_tbl: "List.map_filter parse_line SYSCALL_64_LINES = SYSCALL_ROWS"
  by (simp only: SYSCALL_64_LINES_def map_filter_append parse_blocks SYSCALL_ROWS_def)

subsection \<open>The rows kept: numbers ascend, names differ\<close>

definition kept :: "syscall_entry list \<Rightarrow> syscall_entry list" where
  "kept es = filter (\<lambda>e. ent_abi e \<noteq> X32) es"

lemma numbers_block_1: "map ent_number (kept rows_1) = [
    0, 1, 2, 3, 4, 5, 6, 7, 8, 9, 10, 11, 12, 13, 14, 15, 16, 17, 18, 19, 20, 21, 22, 23, 24, 25]"
  by (simp add: rows_1_def row_def kept_def)

lemma codes_block_1: "map str_code (map ent_name (kept rows_1)) = [
    1919246692, 513020621925, 1869636974, 427021005669, 1937006964, 440023671156, 465793474932,
    1886350444, 465792492907, 1835884912, 7885928770545476468, 120351131263344, 6451819,
    35421977268495222288151048046, 2321414702268103972956778942002027,
    35421977268495240988439442030, 452840354924, 31650977142814260, 8104071851726419508,
    491327153270, 131333279212918, 107079497249651, 1885958245, 126879447475060,
    139495909304939586326457444, 120338095366512]"
  by (simp add: rows_1_def row_def kept_def str_code_def)

lemma numbers_block_2: "map ent_number (kept rows_2) = [
    26, 27, 28, 29, 30, 31, 32, 33, 34, 35, 36, 37, 38, 39, 40, 41, 42, 43, 44, 45, 46, 47, 48,
    49, 50, 51, 52, 53, 54, 55, 56, 57, 58, 59, 60, 61]"
  by (simp add: rows_2_def row_def kept_def)

lemma codes_block_2: "map str_code (map ent_name (kept rows_2)) = [
    470088773219, 30796695297028709, 30787856572707685, 126892349285748, 495673237876,
    126892349027436, 6583664, 1685418034, 482671424357, 2036162519518698366320,
    1907325223635918873970, 418430153325, 2128686152520433493362, 113685442881892,
    8315173664503458917, 126922246546804, 27988542783578996, 107079497248884, 126879480968303,
    8243104053147627373, 32481147127427943, 32199625208066919, 8316025854701303662, 1651076708,
    119200164373870, 124998466575365539310431589, 124998466356380236517567845,
    545126898053373998754162, 544943657854457380565108, 488275260060021638000756, 427021004389,
    1718579819, 508524720747, 111567771498085, 1702390132, 512735409204]"
  by (simp add: rows_2_def row_def kept_def str_code_def)

lemma numbers_block_3: "map ent_number (kept rows_3) = [
    62, 63, 64, 65, 66, 67, 68, 69, 70, 71, 72, 73, 74, 75, 76, 77, 78, 79, 80, 81, 82, 83, 84,
    85, 86, 87, 88, 89, 90, 91, 92, 93, 94, 95, 96, 97]"
  by (simp add: rows_3_def row_def kept_def)

lemma codes_block_3: "map str_code (map ent_name (kept rows_3)) = [
    1802071148, 504363052389, 126879464383860, 495622909808, 126879464125548, 495673238644,
    120342423496052, 120342424284772, 120342424216438, 120342423237740, 439754847340,
    439905903467, 440024002147, 1888801085956805979747, 8390898172718838885,
    1889958793691093103717, 7450489133101642867, 113685442033508, 426953173362,
    112577139206514, 125779969142117, 469953177970, 491461568882, 427121009012, 1818848875,
    129117125701227, 32503133198970475, 8243101776915033707, 426953764708, 112577139797860,
    426953897838, 112577139930990, 119174209697646, 504346276715,
    31999607461310784730028073337, 1907325233497163786612]"
  by (simp add: rows_3_def row_def kept_def str_code_def)

lemma numbers_block_4: "map ent_number (kept rows_4) = [
    98, 99, 100, 101, 102, 103, 104, 105, 106, 107, 108, 109, 110, 111, 112, 113, 114, 115,
    116, 117, 118, 119, 120, 121, 122, 123, 124, 125, 126, 127, 128, 129, 130, 131, 132, 133]"
  by (simp add: rows_4_def row_def kept_def)

lemma codes_block_4: "map str_code (map ent_name (kept rows_4)) = [
    1907325233535985477477, 32503158918768239, 499984983411, 123645437502309, 113685443209572,
    126965464723303, 113685442292068, 126879582742884, 126879581825380, 29103473194002788,
    29103473193085284, 32481173098162532, 29103473378224484, 29103473377636976,
    126879582611812, 8315180321686776164, 8315180321685858660, 1907325221428406874227,
    2128686150312921493619, 2128686162351781931364, 1907325233467267311972,
    2128686162351781013860, 1907325233467266394468, 29103473377634660, 8315180270382049636,
    8315180270381132132, 113685443078500, 109270148801908, 109270149588340,
    9068026180734781130064488132199, 594282163780634690214832568432421236,
    594282163780634635737057272192198255, 9068026180734781992103280209508,
    139524224771137218308825963, 504464239973, 469953834852]"
  by (simp add: rows_4_def row_def kept_def str_code_def)

lemma numbers_block_5: "map ent_number (kept rows_5) = [
    134, 135, 136, 137, 138, 139, 140, 141, 142, 143, 144, 145, 146, 147, 148, 149, 150, 151,
    152, 153, 154, 155, 156, 157, 158, 159, 160, 161, 162, 163, 164, 165, 166, 167, 168, 169]"
  by (simp add: rows_5_def row_def kept_def)

lemma codes_block_5: "map str_code (map ent_name (kept rows_5)) = [
    129138483292514, 135878762058421106108888185, 504448180596, 126943688418931,
    28837391312905843, 495958845043, 124998466360043796444050553, 139505576195419346540524665,
    2340353001525380873294668729835885, 2340353001525380008603540274700653,
    10051739602646948964744577447336006321464690, 10051739602646945250924459591195181624092018,
    43171892861276664887021487182820027378251303977050488,
    43171892861276664887021487182820027378251303977052526,
    168640206489362029592203124216821197268800645783916, 469970674539, 30809889587553131,
    7884799520412888172, 516904172546529796648044, 33328814925247856, 516792770651920913949812,
    530850488376911947853684, 26867088251647084, 482955457644, 460179640742902367482988,
    7017851167567603064, 2128686162381678406004, 109300247654260, 1937337955, 1633903476,
    35713427579166925554725446009, 470021402228, 33052897754117170, 126956573060974,
    32500882703607398, 125779768733556]"
  by (simp add: rows_5_def row_def kept_def str_code_def)

lemma numbers_block_6: "map ent_number (kept rows_6) = [
    170, 171, 172, 173, 174, 175, 176, 177, 178, 179, 180, 181, 182, 183, 184, 185, 186, 187,
    188, 189, 190, 191, 192, 193, 194, 195, 196, 197, 198, 199, 200, 201, 202, 203, 204, 205]"
  by (simp add: rows_6_def row_def kept_def)

lemma codes_block_6: "map str_code (map ent_name (kept rows_6)) = [
    139505575618125185830448485, 9142637384819548548075198967141, 1768910956, 115927347982957,
    7878991941756259665493827611749, 127458616666320820201942117,
    7954205280513049751076753206373, 536864319796817784739645207025905011,
    35113729501396327942967356517, 8175563244201800812, 521350200115658318115948,
    29103473378030439, 31654340354470759, 117749614137414802777140332, 32780257222290540,
    8315161643091326073, 113685443144036, 2110234054842986619236, 8315180347389408370,
    2000563540308020982898, 1889883075865763673202, 7450489218934273138,
    1999698849179565847666, 1889018384737308537970, 1999846905017315652722,
    512015427054938998731890, 483681228157721127449714, 138296521177660147591574642,
    33562677581882927569867928690, 31705767522954857157519242354, 500018277484, 1953066341,
    440057226616, 39264607822839644393532209459206845723769,
    39264607822839629886422374083656749249657, 599171882110130215108338391840875873]"
  by (simp add: rows_6_def row_def kept_def str_code_def)

lemma numbers_block_7: "map ent_number (kept rows_7) = [
    206, 207, 208, 209, 210, 211, 212, 213, 214, 215, 216, 217, 218, 219, 220, 221, 222, 223,
    224, 225, 226, 227, 228, 229, 230, 231, 232, 233, 234, 235, 236, 237, 238, 239, 240, 241]"
  by (simp add: rows_7_def row_def kept_def)

lemma codes_block_7: "map str_code (map ent_name (kept rows_7)) = [
    7597396045625324912, 497902943023972331188089, 32630567329359547917184955507,
    1944933387748500138356, 1944933370070615418220, 536864319807712283565972435890234721,
    2199329045979206402887402157468005, 31393911866489718521882309733,
    8036841437821367943830925438052, 2057431408082271629421364504390756,
    152058632004748641696186713802470286707, 488275255826949266945588,
    599171882110134678788058687084000115, 593979512499695749022099795769125996,
    544943153726219870302064, 1888585759833003996724, 36027714959644763457501361253,
    9223095029669063934491067247973, 9223095029669060556791346720101,
    154737857501284237478367297738659493230, 36027714959644764501296116837,
    7877147130233813285610086559077, 7877147130233809907910366031205,
    30770105977475819952774735219, 516236714327003094962097583550719344,
    479180222862048499823984, 479033079017482611681652, 1871222964912040146028,
    127987532524652, 129142845433203, 33340926801110386, 469802511972,
    9142637361170249570227814228857, 8191899410999077519105286824825, 30805427166930286,
    2018864481400540196459]"
  by (simp add: rows_7_def row_def kept_def str_code_def)

lemma numbers_block_8: "map ent_number (kept rows_8) = [
    242, 243, 244, 245, 246, 247, 248, 249, 250, 251, 252, 253, 254, 255, 256, 257, 258, 259,
    260, 261, 262, 263, 264, 265, 266, 267, 268, 269, 270, 271, 272, 273, 274, 275, 276, 277]"
  by (simp add: rows_8_def row_def kept_def)

lemma codes_block_8: "map str_code (map ent_name (kept rows_8)) = [
    33870925460378090382897278564, 568259832568662664021108826082735717,
    2018864473708387985017, 8670956856392748229333156656242, 507165010268015393988964,
    131260264769892, 27413455001314681, 138296595392212308002039161, 118083572429932,
    497904171948101164295540, 497904171948101163509108, 32629434201495643778551015796,
    35876442312296362064579378694036301046632, 140142352782407664315990705002167690088,
    8668490699592974773824090760563, 122528528753012, 30798851471466868, 30798894520885620,
    7377855442517385588, 1890031401036684681588, 521332037958187464548724, 8461819949955637620,
    8243116057697804660, 119200079896948, 2130125337327729074548, 540219918051903649046900,
    7377855433792577908, 1888585457450127417716, 8102931670801544246, 482922687596,
    33054014226657893, 599171882107745126044589688212779892,
    536864319805327194502223732262138740, 126926692377445, 7628133,
    599577056145771149756126077375113061]"
  by (simp add: rows_8_def row_def kept_def str_code_def)

lemma numbers_block_9: "map ent_number (kept rows_9) = [
    278, 279, 280, 281, 282, 283, 284, 285, 286, 287, 288, 289, 290, 291, 292, 293, 294, 295,
    296, 297, 298, 299, 300, 301, 302, 303, 304, 305, 306, 307, 308, 309, 310, 311, 312, 313]"
  by (simp add: rows_9_def row_def kept_def)

lemma codes_block_9: "map str_code (map ent_name (kept rows_9)) = [
    8533603795629335397, 516794066554978486936947, 2166657412687383978356,
    122632468228475518894303604, 8316291910694889060, 2361112327595408411866768397661285,
    28559150664672868, 1888588000663202526309, 604444755864424553442382080520056165,
    604444755864424553439004380799528293, 27412351295714356, 2128970729137891599412,
    7311142570156254258, 8036841437821367941601871291697, 1685418035, 482805310770,
    8353135155582884807309060043825, 123636629464182, 31656530670806390,
    38946875905655328849106456544804384695919, 583594835219194236922784437190550894,
    8243104053264741223, 8111426130577887317770235701620, 8111426130577887317770301960811,
    2074280417191919892020, 37560563493338028426983761983879029678452,
    37920742924357000141866111203824331874676, 7877147130233808217918044466533,
    126965380245107, 8315173664621163367, 495623368307, 113685442031733,
    149467716592235199656796680360443339894, 38263735447612211112139950177827022988662,
    1801678192, 31694929618443517830129609829]"
  by (simp add: rows_9_def row_def kept_def str_code_def)

lemma numbers_block_10: "map ent_number (kept rows_10) = [
    314, 315, 316, 317, 318, 319, 320, 321, 322, 323, 324, 325, 326, 327, 328, 329, 330, 331,
    332, 333, 334, 424, 425, 426, 427, 428, 429, 430, 431, 432, 433, 434, 435, 436]"
  by (simp add: rows_10_def row_def kept_def)

lemma codes_block_10: "map str_code (map ent_name (kept rows_10)) = [
    9142003912208519036307049313394, 9142003912208515658607328785522, 2110237710770637993010,
    32481099866140016, 1907325233450002444141, 33856484205054827216907629669,
    557633825990817248764119501031563620, 6451302, 7311705472898523508,
    141989264404976392211818084, 516608949753678018471282, 120312492682034,
    516297647578172635593665362627815269, 31650977142830642, 8104071851726435890,
    8906791772322941853377143071604, 530886159677629234179939, 2073774061240823473509,
    495873782904, 8353425278853159440368821761139, 1920165233,
    38251715341146513962610198533543711105388, 2138476877483057301287582116902256,
    2138476877483057301287522138350962, 35877688484538788684078771221067229062514,
    2055687593042910537061, 516794066554965837835892, 112645976909166, 7382353544435100007,
    28837361483083380, 112645993227115, 530849188789352238441838, 109317377123635,
    120195727625747623614244709]"
  by (simp add: rows_10_def row_def kept_def str_code_def)

lemma numbers_block_11: "map ent_number (kept rows_11) = [
    437, 438, 439, 440, 441, 442, 443, 444, 445, 446, 447, 448, 449, 450, 451, 452, 453, 454,
    455, 456, 457, 458, 459, 460, 461]"
  by (simp add: rows_11_def row_def kept_def)

lemma codes_block_11: "map str_code (map ent_name (kept rows_11)) = [
    31367303360771122, 135897392330074138497803876, 483477877107232618935346,
    583858267938418748656815585270264677, 31393911866489732836941722674,
    8670364516072890392755913913458, 137163190469634359818151524,
    10380798248000318032745369795731996628571274837706892660,
    36880003932539004668261839446353896631397,
    40549993156251242315412785180725347951584117067705446, 33856484205054844753226655092,
    149467716592235199656149575960285508453, 123865097613199435994068086,
    11052770365292074416055979581085991322002463268304544869, 1833245230726556967284,
    1888730991050899944498, 145391783528101720605631824667288363883, 483848037551560296852325,
    483848037551560296851828, 8117623037178636834364784473445, 2129761680471109234292,
    1999846904970305957492, 36903924742355011433658353204660511470706,
    36903924743305749383829525255783038874738, 144155956026376519828689371953653114227]"
  by (simp add: rows_11_def row_def kept_def str_code_def)

lemma numbers_block_12: "map ent_number (kept rows_12) = []"
  by (simp add: rows_12_def row_def kept_def)

lemma codes_block_12: "map str_code (map ent_name (kept rows_12)) = []"
  by (simp add: rows_12_def row_def kept_def str_code_def)

lemmas numbers_blocks = numbers_block_1 numbers_block_2 numbers_block_3 numbers_block_4 numbers_block_5 numbers_block_6 numbers_block_7 numbers_block_8 numbers_block_9 numbers_block_10 numbers_block_11 numbers_block_12

lemmas codes_blocks = codes_block_1 codes_block_2 codes_block_3 codes_block_4 codes_block_5 codes_block_6 codes_block_7 codes_block_8 codes_block_9 codes_block_10 codes_block_11 codes_block_12

lemma kept_append: "kept (xs @ ys) = kept xs @ kept ys"
  by (simp add: kept_def)

lemma rows_numbers_ascend: "ascending (map ent_number (kept SYSCALL_ROWS))"
  by (simp only: SYSCALL_ROWS_def kept_append map_append numbers_blocks) simp

lemma rows_name_codes: "distinct (map str_code (map ent_name (kept SYSCALL_ROWS)))"
  by (simp only: SYSCALL_ROWS_def kept_append map_append codes_blocks) simp

lemma rows_count: "length (kept SYSCALL_ROWS) = 373"
proof -
  have "length (map ent_number (kept SYSCALL_ROWS)) = 373"
    by (simp only: SYSCALL_ROWS_def kept_append map_append numbers_blocks) simp
  then show ?thesis by simp
qed

lemma parse_tbl_data: "parse_tbl SYSCALL_64_TBL = kept SYSCALL_ROWS"
proof -
  have "sorted (map ent_number (kept SYSCALL_ROWS))"
    using ascending_distinct [OF rows_numbers_ascend] by simp
  then show ?thesis
    by (simp add: parse_tbl_def str_lines_tbl parse_lines_tbl kept_def [symmetric] sort_key_id_if_sorted)
qed

subsection \<open>The table\<close>

lemma SYSCALLS_table_of: "table_of SYSCALL_64_TBL = Some SYSCALLS"
  using table_of_Some [of SYSCALL_64_TBL] by (auto simp: SYSCALLS_def)

lemma SYSCALLS_numbers: "map si_number SYSCALLS = map ent_number (kept SYSCALL_ROWS)"
  using table_of_map(1) [OF SYSCALLS_table_of] by (simp add: parse_tbl_data)

lemma SYSCALLS_names: "map si_name SYSCALLS = map ent_name (kept SYSCALL_ROWS)"
  using table_of_map(2) [OF SYSCALLS_table_of] by (simp add: parse_tbl_data)

lemma SYSCALLS_sorted: "table_sorted SYSCALLS"
  using table_of_sorted [OF SYSCALLS_table_of] ascending_distinct [OF rows_numbers_ascend]
  by (simp add: parse_tbl_data)

lemma SYSCALLS_distinct_names: "distinct (map si_name SYSCALLS)"
  unfolding SYSCALLS_names by (rule distinct_by_code [OF rows_name_codes])

lemma SYSCALLS_length: "length SYSCALLS = 373"
  using arg_cong [OF SYSCALLS_numbers, of length] rows_count by simp

lemma SYSCALLS_mem:
  assumes "e \<in> set (kept SYSCALL_ROWS)" "info_of e = Some i"
  shows "i \<in> set SYSCALLS"
  using assms SYSCALLS_table_of
  by (auto simp: table_of_def parse_tbl_data intro: those_mem)

subsection \<open>Properties\<close>

text \<open>
  C3. The table of the shipped \<^verbatim>\<open>syscall_64.tbl\<close> has 373 rows and both lookups are
  exact on it: by number and by name they return the row, and only that row.
\<close>

theorem SYSCALLS_lookups:
  "length SYSCALLS = 373 \<and>
   (syscall_by_number SYSCALLS n = Some s \<longleftrightarrow> s \<in> set SYSCALLS \<and> si_number s = n) \<and>
   (syscall_by_name SYSCALLS w = Some s \<longleftrightarrow> s \<in> set SYSCALLS \<and> si_name s = w)"
proof -
  have "syscall_by_name SYSCALLS w = Some s \<longleftrightarrow> s \<in> set SYSCALLS \<and> si_name s = w"
    using find_key_unique [OF SYSCALLS_distinct_names, of s]
    by (auto simp: syscall_by_name_def dest: find_SomeD)
  then show ?thesis by (simp add: SYSCALLS_length syscall_by_number_iff [OF SYSCALLS_sorted])
qed

end
