(* ===== verification/Gen_Build.thy ===== *)
theory Gen_Build
  imports Gen_Codegen Gen_Data
begin

section \<open>The build script (\<^verbatim>\<open>crates/syren-common/build.rs\<close>)\<close>

text \<open>
  Reading the kernel's table, generating the Rust source and writing it where the crate
  includes it from.  Files and environment are the operating system's, a record of functions
  over its state; an error is the text it is shown with.  A failed step panics with a message,
  the \<open>Inl\<close> of the result.
\<close>

record 'w build_os =
  bo_println :: "string \<Rightarrow> 'w \<Rightarrow> 'w"
  bo_read_to_string :: "string \<Rightarrow> 'w \<Rightarrow> (string + string) \<times> 'w"
  bo_env_var :: "string \<Rightarrow> 'w \<Rightarrow> string + string"
  bo_write :: "string \<Rightarrow> string \<Rightarrow> 'w \<Rightarrow> (string + unit) \<times> 'w"

text \<open>\<^verbatim>\<open>Path::join\<close> with a relative path: one separator in between.\<close>

definition path_join :: "string \<Rightarrow> string \<Rightarrow> string" where
  "path_join dir name =
     (if dir = [] \<or> last dir = CHR ''/'' then dir @ name else dir @ ''/'' @ name)"

definition TBL_PATH :: string where
  "TBL_PATH = ''data/syscall_64.tbl''"

definition rerun_if_changed :: "'w build_os \<Rightarrow> 'w \<Rightarrow> 'w" where
  "rerun_if_changed bo w =
     bo_println bo ''cargo:rerun-if-changed=build.rs''
       (bo_println bo (''cargo:rerun-if-changed='' @ TBL_PATH) w)"

definition build_main :: "'w build_os \<Rightarrow> 'w \<Rightarrow> (string + unit) \<times> 'w" where
  "build_main bo w =
     (case bo_read_to_string bo TBL_PATH (rerun_if_changed bo w) of
        (Inl e, w1) \<Rightarrow> (Inl (''failed to read '' @ TBL_PATH @ '': '' @ e), w1)
      | (Inr tbl, w1) \<Rightarrow>
          (let generated = generate tbl in
           case bo_env_var bo ''OUT_DIR'' w1 of
             Inl e \<Rightarrow> (Inl (''OUT_DIR not set: '' @ e), w1)
           | Inr out_dir \<Rightarrow>
               (let dest = path_join out_dir ''syscalls_generated.rs'' in
                case bo_write bo dest generated w1 of
                  (Inl e, w2) \<Rightarrow> (Inl (''failed to write '' @ dest @ '': '' @ e), w2)
                | (Inr _, w2) \<Rightarrow> (Inr (), w2))))"

declare path_join_def [exec] TBL_PATH_def [exec] rerun_if_changed_def [exec] build_main_def [exec]

text \<open>A step that fails ends the build: nothing is written before the input and the target are known.\<close>

lemma build_main_unreadable:
  "bo_read_to_string bo TBL_PATH (rerun_if_changed bo w) = (Inl e, w1) \<Longrightarrow>
   build_main bo w = (Inl (''failed to read data/syscall_64.tbl: '' @ e), w1)"
  by (simp add: build_main_def TBL_PATH_def)

lemma build_main_no_out_dir:
  "bo_read_to_string bo TBL_PATH (rerun_if_changed bo w) = (Inr tbl, w1) \<Longrightarrow> bo_env_var bo ''OUT_DIR'' w1 = Inl e \<Longrightarrow>
   build_main bo w = (Inl (''OUT_DIR not set: '' @ e), w1)"
  by (simp add: build_main_def)

text \<open>A disk: the files by path, and the lines printed.\<close>

type_synonym disk = "(string \<rightharpoonup> string) \<times> string list"

definition disk_os :: "disk build_os" where
  "disk_os =
     \<lparr>bo_println = (\<lambda>s (fs, out). (fs, out @ [s])),
      bo_read_to_string = (\<lambda>p (fs, out).
        ((case fs p of None \<Rightarrow> Inl ''No such file or directory (os error 2)'' | Some s \<Rightarrow> Inr s), (fs, out))),
      bo_env_var = (\<lambda>_ _. Inr ''target/out''),
      bo_write = (\<lambda>p s (fs, out). (Inr (), (fs(p \<mapsto> s), out)))\<rparr>"

declare disk_os_def [exec]

text \<open>Building again changes no file.\<close>

lemma build_twice:
  assumes "build_main disk_os (fs, out) = (Inr (), (fs', out'))"
  shows "fst (snd (build_main disk_os (fs', out'))) = fs'"
proof -
  let ?dest = "path_join ''target/out'' ''syscalls_generated.rs''"
  from assms obtain tbl where tbl: "fs TBL_PATH = Some tbl" and fs': "fs' = fs(?dest \<mapsto> generate tbl)"
    by (auto simp: build_main_def disk_os_def rerun_if_changed_def Let_def split: option.splits)
  have "fs' TBL_PATH = Some tbl" using tbl by (simp add: fs' path_join_def TBL_PATH_def)
  then show ?thesis by (simp add: build_main_def disk_os_def rerun_if_changed_def Let_def fs')
qed

subsection \<open>Properties\<close>

text \<open>
  C13. What the build script writes: for every input file the generated source is that of the
  table the rows of the input denote, every identifier in it resolving in the common crate;
  from the shipped input file it is the source of \<open>SYSCALLS\<close>.
\<close>

theorem build_writes_table:
  assumes "bo_read_to_string bo TBL_PATH (rerun_if_changed bo w) = (Inr tbl, w1)" "bo_env_var bo ''OUT_DIR'' w1 = Inr dir"
  shows "\<exists>T. table_of tbl = Some T \<and> (tbl = SYSCALL_64_TBL \<longrightarrow> T = SYSCALLS)
    \<and> (\<forall>w2. bo_write bo (path_join dir ''syscalls_generated.rs'') (table_source T) w1 = (Inr (), w2) \<longrightarrow> build_main bo w = (Inr (), w2))"
proof -
  from generate_denotes [of tbl] obtain T where T: "table_of tbl = Some T" "generate tbl = table_source T" by blast
  have "tbl = SYSCALL_64_TBL \<Longrightarrow> T = SYSCALLS" using T(1) SYSCALLS_table_of by simp
  with T assms show ?thesis by (auto simp: build_main_def)
qed

theorem build_writes_table_witness:
  "fst (snd (build_main disk_os ([''data/syscall_64.tbl'' \<mapsto> SYSCALL_64_TBL], []))) ''target/out/syscalls_generated.rs''
     = Some (table_source SYSCALLS)"
proof -
  let ?fs = "[''data/syscall_64.tbl'' \<mapsto> SYSCALL_64_TBL]"
  let ?out = "[''cargo:rerun-if-changed=data/syscall_64.tbl'', ''cargo:rerun-if-changed=build.rs'']"
  let ?dest = "path_join ''target/out'' ''syscalls_generated.rs''"
  have a: "bo_read_to_string disk_os TBL_PATH (rerun_if_changed disk_os (?fs, [])) = (Inr SYSCALL_64_TBL, (?fs, ?out))"
    "bo_env_var disk_os ''OUT_DIR'' (?fs, ?out) = Inr ''target/out''"
    by (simp_all add: disk_os_def rerun_if_changed_def TBL_PATH_def)
  have b: "bo_write disk_os ?dest (table_source SYSCALLS) (?fs, ?out) = (Inr (), (?fs(?dest \<mapsto> table_source SYSCALLS), ?out))"
    by (simp add: disk_os_def)
  from build_writes_table [OF a] b have "build_main disk_os (?fs, []) = (Inr (), (?fs(?dest \<mapsto> table_source SYSCALLS), ?out))" by auto
  then show ?thesis by (simp add: path_join_def)
qed

end
