(* ===== verification/Common_Mem.thy ===== *)
theory Common_Mem
  imports Prelude
begin

section \<open>Reading a tracee's memory (\<^verbatim>\<open>crates/syren-common/src/mem.rs\<close>)\<close>

text \<open>
  The \<^verbatim>\<open>MemoryReader\<close> trait is the interface between the decoder and the backends: read
  up to \<open>len\<close> bytes at an address, or nothing.  Its contract is stated as a locale; the
  decoder's lemmas are proved inside it, and every reader of the program interprets it.
\<close>

type_synonym reader = "u64 \<Rightarrow> nat \<Rightarrow> u8 list option"

locale memory_reader =
  fixes read :: "u64 \<Rightarrow> nat \<Rightarrow> u8 list option"
  assumes read_bound: "read addr len = Some bs \<Longrightarrow> length bs \<le> len"
begin

lemma read_zero: "read addr 0 = Some bs \<Longrightarrow> bs = []"
  using read_bound [of addr 0 bs] by simp

end

text \<open>A reader whose bytes all come from one address space.\<close>

locale faithful_reader = memory_reader +
  fixes mem :: "u64 \<Rightarrow> u8"
  assumes read_content: "read addr len = Some bs \<Longrightarrow> i < length bs \<Longrightarrow> bs ! i = mem (addr + of_nat i)"

subsection \<open>The readers of this crate\<close>

definition null_read :: reader where
  "null_read addr len = None"

text \<open>
  \<^verbatim>\<open>ProcMemReader\<close> reads \<^verbatim>\<open>/proc/<pid>/mem\<close> into a zeroed buffer of \<open>len\<close> bytes.  The
  positioned read itself is the operating system's: \<open>pread\<close> returns the bytes it
  delivers or an error; the buffer bounds what can be delivered.
\<close>

datatype io_error =
    OsErr i32
  | OtherIo string
  | CustomIo io_error

text \<open>
  An \<^verbatim>\<open>io::Error\<close> is an error number of the operating system, a message, or another error
  wrapped by \<^verbatim>\<open>io::Error::other\<close>.  Its kind is \<^verbatim>\<open>BrokenPipe\<close> for the number \<^verbatim>\<open>EPIPE\<close> only.
\<close>

abbreviation BrokenPipe :: io_error where "BrokenPipe \<equiv> OsErr 32"

definition proc_read :: "(u64 \<Rightarrow> nat \<Rightarrow> io_error + u8 list) \<Rightarrow> reader" where
  "proc_read pread addr len =
     (case pread addr len of
        Inl _ \<Rightarrow> None
      | Inr data \<Rightarrow>
          let buf = take len (data @ replicate len 0); n = min len (length data)
          in if n = 0 then None else Some (take n buf))"

text \<open>
  \<^verbatim>\<open>ProcMemReader::open\<close>: the open of the file may fail; \<open>open_mem\<close> is the system's answer.
\<close>

definition proc_open :: "(u32 \<Rightarrow> io_error + (u64 \<Rightarrow> nat \<Rightarrow> io_error + u8 list)) \<Rightarrow>
    u32 \<Rightarrow> io_error + reader" where
  "proc_open open_mem pid =
     (case open_mem pid of Inl e \<Rightarrow> Inl e | Inr pread \<Rightarrow> Inr (proc_read pread))"

declare null_read_def [exec] proc_read_def [exec] proc_open_def [exec]

lemma proc_read_Some:
  "proc_read pread addr len = Some bs \<longleftrightarrow>
     (\<exists>data. pread addr len = Inr data \<and> take len data \<noteq> [] \<and> bs = take len data)"
  by (auto simp: proc_read_def Let_def min_def split: sum.split)

interpretation null_reader: memory_reader null_read
  by unfold_locales (simp add: null_read_def)

interpretation null_faithful: faithful_reader null_read mem for mem
  by unfold_locales (simp add: null_read_def)

interpretation proc_reader: memory_reader "proc_read pread" for pread
  by unfold_locales (auto simp: proc_read_Some)

end
