(* ===== verification/Decode_Render.thy ===== *)
theory Decode_Render
  imports Common_Mem
begin

section \<open>Strings and buffers (\<^verbatim>\<open>crates/syren-decode/src/render.rs\<close>)\<close>

text \<open>
  Following a pathname in the tracee's memory, chunk by chunk, and quoting bytes the
  way strace does.  The reader is the \<^verbatim>\<open>MemoryReader\<close> interface of the common crate.
\<close>

definition MAX_STR :: nat where "MAX_STR = 32"
definition PATH_CAP :: nat where "PATH_CAP = 4096"

subsection \<open>Reading a NUL-terminated string\<close>

text \<open>
  The \<^verbatim>\<open>while\<close> loop of \<open>read_cstr\<close>.  Every round appends at least one byte, so the
  distance of \<open>out\<close> to \<open>cap\<close> shrinks.  The cursor is a 64-bit address and wraps.
\<close>

function read_cstr_loop :: "reader \<Rightarrow> u64 \<Rightarrow> u8 list \<Rightarrow> nat \<Rightarrow> u8 list option" where
  "read_cstr_loop read cursor out cap =
     (if length out < cap then
        let want = min 256 (cap - length out) in
        (case read cursor want of
           None \<Rightarrow> if out = [] then None else Some out
         | Some chunk \<Rightarrow>
             if chunk = [] then (if out = [] then None else Some out)
             else (case position (\<lambda>b. b = 0) chunk of
                     Some pos \<Rightarrow> Some (out @ take pos chunk)
                   | None \<Rightarrow>
                       read_cstr_loop read (cursor + of_nat (length chunk)) (out @ chunk) cap))
      else Some out)"
  by pat_completeness auto
termination
  by (relation "measure (\<lambda>(read, cursor, out, cap). cap - length out)")
    (auto simp flip: length_greater_0_conv)

declare read_cstr_loop.simps [simp del]

definition read_cstr :: "reader \<Rightarrow> u64 \<Rightarrow> nat \<Rightarrow> u8 list option" where
  "read_cstr read addr cap = (if addr = 0 then None else read_cstr_loop read addr [] cap)"

subsection \<open>Quoting\<close>

definition escape_byte :: "u8 \<Rightarrow> string" where
  "escape_byte b =
     (if b = 0x22 then [CHR 0x5C, CHR 0x22]
      else if b = 0x5C then [CHR 0x5C, CHR 0x5C]
      else if b = 0x0A then [CHR 0x5C, CHR ''n'']
      else if b = 0x0D then [CHR 0x5C, CHR ''r'']
      else if b = 0x09 then [CHR 0x5C, CHR ''t'']
      else if 0x20 \<le> b \<and> b \<le> 0x7E then [char_of (unat b)]
      else CHR 0x5C # oct (unat b))"

definition quote_bytes :: "u8 list \<Rightarrow> string" where
  "quote_bytes bytes =
     [CHR 0x22] @ concat (map escape_byte (take MAX_STR bytes)) @ [CHR 0x22]
     @ (if length bytes > MAX_STR then ''...'' else [])"

declare read_cstr_loop.simps [exec] read_cstr_def [exec] escape_byte_def [exec]
  quote_bytes_def [exec] MAX_STR_def [exec] PATH_CAP_def [exec]

subsection \<open>What any reader gives\<close>

lemma read_cstr_loop_no_nul:
  "read_cstr_loop read cursor out cap = Some bs \<Longrightarrow> 0 \<notin> set out \<Longrightarrow> 0 \<notin> set bs"
proof (induction read cursor out cap rule: read_cstr_loop.induct)
  case (1 read cursor out cap)
  show ?case
  proof (cases "length out < cap")
    case True
    note IH = "1.IH" [OF True refl]
    show ?thesis
      using "1.prems" True IH
      by (subst (asm) read_cstr_loop.simps)
        (auto simp: Let_def position_None split: option.splits if_splits dest!: position_Some)
  next
    case False
    with "1.prems" show ?thesis by (subst (asm) read_cstr_loop.simps) auto
  qed
qed

lemma read_cstr_loop_length:
  assumes "\<And>addr len bs. read addr len = Some bs \<Longrightarrow> length bs \<le> len"
  shows "read_cstr_loop read cursor out cap = Some bs \<Longrightarrow> length out \<le> cap \<Longrightarrow> length bs \<le> cap"
  using assms
proof (induction read cursor out cap rule: read_cstr_loop.induct)
  case (1 read cursor out cap)
  show ?case
  proof (cases "length out < cap")
    case True
    note IH = "1.IH" [OF True refl]
    have len: "length chunk \<le> cap - length out"
      if "read cursor (min 256 (cap - length out)) = Some chunk" for chunk
      using "1.prems"(3) [OF that] by simp
    show ?thesis
      using "1.prems" True IH
      by (subst (asm) read_cstr_loop.simps)
        (auto simp: Let_def split: option.splits if_splits dest!: position_Some len)
  next
    case False
    with "1.prems" show ?thesis by (subst (asm) read_cstr_loop.simps) auto
  qed
qed

context memory_reader
begin

lemma read_cstr_bounds:
  assumes "read_cstr read addr cap = Some bs"
  shows "length bs \<le> cap \<and> 0 \<notin> set bs"
  using assms read_cstr_loop_length [of read addr "[]" cap bs]
    read_cstr_loop_no_nul [of read addr "[]" cap bs] read_bound
  by (auto simp: read_cstr_def split: if_splits)

end

subsection \<open>The string in memory, byte by byte\<close>

text \<open>
  The specification of \<open>read_cstr\<close>: walk the address space one byte at a time until a
  NUL, an unmapped address or the cap.
\<close>

fun cstr_at :: "(u64 \<Rightarrow> bool) \<Rightarrow> (u64 \<Rightarrow> u8) \<Rightarrow> nat \<Rightarrow> u64 \<Rightarrow> u8 list" where
  "cstr_at mapped mem 0 addr = []"
| "cstr_at mapped mem (Suc n) addr =
     (if \<not> mapped addr \<or> mem addr = 0 then [] else mem addr # cstr_at mapped mem n (addr + 1))"

text \<open>
  A reader of an address space where some addresses are mapped: it makes progress at a
  mapped address, gives nothing at an unmapped one and never crosses into the unmapped.
  How many bytes it delivers at a time is its own business.
\<close>

locale mapped_reader = faithful_reader +
  fixes mapped :: "u64 \<Rightarrow> bool"
  assumes read_mapped: "mapped addr \<Longrightarrow> 0 < len \<Longrightarrow> \<exists>bs. read addr len = Some bs \<and> bs \<noteq> []"
    and read_unmapped: "\<not> mapped addr \<Longrightarrow> read addr len = Some bs \<Longrightarrow> bs = []"
    and read_inside: "read addr len = Some bs \<Longrightarrow> i < length bs \<Longrightarrow> mapped (addr + of_nat i)"

lemma cstr_at_chunk:
  assumes "\<And>i. i < length chunk \<Longrightarrow> mapped (addr + of_nat i) \<and> chunk ! i = mem (addr + of_nat i)"
    and "length chunk \<le> n"
  shows "cstr_at mapped mem n addr =
    (case position (\<lambda>b. b = 0) chunk of
       Some pos \<Rightarrow> take pos chunk
     | None \<Rightarrow> chunk @ cstr_at mapped mem (n - length chunk) (addr + of_nat (length chunk)))"
  using assms
proof (induction chunk arbitrary: addr n)
  case (Cons b chunk)
  then obtain m where n: "n = Suc m" by (cases n) auto
  have hd: "mapped addr" "b = mem addr" using Cons.prems(1) [of 0] by auto
  have tl: "mapped (addr + 1 + of_nat i) \<and> chunk ! i = mem (addr + 1 + of_nat i)"
    if "i < length chunk" for i
    using Cons.prems(1) [of "Suc i"] that by (simp add: add.commute add.left_commute)
  have IH: "cstr_at mapped mem m (addr + 1) =
    (case position (\<lambda>b. b = 0) chunk of
       Some pos \<Rightarrow> take pos chunk
     | None \<Rightarrow> chunk @ cstr_at mapped mem (m - length chunk) (addr + 1 + of_nat (length chunk)))"
    by (rule Cons.IH) (use tl Cons.prems(2) n in auto)
  show ?case
    using hd by (cases "position (\<lambda>b. b = 0) chunk") (auto simp: n IH add.assoc)
qed simp

context mapped_reader
begin

lemma read_cstr_loop_spec:
  "read_cstr_loop read cursor out cap =
     (if out = [] \<and> 0 < cap \<and> \<not> mapped cursor then None
      else Some (out @ cstr_at mapped mem (cap - length out) cursor))"
proof (induction "cap - length out" arbitrary: cursor out rule: less_induct)
  case less
  let ?want = "min 256 (cap - length out)"
  consider (full) "\<not> length out < cap" | (hole) "length out < cap" "\<not> mapped cursor"
    | (more) "length out < cap" "mapped cursor" by blast
  then show ?case
  proof cases
    case full
    then show ?thesis by (subst read_cstr_loop.simps) auto
  next
    case hole
    obtain k where k: "cap - length out = Suc k" using hole(1) by (cases "cap - length out") auto
    have "read cursor ?want = None \<or> read cursor ?want = Some []"
      using read_unmapped [OF hole(2), of ?want] by (cases "read cursor ?want") auto
    then show ?thesis
      using hole k by (subst read_cstr_loop.simps) (auto simp: Let_def)
  next
    case more
    then obtain chunk where chunk: "read cursor ?want = Some chunk" "chunk \<noteq> []"
      using read_mapped [of cursor ?want] by auto
    have len: "length chunk \<le> cap - length out" using read_bound [OF chunk(1)] by simp
    have spec: "cstr_at mapped mem (cap - length out) cursor =
      (case position (\<lambda>b. b = 0) chunk of
         Some pos \<Rightarrow> take pos chunk
       | None \<Rightarrow> chunk @ cstr_at mapped mem (cap - length out - length chunk)
                   (cursor + of_nat (length chunk)))"
      by (rule cstr_at_chunk) (use chunk read_inside read_content len in auto)
    have IH: "read_cstr_loop read (cursor + of_nat (length chunk)) (out @ chunk) cap =
      Some ((out @ chunk) @ cstr_at mapped mem (cap - length (out @ chunk))
        (cursor + of_nat (length chunk)))"
      using less(1) [of "out @ chunk" "cursor + of_nat (length chunk)"] more(1) chunk(2)
      by (simp add: diff_less_mono2 flip: length_greater_0_conv)
    show ?thesis
      using more chunk IH
      by (subst read_cstr_loop.simps) (auto simp: Let_def spec split: option.split)
  qed
qed

lemma read_cstr_spec:
  assumes "0 < cap"
  shows "read_cstr read addr cap =
    (if addr = 0 \<or> \<not> mapped addr then None else Some (cstr_at mapped mem cap addr))"
  using assms by (simp add: read_cstr_def read_cstr_loop_spec)

end

subsection \<open>The reader of a live address space\<close>

text \<open>
  What \<^verbatim>\<open>/proc/<pid>/mem\<close> delivers for an address space: the bytes up to the first unmapped
  address, or an error when the first one is unmapped.  The reader built on it satisfies the
  contract above.
\<close>

definition mapped_len :: "(u64 \<Rightarrow> bool) \<Rightarrow> u64 \<Rightarrow> nat \<Rightarrow> nat" where
  "mapped_len mapped addr len = length (takeWhile (\<lambda>i. mapped (addr + of_nat i)) [0..<len])"

definition mapped_pread :: "(u64 \<Rightarrow> bool) \<Rightarrow> (u64 \<Rightarrow> u8) \<Rightarrow> u64 \<Rightarrow> nat \<Rightarrow> io_error + u8 list" where
  "mapped_pread mapped mem addr len =
     (if mapped addr then Inr (map (\<lambda>i. mem (addr + of_nat i)) [0..<mapped_len mapped addr len])
      else Inl (OsErr 5))"

lemma mapped_len_inside: "i < mapped_len mapped addr len \<Longrightarrow> i < len \<and> mapped (addr + of_nat i)"
proof -
  assume i: "i < mapped_len mapped addr len"
  let ?P = "\<lambda>i. mapped (addr + of_nat i)"
  have le: "mapped_len mapped addr len \<le> len"
    using length_takeWhile_le [of ?P "[0..<len]"] by (simp add: mapped_len_def)
  have "takeWhile ?P [0..<len] ! i = i"
    using i le takeWhile_nth [of i ?P "[0..<len]"] by (simp add: mapped_len_def)
  moreover have "?P (takeWhile ?P [0..<len] ! i)"
    using i nth_mem [of i "takeWhile ?P [0..<len]"] set_takeWhileD [of _ ?P "[0..<len]"]
    by (auto simp: mapped_len_def)
  ultimately show ?thesis using i le by simp
qed

lemma mapped_len_pos: "mapped addr \<Longrightarrow> 0 < len \<Longrightarrow> 0 < mapped_len mapped addr len"
  by (cases len) (simp_all add: mapped_len_def upt_rec)

lemma live_read:
  "proc_read (mapped_pread mapped mem) addr len =
     (if mapped addr \<and> 0 < len then Some (map (\<lambda>i. mem (addr + of_nat i)) [0..<mapped_len mapped addr len])
      else None)"
proof (cases "mapped addr \<and> 0 < len")
  case True
  have "mapped_len mapped addr len \<le> len"
    using length_takeWhile_le [of "\<lambda>i. mapped (addr + of_nat i)" "[0..<len]"] by (simp add: mapped_len_def)
  with True mapped_len_pos [of mapped addr len] show ?thesis
    by (simp add: proc_read_def mapped_pread_def Let_def min_def)
qed (auto simp: proc_read_def mapped_pread_def Let_def)

interpretation live_reader: mapped_reader "proc_read (mapped_pread mapped mem)" mem mapped for mapped mem
proof
  fix addr len
  show "\<exists>bs. proc_read (mapped_pread mapped mem) addr len = Some bs \<and> bs \<noteq> []"
    if "mapped addr" "0 < len"
    using that mapped_len_pos [of mapped addr len] by (simp add: live_read)
qed (auto simp: live_read mapped_len_inside split: if_splits)

subsection \<open>Quoted text\<close>

definition printable :: "char set" where
  "printable = {c. 0x20 \<le> (of_char c :: nat) \<and> (of_char c :: nat) \<le> 0x7E}"

lemma printable_lits:
  "CHR 0x5C \<in> printable" "CHR 0x22 \<in> printable" "CHR ''n'' \<in> printable"
  "CHR ''r'' \<in> printable" "CHR ''t'' \<in> printable" "CHR ''.'' \<in> printable"
  by (simp_all add: printable_def)

lemma oct_printable: "set (oct n) \<subseteq> printable"
proof -
  have "set ''0123456789abcdef'' \<subseteq> printable" by (simp add: printable_def)
  with to_radix_hex_chars [of 8 n] show ?thesis by (auto simp: oct_def)
qed

lemma escape_byte_printable: "set (escape_byte b) \<subseteq> printable"
proof -
  have "char_of (unat b) \<in> printable" if "0x20 \<le> b" "b \<le> 0x7E"
    using that by (simp add: printable_def word_le_nat_alt of_char_of)
  then show ?thesis
    using oct_printable by (auto simp: escape_byte_def printable_lits)
qed

lemma quote_bytes_printable: "set (quote_bytes bs) \<subseteq> printable"
  using escape_byte_printable by (auto simp: quote_bytes_def printable_lits)

lemma length_to_radix_le:
  "2 \<le> b \<Longrightarrow> n < b ^ k \<Longrightarrow> 0 < k \<Longrightarrow> length (to_radix b n) \<le> k"
proof (induction k arbitrary: n)
  case (Suc k)
  show ?case
  proof (cases "n < b")
    case True
    then show ?thesis by (simp add: to_radix.simps [of b n])
  next
    case False
    then have "0 < k" using Suc.prems by (cases k) auto
    moreover have "n div b < b ^ k" using Suc.prems
      by (simp add: div_less_iff_less_mult mult.commute)
    ultimately have "length (to_radix b (n div b)) \<le> k" using Suc by simp
    with False Suc.prems show ?thesis by (simp add: to_radix.simps [of b n])
  qed
qed simp

lemma length_escape_byte: "length (escape_byte b) \<le> 4"
proof -
  have "unat b < 256" using unsigned_less [of b] by simp
  then have "length (oct (unat b)) \<le> 3"
    unfolding oct_def by (intro length_to_radix_le) auto
  then show ?thesis by (simp add: escape_byte_def)
qed

lemma length_concat_le: "(\<And>x. x \<in> set xs \<Longrightarrow> length (f x) \<le> k) \<Longrightarrow> length (concat (map f xs)) \<le> k * length xs"
  by (induction xs) (auto simp: add_mono)

lemma length_quote_bytes: "length (quote_bytes bs) \<le> 133"
proof -
  have "length (concat (map escape_byte (take MAX_STR bs))) \<le> 4 * length (take MAX_STR bs)"
    by (rule length_concat_le) (rule length_escape_byte)
  also have "\<dots> \<le> 128" by (simp add: MAX_STR_def)
  finally have "length (concat (map escape_byte (take MAX_STR bs))) \<le> 128" .
  moreover have "length (quote_bytes bs) \<le> length (concat (map escape_byte (take MAX_STR bs))) + 5"
    by (simp add: quote_bytes_def)
  ultimately show ?thesis by linarith
qed

text \<open>
  Reading a quoted text back.  It inverts the quoting of plain bytes: printable ones and
  the three named control characters.
\<close>

definition plain_byte :: "u8 \<Rightarrow> bool" where
  "plain_byte b \<longleftrightarrow> b = 0x0A \<or> b = 0x0D \<or> b = 0x09 \<or> (0x20 \<le> b \<and> b \<le> 0x7E)"

fun unescape :: "string \<Rightarrow> u8 list" where
  "unescape [] = []"
| "unescape [c] = [of_nat (of_char c)]"
| "unescape (c # d # cs) =
     (if c = CHR 0x5C then
        (if d = CHR ''n'' then 0x0A
         else if d = CHR ''r'' then 0x0D
         else if d = CHR ''t'' then 0x09
         else of_nat (of_char d)) # unescape cs
      else of_nat (of_char c) # unescape (d # cs))"

definition unquote :: "string \<Rightarrow> u8 list" where
  "unquote s = unescape (butlast (tl s))"

lemma unescape_plain_char:
  "c \<noteq> CHR 0x5C \<Longrightarrow> unescape (c # cs) = of_nat (of_char c) # unescape cs"
  by (cases cs) auto

lemma unescape_escape_byte:
  assumes "plain_byte b"
  shows "unescape (escape_byte b @ s) = b # unescape s"
proof -
  have *: "unescape (char_of (unat b) # s) = b # unescape s" if "b \<noteq> 0x5C"
  proof -
    have "unat b < 256" using unsigned_less [of b] by simp
    moreover have "unat b \<noteq> 92" using that by (auto simp: word_unat_eq_iff)
    ultimately have "char_of (unat b) \<noteq> CHR 0x5C"
      by (auto simp: char_of_eq_iff take_bit_eq_mod)
    then show ?thesis
      using \<open>unat b < 256\<close> by (simp add: unescape_plain_char of_char_of)
  qed
  show ?thesis
    using assms * by (auto simp: escape_byte_def plain_byte_def)
qed

lemma unescape_concat:
  "list_all plain_byte bs \<Longrightarrow> unescape (concat (map escape_byte bs)) = bs"
  by (induction bs) (auto simp: unescape_escape_byte)

lemma unquote_quote_bytes:
  assumes "list_all plain_byte bs" "length bs \<le> MAX_STR"
  shows "unquote (quote_bytes bs) = bs"
  using assms unescape_concat [of bs] by (simp add: unquote_def quote_bytes_def butlast_append)

text \<open>
  Octal escapes are not padded, so a digit after an escaped byte reads as part of it.
\<close>

lemma quote_ambiguous: "quote_bytes [1, 0x33] = quote_bytes [11]"
  by (simp add: exec word_le_nat_alt char_of_eq_iff)

subsection \<open>Properties\<close>

text \<open>
  Whatever bytes a string holds, its quoted form is printable ASCII, at most 133
  characters long.
\<close>

lemma quote_bytes_safe:
  "set (quote_bytes bs) \<subseteq> printable \<and> length (quote_bytes bs) \<le> 133"
  by (simp add: quote_bytes_printable length_quote_bytes)

text \<open>
  C30. A string of at most 32 printable bytes, tabs, newlines and carriage returns can be
  read back from its quoted form.
\<close>

theorem quote_bytes_round_trip:
  assumes "list_all plain_byte bs" "length bs \<le> MAX_STR"
  shows "unquote (quote_bytes bs) = bs"
  by (rule unquote_quote_bytes [OF assms])

theorem quote_bytes_round_trip_witness:
  "unquote (quote_bytes [0x2F, 0x22, 0x5C, 0x0A, 0x7E]) = [0x2F, 0x22, 0x5C, 0x0A, 0x7E]"
  by (rule quote_bytes_round_trip) (simp_all add: plain_byte_def MAX_STR_def word_le_nat_alt)

end
