(* ===== verification/Decode_Flags.thy ===== *)
theory Decode_Flags
  imports Common_Mem
begin

section \<open>Flag arguments (\<^verbatim>\<open>crates/syren-decode/src/flags.rs\<close>)\<close>

text \<open>
  Turning the bit set of \<open>open\<close>, \<open>mmap\<close> and \<open>mprotect\<close> arguments into strace's
  \<^verbatim>\<open>NAME|NAME|0x...\<close> text.  The lemmas read such a text back as a number, and show for
  which arguments nothing of the register is lost.
\<close>

record flag =
  fl_name :: string
  fl_bits :: u64

abbreviation flag_of :: "string \<Rightarrow> u64 \<Rightarrow> flag" where
  "flag_of n b \<equiv> \<lparr>fl_name = n, fl_bits = b\<rparr>"

definition OPEN_FLAGS :: "flag list" where
  "OPEN_FLAGS =
    [flag_of ''O_CREAT'' 0x40,
     flag_of ''O_EXCL'' 0x80,
     flag_of ''O_NOCTTY'' 0x100,
     flag_of ''O_TRUNC'' 0x200,
     flag_of ''O_APPEND'' 0x400,
     flag_of ''O_NONBLOCK'' 0x800,
     flag_of ''O_DSYNC'' 0x1000,
     flag_of ''O_ASYNC'' 0x2000,
     flag_of ''O_DIRECT'' 0x4000,
     flag_of ''O_LARGEFILE'' 0x8000,
     flag_of ''O_DIRECTORY'' 0x10000,
     flag_of ''O_NOFOLLOW'' 0x20000,
     flag_of ''O_NOATIME'' 0x40000,
     flag_of ''O_CLOEXEC'' 0x80000,
     flag_of ''O_PATH'' 0x200000,
     flag_of ''O_SYNC'' 0x101000,
     flag_of ''O_TMPFILE'' 0x410000]"

definition PROT_FLAGS :: "flag list" where
  "PROT_FLAGS =
    [flag_of ''PROT_READ'' 0x1,
     flag_of ''PROT_WRITE'' 0x2,
     flag_of ''PROT_EXEC'' 0x4,
     flag_of ''PROT_SEM'' 0x8,
     flag_of ''PROT_GROWSDOWN'' 0x1000000,
     flag_of ''PROT_GROWSUP'' 0x2000000]"

definition MAP_FLAGS :: "flag list" where
  "MAP_FLAGS =
    [flag_of ''MAP_SHARED'' 0x1,
     flag_of ''MAP_PRIVATE'' 0x2,
     flag_of ''MAP_FIXED'' 0x10,
     flag_of ''MAP_ANONYMOUS'' 0x20,
     flag_of ''MAP_32BIT'' 0x40,
     flag_of ''MAP_GROWSDOWN'' 0x100,
     flag_of ''MAP_DENYWRITE'' 0x800,
     flag_of ''MAP_EXECUTABLE'' 0x1000,
     flag_of ''MAP_LOCKED'' 0x2000,
     flag_of ''MAP_NORESERVE'' 0x4000,
     flag_of ''MAP_POPULATE'' 0x8000,
     flag_of ''MAP_NONBLOCK'' 0x10000,
     flag_of ''MAP_STACK'' 0x20000,
     flag_of ''MAP_HUGETLB'' 0x40000,
     flag_of ''MAP_SYNC'' 0x80000,
     flag_of ''MAP_FIXED_NOREPLACE'' 0x100000]"

text \<open>The names of the flags whose bits are all present.\<close>

definition decode_bits :: "flag list \<Rightarrow> u64 \<Rightarrow> string list" where
  "decode_bits fs value =
     map fl_name (filter (\<lambda>f. fl_bits f \<noteq> 0 \<and> value AND fl_bits f = fl_bits f) fs)"

definition covered :: "flag list \<Rightarrow> u64" where
  "covered fs = fold (\<lambda>f acc. acc OR fl_bits f) fs 0"

definition flags_join :: "string \<Rightarrow> string list \<Rightarrow> u64 \<Rightarrow> flag list \<Rightarrow> string" where
  "flags_join lead rest masked fs =
     (let leftover = masked AND NOT (covered fs);
          out = lead @ concat (map (\<lambda>name. ''|'' @ name) rest)
      in if leftover \<noteq> 0 then out @ ''|'' @ hex (unat leftover) else out)"

definition render_open :: "u64 \<Rightarrow> string" where
  "render_open value =
     (let acc = value AND 3;
          mode = (if acc = 0 then ''O_RDONLY'' else if acc = 1 then ''O_WRONLY''
                  else if acc = 2 then ''O_RDWR'' else ''O_ACCMODE'');
          rest = decode_bits OPEN_FLAGS (value AND NOT 3)
      in flags_join mode rest (value AND NOT 3) OPEN_FLAGS)"

definition render_set :: "flag list \<Rightarrow> u64 \<Rightarrow> string \<Rightarrow> string" where
  "render_set fs value zero =
     (if value = 0 then zero
      else let named = decode_bits fs value; leftover = value AND NOT (covered fs)
           in if named = [] then hex (unat value)
              else if leftover = 0 then join ''|'' named
              else join ''|'' named @ ''|'' @ hex (unat leftover))"

definition render_map :: "u64 \<Rightarrow> string" where
  "render_map value =
     (let low = value AND 0xF;
          kind = (if low = 1 then Some ''MAP_SHARED'' else if low = 2 then Some ''MAP_PRIVATE''
                  else if low = 3 then Some ''MAP_SHARED_VALIDATE'' else None);
          masked = value AND NOT 0xF;
          rest = decode_bits MAP_FLAGS masked
      in case kind of
           Some k \<Rightarrow> flags_join k rest masked MAP_FLAGS
         | None \<Rightarrow> render_set MAP_FLAGS value ''0'')"

definition flags_render :: "string \<Rightarrow> string \<Rightarrow> u64 \<Rightarrow> string option" where
  "flags_render syscall arg value =
     (if syscall \<in> set [''open'', ''openat'', ''openat2''] \<and> arg = ''flags''
      then Some (render_open value)
      else if syscall \<in> set [''mmap'', ''mprotect'', ''pkey_mprotect''] \<and> arg = ''prot''
      then Some (render_set PROT_FLAGS value ''PROT_NONE'')
      else if syscall = ''mmap'' \<and> arg = ''flags''
      then Some (render_map value)
      else None)"

declare OPEN_FLAGS_def [exec] PROT_FLAGS_def [exec] MAP_FLAGS_def [exec] decode_bits_def [exec]
  covered_def [exec] flags_join_def [exec] render_open_def [exec] render_set_def [exec]
  render_map_def [exec] flags_render_def [exec]

subsection \<open>Reading a flag text back\<close>

text \<open>
  \<open>or_all\<close> joins bit sets, \<open>token_value\<close> reads one token of a text with a table of names,
  or as a hexadecimal number, and \<open>text_value\<close> reads the whole text.
\<close>

definition or_all :: "u64 list \<Rightarrow> u64" where
  "or_all bs = foldr (OR) bs 0"

definition token_value :: "(string \<times> u64) list \<Rightarrow> string \<Rightarrow> u64 option" where
  "token_value N t =
     (case map_of N t of
        Some b \<Rightarrow> Some b
      | None \<Rightarrow> (case strip_prefix ''0x'' t of
                  Some ds \<Rightarrow> map_option of_nat (parse_uint 64 16 ds)
                | None \<Rightarrow> None))"

definition text_value :: "(string \<times> u64) list \<Rightarrow> string \<Rightarrow> u64 option" where
  "text_value N s = map_option or_all (those (map (token_value N) (split_by (\<lambda>c. c = CHR ''|'') s)))"

definition names_of :: "flag list \<Rightarrow> (string \<times> u64) list" where
  "names_of fs = map (\<lambda>f. (fl_name f, fl_bits f)) fs"

definition PROT_NAMES :: "(string \<times> u64) list" where
  "PROT_NAMES = (''PROT_NONE'', 0) # names_of PROT_FLAGS"

definition MAP_NAMES :: "(string \<times> u64) list" where
  "MAP_NAMES = (''0'', 0) # (''MAP_SHARED_VALIDATE'', 3) # names_of MAP_FLAGS"

definition OPEN_NAMES :: "(string \<times> u64) list" where
  "OPEN_NAMES = [(''O_RDONLY'', 0), (''O_WRONLY'', 1), (''O_RDWR'', 2), (''O_ACCMODE'', 3)]
     @ names_of OPEN_FLAGS"

definition names_ok :: "(string \<times> u64) list \<Rightarrow> bool" where
  "names_ok N \<longleftrightarrow> distinct (map fst N)
     \<and> list_all (\<lambda>(n, b). CHR ''|'' \<notin> set n \<and> strip_prefix ''0x'' n = None) N"

text \<open>The flags whose bits are all in \<open>v\<close>, and the bits of \<open>v\<close> no token shows.\<close>

definition present :: "flag list \<Rightarrow> u64 \<Rightarrow> flag list" where
  "present fs v = filter (\<lambda>f. fl_bits f \<noteq> 0 \<and> v AND fl_bits f = fl_bits f) fs"

definition lost :: "flag list \<Rightarrow> u64 \<Rightarrow> u64" where
  "lost fs v = v AND covered fs AND NOT (or_all (map fl_bits (present fs v)))"

lemma or_all_simps [simp]: "or_all [] = 0" "or_all (b # bs) = b OR or_all bs"
  by (simp_all add: or_all_def)

lemma or_all_append [simp]: "or_all (as @ bs) = or_all as OR or_all bs"
  by (induction as) (simp_all add: or.assoc)

lemma bit_or_all: "bit (or_all bs) n \<longleftrightarrow> (\<exists>b \<in> set bs. bit b n)"
  by (induction bs) (auto simp: bit_simps)

lemma decode_bits_present: "decode_bits fs v = map fl_name (present fs v)"
  by (simp add: decode_bits_def present_def)

lemma word_and_eq_iff: "v AND b = b \<longleftrightarrow> (\<forall>n. bit b n \<longrightarrow> bit v n)" for v b :: "'a::len word"
proof
  assume "v AND b = b"
  then show "\<forall>n. bit b n \<longrightarrow> bit v n" by (metis bit_and_iff)
next
  assume "\<forall>n. bit b n \<longrightarrow> bit v n"
  then show "v AND b = b" by (intro bit_word_eqI) (auto simp: bit_simps)
qed

lemma bit_covered: "bit (covered fs) n \<longleftrightarrow> (\<exists>f \<in> set fs. bit (fl_bits f) n)"
proof -
  have "bit (fold (\<lambda>f acc. acc OR fl_bits f) fs a) n \<longleftrightarrow> bit a n \<or> (\<exists>f \<in> set fs. bit (fl_bits f) n)" for a
    by (induction fs arbitrary: a) (auto simp: bit_simps)
  then show ?thesis by (simp add: covered_def)
qed

lemma bit_present: "bit (or_all (map fl_bits (present fs v))) n
    \<longleftrightarrow> (\<exists>f \<in> set fs. v AND fl_bits f = fl_bits f \<and> bit (fl_bits f) n)"
  by (auto simp: bit_or_all present_def)

lemma present_sub: "bit (or_all (map fl_bits (present fs v))) n \<Longrightarrow> bit v n \<and> bit (covered fs) n"
  by (auto simp: bit_or_all present_def bit_covered) (metis bit_and_iff)

lemma shown_bits:
  "or_all (map fl_bits (present fs v)) OR (v AND NOT (covered fs)) = v AND NOT (lost fs v)"
  by (rule bit_word_eqI) (use present_sub in \<open>auto simp: bit_simps lost_def\<close>)

lemma lost_sub: "lost fs v AND NOT v = 0"
  by (rule bit_word_eqI) (auto simp: bit_simps lost_def)

text \<open>
  The positions of a flag's bits.  A bit of the register is lost exactly when some flag
  covers it and every flag that covers it misses another of its bits.
\<close>

definition has_bits :: "flag \<Rightarrow> nat list \<Rightarrow> bool" where
  "has_bits f ks \<longleftrightarrow> list_all (\<lambda>k. k < 64) ks \<and> fl_bits f = or_all (map (\<lambda>k. push_bit k 1) ks)"

lemma bit_has_bits: "has_bits f ks \<Longrightarrow> bit (fl_bits f) n \<longleftrightarrow> n \<in> set ks"
  by (auto simp: has_bits_def bit_or_all list_all_iff bit_simps simp del: push_bit_of_1)

lemma and_has_bits: "has_bits f ks \<Longrightarrow> v AND fl_bits f = fl_bits f \<longleftrightarrow> (\<forall>k \<in> set ks. bit v k)"
  by (auto simp: word_and_eq_iff bit_has_bits)

lemma bit_lost:
  assumes "list_all2 has_bits fs K"
  shows "bit (lost fs v) n \<longleftrightarrow> bit v n \<and> (\<exists>ks \<in> set K. n \<in> set ks)
     \<and> (\<forall>ks \<in> set K. n \<in> set ks \<longrightarrow> (\<exists>k \<in> set ks. \<not> bit v k))"
proof -
  have "(\<exists>f \<in> set fs. bit (fl_bits f) n) \<longleftrightarrow> (\<exists>ks \<in> set K. n \<in> set ks)"
    using assms by (induction fs K rule: list_all2_induct) (auto simp: bit_has_bits)
  moreover have "(\<exists>f \<in> set fs. v AND fl_bits f = fl_bits f \<and> bit (fl_bits f) n)
      \<longleftrightarrow> (\<exists>ks \<in> set K. n \<in> set ks \<and> (\<forall>k \<in> set ks. bit v k))"
    using assms
    by (induction fs K rule: list_all2_induct) (auto simp: bit_has_bits and_has_bits)
  ultimately show ?thesis
    by (auto simp: lost_def bit_simps bit_covered bit_present dest: bit_imp_le_length)
qed

lemma bit_lost_split:
  assumes "list_all2 has_bits fs (map (\<lambda>k. [k]) S @ P)"
  shows "bit (lost fs v) n \<longleftrightarrow> bit v n \<and> n \<notin> set S \<and> (\<exists>ks \<in> set P. n \<in> set ks)
     \<and> (\<forall>ks \<in> set P. n \<in> set ks \<longrightarrow> (\<exists>k \<in> set ks. \<not> bit v k))"
  unfolding bit_lost [OF assms] by (simp add: ball_Un bex_Un) blast

lemma lost_single:
  assumes "list_all2 has_bits fs (map (\<lambda>k. [k]) ks)"
  shows "lost fs v = 0"
  by (rule bit_word_eqI) (auto simp: bit_lost [OF assms])

lemma lost_PROT: "lost PROT_FLAGS v = 0"
  by (rule lost_single [of _ "[0, 1, 2, 3, 24, 25]"]) (simp add: PROT_FLAGS_def has_bits_def)

lemma lost_MAP: "lost MAP_FLAGS v = 0"
  by (rule lost_single [of _ "[0, 1, 4, 5, 6, 8, 11, 12, 13, 14, 15, 16, 17, 18, 19, 20]"])
    (simp add: MAP_FLAGS_def has_bits_def)

subsection \<open>The texts\<close>

definition tok_ok :: "(string \<times> u64) list \<Rightarrow> string \<times> u64 \<Rightarrow> bool" where
  "tok_ok N p \<longleftrightarrow> token_value N (fst p) = Some (snd p) \<and> CHR ''|'' \<notin> set (fst p)"

lemma tok_name: "names_ok N \<Longrightarrow> p \<in> set N \<Longrightarrow> tok_ok N p"
  by (cases p) (auto simp: tok_ok_def token_value_def names_ok_def list_all_iff)

lemma set_hex: "set (hex n) \<subseteq> set ''0123456789abcdefx''"
proof -
  have "set ''0123456789abcdef'' \<subseteq> set ''0123456789abcdefx''" by simp
  with to_radix_hex_chars [of 16 n] have "set (to_radix 16 n) \<subseteq> set ''0123456789abcdefx''"
    by (elim order_trans [rotated]) simp
  moreover have "set ''0x'' \<subseteq> set ''0123456789abcdefx''" by simp
  ultimately show ?thesis unfolding hex_def set_append by (rule Un_least [rotated])
qed

lemma tok_hex:
  assumes "names_ok N" shows "tok_ok N (hex (unat w), w)"
proof -
  have sp: "strip_prefix ''0x'' (hex (unat w)) = Some (to_radix 16 (unat w))"
    by (simp add: hex_def)
  have "map_of N (hex (unat w)) = None"
  proof (cases "map_of N (hex (unat w))")
    case (Some b)
    then have "(hex (unat w), b) \<in> set N" by (rule map_of_SomeD)
    with assms sp show ?thesis by (auto simp: names_ok_def list_all_iff)
  qed
  moreover have "unat w < 2 ^ 64" using unsigned_less [of w] by simp
  moreover have "CHR ''|'' \<notin> set (hex (unat w))"
  proof
    assume "CHR ''|'' \<in> set (hex (unat w))"
    with set_hex have "CHR ''|'' \<in> set ''0123456789abcdefx''" by (rule subsetD)
    then show False by simp
  qed
  ultimately show ?thesis
    by (simp add: tok_ok_def token_value_def sp parse_uint_to_radix del: strip_prefix.simps)
qed

lemma those_map_Some: "(\<And>x. x \<in> set xs \<Longrightarrow> f x = Some (g x)) \<Longrightarrow> those (map f xs) = Some (map g xs)"
  by (induction xs) auto

lemma text_value_join:
  assumes "ps \<noteq> []" "\<And>p. p \<in> set ps \<Longrightarrow> tok_ok N p"
  shows "text_value N (join ''|'' (map fst ps)) = Some (or_all (map snd ps))"
proof -
  have "split_by (\<lambda>c. c = CHR ''|'') (join ''|'' (map fst ps)) = map fst ps"
    by (rule split_by_join) (use assms in \<open>auto simp: tok_ok_def\<close>)
  moreover have "those (map (\<lambda>p. token_value N (fst p)) ps) = Some (map snd ps)"
    by (rule those_map_Some) (use assms in \<open>auto simp: tok_ok_def\<close>)
  ultimately show ?thesis by (simp add: text_value_def comp_def)
qed

lemma join_Cons: "join sep (w # ws) = w @ concat (map ((@) sep) ws)"
  by (induction ws arbitrary: w) auto

lemma join_snoc: "ws \<noteq> [] \<Longrightarrow> join sep (ws @ [w]) = join sep ws @ sep @ w"
  by (cases ws) (auto simp: join_Cons)

definition tokens :: "flag list \<Rightarrow> u64 \<Rightarrow> (string \<times> u64) list" where
  "tokens fs v = names_of (present fs v)
     @ (if v AND NOT (covered fs) = 0 then []
        else [(hex (unat (v AND NOT (covered fs))), v AND NOT (covered fs))])"

lemma tokens_value: "or_all (map snd (tokens fs v)) = v AND NOT (lost fs v)"
  using shown_bits [of fs v] by (auto simp: tokens_def names_of_def comp_def)

lemma tokens_ok: "names_ok N \<Longrightarrow> set (names_of fs) \<subseteq> set N \<Longrightarrow> p \<in> set (tokens fs v) \<Longrightarrow> tok_ok N p"
  by (auto simp: tokens_def names_of_def present_def tok_hex intro: tok_name split: if_splits)

lemma flags_join_value:
  assumes "names_ok N" "set (names_of fs) \<subseteq> set N" "(lead, l) \<in> set N"
  shows "text_value N (flags_join lead (decode_bits fs m) m fs) = Some (l OR m AND NOT (lost fs m))"
proof -
  have "flags_join lead (decode_bits fs m) m fs = join ''|'' (map fst ((lead, l) # tokens fs m))"
    by (simp add: flags_join_def Let_def join_Cons decode_bits_present tokens_def names_of_def comp_def)
  moreover have "tok_ok N p" if "p \<in> set ((lead, l) # tokens fs m)" for p
    using that tokens_ok [OF assms(1,2), of p m] tok_name [OF assms(1,3)] by auto
  ultimately show ?thesis
    using text_value_join [of "(lead, l) # tokens fs m" N] by (simp add: tokens_value)
qed

lemma render_set_value:
  assumes "names_ok N" "set (names_of fs) \<subseteq> set N" "(zero, 0) \<in> set N" "lost fs v = 0"
  shows "text_value N (render_set fs v zero) = Some v"
proof -
  consider "v = 0" | "v \<noteq> 0" "decode_bits fs v = []" | "v \<noteq> 0" "decode_bits fs v \<noteq> []" by blast
  then show ?thesis
  proof cases
    case 1
    then show ?thesis
      using text_value_join [of "[(zero, 0)]" N] tok_name [OF assms(1,3)] by (simp add: render_set_def)
  next
    case 2
    then show ?thesis
      using text_value_join [of "[(hex (unat v), v)]" N] tok_hex [OF assms(1), of v]
      by (simp add: render_set_def)
  next
    case 3
    then have "render_set fs v zero = join ''|'' (map fst (tokens fs v))"
      by (simp add: render_set_def Let_def decode_bits_present tokens_def names_of_def comp_def join_snoc)
    moreover have "tokens fs v \<noteq> []"
      using 3 by (auto simp: decode_bits_present tokens_def names_of_def)
    ultimately show ?thesis
      using text_value_join [of "tokens fs v" N] tokens_ok [OF assms(1,2)] assms(4)
      by (simp add: tokens_value)
  qed
qed

lemma PROT_NAMES_ok: "names_ok PROT_NAMES"
  by (simp add: names_ok_def PROT_NAMES_def names_of_def PROT_FLAGS_def)

lemma MAP_NAMES_ok: "names_ok MAP_NAMES"
  by (simp add: names_ok_def MAP_NAMES_def names_of_def MAP_FLAGS_def)

lemma OPEN_NAMES_ok: "names_ok OPEN_NAMES"
  by (simp add: names_ok_def OPEN_NAMES_def names_of_def OPEN_FLAGS_def)

lemma render_prot_value: "text_value PROT_NAMES (render_set PROT_FLAGS v ''PROT_NONE'') = Some v"
  by (rule render_set_value [OF PROT_NAMES_ok _ _ lost_PROT]) (auto simp: PROT_NAMES_def)

lemma or_and_not: "(v AND m) OR (v AND NOT m) = v" for v m :: u64
  by (rule bit_word_eqI) (auto simp: bit_simps)

lemma render_map_value: "text_value MAP_NAMES (render_map v) = Some v"
proof -
  have sub: "set (names_of MAP_FLAGS) \<subseteq> set MAP_NAMES" by (auto simp: MAP_NAMES_def)
  have names: "(''MAP_SHARED'', 1) \<in> set MAP_NAMES" "(''MAP_PRIVATE'', 2) \<in> set MAP_NAMES"
    "(''MAP_SHARED_VALIDATE'', 3) \<in> set MAP_NAMES" "(''0'', 0) \<in> set MAP_NAMES"
    by (simp_all add: MAP_NAMES_def names_of_def MAP_FLAGS_def)
  have low: "text_value MAP_NAMES (flags_join k (decode_bits MAP_FLAGS (v AND NOT 0xF)) (v AND NOT 0xF) MAP_FLAGS)
      = Some v" if "(k, v AND 0xF) \<in> set MAP_NAMES" for k
    using flags_join_value [OF MAP_NAMES_ok sub that, of "v AND NOT 0xF"] or_and_not [of v "0xF"]
    by (simp add: lost_MAP)
  show ?thesis
    using low names render_set_value [OF MAP_NAMES_ok sub names(4) lost_MAP, of v]
    by (simp add: render_map_def Let_def)
qed

text \<open>
  \<open>O_SYNC\<close> and \<open>O_TMPFILE\<close> have two bits.  The bits \<open>__O_SYNC\<close> and \<open>__O_TMPFILE\<close> alone
  are covered by the table and yet no flag of it is present.
\<close>

definition open_lost :: "u64 \<Rightarrow> u64" where
  "open_lost v = lost OPEN_FLAGS (v AND NOT 3)"

lemma render_open_value: "text_value OPEN_NAMES (render_open v) = Some (v AND NOT (open_lost v))"
proof -
  have sub: "set (names_of OPEN_FLAGS) \<subseteq> set OPEN_NAMES" by (auto simp: OPEN_NAMES_def)
  have low: "(v AND 3) OR ((v AND NOT 3) AND NOT (open_lost v)) = v AND NOT (open_lost v)"
    by (rule bit_word_eqI) (auto simp: bit_simps open_lost_def lost_def)
  have cases: "v AND 3 = 0 \<or> v AND 3 = 1 \<or> v AND 3 = 2 \<or> v AND 3 = 3"
  proof -
    have "v AND 3 \<le> 3" by (simp add: word_and_le1)
    then have "unat (v AND 3) \<le> 3" by (simp add: word_le_nat_alt)
    then have "unat (v AND 3) = 0 \<or> unat (v AND 3) = 1 \<or> unat (v AND 3) = 2 \<or> unat (v AND 3) = 3" by linarith
    then show ?thesis by (auto simp: word_unat_eq_iff)
  qed
  have names: "(''O_RDONLY'', 0) \<in> set OPEN_NAMES" "(''O_WRONLY'', 1) \<in> set OPEN_NAMES"
    "(''O_RDWR'', 2) \<in> set OPEN_NAMES" "(''O_ACCMODE'', 3) \<in> set OPEN_NAMES"
    by (simp_all add: OPEN_NAMES_def)
  have "text_value OPEN_NAMES (flags_join k (decode_bits OPEN_FLAGS (v AND NOT 3)) (v AND NOT 3) OPEN_FLAGS)
      = Some (v AND NOT (open_lost v))" if "(k, v AND 3) \<in> set OPEN_NAMES" for k
    using flags_join_value [OF OPEN_NAMES_ok sub that, of "v AND NOT 3"] low
    by (simp add: open_lost_def)
  with cases names show ?thesis by (auto simp: render_open_def Let_def)
qed

lemma OPEN_bits: "list_all2 has_bits OPEN_FLAGS
    (map (\<lambda>k. [k]) [6, 7, 8, 9, 10, 11, 12, 13, 14, 15, 16, 17, 18, 19, 21] @ [[12, 20], [16, 22]])"
  by (simp add: OPEN_FLAGS_def has_bits_def)

lemma bit_open_lost:
  "bit (open_lost v) n \<longleftrightarrow> (n = 20 \<and> bit v 20 \<and> \<not> bit v 12) \<or> (n = 22 \<and> bit v 22 \<and> \<not> bit v 16)"
proof -
  have three: "(3 :: u64) = mask 2" by (simp add: mask_eq_exp_minus_1)
  have not3: "bit (v AND NOT 3) k \<longleftrightarrow> bit v k" if "2 \<le> k" for k
    unfolding three using that by (auto simp: bit_simps dest: bit_imp_le_length)
  have "NOT 3 = (-4 :: u64)" by simp
  with not3 have not3: "bit (v AND -4) k \<longleftrightarrow> bit v k" if "2 \<le> k" for k using that by metis
  show ?thesis
    unfolding open_lost_def bit_lost_split [OF OPEN_bits]
    by (cases "n = 20"; cases "n = 22"; cases "n = 12"; cases "n = 16") (auto simp: not3)
qed

lemma open_lost_0:
  "open_lost v = 0 \<longleftrightarrow> (bit v 20 \<longrightarrow> bit v 12) \<and> (bit v 22 \<longrightarrow> bit v 16)"
proof
  assume "open_lost v = 0"
  then have "\<not> bit (open_lost v) 20" "\<not> bit (open_lost v) 22" by simp_all
  then show "(bit v 20 \<longrightarrow> bit v 12) \<and> (bit v 22 \<longrightarrow> bit v 16)" by (simp add: bit_open_lost)
next
  assume "(bit v 20 \<longrightarrow> bit v 12) \<and> (bit v 22 \<longrightarrow> bit v 16)"
  then show "open_lost v = 0" by (intro bit_word_eqI) (auto simp: bit_open_lost)
qed

lemma and_not_eq: "v AND NOT w = v \<longleftrightarrow> w AND v = 0" for v w :: u64
  by (auto simp: bit_eq_iff bit_simps)

subsection \<open>Properties\<close>

text \<open>
  C24. The text of a \<^verbatim>\<open>prot\<close> or \<^verbatim>\<open>mmap\<close> flags argument denotes the register exactly, for
  all 64-bit values: its names and the hexadecimal rest join to the value.
\<close>

theorem prot_and_map_lossless:
  "text_value PROT_NAMES (render_set PROT_FLAGS v ''PROT_NONE'') = Some v
   \<and> text_value MAP_NAMES (render_map v) = Some v"
  by (simp add: render_prot_value render_map_value)

text \<open>
  C23. The text of \<^verbatim>\<open>open\<close> flags denotes the register exactly if and only if bit 20
  (\<^verbatim>\<open>__O_SYNC\<close>) comes with \<^verbatim>\<open>O_DSYNC\<close> and bit 22 (\<^verbatim>\<open>__O_TMPFILE\<close>) with \<^verbatim>\<open>O_DIRECTORY\<close>;
  otherwise that bit vanishes from the output.
\<close>

theorem open_flags_lossless_iff:
  "text_value OPEN_NAMES (render_open v) = Some v
     \<longleftrightarrow> \<not> (bit v 20 \<and> \<not> bit v 12) \<and> \<not> (bit v 22 \<and> \<not> bit v 16)"
proof -
  have "open_lost v AND NOT v = 0"
    by (rule bit_word_eqI) (auto simp: bit_simps open_lost_def lost_def)
  then have "v AND NOT (open_lost v) = v \<longleftrightarrow> open_lost v = 0"
    by (metis (no_types) and.commute and_zero_eq bit.conj_cancel_right bit.conj_disj_distrib
        bit.disj_cancel_right and.right_neutral or.left_neutral bit.compl_zero and_not_eq)
  then show ?thesis by (auto simp: render_open_value open_lost_0)
qed

end
