(* ===== verification/Common_Errno.thy ===== *)
theory Common_Errno
  imports Prelude
begin

section \<open>Error numbers and signal names (\<^verbatim>\<open>errno.rs\<close>, \<^verbatim>\<open>signal.rs\<close> of \<^verbatim>\<open>crates/syren-common/src\<close>)\<close>

text \<open>
  The two static tables used to render failed syscalls and signals.  Each \<^verbatim>\<open>match\<close> on a
  signed 32-bit number becomes a lookup in the list of its arms, in the order of the
  source.
\<close>

record errno_info =
  en_number :: i32
  en_name :: string
  en_description :: string

definition errno_table :: "(int \<times> string \<times> string) list" where
  "errno_table = [
    (1, ''EPERM'', ''Operation not permitted''),
    (2, ''ENOENT'', ''No such file or directory''),
    (3, ''ESRCH'', ''No such process''),
    (4, ''EINTR'', ''Interrupted system call''),
    (5, ''EIO'', ''Input/output error''),
    (6, ''ENXIO'', ''No such device or address''),
    (7, ''E2BIG'', ''Argument list too long''),
    (8, ''ENOEXEC'', ''Exec format error''),
    (9, ''EBADF'', ''Bad file descriptor''),
    (10, ''ECHILD'', ''No child processes''),
    (11, ''EAGAIN'', ''Resource temporarily unavailable''),
    (12, ''ENOMEM'', ''Cannot allocate memory''),
    (13, ''EACCES'', ''Permission denied''),
    (14, ''EFAULT'', ''Bad address''),
    (15, ''ENOTBLK'', ''Block device required''),
    (16, ''EBUSY'', ''Device or resource busy''),
    (17, ''EEXIST'', ''File exists''),
    (18, ''EXDEV'', ''Invalid cross-device link''),
    (19, ''ENODEV'', ''No such device''),
    (20, ''ENOTDIR'', ''Not a directory''),
    (21, ''EISDIR'', ''Is a directory''),
    (22, ''EINVAL'', ''Invalid argument''),
    (23, ''ENFILE'', ''Too many open files in system''),
    (24, ''EMFILE'', ''Too many open files''),
    (25, ''ENOTTY'', ''Inappropriate ioctl for device''),
    (26, ''ETXTBSY'', ''Text file busy''),
    (27, ''EFBIG'', ''File too large''),
    (28, ''ENOSPC'', ''No space left on device''),
    (29, ''ESPIPE'', ''Illegal seek''),
    (30, ''EROFS'', ''Read-only file system''),
    (31, ''EMLINK'', ''Too many links''),
    (32, ''EPIPE'', ''Broken pipe''),
    (33, ''EDOM'', ''Numerical argument out of domain''),
    (34, ''ERANGE'', ''Numerical result out of range''),
    (35, ''EDEADLK'', ''Resource deadlock avoided''),
    (36, ''ENAMETOOLONG'', ''File name too long''),
    (37, ''ENOLCK'', ''No locks available''),
    (38, ''ENOSYS'', ''Function not implemented''),
    (39, ''ENOTEMPTY'', ''Directory not empty''),
    (40, ''ELOOP'', ''Too many levels of symbolic links''),
    (42, ''ENOMSG'', ''No message of desired type''),
    (43, ''EIDRM'', ''Identifier removed''),
    (44, ''ECHRNG'', ''Channel number out of range''),
    (45, ''EL2NSYNC'', ''Level 2 not synchronized''),
    (46, ''EL3HLT'', ''Level 3 halted''),
    (47, ''EL3RST'', ''Level 3 reset''),
    (48, ''ELNRNG'', ''Link number out of range''),
    (49, ''EUNATCH'', ''Protocol driver not attached''),
    (50, ''ENOCSI'', ''No CSI structure available''),
    (51, ''EL2HLT'', ''Level 2 halted''),
    (52, ''EBADE'', ''Invalid exchange''),
    (53, ''EBADR'', ''Invalid request descriptor''),
    (54, ''EXFULL'', ''Exchange full''),
    (55, ''ENOANO'', ''No anode''),
    (56, ''EBADRQC'', ''Invalid request code''),
    (57, ''EBADSLT'', ''Invalid slot''),
    (59, ''EBFONT'', ''Bad font file format''),
    (60, ''ENOSTR'', ''Device not a stream''),
    (61, ''ENODATA'', ''No data available''),
    (62, ''ETIME'', ''Timer expired''),
    (63, ''ENOSR'', ''Out of streams resources''),
    (64, ''ENONET'', ''Machine is not on the network''),
    (65, ''ENOPKG'', ''Package not installed''),
    (66, ''EREMOTE'', ''Object is remote''),
    (67, ''ENOLINK'', ''Link has been severed''),
    (68, ''EADV'', ''Advertise error''),
    (69, ''ESRMNT'', ''Srmount error''),
    (70, ''ECOMM'', ''Communication error on send''),
    (71, ''EPROTO'', ''Protocol error''),
    (72, ''EMULTIHOP'', ''Multihop attempted''),
    (73, ''EDOTDOT'', ''RFS specific error''),
    (74, ''EBADMSG'', ''Bad message''),
    (75, ''EOVERFLOW'', ''Value too large for defined data type''),
    (76, ''ENOTUNIQ'', ''Name not unique on network''),
    (77, ''EBADFD'', ''File descriptor in bad state''),
    (78, ''EREMCHG'', ''Remote address changed''),
    (79, ''ELIBACC'', ''Can not access a needed shared library''),
    (80, ''ELIBBAD'', ''Accessing a corrupted shared library''),
    (81, ''ELIBSCN'', ''.lib section in a.out corrupted''),
    (82, ''ELIBMAX'', ''Attempting to link in too many shared libraries''),
    (83, ''ELIBEXEC'', ''Cannot exec a shared library directly''),
    (84, ''EILSEQ'', ''Invalid or incomplete multibyte or wide character''),
    (85, ''ERESTART'', ''Interrupted system call should be restarted''),
    (86, ''ESTRPIPE'', ''Streams pipe error''),
    (87, ''EUSERS'', ''Too many users''),
    (88, ''ENOTSOCK'', ''Socket operation on non-socket''),
    (89, ''EDESTADDRREQ'', ''Destination address required''),
    (90, ''EMSGSIZE'', ''Message too long''),
    (91, ''EPROTOTYPE'', ''Protocol wrong type for socket''),
    (92, ''ENOPROTOOPT'', ''Protocol not available''),
    (93, ''EPROTONOSUPPORT'', ''Protocol not supported''),
    (94, ''ESOCKTNOSUPPORT'', ''Socket type not supported''),
    (95, ''EOPNOTSUPP'', ''Operation not supported''),
    (96, ''EPFNOSUPPORT'', ''Protocol family not supported''),
    (97, ''EAFNOSUPPORT'', ''Address family not supported by protocol''),
    (98, ''EADDRINUSE'', ''Address already in use''),
    (99, ''EADDRNOTAVAIL'', ''Cannot assign requested address''),
    (100, ''ENETDOWN'', ''Network is down''),
    (101, ''ENETUNREACH'', ''Network is unreachable''),
    (102, ''ENETRESET'', ''Network dropped connection on reset''),
    (103, ''ECONNABORTED'', ''Software caused connection abort''),
    (104, ''ECONNRESET'', ''Connection reset by peer''),
    (105, ''ENOBUFS'', ''No buffer space available''),
    (106, ''EISCONN'', ''Transport endpoint is already connected''),
    (107, ''ENOTCONN'', ''Transport endpoint is not connected''),
    (108, ''ESHUTDOWN'', ''Cannot send after transport endpoint shutdown''),
    (109, ''ETOOMANYREFS'', ''Too many references: cannot splice''),
    (110, ''ETIMEDOUT'', ''Connection timed out''),
    (111, ''ECONNREFUSED'', ''Connection refused''),
    (112, ''EHOSTDOWN'', ''Host is down''),
    (113, ''EHOSTUNREACH'', ''No route to host''),
    (114, ''EALREADY'', ''Operation already in progress''),
    (115, ''EINPROGRESS'', ''Operation now in progress''),
    (116, ''ESTALE'', ''Stale file handle''),
    (117, ''EUCLEAN'', ''Structure needs cleaning''),
    (118, ''ENOTNAM'', ''Not a XENIX named type file''),
    (119, ''ENAVAIL'', ''No XENIX semaphores available''),
    (120, ''EISNAM'', ''Is a named type file''),
    (121, ''EREMOTEIO'', ''Remote I/O error''),
    (122, ''EDQUOT'', ''Disk quota exceeded''),
    (123, ''ENOMEDIUM'', ''No medium found''),
    (124, ''EMEDIUMTYPE'', ''Wrong medium type''),
    (125, ''ECANCELED'', ''Operation canceled''),
    (126, ''ENOKEY'', ''Required key not available''),
    (127, ''EKEYEXPIRED'', ''Key has expired''),
    (128, ''EKEYREVOKED'', ''Key has been revoked''),
    (129, ''EKEYREJECTED'', ''Key was rejected by service''),
    (130, ''EOWNERDEAD'', ''Owner died''),
    (131, ''ENOTRECOVERABLE'', ''State not recoverable''),
    (132, ''ERFKILL'', ''Operation not possible due to RF-kill''),
    (133, ''EHWPOISON'', ''Memory page has hardware error'')]"

definition name_and_desc :: "i32 \<Rightarrow> (string \<times> string) option" where
  "name_and_desc code = map_of errno_table (sint code)"

definition errno :: "i32 \<Rightarrow> errno_info option" where
  "errno code =
     (case name_and_desc code of
        None \<Rightarrow> None
      | Some (name, description) \<Rightarrow>
          Some \<lparr>en_number = code, en_name = name, en_description = description\<rparr>)"

definition signal_table :: "(int \<times> string) list" where
  "signal_table = [
    (1, ''SIGHUP''),
    (2, ''SIGINT''),
    (3, ''SIGQUIT''),
    (4, ''SIGILL''),
    (5, ''SIGTRAP''),
    (6, ''SIGABRT''),
    (7, ''SIGBUS''),
    (8, ''SIGFPE''),
    (9, ''SIGKILL''),
    (10, ''SIGUSR1''),
    (11, ''SIGSEGV''),
    (12, ''SIGUSR2''),
    (13, ''SIGPIPE''),
    (14, ''SIGALRM''),
    (15, ''SIGTERM''),
    (16, ''SIGSTKFLT''),
    (17, ''SIGCHLD''),
    (18, ''SIGCONT''),
    (19, ''SIGSTOP''),
    (20, ''SIGTSTP''),
    (21, ''SIGTTIN''),
    (22, ''SIGTTOU''),
    (23, ''SIGURG''),
    (24, ''SIGXCPU''),
    (25, ''SIGXFSZ''),
    (26, ''SIGVTALRM''),
    (27, ''SIGPROF''),
    (28, ''SIGWINCH''),
    (29, ''SIGIO''),
    (30, ''SIGPWR''),
    (31, ''SIGSYS'')]"

definition signal_name :: "i32 \<Rightarrow> string option" where
  "signal_name sig = map_of signal_table (sint sig)"

declare errno_table_def [exec] name_and_desc_def [exec] errno_def [exec]
  signal_table_def [exec] signal_name_def [exec]

subsection \<open>Which numbers have a name\<close>

lemma errno_table_keys: "map fst errno_table = filter (\<lambda>k. k \<noteq> 41 \<and> k \<noteq> 58) [1..133]"
  by (simp add: errno_table_def upto.simps)

lemma errno_table_codes: "distinct (map str_code (map (fst \<circ> snd) errno_table))"
  by (simp add: errno_table_def str_code_def)

lemma errno_table_names: "distinct (map (fst \<circ> snd) errno_table)"
  by (rule distinct_by_code [OF errno_table_codes])

lemma errno_Some_iff:
  "(\<exists>e. errno code = Some e) \<longleftrightarrow> 1 \<le> sint code \<and> sint code \<le> 133 \<and> sint code \<noteq> 41 \<and> sint code \<noteq> 58"
proof -
  have "(\<exists>e. errno code = Some e) \<longleftrightarrow> map_of errno_table (sint code) \<noteq> None"
    by (auto simp: errno_def name_and_desc_def split: option.split)
  also have "\<dots> \<longleftrightarrow> sint code \<in> set (map fst errno_table)"
    by (simp add: map_of_eq_None_iff)
  finally show ?thesis by (auto simp: errno_table_keys)
qed

lemma errno_number: "errno code = Some e \<Longrightarrow> en_number e = code"
  by (auto simp: errno_def split: option.splits)

lemma map_of_value_inject:
  assumes "distinct (map f (map snd xs))" "map_of xs k = Some u" "map_of xs l = Some v" "f u = f v"
  shows "k = l"
proof -
  have "distinct (map (f \<circ> snd) xs)" using assms(1) by simp
  then have inj: "inj_on (f \<circ> snd) (set xs)" by (simp add: distinct_map)
  have "(f \<circ> snd) (k, u) = (f \<circ> snd) (l, v)" using assms(4) by simp
  from inj_onD [OF inj this] show ?thesis using assms(2,3) by (auto dest: map_of_SomeD)
qed

lemma errno_name_inject:
  assumes "errno c = Some e" "errno d = Some e'" "en_name e = en_name e'"
  shows "c = d"
proof -
  obtain u v where "map_of errno_table (sint c) = Some u" "map_of errno_table (sint d) = Some v"
    "fst u = fst v"
    using assms by (auto simp: errno_def name_and_desc_def split: option.splits)
  then have "sint c = sint d"
    using map_of_value_inject [of fst errno_table] errno_table_names by (simp add: comp_assoc)
  then show ?thesis by (simp add: signed_word_eqI)
qed

lemma signal_table_keys: "map fst signal_table = [1..31]"
  by (simp add: signal_table_def upto.simps)

lemma signal_table_names: "distinct (map snd signal_table)"
  by (simp add: signal_table_def)

lemma signal_name_Some_iff:
  "(\<exists>n. signal_name sig = Some n) \<longleftrightarrow> 1 \<le> sint sig \<and> sint sig \<le> 31"
proof -
  have "(\<exists>n. signal_name sig = Some n) \<longleftrightarrow> sint sig \<in> set (map fst signal_table)"
    unfolding signal_name_def using map_of_eq_None_iff [of signal_table "sint sig"] by auto
  then show ?thesis by (auto simp: signal_table_keys)
qed

subsection \<open>Properties\<close>

text \<open>
  The errno table covers 1 to 133 except 41 and 58, the number is kept, and no two
  numbers share a name.
\<close>

lemma errno_covers:
  "dom errno = {c. 1 \<le> sint c \<and> sint c \<le> 133 \<and> sint c \<noteq> 41 \<and> sint c \<noteq> 58}
   \<and> inj_on (\<lambda>c. en_name (the (errno c))) (dom errno)
   \<and> map_option en_number \<circ> errno = (\<lambda>c. map_option (\<lambda>_. c) (errno c))"
proof (intro conjI)
  show "dom errno = {c. 1 \<le> sint c \<and> sint c \<le> 133 \<and> sint c \<noteq> 41 \<and> sint c \<noteq> 58}"
    using errno_Some_iff by (auto simp: dom_def)
  show "inj_on (\<lambda>c. en_name (the (errno c))) (dom errno)"
    by (rule inj_onI) (auto intro: errno_name_inject)
  show "map_option en_number \<circ> errno = (\<lambda>c. map_option (\<lambda>_. c) (errno c))"
  proof
    fix c
    show "(map_option en_number \<circ> errno) c = map_option (\<lambda>_. c) (errno c)"
      using errno_number [of c] by (cases "errno c") auto
  qed
qed

end
