(* ===== verification/Common_Event.thy ===== *)
theory Common_Event
  imports Common_Table Common_Errno
begin

section \<open>Trace events (\<^verbatim>\<open>crates/syren-common/src/event.rs\<close>)\<close>

text \<open>
  The event stream the backends produce: one event per completed syscall, plus process
  exits and delivered signals.  The six register arguments are a fixed-size array in the
  source (\<^verbatim>\<open>[u64; 6]\<close>); here they are a six-place constructor, so that reading an index
  that is not a constant is partial exactly where the source would panic.
\<close>

datatype args6 = Args u64 u64 u64 u64 u64 u64

fun args_list :: "args6 \<Rightarrow> u64 list" where
  "args_list (Args a b c d e f) = [a, b, c, d, e, f]"

text \<open>\<^verbatim>\<open>args[i]\<close> for a computed \<^verbatim>\<open>i\<close>: \<open>None\<close> is the out-of-bounds panic.\<close>

definition arg_at :: "args6 \<Rightarrow> nat \<Rightarrow> u64 option" where
  "arg_at as i = (if i < 6 then Some (args_list as ! i) else None)"

text \<open>\<^verbatim>\<open>args[0]\<close>, \<^verbatim>\<open>args[1]\<close>, \<^verbatim>\<open>args[3]\<close>, \<^verbatim>\<open>args[4]\<close>: constant indices are checked by the compiler.\<close>

fun arg0 :: "args6 \<Rightarrow> u64" where "arg0 (Args a b c d e f) = a"
fun arg1 :: "args6 \<Rightarrow> u64" where "arg1 (Args a b c d e f) = b"
fun arg3 :: "args6 \<Rightarrow> u64" where "arg3 (Args a b c d e f) = d"
fun arg4 :: "args6 \<Rightarrow> u64" where "arg4 (Args a b c d e f) = e"

record syscall_event =
  ev_pid :: u32
  ev_tid :: u32
  ev_nr :: u64
  ev_args :: args6
  ev_retval :: i64
  ev_ts_enter_ns :: u64
  ev_duration_ns :: u64

datatype event =
    SyscallEv syscall_event
  | ProcessExit u32 i32
  | SignalEv u32 i32

definition event_info :: "syscall_info list \<Rightarrow> syscall_event \<Rightarrow> syscall_info option" where
  "event_info T ev = Option.bind (u32_try_from (ev_nr ev)) (syscall_by_number T)"

definition is_error :: "syscall_event \<Rightarrow> bool" where
  "is_error ev \<longleftrightarrow> - 4095 \<le> sint (ev_retval ev) \<and> sint (ev_retval ev) < 0"

definition event_errno :: "syscall_event \<Rightarrow> i32 option" where
  "event_errno ev = (if is_error ev then Some (ucast (- ev_retval ev)) else None)"

declare arg_at_def [exec] event_info_def [exec] is_error_def [exec] event_errno_def [exec]

lemma length_args_list [simp]: "length (args_list as) = 6"
  by (cases as) simp

lemma arg_at_Some: "i < 6 \<Longrightarrow> arg_at as i = Some (args_list as ! i)"
  by (simp add: arg_at_def)

lemma args_list_nth:
  "args_list as ! 0 = arg0 as" "args_list as ! 1 = arg1 as" "args_list as ! 3 = arg3 as"
  "args_list as ! 4 = arg4 as"
  by (cases as; simp)+

text \<open>The negated return value of a failed call fits an \<^verbatim>\<open>i32\<close>.\<close>

lemma event_errno_sint:
  assumes "event_errno ev = Some e"
  shows "sint e = - sint (ev_retval ev) \<and> 1 \<le> sint e \<and> sint e \<le> 4095"
proof -
  let ?r = "ev_retval ev"
  from assms have r: "- 4095 \<le> sint ?r" "sint ?r < 0" and e: "e = ucast (- ?r)"
    by (auto simp: event_errno_def is_error_def split: if_splits)
  have "- ?r = word_of_int (- sint ?r)"
    using wi_hom_neg [of "sint ?r"] by simp
  then have "uint (- ?r) = take_bit 64 (- sint ?r)"
    using uint_word_of_int_eq [of "- sint ?r", where 'a = 64] by simp
  also have "\<dots> = - sint ?r" using r by (simp add: take_bit_int_eq_self)
  finally have "e = word_of_int (- sint ?r)" by (simp add: e ucast_eq)
  then have "sint e = sint (word_of_int (- sint ?r) :: i32)" by (simp only:)
  also have "\<dots> = signed_take_bit 31 (- sint ?r)" by (subst signed_of_int) simp
  also have "\<dots> = - sint ?r"
    using r by (intro signed_take_bit_int_eq_self) auto
  finally show ?thesis using r by simp
qed

lemma event_errno_None: "event_errno ev = None \<longleftrightarrow> \<not> is_error ev"
  by (simp add: event_errno_def)

subsection \<open>Properties\<close>

text \<open>
  A call failed with errno \<open>e\<close> exactly when its return value is \<open>-e\<close> with \<open>e\<close>
  between 1 and 4095; the cast to 32 bits loses nothing.
\<close>

lemma event_errno_iff:
  "event_errno ev = Some e \<longleftrightarrow> sint e = - sint (ev_retval ev) \<and> 1 \<le> sint e \<and> sint e \<le> 4095"
proof
  assume e: "sint e = - sint (ev_retval ev) \<and> 1 \<le> sint e \<and> sint e \<le> 4095"
  then obtain e' where e': "event_errno ev = Some e'"
    by (auto simp: event_errno_def is_error_def)
  with event_errno_sint [OF e'] e have "sint e' = sint e" by simp
  then have "e' = e" by (rule signed_word_eqI)
  with e' show "event_errno ev = Some e" by simp
qed (rule event_errno_sint)

end
