(* ===== verification/Decode_Consts.thy ===== *)
theory Decode_Consts
  imports Common_Event "HOL-Library.Monad_Syntax"
begin

section \<open>Symbolic constants (\<^verbatim>\<open>crates/syren-decode/src/consts.rs\<close>)\<close>

text \<open>
  Socket families, types, protocols, socket options and signals by name.  Each \<^verbatim>\<open>match\<close> on
  a number is a table from numbers to names; a number not in it falls through.
\<close>

definition address_family :: "u64 \<Rightarrow> string option" where
  "address_family value = map_of
    [(0, ''AF_UNSPEC''), (1, ''AF_UNIX''), (2, ''AF_INET''), (10, ''AF_INET6''),
     (15, ''AF_KEY''), (16, ''AF_NETLINK''), (17, ''AF_PACKET''), (25, ''AF_WANPIPE''),
     (27, ''AF_IB''), (29, ''AF_CAN''), (31, ''AF_BLUETOOTH''), (38, ''AF_ALG''),
     (40, ''AF_VSOCK''), (44, ''AF_XDP'')] value"

definition SOCK_NONBLOCK :: u64 where "SOCK_NONBLOCK = 0x800"
definition SOCK_CLOEXEC :: u64 where "SOCK_CLOEXEC = 0x80000"

definition socket_type :: "u64 \<Rightarrow> string option" where
  "socket_type value =
     (case map_of
         [(1, ''SOCK_STREAM''), (2, ''SOCK_DGRAM''), (3, ''SOCK_RAW''), (4, ''SOCK_RDM''),
          (5, ''SOCK_SEQPACKET''), (6, ''SOCK_DCCP''), (10, ''SOCK_PACKET'')]
         (value AND NOT (SOCK_CLOEXEC OR SOCK_NONBLOCK)) of
        None \<Rightarrow> None
      | Some base \<Rightarrow> Some (base
          @ (if value AND SOCK_CLOEXEC \<noteq> 0 then ''|SOCK_CLOEXEC'' else [])
          @ (if value AND SOCK_NONBLOCK \<noteq> 0 then ''|SOCK_NONBLOCK'' else [])))"

definition protocol :: "u64 \<Rightarrow> u64 \<Rightarrow> string option" where
  "protocol family value =
     (if family \<notin> set [0, 2, 10] then None
      else map_of
        [(0, ''IPPROTO_IP''), (1, ''IPPROTO_ICMP''), (2, ''IPPROTO_IGMP''), (6, ''IPPROTO_TCP''),
         (17, ''IPPROTO_UDP''), (41, ''IPPROTO_IPV6''), (58, ''IPPROTO_ICMPV6''),
         (132, ''IPPROTO_SCTP''), (136, ''IPPROTO_UDPLITE''), (255, ''IPPROTO_RAW'')] value)"

definition sockopt_level :: "u64 \<Rightarrow> string option" where
  "sockopt_level value = map_of
    [(0, ''SOL_IP''), (1, ''SOL_SOCKET''), (6, ''SOL_TCP''), (17, ''SOL_UDP''),
     (41, ''SOL_IPV6''), (58, ''SOL_ICMPV6''), (132, ''SOL_SCTP''), (255, ''SOL_RAW''),
     (263, ''SOL_PACKET''), (270, ''SOL_NETLINK'')] value"

definition so_socket :: "u64 \<Rightarrow> string option" where
  "so_socket value = map_of
    [(1, ''SO_DEBUG''), (2, ''SO_REUSEADDR''), (3, ''SO_TYPE''), (4, ''SO_ERROR''),
     (5, ''SO_DONTROUTE''), (6, ''SO_BROADCAST''), (7, ''SO_SNDBUF''), (8, ''SO_RCVBUF''),
     (9, ''SO_KEEPALIVE''), (10, ''SO_OOBINLINE''), (11, ''SO_NO_CHECK''), (12, ''SO_PRIORITY''),
     (13, ''SO_LINGER''), (14, ''SO_BSDCOMPAT''), (15, ''SO_REUSEPORT''), (16, ''SO_PASSCRED''),
     (17, ''SO_PEERCRED''), (18, ''SO_RCVLOWAT''), (19, ''SO_SNDLOWAT''), (20, ''SO_RCVTIMEO''),
     (21, ''SO_SNDTIMEO''), (25, ''SO_BINDTODEVICE'')] value"

definition so_tcp :: "u64 \<Rightarrow> string option" where
  "so_tcp value = map_of
    [(1, ''TCP_NODELAY''), (2, ''TCP_MAXSEG''), (3, ''TCP_CORK''), (4, ''TCP_KEEPIDLE''),
     (5, ''TCP_KEEPINTVL''), (6, ''TCP_KEEPCNT''), (7, ''TCP_SYNCNT''), (8, ''TCP_LINGER2''),
     (9, ''TCP_DEFER_ACCEPT''), (10, ''TCP_WINDOW_CLAMP''), (11, ''TCP_INFO''),
     (12, ''TCP_QUICKACK''), (13, ''TCP_CONGESTION'')] value"

definition so_ip :: "u64 \<Rightarrow> string option" where
  "so_ip value = map_of
    [(1, ''IP_TOS''), (2, ''IP_TTL''), (3, ''IP_HDRINCL''), (4, ''IP_OPTIONS''),
     (8, ''IP_PKTINFO''), (10, ''IP_MTU_DISCOVER''), (11, ''IP_RECVERR''), (14, ''IP_MTU''),
     (15, ''IP_FREEBIND''), (32, ''IP_MULTICAST_IF''), (33, ''IP_MULTICAST_TTL''),
     (34, ''IP_MULTICAST_LOOP''), (35, ''IP_ADD_MEMBERSHIP''), (36, ''IP_DROP_MEMBERSHIP'')] value"

definition so_ipv6 :: "u64 \<Rightarrow> string option" where
  "so_ipv6 value = map_of
    [(16, ''IPV6_MULTICAST_IF''), (18, ''IPV6_MULTICAST_LOOP''), (20, ''IPV6_ADD_MEMBERSHIP''),
     (26, ''IPV6_V6ONLY''), (49, ''IPV6_RECVPKTINFO''), (67, ''IPV6_TCLASS'')] value"

definition sockopt_name :: "u64 \<Rightarrow> u64 \<Rightarrow> string option" where
  "sockopt_name level value =
     (if level = 1 then so_socket value
      else if level = 6 then so_tcp value
      else if level = 0 then so_ip value
      else if level = 41 then so_ipv6 value
      else None)"

text \<open>\<^verbatim>\<open>metas[i]\<close>: \<open>None\<close> is the out-of-bounds panic.\<close>

definition nth_opt :: "'a list \<Rightarrow> nat \<Rightarrow> 'a option" where
  "nth_opt xs i = (if i < length xs then Some (xs ! i) else None)"

text \<open>
  The outer option is the panic of an index out of bounds, the inner one the code's own
  \<^verbatim>\<open>None\<close>: no symbolic form.
\<close>

definition consts_render ::
    "string \<Rightarrow> arg_info list \<Rightarrow> nat \<Rightarrow> syscall_event \<Rightarrow> string option option" where
  "consts_render syscall metas i ev = do {
     raw \<leftarrow> arg_at (ev_args ev) i;
     meta \<leftarrow> nth_opt metas i;
     let name = ai_name meta in Some (
       if syscall \<in> set [''socket'', ''socketpair''] \<and> name = ''family'' then address_family raw
       else if syscall \<in> set [''socket'', ''socketpair''] \<and> name = ''type'' then socket_type raw
       else if syscall \<in> set [''socket'', ''socketpair''] \<and> name = ''protocol''
       then protocol (arg0 (ev_args ev)) raw
       else if syscall \<in> set [''setsockopt'', ''getsockopt''] \<and> name = ''level''
       then sockopt_level raw
       else if syscall \<in> set [''setsockopt'', ''getsockopt''] \<and> name = ''optname''
       then sockopt_name (arg1 (ev_args ev)) raw
       else if syscall \<in> set [''kill'', ''tkill'', ''tgkill'', ''rt_sigaction'', ''rt_sigqueueinfo'']
         \<and> name = ''sig''
       then signal_name (ucast raw)
       else None)
   }"

declare address_family_def [exec] SOCK_NONBLOCK_def [exec] SOCK_CLOEXEC_def [exec]
  socket_type_def [exec] protocol_def [exec] sockopt_level_def [exec] so_socket_def [exec]
  so_tcp_def [exec] so_ip_def [exec] so_ipv6_def [exec] sockopt_name_def [exec]
  nth_opt_def [exec] consts_render_def [exec] signal_name_def [exec] signal_table_def [exec]

lemma nth_opt_Some: "i < length xs \<Longrightarrow> nth_opt xs i = Some (xs ! i)"
  by (simp add: nth_opt_def)

lemma nth_opt_Some_iff: "nth_opt xs i = Some x \<longleftrightarrow> i < length xs \<and> xs ! i = x"
  by (auto simp: nth_opt_def)

lemma consts_render_total:
  assumes "i < 6" "i < length metas"
  shows "\<exists>r. consts_render syscall metas i ev = Some r"
  using assms by (simp add: consts_render_def arg_at_Some nth_opt_Some Let_def)

end
