(* ===== verification/Common_Record.thy ===== *)
theory Common_Record
  imports Common_Event
begin

section \<open>The ring-buffer record (\<^verbatim>\<open>crates/syren-common/src/ebpf.rs\<close>)\<close>

text \<open>
  The wire format between the in-kernel programs and the eBPF backend: a
  \<^verbatim>\<open>#[repr(C)]\<close> struct copied byte for byte through the ring buffer.  \<open>rec_from_bytes\<close> is
  the unaligned read of the struct on the x86-64 ABI (little endian, fields in
  declaration order, no padding but the explicit one); \<open>rec_to_bytes\<close> is the memory the
  kernel side fills.
\<close>

definition CAP_BYTES :: nat where "CAP_BYTES = 128"
definition MAX_SYSCALLS :: u32 where "MAX_SYSCALLS = 512"

record bpf_record =
  rec_pid :: u32
  rec_tid :: u32
  rec_nr :: u64
  rec_args :: args6
  rec_retval :: i64
  rec_ts_enter_ns :: u64
  rec_duration_ns :: u64
  rec_cap_addr :: u64
  rec_cap_len :: u32
  rec_pad :: u32
  rec_cap :: "u8 list"

text \<open>The capture array has a fixed size.\<close>

definition rec_ok :: "bpf_record \<Rightarrow> bool" where
  "rec_ok r \<longleftrightarrow> length (rec_cap r) = CAP_BYTES"

subsection \<open>Little-endian words\<close>

fun le_bytes :: "nat \<Rightarrow> nat \<Rightarrow> u8 list" where
  "le_bytes 0 v = []"
| "le_bytes (Suc n) v = of_nat (v mod 256) # le_bytes n (v div 256)"

fun le_val :: "u8 list \<Rightarrow> nat" where
  "le_val [] = 0"
| "le_val (b # bs) = unat b + 256 * le_val bs"

definition field :: "u8 list \<Rightarrow> nat \<Rightarrow> nat \<Rightarrow> nat" where
  "field bs off n = le_val (take n (drop off bs))"

definition REC_SIZE :: nat where "REC_SIZE = 232"

definition rec_to_bytes :: "bpf_record \<Rightarrow> u8 list" where
  "rec_to_bytes r =
     le_bytes 4 (unat (rec_pid r)) @ le_bytes 4 (unat (rec_tid r)) @ le_bytes 8 (unat (rec_nr r))
     @ concat (map (\<lambda>a. le_bytes 8 (unat a)) (args_list (rec_args r)))
     @ le_bytes 8 (unat (rec_retval r)) @ le_bytes 8 (unat (rec_ts_enter_ns r))
     @ le_bytes 8 (unat (rec_duration_ns r)) @ le_bytes 8 (unat (rec_cap_addr r))
     @ le_bytes 4 (unat (rec_cap_len r)) @ le_bytes 4 (unat (rec_pad r)) @ rec_cap r"

definition rec_from_bytes :: "u8 list \<Rightarrow> bpf_record option" where
  "rec_from_bytes bs =
     (if length bs < REC_SIZE then None
      else Some \<lparr>rec_pid = of_nat (field bs 0 4), rec_tid = of_nat (field bs 4 4),
        rec_nr = of_nat (field bs 8 8),
        rec_args = Args (of_nat (field bs 16 8)) (of_nat (field bs 24 8)) (of_nat (field bs 32 8))
          (of_nat (field bs 40 8)) (of_nat (field bs 48 8)) (of_nat (field bs 56 8)),
        rec_retval = of_nat (field bs 64 8), rec_ts_enter_ns = of_nat (field bs 72 8),
        rec_duration_ns = of_nat (field bs 80 8), rec_cap_addr = of_nat (field bs 88 8),
        rec_cap_len = of_nat (field bs 96 4), rec_pad = of_nat (field bs 100 4),
        rec_cap = take CAP_BYTES (drop 104 bs)\<rparr>)"

definition captured :: "bpf_record \<Rightarrow> u8 list" where
  "captured r = take (min (unat (rec_cap_len r)) CAP_BYTES) (rec_cap r)"

declare CAP_BYTES_def [exec] MAX_SYSCALLS_def [exec] REC_SIZE_def [exec] field_def [exec]
  rec_to_bytes_def [exec] rec_from_bytes_def [exec] captured_def [exec] rec_ok_def [exec]

lemma length_le_bytes [simp]: "length (le_bytes n v) = n"
  by (induction n arbitrary: v) auto

lemma le_val_le_bytes: "le_val (le_bytes n v) = v mod 256 ^ n"
proof (induction n arbitrary: v)
  case (Suc n)
  have "unat (of_nat (v mod 256) :: u8) = v mod 256"
    by (simp add: unat_of_nat)
  with Suc show ?case by (simp add: mod_mult2_eq)
qed simp

lemma le_bytes_le_val: "le_bytes (length bs) (le_val bs) = bs"
proof (induction bs)
  case (Cons b bs)
  have "unat b < 256" using unsigned_less [of b] by simp
  with Cons show ?case by simp
qed simp

lemma le_val_bound: "le_val bs < 256 ^ length bs"
proof (induction bs)
  case (Cons b bs)
  have "unat b < 256" using unsigned_less [of b] by simp
  with Cons show ?case by simp
qed simp

text \<open>A word of \<open>8 n\<close> bits survives the trip through \<open>n\<close> bytes, and so do the bytes.\<close>

lemma word_via_bytes:
  assumes "LENGTH('a::len) = 8 * n"
  shows "(of_nat (le_val (le_bytes n (unat (w :: 'a word)))) :: 'a word) = w"
proof -
  have "unat w < 2 ^ (8 * n)" using unsigned_less [of w] assms by simp
  then have "unat w < 256 ^ n" by (simp add: power_mult)
  then show ?thesis by (simp add: le_val_le_bytes)
qed

lemma bytes_via_word:
  assumes "LENGTH('a::len) = 8 * length bs"
  shows "le_bytes (length bs) (unat (of_nat (le_val bs) :: 'a word)) = bs"
proof -
  have "le_val bs < 2 ^ LENGTH('a)" using le_val_bound [of bs] assms by (simp add: power_mult)
  then show ?thesis by (simp add: unat_of_nat le_bytes_le_val)
qed

lemma length_rec_to_bytes: "rec_ok r \<Longrightarrow> length (rec_to_bytes r) = REC_SIZE"
  by (cases "rec_args r") (simp add: rec_to_bytes_def rec_ok_def REC_SIZE_def CAP_BYTES_def)

lemma rec_from_to_bytes:
  assumes "rec_ok r"
  shows "rec_from_bytes (rec_to_bytes r @ rest) = Some r"
proof -
  have len: "\<not> length (rec_to_bytes r @ rest) < REC_SIZE"
    using length_rec_to_bytes [OF assms] by simp
  obtain a b c d e f where args: "rec_args r = Args a b c d e f" by (cases "rec_args r")
  have cap: "length (rec_cap r) = 128" using assms by (simp add: rec_ok_def CAP_BYTES_def)
  show ?thesis
    unfolding rec_from_bytes_def if_not_P [OF len]
    by (simp add: rec_to_bytes_def field_def args word_via_bytes cap CAP_BYTES_def)
qed

lemma take_split: "k < n \<Longrightarrow> take n (drop off bs) = take k (drop off bs) @ take (n - k) (drop (off + k) bs)"
  using take_add [of k "n - k" "drop off bs"] by (simp add: add.commute)

lemma field_bytes:
  assumes "off + n \<le> length bs" "LENGTH('a::len) = 8 * n"
  shows "le_bytes n (unat (of_nat (field bs off n) :: 'a word)) = take n (drop off bs)"
  using bytes_via_word [of "take n (drop off bs)", where 'a = 'a] assms by (simp add: field_def)

lemma rec_to_from_bytes:
  assumes "rec_from_bytes bs = Some r"
  shows "rec_to_bytes r = take REC_SIZE bs \<and> rec_ok r"
proof -
  from assms have len: "232 \<le> length bs"
    by (auto simp: rec_from_bytes_def REC_SIZE_def split: if_splits)
  have "take 232 bs = take 4 bs @ take 4 (drop 4 bs) @ take 8 (drop 8 bs)
    @ take 8 (drop 16 bs) @ take 8 (drop 24 bs) @ take 8 (drop 32 bs) @ take 8 (drop 40 bs)
    @ take 8 (drop 48 bs) @ take 8 (drop 56 bs) @ take 8 (drop 64 bs) @ take 8 (drop 72 bs)
    @ take 8 (drop 80 bs) @ take 8 (drop 88 bs) @ take 4 (drop 96 bs) @ take 4 (drop 100 bs)
    @ take 128 (drop 104 bs)"
    using take_split [of 4 232 0 bs] by (simp add: take_split [of 4 _ 4 bs] take_split [of 8 _ 8 bs]
      take_split [of 8 _ 16 bs] take_split [of 8 _ 24 bs] take_split [of 8 _ 32 bs]
      take_split [of 8 _ 40 bs] take_split [of 8 _ 48 bs] take_split [of 8 _ 56 bs]
      take_split [of 8 _ 64 bs] take_split [of 8 _ 72 bs] take_split [of 8 _ 80 bs]
      take_split [of 8 _ 88 bs] take_split [of 4 _ 96 bs] take_split [of 4 _ 100 bs])
  moreover from assms len have "rec_to_bytes r = take 4 bs @ take 4 (drop 4 bs) @ take 8 (drop 8 bs)
    @ take 8 (drop 16 bs) @ take 8 (drop 24 bs) @ take 8 (drop 32 bs) @ take 8 (drop 40 bs)
    @ take 8 (drop 48 bs) @ take 8 (drop 56 bs) @ take 8 (drop 64 bs) @ take 8 (drop 72 bs)
    @ take 8 (drop 80 bs) @ take 8 (drop 88 bs) @ take 4 (drop 96 bs) @ take 4 (drop 100 bs)
    @ take 128 (drop 104 bs)"
    by (auto simp: rec_from_bytes_def rec_to_bytes_def REC_SIZE_def CAP_BYTES_def field_bytes)
  moreover from assms len have "rec_ok r"
    by (auto simp: rec_from_bytes_def rec_ok_def REC_SIZE_def CAP_BYTES_def)
  ultimately show ?thesis by (simp add: REC_SIZE_def)
qed

lemma length_captured:
  assumes "rec_ok r"
  shows "length (captured r) = min (unat (rec_cap_len r)) CAP_BYTES"
  using assms by (simp add: captured_def rec_ok_def)

subsection \<open>Properties\<close>

text \<open>
  C20. Decoding a ring-buffer sample inverts the in-memory layout of a record: it succeeds
  exactly on samples of at least 232 bytes and yields the one record with those bytes.
\<close>

theorem record_layout:
  "rec_from_bytes bs = Some r \<longleftrightarrow>
     REC_SIZE \<le> length bs \<and> rec_ok r \<and> rec_to_bytes r = take REC_SIZE bs"
proof
  assume "REC_SIZE \<le> length bs \<and> rec_ok r \<and> rec_to_bytes r = take REC_SIZE bs"
  then show "rec_from_bytes bs = Some r"
    using rec_from_to_bytes [of r "drop REC_SIZE bs"] by simp
qed (use rec_to_from_bytes in \<open>auto simp: rec_from_bytes_def split: if_splits\<close>)

end
