(* ===== verification/Decode_Lib.thy ===== *)
theory Decode_Lib
  imports Decode_Render Decode_Flags Decode_Consts Common_Record
begin

section \<open>Decoding a syscall event (\<^verbatim>\<open>crates/syren-decode/src/lib.rs\<close>)\<close>

text \<open>
  \<open>decode\<close> turns a raw event into names and rendered arguments, reading strings and
  buffers through a \<open>reader\<close>.  The functions that index a slice by a computed index
  return an option, whose \<open>None\<close> is the panic; the lemmas show that no table the build
  script can generate leads there.
\<close>

subsection \<open>The decoded form\<close>

record decoded_arg =
  da_name :: "string option"
  da_value :: string
  da_raw :: u64

record decoded_error =
  de_errno :: i32
  de_name :: string
  de_description :: string

record decoded_syscall =
  ds_pid :: u32
  ds_tid :: u32
  ds_nr :: u64
  ds_name :: string
  ds_args :: "decoded_arg list"
  ds_retval :: i64
  ds_error :: "decoded_error option"
  ds_duration_ns :: u64
  ds_ts_enter_ns :: u64

fun push_args :: "nat \<Rightarrow> decoded_arg list \<Rightarrow> string \<Rightarrow> string" where
  "push_args i [] out = out"
| "push_args i (arg # args) out =
     push_args (i + 1) args ((if i > 0 then out @ '', '' else out) @ da_value arg)"

definition signature :: "decoded_syscall \<Rightarrow> string" where
  "signature d = push_args 0 (ds_args d) (ds_name d @ ''('') @ '')''"

definition returns_hex :: "string \<Rightarrow> bool" where
  "returns_hex name \<longleftrightarrow> name \<in> set [''mmap'', ''mmap2'', ''brk'', ''mremap'', ''shmat'']"

definition retval_str :: "decoded_syscall \<Rightarrow> string" where
  "retval_str d =
     (case ds_error d of
        Some e \<Rightarrow> ''-1 '' @ de_name e @ '' ('' @ de_description e @ '')''
      | None \<Rightarrow>
          if returns_hex (ds_name d) \<and> 0 < sint (ds_retval d) then hex (unat (ds_retval d))
          else dec_int (sint (ds_retval d)))"

subsection \<open>Rendering one argument\<close>

definition render_fd :: "u64 \<Rightarrow> string" where
  "render_fd value =
     (let fd = sint (ucast value :: i32) in if fd = - 100 then ''AT_FDCWD'' else dec_int fd)"

definition ptr_or_null :: "u64 \<Rightarrow> string" where
  "ptr_or_null value = (if value = 0 then ''NULL'' else hex (unat value))"

definition render_buf ::
    "arg_info list \<Rightarrow> nat \<Rightarrow> syscall_event \<Rightarrow> reader \<Rightarrow> string option" where
  "render_buf metas i ev mem = do {
     addr \<leftarrow> arg_at (ev_args ev) i;
     if addr = 0 then Some ''NULL''
     else do {
       bound \<leftarrow> (case nth_opt metas (i + 1) of
           Some nxt \<Rightarrow> if ai_ty nxt = TySize then map_option unat (arg_at (ev_args ev) (i + 1))
                      else Some MAX_STR
         | None \<Rightarrow> Some MAX_STR);
       let want = min bound (MAX_STR + 1) in Some (
         case mem addr want of
           Some bytes \<Rightarrow> if bytes \<noteq> [] then quote_bytes bytes else hex (unat addr)
         | None \<Rightarrow> hex (unat addr))
     }
   }"

text \<open>\<^verbatim>\<open>i32::from_ne_bytes\<close> on a little-endian machine.\<close>

definition i32_from_bytes :: "u8 list \<Rightarrow> i32 option" where
  "i32_from_bytes bytes = (if length bytes = 4 then Some (of_nat (le_val bytes)) else None)"

definition render_sockopt_optval :: "syscall_event \<Rightarrow> reader \<Rightarrow> string" where
  "render_sockopt_optval ev mem =
     (let addr = arg3 (ev_args ev) in
      if addr = 0 then ''NULL''
      else if arg4 (ev_args ev) = 4 then
        (case Option.bind (mem addr 4) i32_from_bytes of
           Some word \<Rightarrow> ''['' @ dec_int (sint word) @ '']''
         | None \<Rightarrow> hex (unat addr))
      else hex (unat addr))"

definition render_typed ::
    "string \<Rightarrow> arg_info list \<Rightarrow> nat \<Rightarrow> syscall_event \<Rightarrow> reader \<Rightarrow> arg_info \<Rightarrow> u64 \<Rightarrow> string option" where
  "render_typed syscall metas i ev mem meta raw =
     (case ai_ty meta of
        TyFd \<Rightarrow> Some (render_fd raw)
      | TyPath \<Rightarrow> Some (case map_option quote_bytes (read_cstr mem raw PATH_CAP) of
                         Some s \<Rightarrow> s | None \<Rightarrow> ptr_or_null raw)
      | TyBuf \<Rightarrow> render_buf metas i ev mem
      | TySize \<Rightarrow> Some (dec (unat raw))
      | TyUint \<Rightarrow> Some (dec (unat raw))
      | TyInt \<Rightarrow> Some (dec_int (sint raw))
      | TyOffset \<Rightarrow> Some (dec_int (sint raw))
      | TyHex \<Rightarrow> Some (hex (unat raw))
      | TyFlags \<Rightarrow> Some (case flags_render syscall (ai_name meta) raw of
                         Some s \<Rightarrow> s | None \<Rightarrow> hex (unat raw))
      | TyPtr \<Rightarrow> Some (ptr_or_null raw))"

definition render_arg ::
    "string \<Rightarrow> arg_info list \<Rightarrow> nat \<Rightarrow> syscall_event \<Rightarrow> reader \<Rightarrow> string option" where
  "render_arg syscall metas i ev mem = do {
     raw \<leftarrow> arg_at (ev_args ev) i;
     symbolic \<leftarrow> consts_render syscall metas i ev;
     case symbolic of
       Some s \<Rightarrow> Some s
     | None \<Rightarrow> do {
         meta \<leftarrow> nth_opt metas i;
         if syscall = ''setsockopt'' \<and> ai_name meta = ''optval''
         then Some (render_sockopt_optval ev mem)
         else render_typed syscall metas i ev mem meta raw
       }
   }"

subsection \<open>Decoding an event\<close>

definition decode_one ::
    "string \<Rightarrow> arg_info list \<Rightarrow> syscall_event \<Rightarrow> reader \<Rightarrow> nat \<Rightarrow> decoded_arg option" where
  "decode_one syscall metas ev mem i = do {
     meta \<leftarrow> nth_opt metas i;
     value \<leftarrow> render_arg syscall metas i ev mem;
     raw \<leftarrow> arg_at (ev_args ev) i;
     Some \<lparr>da_name = Some (ai_name meta), da_value = value, da_raw = raw\<rparr>
   }"

definition decode_typed ::
    "string \<Rightarrow> arg_info list \<Rightarrow> syscall_event \<Rightarrow> reader \<Rightarrow> decoded_arg list option" where
  "decode_typed syscall metas ev mem =
     those (map (decode_one syscall metas ev mem) [0..<length metas])"

definition decode_raw :: "syscall_event \<Rightarrow> decoded_arg list" where
  "decode_raw ev =
     (case rposition (\<lambda>a. a \<noteq> 0) (args_list (ev_args ev)) of
        None \<Rightarrow> []
      | Some lst \<Rightarrow>
          map (\<lambda>raw. \<lparr>da_name = None, da_value = hex (unat raw), da_raw = raw\<rparr>)
            (take (Suc lst) (args_list (ev_args ev))))"

definition decode_error :: "syscall_event \<Rightarrow> decoded_error option" where
  "decode_error ev =
     map_option (\<lambda>e. \<lparr>de_errno = en_number e, de_name = en_name e,
                       de_description = en_description e\<rparr>)
       (Option.bind (event_errno ev) errno)"

definition decode :: "syscall_info list \<Rightarrow> syscall_event \<Rightarrow> reader \<Rightarrow> decoded_syscall option" where
  "decode T ev mem = do {
     let name = syscall_name T (ev_nr ev);
     args \<leftarrow> (case event_info T ev of
         Some info \<Rightarrow> if si_args info \<noteq> [] then decode_typed name (si_args info) ev mem
                     else Some (decode_raw ev)
       | None \<Rightarrow> Some (decode_raw ev));
     Some \<lparr>ds_pid = ev_pid ev, ds_tid = ev_tid ev, ds_nr = ev_nr ev, ds_name = name,
       ds_args = args, ds_retval = ev_retval ev, ds_error = decode_error ev,
       ds_duration_ns = ev_duration_ns ev, ds_ts_enter_ns = ev_ts_enter_ns ev\<rparr>
   }"

declare push_args.simps [exec] signature_def [exec] returns_hex_def [exec] retval_str_def [exec]
  render_fd_def [exec] ptr_or_null_def [exec] render_buf_def [exec] i32_from_bytes_def [exec]
  render_sockopt_optval_def [exec] render_typed_def [exec] render_arg_def [exec]
  decode_one_def [exec] decode_typed_def [exec] decode_raw_def [exec] decode_error_def [exec]
  decode_def [exec]

subsection \<open>No panic\<close>

lemma render_typed_total:
  assumes "i < length metas" "length metas \<le> 6" "meta = metas ! i"
  shows "\<exists>s. render_typed syscall metas i ev mem meta raw = Some s"
proof -
  have "\<exists>s. render_buf metas i ev mem = Some s"
    using assms
    by (cases "i + 1 < length metas") (auto simp: render_buf_def arg_at_Some nth_opt_def Let_def)
  then show ?thesis by (cases "ai_ty meta") (auto simp: render_typed_def)
qed

lemma render_arg_total:
  assumes "i < length metas" "length metas \<le> 6"
  shows "\<exists>s. render_arg syscall metas i ev mem = Some s"
proof -
  obtain r where "consts_render syscall metas i ev = Some r"
    using consts_render_total [of i metas syscall ev] assms by auto
  with render_typed_total [OF assms refl] show ?thesis
    using assms by (cases r) (auto simp: render_arg_def arg_at_Some nth_opt_Some)
qed

lemma decode_one_total:
  assumes "i < length metas" "length metas \<le> 6"
  shows "\<exists>a. decode_one syscall metas ev mem i = Some a"
  using render_arg_total [OF assms, of syscall ev mem] assms
  by (auto simp: decode_one_def nth_opt_Some arg_at_Some)

definition table_arity_ok :: "syscall_info list \<Rightarrow> bool" where
  "table_arity_ok T \<longleftrightarrow> list_all (\<lambda>s. length (si_args s) \<le> 6) T"

lemma info_of_arity: "info_of e = Some i \<Longrightarrow> length (si_args i) \<le> 6"
  using args_of_Some [of "ent_name e"] by (auto simp: info_of_def split: bind_splits)

lemma table_of_arity:
  assumes "table_of tbl = Some T" shows "table_arity_ok T"
proof -
  have "length (si_args (T ! i)) \<le> 6" if "i < length T" for i
    using those_nth [of "map info_of (parse_tbl tbl)" T i]
      those_length [of "map info_of (parse_tbl tbl)" T] assms that
    by (auto simp: table_of_def dest: info_of_arity)
  then show ?thesis by (auto simp: table_arity_ok_def list_all_length)
qed

lemma event_info_mem: "event_info T ev = Some info \<Longrightarrow> info \<in> set T"
  by (auto simp: event_info_def bind_eq_Some_conv dest: syscall_by_number_SomeD)

lemma decode_total:
  assumes "table_arity_ok T"
  shows "\<exists>d. decode T ev mem = Some d"
proof (cases "event_info T ev")
  case None
  then show ?thesis by (simp add: decode_def)
next
  case (Some info)
  with assms have len: "length (si_args info) \<le> 6"
    by (auto simp: table_arity_ok_def list_all_iff dest: event_info_mem)
  have "\<exists>as. decode_typed name (si_args info) ev mem = Some as" for name
    unfolding decode_typed_def
    by (rule those_Some) (use decode_one_total [OF _ len] in \<open>auto simp: list_all_iff\<close>)
  then obtain as where "decode_typed (syscall_name T (ev_nr ev)) (si_args info) ev mem = Some as"
    by blast
  with Some show ?thesis by (auto simp: decode_def Let_def)
qed

subsection \<open>The raw registers are kept\<close>

lemma decode_one_fields:
  "decode_one syscall metas ev mem i = Some a \<Longrightarrow>
     i < length metas \<and> i < 6 \<and> da_raw a = args_list (ev_args ev) ! i
     \<and> da_name a = Some (ai_name (metas ! i)) \<and> render_arg syscall metas i ev mem = Some (da_value a)"
  by (auto simp: decode_one_def bind_eq_Some_conv nth_opt_Some_iff arg_at_def split: if_splits)

lemma decode_typed_nth:
  assumes "decode_typed syscall metas ev mem = Some as"
  shows "length as = length metas
    \<and> (\<forall>i < length metas. decode_one syscall metas ev mem i = Some (as ! i))"
  using those_length [of "map (decode_one syscall metas ev mem) [0..<length metas]" as]
    those_nth [of "map (decode_one syscall metas ev mem) [0..<length metas]" as] assms
  by (simp add: decode_typed_def)

lemma decode_typed_raw:
  assumes "decode_typed syscall metas ev mem = Some as"
  shows "map da_raw as = take (length metas) (args_list (ev_args ev))"
    and "map da_name as = map (Some \<circ> ai_name) metas"
proof -
  note * = decode_typed_nth [OF assms]
  have field: "i < 6 \<and> da_raw (as ! i) = args_list (ev_args ev) ! i
      \<and> da_name (as ! i) = Some (ai_name (metas ! i))" if "i < length metas" for i
    using * that decode_one_fields by blast
  have "length metas \<le> 6"
    using field [of "length metas - 1"] by (cases metas) auto
  with * field show "map da_raw as = take (length metas) (args_list (ev_args ev))"
    and "map da_name as = map (Some \<circ> ai_name) metas"
    by (auto intro!: nth_equalityI)
qed

text \<open>The registers of an unknown call: all but the trailing zeros.\<close>

definition trim_zeros :: "u64 list \<Rightarrow> u64 list" where
  "trim_zeros xs = rev (dropWhile (\<lambda>a. a = 0) (rev xs))"

lemma take_rposition:
  "(case rposition p xs of None \<Rightarrow> [] | Some k \<Rightarrow> take (Suc k) xs) = rev (dropWhile (\<lambda>x. \<not> p x) (rev xs))"
proof (induction xs)
  case (Cons x xs)
  show ?case
  proof (cases "rposition p xs")
    case None
    then have none: "\<forall>x \<in> set xs. \<not> p x" by (simp add: rposition_None)
    then have "dropWhile (\<lambda>x. \<not> p x) (rev xs @ [x]) = dropWhile (\<lambda>x. \<not> p x) [x]"
      by (intro dropWhile_append2) auto
    with None show ?thesis by auto
  next
    case (Some k)
    then have "\<exists>x \<in> set (rev xs). p x" using rposition_None [of p xs] by auto
    then have "dropWhile (\<lambda>x. \<not> p x) (rev xs @ [x]) = dropWhile (\<lambda>x. \<not> p x) (rev xs) @ [x]"
      by (auto intro: dropWhile_append1)
    with Some Cons.IH show ?thesis by simp
  qed
qed simp

lemma decode_raw_regs:
  "map da_raw (decode_raw ev) = trim_zeros (args_list (ev_args ev))"
proof -
  have "map da_raw (decode_raw ev) =
    (case rposition (\<lambda>a. a \<noteq> 0) (args_list (ev_args ev)) of
       None \<Rightarrow> [] | Some k \<Rightarrow> take (Suc k) (args_list (ev_args ev)))"
    by (simp add: decode_raw_def comp_def split: option.split)
  then show ?thesis by (simp add: take_rposition trim_zeros_def)
qed

lemma trim_zeros_prefix: "xs = trim_zeros xs @ replicate (length xs - length (trim_zeros xs)) 0"
proof -
  have "rev xs = takeWhile (\<lambda>a. a = 0) (rev xs) @ dropWhile (\<lambda>a. a = 0) (rev xs)" by simp
  then have "xs = trim_zeros xs @ rev (takeWhile (\<lambda>a. a = 0) (rev xs))"
    by (metis rev_append rev_rev_ident trim_zeros_def)
  moreover have "rev (takeWhile (\<lambda>a. a = 0) (rev xs)) = replicate n 0"
    if "n = length (takeWhile (\<lambda>a. a = 0) (rev xs))" for n
    using that by (intro replicate_eqI) (auto dest: set_takeWhileD)
  ultimately show ?thesis
    by (metis add_diff_cancel_left' length_append length_rev)
qed

subsection \<open>Numbers\<close>

text \<open>Reading a rendered number back as the register it came from.\<close>

definition read_number :: "string \<Rightarrow> u64 option" where
  "read_number s =
     (if s = ''NULL'' then Some 0
      else case strip_prefix ''0x'' s of
             Some ds \<Rightarrow> map_option of_nat (parse_uint 64 16 ds)
           | None \<Rightarrow> (case strip_prefix ''-'' s of
                       Some ds \<Rightarrow> map_option (\<lambda>n. - of_nat n) (parse_uint 64 10 ds)
                     | None \<Rightarrow> map_option of_nat (parse_uint 64 10 s)))"

lemma unat64: "unat (w :: u64) < 2 ^ 64"
  using unsigned_less [of w] by simp

lemma dec_hd: "\<exists>c cs. dec n = c # cs \<and> c \<in> set ''0123456789''"
proof -
  obtain c cs where "dec n = c # cs" by (cases "dec n") auto
  with set_dec [of n] show ?thesis by auto
qed

lemma read_number_hex: "read_number (hex (unat w)) = Some w"
  using unat64 [of w] by (simp add: read_number_def hex_def parse_uint_to_radix)

lemma strip_prefix_0x_dec: "strip_prefix ''0x'' (dec n) = None"
proof (cases "strip_prefix ''0x'' (dec n)")
  case (Some r)
  then have "CHR ''x'' \<in> set (dec n)" by (auto simp: strip_prefix_Some)
  with set_dec have "CHR ''x'' \<in> set ''0123456789''" by (rule subsetD)
  then show ?thesis by simp
qed

lemma dec_not_NULL: "dec n \<noteq> ''NULL''" "dec n \<noteq> CHR ''-'' # s"
proof -
  from dec_hd obtain c cs where "dec n = c # cs" "c \<in> set ''0123456789''" by blast
  then show "dec n \<noteq> ''NULL''" "dec n \<noteq> CHR ''-'' # s" by auto
qed

lemma read_number_dec: "m < 2 ^ 64 \<Longrightarrow> read_number (dec m) = Some (of_nat m)"
  using dec_not_NULL [of m]
  by (auto simp: read_number_def strip_prefix_0x_dec parse_dec strip_prefix_Some split: option.split)

lemma read_number_dec_int: "read_number (dec_int (sint w)) = Some w"
proof -
  have range: "- (2 ^ 63) \<le> sint w" "sint w < 2 ^ 63"
    using sint_ge [of w] sint_lt [of w] by simp_all
  show ?thesis
  proof (cases "sint w < 0")
    case True
    then have "nat (- sint w) < 2 ^ 64" using range by (simp add: nat_less_iff)
    moreover have "- of_nat (nat (- sint w)) = w" using True by simp
    ultimately show ?thesis
      using True by (simp add: dec_int_def read_number_def parse_dec)
  next
    case False
    then have "nat (sint w) < 2 ^ 64" using range by (simp add: nat_less_iff)
    moreover have "of_nat (nat (sint w)) = w" using False by simp
    ultimately show ?thesis using False by (simp add: dec_int_def read_number_dec)
  qed
qed

lemma read_number_ptr: "read_number (ptr_or_null w) = Some w"
proof (cases "w = 0")
  case True
  then show ?thesis by (simp add: ptr_or_null_def read_number_def)
next
  case False
  then show ?thesis by (simp add: ptr_or_null_def read_number_hex)
qed

definition numeric :: "arg_type \<Rightarrow> bool" where
  "numeric ty \<longleftrightarrow> ty \<in> set [TySize, TyUint, TyInt, TyOffset, TyHex, TyPtr]"

lemma render_typed_number:
  assumes "render_typed syscall metas i ev mem meta raw = Some s" "numeric (ai_ty meta)"
  shows "read_number s = Some raw"
  using assms unat64 [of raw]
  by (cases "ai_ty meta")
    (auto simp: render_typed_def numeric_def read_number_dec read_number_dec_int read_number_hex
      read_number_ptr)

subsection \<open>File descriptors\<close>

lemma dec_int_inject [simp]: "dec_int i = dec_int j \<longleftrightarrow> i = j"
  using dec_not_NULL(2) by (auto simp: dec_int_def) (metis dec_not_NULL(2))+

lemma render_fd_iff: "render_fd x = render_fd y \<longleftrightarrow> (ucast x :: u32) = ucast y"
proof -
  have no: "dec_int k \<noteq> ''AT_FDCWD''" for k
  proof -
    from dec_hd [of "nat k"] obtain c cs where "dec (nat k) = c # cs" "c \<in> set ''0123456789''" by blast
    then show ?thesis by (auto simp: dec_int_def)
  qed
  have "render_fd x = render_fd y \<longleftrightarrow> sint (ucast x :: i32) = sint (ucast y :: i32)"
    using no no [symmetric] by (auto simp: render_fd_def Let_def)
  then show ?thesis by (auto intro: signed_word_eqI)
qed

subsection \<open>Properties\<close>

lemma dec_no_space: "CHR '' '' \<notin> set (dec n)" "CHR ''x'' \<notin> set (dec n)"
proof -
  have "c \<in> set (dec n) \<Longrightarrow> c \<in> set ''0123456789''" for c by (rule subsetD [OF set_dec])
  from this [of "CHR '' ''"] this [of "CHR ''x''"]
  show "CHR '' '' \<notin> set (dec n)" "CHR ''x'' \<notin> set (dec n)" by auto
qed

lemma dec_int_no_space: "CHR '' '' \<notin> set (dec_int i)" "CHR ''x'' \<notin> set (dec_int i)"
  using dec_no_space by (auto simp: dec_int_def)

lemma hex_no_space: "CHR '' '' \<notin> set (hex n)"
proof
  assume "CHR '' '' \<in> set (hex n)"
  with set_hex have "CHR '' '' \<in> set ''0123456789abcdefx''" by (rule subsetD)
  then show False by simp
qed

lemma errno_table_no_space: "list_all (\<lambda>(k, n, d). CHR '' '' \<notin> set n) errno_table"
  by (simp add: errno_table_def)

lemma errno_name_no_space: "errno c = Some e \<Longrightarrow> CHR '' '' \<notin> set (en_name e)"
  using errno_table_no_space
  by (fastforce simp: errno_def name_and_desc_def list_all_iff split: option.splits dest: map_of_SomeD)

text \<open>The return value's text as a function of the event.\<close>

definition retval_text :: "string \<Rightarrow> syscall_event \<Rightarrow> string" where
  "retval_text name ev =
     (case Option.bind (event_errno ev) errno of
        Some e \<Rightarrow> ''-1 '' @ en_name e @ '' ('' @ en_description e @ '')''
      | None \<Rightarrow> if returns_hex name \<and> 0 < sint (ev_retval ev) then hex (unat (ev_retval ev))
                else dec_int (sint (ev_retval ev)))"

lemma retval_text_cong:
  assumes "ev_retval ev = ev_retval ev'" shows "retval_text name ev = retval_text name ev'"
proof -
  have "event_errno ev = event_errno ev'" using assms by (simp add: event_errno_def is_error_def)
  with assms show ?thesis unfolding retval_text_def by (simp only:)
qed

lemma decode_fields:
  assumes "decode T ev mem = Some d"
  shows "ds_pid d = ev_pid ev" "ds_tid d = ev_tid ev" "ds_nr d = ev_nr ev"
    "ds_name d = syscall_name T (ev_nr ev)" "ds_retval d = ev_retval ev"
    "ds_error d = decode_error ev" "ds_duration_ns d = ev_duration_ns ev"
    "ds_ts_enter_ns d = ev_ts_enter_ns ev"
  using assms by (auto simp: decode_def Let_def split: option.splits bind_splits)

lemma decode_retval_str:
  assumes "decode T ev mem = Some d"
  shows "retval_str d = retval_text (ds_name d) ev"
  using decode_fields [OF assms]
  by (auto simp: retval_str_def retval_text_def decode_error_def split: option.splits)

lemma space_split:
  "CHR '' '' \<notin> set a \<Longrightarrow> CHR '' '' \<notin> set b \<Longrightarrow> a @ CHR '' '' # x = b @ CHR '' '' # y \<Longrightarrow> a = b"
  by (metis span_char(2))

lemma retval_text_inject:
  assumes "retval_text name ev = retval_text name ev'"
  shows "ev_retval ev = ev_retval ev'"
proof -
  let ?e = "Option.bind (event_errno ev) errno" and ?e' = "Option.bind (event_errno ev') errno"
  have space: "CHR '' '' \<in> set (retval_text name x) \<longleftrightarrow> Option.bind (event_errno x) errno \<noteq> None" for x
    using dec_int_no_space(1) hex_no_space by (auto simp: retval_text_def split: option.split)
  consider (none) "?e = None" "?e' = None" | (some) e e' where "?e = Some e" "?e' = Some e'"
    using space [of ev] space [of ev'] assms by (cases ?e; cases ?e') auto
  then show ?thesis
  proof cases
    case none
    have x: "CHR ''x'' \<in> set (retval_text name y) \<longleftrightarrow> returns_hex name \<and> 0 < sint (ev_retval y)"
      if "Option.bind (event_errno y) errno = None" for y
      using that dec_int_no_space(2) by (auto simp: retval_text_def hex_def)
    have "returns_hex name \<and> 0 < sint (ev_retval ev) \<longleftrightarrow> returns_hex name \<and> 0 < sint (ev_retval ev')"
      using x none assms by metis
    then show ?thesis
      using assms none
      by (auto simp: retval_text_def intro: signed_word_eqI unsigned_word_eqI split: if_splits)
  next
    case (some e e')
    then obtain c c' where c: "event_errno ev = Some c" "errno c = Some e"
      "event_errno ev' = Some c'" "errno c' = Some e'" by (auto simp: bind_eq_Some_conv)
    have "en_name e @ CHR '' '' # CHR ''('' # en_description e @ '')''
        = en_name e' @ CHR '' '' # CHR ''('' # en_description e' @ '')''"
      using assms some by (simp add: retval_text_def)
    then have "en_name e = en_name e'"
      using space_split errno_name_no_space c by blast
    then have "c = c'" using errno_name_inject c by blast
    then have "sint (ev_retval ev) = sint (ev_retval ev')"
      using event_errno_sint [OF c(1)] event_errno_sint [OF c(3)] by simp
    then show ?thesis by (rule signed_word_eqI)
  qed
qed

text \<open>
  C2. Decoding never panics: for every table the build script can generate, every event
  and every memory reader, no index leaves its array and a decoded call comes out.
\<close>

theorem decode_never_panics:
  "\<exists>T. table_of tbl = Some T \<and> (\<forall>ev mem. \<exists>d. decode T ev mem = Some d)"
  using table_of_Some [of tbl] decode_total [OF table_of_arity] by blast

text \<open>
  C14. The decoded call keeps the machine-readable part of the event: identifiers, return
  value, times, and the raw registers.  A call with metadata shows one register per
  parameter under its name, any other shows all registers up to the last non-zero one.
\<close>

theorem decode_keeps_event:
  assumes "decode T ev mem = Some d"
  shows "(ds_pid d, ds_tid d, ds_nr d, ds_retval d, ds_ts_enter_ns d, ds_duration_ns d)
      = (ev_pid ev, ev_tid ev, ev_nr ev, ev_retval ev, ev_ts_enter_ns ev, ev_duration_ns ev)
    \<and> (let metas = (case event_info T ev of Some info \<Rightarrow> si_args info | None \<Rightarrow> []) in
       if metas = [] then
         map da_raw (ds_args d) = trim_zeros (args_list (ev_args ev))
       else map da_raw (ds_args d) = take (length metas) (args_list (ev_args ev))
         \<and> map da_name (ds_args d) = map (Some \<circ> ai_name) metas)"
  using decode_fields [OF assms] assms decode_typed_raw decode_raw_regs [of ev]
  by (fastforce simp: decode_def Let_def split: option.splits if_splits bind_splits)

theorem decode_keeps_event_witness:
  "map da_raw (ds_args (the (decode [] \<lparr>ev_pid = 1, ev_tid = 1, ev_nr = 999, ev_args = Args 5 0 7 0 0 0,
     ev_retval = 0, ev_ts_enter_ns = 0, ev_duration_ns = 0\<rparr> null_read))) = [5, 0, 7]"
proof -
  let ?ev = "\<lparr>ev_pid = 1, ev_tid = 1, ev_nr = 999, ev_args = Args 5 0 7 0 0 0,
     ev_retval = 0, ev_ts_enter_ns = 0, ev_duration_ns = 0\<rparr> :: syscall_event"
  obtain d where d: "decode [] ?ev null_read = Some d"
    using decode_total [of "[]" ?ev null_read] by (auto simp: table_arity_ok_def)
  show ?thesis
    using decode_keeps_event [OF d] d
    by (simp add: event_info_def syscall_by_number_def binary_search_by_key_def u32_try_from_def
        trim_zeros_def)
qed

text \<open>
  C29. A number is shown losslessly: an argument of a numeric type without a symbolic form
  reads back as the 64-bit register it came from, signed or unsigned, decimal or hexadecimal.
\<close>

theorem render_arg_number:
  assumes "render_arg syscall metas i ev mem = Some s"
    and "consts_render syscall metas i ev = Some None"
    and "numeric (ai_ty (metas ! i))" "ai_name (metas ! i) \<noteq> ''optval''"
  shows "read_number s = Some (args_list (ev_args ev) ! i)"
  using assms render_typed_number
  by (auto simp: render_arg_def bind_eq_Some_conv nth_opt_Some_iff arg_at_def split: if_splits)

theorem render_arg_number_witness:
  "read_number ''-8'' = Some 0xFFFFFFFFFFFFFFF8"
proof -
  let ?ev = "\<lparr>ev_pid = 1, ev_tid = 1, ev_nr = 8, ev_args = Args 3 0xFFFFFFFFFFFFFFF8 0 0 0 0,
     ev_retval = 0, ev_ts_enter_ns = 0, ev_duration_ns = 0\<rparr> :: syscall_event"
  let ?metas = "[\<lparr>ai_name = ''fd'', ai_ty = TyFd\<rparr>, \<lparr>ai_name = ''offset'', ai_ty = TyOffset\<rparr>]"
  have "render_arg ''lseek'' ?metas 1 ?ev null_read = Some ''-8''"
    by (simp add: exec)
  moreover have "consts_render ''lseek'' ?metas 1 ?ev = Some None" by (simp add: exec)
  ultimately show ?thesis
    using render_arg_number [of "''lseek''" ?metas 1 ?ev null_read "''-8''"]
    by (simp add: numeric_def)
qed

text \<open>
  Two registers show the same file descriptor exactly when their low 32 bits agree, so
  a sign-extended and a zero-extended \<^verbatim>\<open>AT_FDCWD\<close> look the same and no two descriptors do.
\<close>

lemma render_fd_low32: "render_fd x = render_fd y \<longleftrightarrow> (ucast x :: u32) = ucast y"
  by (rule render_fd_iff)

text \<open>
  C22. The text of a return value determines the return value: two decoded calls of the same
  name show the same result only if they returned the same.
\<close>

theorem retval_str_faithful:
  assumes "decode T ev mem = Some d" "decode T ev' mem' = Some d'" "ds_name d = ds_name d'"
  shows "retval_str d = retval_str d' \<longleftrightarrow> ev_retval ev = ev_retval ev'"
proof
  assume "retval_str d = retval_str d'"
  then show "ev_retval ev = ev_retval ev'"
    using assms by (auto simp: decode_retval_str dest: retval_text_inject)
next
  assume "ev_retval ev = ev_retval ev'"
  then show "retval_str d = retval_str d'"
    using assms retval_text_cong [of ev ev'] by (simp add: decode_retval_str)
qed

theorem retval_str_faithful_witness:
  "retval_str (the (decode [] \<lparr>ev_pid = 1, ev_tid = 1, ev_nr = 9, ev_args = Args 0 0 0 0 0 0,
     ev_retval = - 2, ev_ts_enter_ns = 0, ev_duration_ns = 0\<rparr> null_read))
   \<noteq> retval_str (the (decode [] \<lparr>ev_pid = 1, ev_tid = 1, ev_nr = 9, ev_args = Args 0 0 0 0 0 0,
     ev_retval = - 1, ev_ts_enter_ns = 0, ev_duration_ns = 0\<rparr> null_read))"
proof -
  let ?ev = "\<lambda>r. \<lparr>ev_pid = 1, ev_tid = 1, ev_nr = 9, ev_args = Args 0 0 0 0 0 0,
     ev_retval = r, ev_ts_enter_ns = 0, ev_duration_ns = 0\<rparr> :: syscall_event"
  obtain d d' where d: "decode [] (?ev (- 2)) null_read = Some d"
    "decode [] (?ev (- 1)) null_read = Some d'"
    using decode_total [of "[]" "?ev (- 2)" null_read] decode_total [of "[]" "?ev (- 1)" null_read]
    by (auto simp: table_arity_ok_def)
  then have "ds_name d = ds_name d'" by (simp add: decode_fields)
  from retval_str_faithful [OF d this] show ?thesis by (simp add: d)
qed

end
