(* ===== verification/Output_Sink.thy ===== *)
theory Output_Sink
  imports Decode_Lib
begin

section \<open>Sinks and writers (\<^verbatim>\<open>crates/syren-output/src/lib.rs\<close>)\<close>

text \<open>
  What the three sinks share: the records they are fed, and the writer they write to.  A
  writer is any state with a write operation that fails or succeeds and in both cases
  leaves a state behind; the code's writers are standard error, standard output, a
  buffered file and, in its tests, a byte vector.  A formatted write (\<^verbatim>\<open>write!\<close>) is one
  write of its text.
\<close>

datatype out_record =
    RecSyscall decoded_syscall
  | RecExit u32 i32
  | RecSignal u32 i32

type_synonym 'w io = "'w \<Rightarrow> (io_error + unit) \<times> 'w"

definition io_ok :: "'w io" where
  "io_ok w = (Inr (), w)"

text \<open>Sequencing with \<^verbatim>\<open>?\<close>: an error ends the sequence.\<close>

definition io_then :: "'w io \<Rightarrow> 'w io \<Rightarrow> 'w io" where
  "io_then m k w = (case m w of (Inl e, w') \<Rightarrow> (Inl e, w') | (Inr _, w') \<Rightarrow> k w')"

definition io_map_err :: "(io_error \<Rightarrow> io_error) \<Rightarrow> 'w io \<Rightarrow> 'w io" where
  "io_map_err f m w = (case m w of (Inl e, w') \<Rightarrow> (Inl (f e), w') | (Inr u, w') \<Rightarrow> (Inr u, w'))"

fun io_each :: "('a \<Rightarrow> 'w io) \<Rightarrow> 'a list \<Rightarrow> 'w io" where
  "io_each f [] = io_ok"
| "io_each f (x # xs) = io_then (f x) (io_each f xs)"

text \<open>The default \<^verbatim>\<open>finish\<close> of the \<^verbatim>\<open>Sink\<close> trait.\<close>

definition sink_finish_default :: "'w io" where
  "sink_finish_default = io_ok"

declare io_ok_def [exec] io_then_def [exec] io_map_err_def [exec] io_each.simps [exec]
  sink_finish_default_def [exec]

lemma io_then_assoc: "io_then (io_then a b) c = io_then a (io_then b c)"
  by (rule ext) (auto simp: io_then_def split: prod.split sum.split)

lemma io_then_ok [simp]: "io_then io_ok k = k" "io_then m io_ok = m"
  by (rule ext; auto simp: io_then_def io_ok_def split: prod.split sum.split)+

text \<open>
  The contract of a writer: writing a text in pieces is writing it at once, up to and
  including the point where it fails.
\<close>

locale writer =
  fixes wr :: "string \<Rightarrow> 'w \<Rightarrow> (io_error + unit) \<times> 'w"
  assumes wr_nil: "wr [] = io_ok"
    and wr_append: "wr (s @ t) = io_then (wr s) (wr t)"
begin

lemma wr_join: "io_then (wr s) (wr t) = wr (s @ t)"
  by (simp add: wr_append)

lemma wr_join3: "io_then (wr s) (io_then (wr t) k) = io_then (wr (s @ t)) k"
  by (simp add: wr_append io_then_assoc)

lemma wr_each: "io_each (\<lambda>x. wr (f x)) xs = wr (concat (map f xs))"
  by (induction xs) (simp_all add: wr_nil wr_append)

lemma wr_if: "(if b then wr s else io_ok) = wr (if b then s else [])"
  by (simp add: wr_nil)

end

subsection \<open>Writers\<close>

text \<open>\<^verbatim>\<open>Vec<u8>\<close>: the write appends and cannot fail.\<close>

definition vec_write :: "string \<Rightarrow> string io" where
  "vec_write s buf = (Inr (), buf @ s)"

text \<open>
  A pipe whose reader goes away after some more bytes: the rest of a write that does not
  fit is lost and the write fails with \<^verbatim>\<open>BrokenPipe\<close>.
\<close>

definition pipe_write :: "string \<Rightarrow> (nat \<times> string) io" where
  "pipe_write s = (\<lambda>(room, out).
     if length s \<le> room then (Inr (), (room - length s, out @ s))
     else (Inl BrokenPipe, (0, out @ take room s)))"

declare vec_write_def [exec] pipe_write_def [exec]

interpretation vec_writer: writer vec_write
  by unfold_locales (auto simp: vec_write_def io_ok_def io_then_def)

interpretation pipe_writer: writer pipe_write
  by unfold_locales (auto simp: pipe_write_def io_ok_def io_then_def fun_eq_iff)

end
