(* ===== verification/Output_Num.thy ===== *)
theory Output_Num
  imports Prelude
begin

section \<open>Floating-point numbers in the output\<close>

text \<open>
  The output crate prints times and percentages through \<^verbatim>\<open>f64\<close>.  All values involved are
  non-negative and far inside the normal range (at most \<open>2 ^ 128\<close>, and zero or at least
  \<open>2 ^ - 128\<close>), so an \<^verbatim>\<open>f64\<close> is modelled by its exact value: a fraction of naturals whose
  numerator has at most 53 significant bits.  Every operation rounds the exact result to
  nearest, ties to even, as IEEE 754 does; \<^verbatim>\<open>{:.n}\<close> prints the exact value rounded to
  \<open>n\<close> decimals, ties to even.
\<close>

type_synonym f64 = "nat \<times> nat"

fun ilog2 :: "nat \<Rightarrow> nat" where
  "ilog2 n = (if n < 2 then 0 else Suc (ilog2 (n div 2)))"

declare ilog2.simps [simp del]

definition round_div_even :: "nat \<Rightarrow> nat \<Rightarrow> nat" where
  "round_div_even a b =
     (let q = a div b; r = a mod b in
      if 2 * r < b \<or> (2 * r = b \<and> even q) then q else q + 1)"

text \<open>
  \<open>round_at sh num den\<close> rounds \<open>num / den\<close> to a multiple of \<open>2 ^ (52 - sh)\<close> for a shift
  given as a pair of a positive and a negative part.
\<close>

definition round_up :: "nat \<Rightarrow> nat \<Rightarrow> nat \<Rightarrow> f64" where
  "round_up k num den = (round_div_even num (den * 2 ^ k) * 2 ^ k, 1)"

definition round_down :: "nat \<Rightarrow> nat \<Rightarrow> nat \<Rightarrow> f64" where
  "round_down k num den = (round_div_even (num * 2 ^ k) den, 2 ^ k)"

definition round_exp :: "int \<Rightarrow> nat \<Rightarrow> nat \<Rightarrow> f64" where
  "round_exp e num den =
     (if 0 \<le> e then round_up (nat e) num den else round_down (nat (- e)) num den)"

text \<open>The exponent that puts the quotient between \<open>2 ^ 52\<close> and \<open>2 ^ 53\<close>.\<close>

definition scaled_ge :: "int \<Rightarrow> nat \<Rightarrow> nat \<Rightarrow> bool" where
  "scaled_ge e num den \<longleftrightarrow>
     (if 0 \<le> e then 2 ^ 52 * (den * 2 ^ nat e) \<le> num else 2 ^ 52 * den \<le> num * 2 ^ nat (- e))"

definition quot_exp :: "nat \<Rightarrow> nat \<Rightarrow> int" where
  "quot_exp num den =
     (let e = int (ilog2 num) - int (ilog2 den) - 52 in
      if scaled_ge e num den then e else e - 1)"

definition round_f64 :: "nat \<Rightarrow> nat \<Rightarrow> f64" where
  "round_f64 num den = (if num = 0 then (0, 1) else round_exp (quot_exp num den) num den)"

definition f64_of_nat :: "nat \<Rightarrow> f64" where
  "f64_of_nat n = round_f64 n 1"

definition f64_div :: "f64 \<Rightarrow> f64 \<Rightarrow> f64" where
  "f64_div x y = round_f64 (fst x * snd y) (snd x * fst y)"

definition f64_mul :: "f64 \<Rightarrow> f64 \<Rightarrow> f64" where
  "f64_mul x y = round_f64 (fst x * fst y) (snd x * snd y)"

text \<open>\<^verbatim>\<open>format!("{:.n}", x)\<close>.\<close>

definition fixed_units :: "nat \<Rightarrow> f64 \<Rightarrow> nat" where
  "fixed_units n x = round_div_even (fst x * 10 ^ n) (snd x)"

definition fixed_text :: "nat \<Rightarrow> nat \<Rightarrow> string" where
  "fixed_text n u = dec (u div 10 ^ n) @ ''.'' @ pad_left (CHR ''0'') n (dec (u mod 10 ^ n))"

definition fmt_fixed :: "nat \<Rightarrow> f64 \<Rightarrow> string" where
  "fmt_fixed n x = fixed_text n (fixed_units n x)"

declare ilog2.simps [exec] round_div_even_def [exec] round_up_def [exec] round_down_def [exec]
  round_exp_def [exec] scaled_ge_def [exec] quot_exp_def [exec] round_f64_def [exec]
  f64_of_nat_def [exec] f64_div_def [exec] f64_mul_def [exec] fixed_units_def [exec]
  fixed_text_def [exec] fmt_fixed_def [exec]

lemma replicate_num [exec]: "replicate (numeral k) x = x # replicate (pred_numeral k) x"
  by (simp add: numeral_eq_Suc)

lemma ilog2_bounds: "0 < n \<Longrightarrow> 2 ^ ilog2 n \<le> n \<and> n < 2 * 2 ^ ilog2 n"
proof (induction n rule: ilog2.induct)
  case (1 n)
  show ?case
  proof (cases "n < 2")
    case True
    with 1 show ?thesis by (simp add: ilog2.simps)
  next
    case False
    then have "2 ^ ilog2 (n div 2) \<le> n div 2 \<and> n div 2 < 2 * 2 ^ ilog2 (n div 2)" using 1 by simp
    with False show ?thesis by (simp add: ilog2.simps [of n]) linarith
  qed
qed

lemma round_div_even_error:
  assumes "0 < b"
  shows "\<bar>2 * (int b * int (round_div_even a b) - int a)\<bar> \<le> int b"
proof -
  have a: "int a = int b * int (a div b) + int (a mod b)"
    by (metis mult_div_mod_eq of_nat_add of_nat_mult)
  have r: "a mod b < b" using assms by simp
  show ?thesis
    unfolding a round_div_even_def Let_def using r by (auto simp: algebra_simps)
qed

lemma scaled_ge_pred:
  assumes "0 < num" "0 < den"
  shows "scaled_ge (int (ilog2 num) - int (ilog2 den) - 53) num den"
proof -
  let ?n = "ilog2 num" and ?d = "ilog2 den"
  let ?e = "int ?n - int ?d - 53"
  have n: "2 ^ ?n \<le> num" and d: "den < 2 * 2 ^ ?d" using ilog2_bounds assms by auto
  show ?thesis
  proof (cases "0 \<le> ?e")
    case True
    define m where "m = nat ?e"
    with True have "?n = ?d + 53 + m" by linarith
    then have "(2::nat) ^ ?n = 2 ^ 52 * (2 * 2 ^ ?d * 2 ^ nat ?e)"
      unfolding m_def [symmetric] by (simp add: power_add)
    moreover have "2 ^ 52 * (den * 2 ^ nat ?e) \<le> 2 ^ 52 * (2 * 2 ^ ?d * 2 ^ nat ?e)"
      using d by (intro mult_le_mono le_refl) simp
    ultimately have "2 ^ 52 * (den * 2 ^ nat ?e) \<le> num" using n by linarith
    with True show ?thesis by (simp add: scaled_ge_def)
  next
    case False
    define k where "k = nat (- ?e)"
    with False have "?n + k = ?d + 53" by linarith
    then have "(2::nat) ^ (?n + k) = 2 ^ (?d + 53)" by simp
    then have "(2::nat) ^ ?n * 2 ^ nat (- ?e) = 2 ^ 52 * (2 * 2 ^ ?d)"
      unfolding k_def [symmetric] by (simp add: power_add)
    moreover have "2 ^ ?n * 2 ^ nat (- ?e) \<le> num * 2 ^ nat (- ?e)" using n by simp
    moreover have "2 ^ 52 * den \<le> 2 ^ 52 * (2 * 2 ^ ?d)" using d by simp
    ultimately have "2 ^ 52 * den \<le> num * 2 ^ nat (- ?e)" by linarith
    with False show ?thesis by (simp add: scaled_ge_def)
  qed
qed

lemma scaled_ge_quot_exp: "0 < num \<Longrightarrow> 0 < den \<Longrightarrow> scaled_ge (quot_exp num den) num den"
  using scaled_ge_pred [of num den] by (simp add: quot_exp_def Let_def)

text \<open>The relative error of one rounding is at most \<open>2 ^ - 53\<close>.\<close>

lemma half_error: "\<bar>2 * x\<bar> \<le> b \<Longrightarrow> 2 ^ 52 * b \<le> a \<Longrightarrow> 2 ^ 53 * \<bar>x\<bar> \<le> a" for x a b :: int
  by simp

lemma round_exp_error:
  assumes "0 < den" "scaled_ge e num den"
  shows "2 ^ 53 * \<bar>int (fst (round_exp e num den)) * int den - int num * int (snd (round_exp e num den))\<bar>
     \<le> int num * int (snd (round_exp e num den))"
proof (cases "0 \<le> e")
  case True
  let ?b = "den * 2 ^ nat e"
  have "\<bar>2 * (int ?b * int (round_div_even num ?b) - int num)\<bar> \<le> int ?b"
    using assms(1) by (intro round_div_even_error) simp
  moreover have "2 ^ 52 * int ?b \<le> int num"
    using assms(2) True zle_int [of "2 ^ 52 * ?b" num] by (simp add: scaled_ge_def)
  ultimately have "2 ^ 53 * \<bar>int ?b * int (round_div_even num ?b) - int num\<bar> \<le> int num"
    by (rule half_error)
  then show ?thesis
    using True by (simp add: round_exp_def round_up_def mult_ac)
next
  case False
  let ?a = "num * 2 ^ nat (- e)"
  have "\<bar>2 * (int den * int (round_div_even ?a den) - int ?a)\<bar> \<le> int den"
    using assms(1) by (rule round_div_even_error)
  moreover have "2 ^ 52 * int den \<le> int ?a"
    using assms(2) False zle_int [of "2 ^ 52 * den" ?a] by (simp add: scaled_ge_def)
  ultimately have "2 ^ 53 * \<bar>int den * int (round_div_even ?a den) - int ?a\<bar> \<le> int ?a"
    by (rule half_error)
  then show ?thesis
    using False by (simp add: round_exp_def round_down_def mult_ac)
qed

lemma round_f64_error:
  assumes "0 < den"
  shows "2 ^ 53 * \<bar>int (fst (round_f64 num den)) * int den - int num * int (snd (round_f64 num den))\<bar>
     \<le> int num * int (snd (round_f64 num den))"
  using round_exp_error [OF assms scaled_ge_quot_exp [OF _ assms]] by (auto simp: round_f64_def)

lemma snd_round_f64: "0 < snd (round_f64 num den)"
  by (simp add: round_f64_def round_exp_def round_up_def round_down_def)

lemma ilog2_less: "0 < n \<Longrightarrow> n < 2 ^ k \<Longrightarrow> ilog2 n < k"
  using ilog2_bounds [of n] power_less_imp_less_exp [of 2 "ilog2 n" k] by (meson le_less_trans one_less_numeral_iff semiring_norm(76))

text \<open>A natural below \<open>2 ^ 53\<close> is an \<^verbatim>\<open>f64\<close> as it is.\<close>

lemma f64_of_nat_exact:
  assumes "n < 2 ^ 53"
  shows "fst (f64_of_nat n) = n * snd (f64_of_nat n)"
proof (cases "n = 0")
  case False
  then have "quot_exp n 1 \<le> 0"
    using ilog2_less [of n 53] assms by (simp add: quot_exp_def Let_def ilog2.simps [of 1])
  moreover have "round_div_even a 1 = a" for a by (simp add: round_div_even_def)
  ultimately show ?thesis
    using False by (auto simp: f64_of_nat_def round_f64_def round_exp_def round_up_def round_down_def)
qed (simp add: f64_of_nat_def round_f64_def)

lemma fixed6_seconds:
  assumes "n < 2 ^ 53"
  shows "\<bar>1000 * int (fixed_units 6 (f64_div (f64_of_nat n) (1000000000, 1))) - int n\<bar> \<le> 500"
proof -
  define p q where "p = fst (f64_of_nat n)" and "q = snd (f64_of_nat n)"
  define P Q where "P = fst (f64_div (f64_of_nat n) (1000000000, 1))"
    and "Q = snd (f64_div (f64_of_nat n) (1000000000, 1))"
  define u where "u = fixed_units 6 (f64_div (f64_of_nat n) (1000000000, 1))"
  have p: "p = n * q" using f64_of_nat_exact [OF assms] by (simp add: p_def q_def)
  have q: "0 < q" by (simp add: q_def f64_of_nat_def snd_round_f64)
  have Q: "0 < Q" by (simp add: Q_def f64_div_def snd_round_f64)
  have "2 ^ 53 * \<bar>int P * int (q * 1000000000) - int p * int Q\<bar> \<le> int p * int Q"
    using round_f64_error [of "q * 1000000000" p] q
    by (simp add: P_def Q_def f64_div_def flip: p_def q_def)
  moreover have "int P * int (q * 1000000000) - int p * int Q = int q * (int P * 1000000000 - int n * int Q)"
    by (simp add: p algebra_simps)
  moreover have "int p * int Q = int q * (int n * int Q)" by (simp add: p)
  ultimately have "int q * (2 ^ 53 * \<bar>int P * 1000000000 - int n * int Q\<bar>) \<le> int q * (int n * int Q)"
    by (simp only: abs_mult abs_of_nat mult.left_commute)
  then have e1: "2 ^ 53 * \<bar>int P * 1000000000 - int n * int Q\<bar> \<le> int n * int Q"
    using q by simp
  have "int n * int Q < 2 ^ 53 * int Q" using assms Q by (intro mult_strict_right_mono) auto
  with e1 have "2 ^ 53 * \<bar>int P * 1000000000 - int n * int Q\<bar> < 2 ^ 53 * int Q" by (rule le_less_trans)
  then have e1: "\<bar>int P * 1000000000 - int n * int Q\<bar> < int Q"
    using mult_less_cancel_left_pos [of "2 ^ 53 :: int"] by (metis zero_less_numeral zero_less_power)
  have e2: "\<bar>2 * (int Q * int u - int (P * 10 ^ 6))\<bar> \<le> int Q"
    using round_div_even_error [OF Q, of "P * 10 ^ 6"] unfolding u_def fixed_units_def P_def Q_def .
  have "int Q * (1000 * int u - int n)
      = 1000 * (int Q * int u - int (P * 10 ^ 6)) + (int P * 1000000000 - int n * int Q)"
    by (simp add: algebra_simps)
  with e1 e2 have "\<bar>int Q * (1000 * int u - int n)\<bar> < int Q * 501" by (simp add: abs_le_iff abs_less_iff)
  then have "int Q * \<bar>1000 * int u - int n\<bar> < int Q * 501" by (simp add: abs_mult)
  then have "\<bar>1000 * int u - int n\<bar> < 501" using Q by simp
  then show ?thesis unfolding u_def by linarith
qed

end
