(* ===== verification/Decode_Printable.thy ===== *)
theory Decode_Printable
  imports Decode_Lib
begin

section \<open>Decoded text is printable\<close>

text \<open>
  Whatever a traced program passes to the kernel, the text the decoder makes of it is
  printable ASCII: no control character of a path or a buffer reaches the terminal.
\<close>

definition printable_list :: "string \<Rightarrow> bool" where
  "printable_list s \<longleftrightarrow> set s \<subseteq> printable"

lemma printable_Nil [simp]: "printable_list []"
  by (simp add: printable_list_def)

lemma printable_append [simp]: "printable_list (s @ t) \<longleftrightarrow> printable_list s \<and> printable_list t"
  by (simp add: printable_list_def)

lemma printable_Cons: "printable_list (c # s) \<longleftrightarrow> c \<in> printable \<and> printable_list s"
  by (simp add: printable_list_def)

lemma printable_char: "c \<in> printable \<longleftrightarrow> 0x20 \<le> (of_char c :: nat) \<and> (of_char c :: nat) \<le> 0x7E"
  by (simp add: printable_def)

lemmas printable_lit = printable_Cons printable_char

lemma printable_concat: "(\<And>s. s \<in> set ss \<Longrightarrow> printable_list s) \<Longrightarrow> printable_list (concat ss)"
  by (induction ss) auto

lemma printable_join: "printable_list sep \<Longrightarrow> (\<And>s. s \<in> set ss \<Longrightarrow> printable_list s) \<Longrightarrow> printable_list (join sep ss)"
  by (induction sep ss rule: join.induct) auto

lemma printable_to_radix: "2 \<le> b \<Longrightarrow> b \<le> 16 \<Longrightarrow> printable_list (to_radix b n)"
proof -
  assume "2 \<le> b" "b \<le> 16"
  then have "set (to_radix b n) \<subseteq> set ''0123456789abcdef''" by (rule to_radix_hex_chars)
  moreover have "printable_list ''0123456789abcdef''" by (simp add: printable_lit)
  ultimately show ?thesis unfolding printable_list_def by (rule order_trans)
qed

lemma printable_dec [simp]: "printable_list (dec n)"
  by (simp add: dec_def printable_to_radix)

lemma printable_dec_int [simp]: "printable_list (dec_int i)"
  by (simp add: dec_int_def printable_lit)

lemma printable_hex [simp]: "printable_list (hex n)"
  by (simp add: hex_def printable_lit printable_to_radix)

lemma printable_quote [simp]: "printable_list (quote_bytes bs)"
  by (simp add: printable_list_def quote_bytes_printable)

lemma printable_map_of:
  "map_of xs k = Some s \<Longrightarrow> list_all (\<lambda>(k, s). printable_list s) xs \<Longrightarrow> printable_list s"
  by (auto simp: list_all_iff dest!: map_of_SomeD)

subsection \<open>Constants and flags\<close>

lemma printable_address_family: "address_family v = Some s \<Longrightarrow> printable_list s"
  unfolding address_family_def by (erule printable_map_of) (simp add: printable_lit)

lemma printable_socket_type: "socket_type v = Some s \<Longrightarrow> printable_list s"
  unfolding socket_type_def
  by (auto simp: printable_lit simp del: map_of.simps split: option.splits elim!: printable_map_of)

lemma printable_protocol: "protocol f v = Some s \<Longrightarrow> printable_list s"
  unfolding protocol_def
  by (auto split: if_splits elim!: printable_map_of simp: printable_lit)

lemma printable_sockopt_level: "sockopt_level v = Some s \<Longrightarrow> printable_list s"
  unfolding sockopt_level_def by (erule printable_map_of) (simp add: printable_lit)

lemma printable_so_socket: "so_socket v = Some s \<Longrightarrow> printable_list s"
  unfolding so_socket_def by (erule printable_map_of) (simp add: printable_lit)

lemma printable_so_tcp: "so_tcp v = Some s \<Longrightarrow> printable_list s"
  unfolding so_tcp_def by (erule printable_map_of) (simp add: printable_lit)

lemma printable_so_ip: "so_ip v = Some s \<Longrightarrow> printable_list s"
  unfolding so_ip_def by (erule printable_map_of) (simp add: printable_lit)

lemma printable_so_ipv6: "so_ipv6 v = Some s \<Longrightarrow> printable_list s"
  unfolding so_ipv6_def by (erule printable_map_of) (simp add: printable_lit)

lemma printable_sockopt_name: "sockopt_name l v = Some s \<Longrightarrow> printable_list s"
  by (auto simp: sockopt_name_def printable_so_socket printable_so_tcp printable_so_ip
      printable_so_ipv6 split: if_splits)

lemma printable_signal_name: "signal_name g = Some s \<Longrightarrow> printable_list s"
  unfolding signal_name_def by (erule printable_map_of) (simp add: signal_table_def printable_lit)

lemmas printable_consts =
  printable_address_family printable_socket_type printable_protocol printable_sockopt_level
  printable_sockopt_name printable_signal_name

lemma printable_consts_render:
  "consts_render syscall metas i ev = Some (Some s) \<Longrightarrow> printable_list s"
  unfolding consts_render_def Let_def
  by (auto simp: bind_eq_Some_conv printable_consts split: if_splits)

lemma printable_present:
  assumes "list_all (\<lambda>f. printable_list (fl_name f)) fs" "n \<in> set (decode_bits fs v)"
  shows "printable_list n"
  using assms by (auto simp: decode_bits_def list_all_iff)

lemma printable_flags_join:
  assumes "list_all (\<lambda>f. printable_list (fl_name f)) fs" "printable_list lead"
  shows "printable_list (flags_join lead (decode_bits fs m) m fs)"
  using assms printable_present [OF assms(1)]
  by (auto simp: flags_join_def Let_def printable_lit intro!: printable_concat)

lemma printable_render_set:
  assumes "list_all (\<lambda>f. printable_list (fl_name f)) fs" "printable_list zero"
  shows "printable_list (render_set fs v zero)"
proof -
  have "printable_list (join ''|'' (decode_bits fs v))"
    by (rule printable_join) (use printable_present [OF assms(1)] in \<open>auto simp: printable_lit\<close>)
  then show ?thesis using assms(2) by (simp add: render_set_def Let_def printable_lit)
qed

lemma printable_tables:
  "list_all (\<lambda>f. printable_list (fl_name f)) OPEN_FLAGS"
  "list_all (\<lambda>f. printable_list (fl_name f)) PROT_FLAGS"
  "list_all (\<lambda>f. printable_list (fl_name f)) MAP_FLAGS"
  by (simp_all add: OPEN_FLAGS_def PROT_FLAGS_def MAP_FLAGS_def printable_lit)

lemma printable_flags_render: "flags_render syscall arg v = Some s \<Longrightarrow> printable_list s"
  by (auto simp: flags_render_def render_open_def render_map_def Let_def printable_lit
      intro!: printable_flags_join printable_render_set printable_tables split: if_splits option.splits)

subsection \<open>Arguments and results\<close>

lemma printable_ptr [simp]: "printable_list (ptr_or_null v)"
  by (simp add: ptr_or_null_def printable_lit)

lemma printable_render_fd [simp]: "printable_list (render_fd v)"
  by (simp add: render_fd_def Let_def printable_lit)

lemma printable_render_buf: "render_buf metas i ev mem = Some s \<Longrightarrow> printable_list s"
  by (auto simp: render_buf_def bind_eq_Some_conv Let_def printable_lit split: if_splits option.splits)

lemma printable_optval [simp]: "printable_list (render_sockopt_optval ev mem)"
proof (cases "Option.bind (mem (arg3 (ev_args ev)) 4) i32_from_bytes")
  case None
  then show ?thesis by (simp add: render_sockopt_optval_def Let_def printable_lit)
next
  case (Some word)
  then show ?thesis by (simp add: render_sockopt_optval_def Let_def printable_lit)
qed

lemma printable_render_typed:
  "render_typed syscall metas i ev mem meta raw = Some s \<Longrightarrow> printable_list s"
  by (cases "ai_ty meta")
    (auto simp: render_typed_def printable_render_buf split: option.splits dest: printable_flags_render)

lemma printable_render_arg:
  assumes "render_arg syscall metas i ev mem = Some s"
  shows "printable_list s"
proof -
  from assms obtain raw sym where raw: "arg_at (ev_args ev) i = Some raw"
    and sym: "consts_render syscall metas i ev = Some sym"
    unfolding render_arg_def by (auto simp: bind_eq_Some_conv)
  show ?thesis
  proof (cases sym)
    case None
    with assms raw sym obtain meta where meta: "nth_opt metas i = Some meta"
      unfolding render_arg_def by (auto simp: bind_eq_Some_conv)
    show ?thesis
    proof (cases "syscall = ''setsockopt'' \<and> ai_name meta = ''optval''")
      case True
      with assms raw sym meta None have "s = render_sockopt_optval ev mem" by (simp add: render_arg_def)
      then show ?thesis by (simp only: printable_optval)
    next
      case False
      with assms raw sym meta None have "render_typed syscall metas i ev mem meta raw = Some s"
        unfolding render_arg_def by simp
      then show ?thesis by (rule printable_render_typed)
    qed
  next
    case (Some t)
    with assms raw sym have "consts_render syscall metas i ev = Some (Some s)"
      by (simp add: render_arg_def)
    then show ?thesis by (rule printable_consts_render)
  qed
qed

definition table_printable :: "syscall_info list \<Rightarrow> bool" where
  "table_printable T \<longleftrightarrow> list_all (\<lambda>s. printable_list (si_name s)) T"

lemma printable_syscall_name: "table_printable T \<Longrightarrow> printable_list (syscall_name T nr)"
  by (auto simp: syscall_name_def table_printable_def list_all_iff printable_lit bind_eq_Some_conv
      split: option.split dest: syscall_by_number_SomeD)

lemma printable_decode_typed:
  assumes "decode_typed syscall metas ev mem = Some as" "a \<in> set as"
  shows "printable_list (da_value a)"
proof -
  from assms(2) obtain i where "i < length as" "a = as ! i" by (auto simp: in_set_conv_nth)
  with decode_typed_nth [OF assms(1)] have "decode_one syscall metas ev mem i = Some a" by simp
  then show ?thesis using decode_one_fields printable_render_arg by blast
qed

lemma printable_decode_raw: "a \<in> set (decode_raw ev) \<Longrightarrow> printable_list (da_value a)"
  by (auto simp: decode_raw_def split: option.splits)

lemma printable_decode_args:
  assumes "decode T ev mem = Some d" "a \<in> set (ds_args d)"
  shows "printable_list (da_value a)"
  using assms printable_decode_typed printable_decode_raw
  by (fastforce simp: decode_def Let_def bind_eq_Some_conv split: option.splits if_splits)

lemma printable_errno_table: "list_all (\<lambda>(k, n, d). printable_list n \<and> printable_list d) errno_table"
  by (simp add: errno_table_def printable_lit)

lemma printable_errno: "errno c = Some e \<Longrightarrow> printable_list (en_name e) \<and> printable_list (en_description e)"
  using printable_errno_table
  by (fastforce simp: errno_def name_and_desc_def list_all_iff split: option.splits dest: map_of_SomeD)

lemma printable_retval_str:
  assumes "decode T ev mem = Some d"
  shows "printable_list (retval_str d)"
  unfolding decode_retval_str [OF assms] retval_text_def
  by (auto simp: printable_lit bind_eq_Some_conv split: option.split dest: printable_errno)

lemma printable_ds_name:
  "decode T ev mem = Some d \<Longrightarrow> table_printable T \<Longrightarrow> printable_list (ds_name d)"
  by (simp add: decode_fields printable_syscall_name)

end
