(* ===== verification/Output_Text.thy ===== *)
theory Output_Text
  imports Output_Sink Output_Num Decode_Printable
begin

section \<open>strace-style text (\<^verbatim>\<open>crates/syren-output/src/text.rs\<close>)\<close>

text \<open>
  The default sink.  The operations write piece by piece, as the code does; the lemmas
  show that a record is one line, written as a whole, and that colours only add escape
  sequences.
\<close>

record text_options =
  to_show_pid :: bool
  to_show_timing :: bool
  to_color :: bool

record palette =
  pal_name :: string
  pal_error :: string
  pal_meta :: string
  pal_reset :: string

definition PLAIN :: palette where
  "PLAIN = \<lparr>pal_name = [], pal_error = [], pal_meta = [], pal_reset = []\<rparr>"

definition ESC :: char where
  "ESC = CHR 0x1B"

definition COLOR :: palette where
  "COLOR = \<lparr>pal_name = ESC # ''[36m'', pal_error = ESC # ''[31m'', pal_meta = ESC # ''[33m'',
     pal_reset = ESC # ''[0m''\<rparr>"

definition palette_new :: "bool \<Rightarrow> palette" where
  "palette_new color = (if color then COLOR else PLAIN)"

record 'w text_sink =
  ts_out :: 'w
  ts_opts :: text_options
  ts_palette :: palette

definition text_with_options :: "'w \<Rightarrow> text_options \<Rightarrow> 'w text_sink" where
  "text_with_options out opts =
     \<lparr>ts_out = out, ts_opts = opts, ts_palette = palette_new (to_color opts)\<rparr>"

definition text_new :: "'w \<Rightarrow> 'w text_sink" where
  "text_new out =
     text_with_options out \<lparr>to_show_pid = False, to_show_timing = False, to_color = False\<rparr>"

definition fmt_secs :: "u64 \<Rightarrow> string" where
  "fmt_secs ns = fmt_fixed 6 (f64_div (f64_of_nat (unat ns)) (1000000000, 1))"

definition text_signal_name :: "i32 \<Rightarrow> string" where
  "text_signal_name sig =
     (case signal_name sig of Some name \<Rightarrow> name | None \<Rightarrow> ''signal '' @ dec_int (sint sig))"

definition text_prefix :: "(string \<Rightarrow> 'w io) \<Rightarrow> text_options \<Rightarrow> u32 \<Rightarrow> 'w io" where
  "text_prefix wr opts pid =
     (if to_show_pid opts
      then wr (''[pid '' @ pad_left (CHR '' '') 5 (dec (unat pid)) @ ''] '') else io_ok)"

fun write_args :: "(string \<Rightarrow> 'w io) \<Rightarrow> nat \<Rightarrow> decoded_arg list \<Rightarrow> 'w io" where
  "write_args wr i [] = io_ok"
| "write_args wr i (a # as) =
     io_then (if i > 0 then wr '', '' else io_ok)
       (io_then (wr (da_value a)) (write_args wr (i + 1) as))"

definition write_call :: "(string \<Rightarrow> 'w io) \<Rightarrow> palette \<Rightarrow> decoded_syscall \<Rightarrow> 'w io" where
  "write_call wr p s =
     io_then (wr (pal_name p @ ds_name s @ pal_reset p @ ''(''))
       (io_then (write_args wr 0 (ds_args s))
         (let ret = retval_str s in
          case ds_error s of
            Some _ \<Rightarrow> wr ('') = '' @ pal_error p @ ret @ pal_reset p)
          | None \<Rightarrow> wr ('') = '' @ ret)))"

definition text_write :: "(string \<Rightarrow> 'w io) \<Rightarrow> text_options \<Rightarrow> palette \<Rightarrow> out_record \<Rightarrow> 'w io" where
  "text_write wr opts p rec =
     (case rec of
        RecSyscall s \<Rightarrow>
          io_then (text_prefix wr opts (ds_pid s))
            (io_then (write_call wr p s)
              (io_then (if to_show_timing opts
                        then wr ('' <'' @ fmt_secs (ds_duration_ns s) @ ''>'') else io_ok)
                (wr [newline])))
      | RecExit pid code \<Rightarrow>
          io_then (text_prefix wr opts pid)
            (wr (pal_meta p @ ''+++ exited with '' @ dec_int (sint code) @ '' +++'' @ pal_reset p
               @ [newline]))
      | RecSignal pid sig \<Rightarrow>
          io_then (text_prefix wr opts pid)
            (wr (pal_meta p @ ''--- '' @ text_signal_name sig @ '' ---'' @ pal_reset p @ [newline])))"

definition text_record ::
    "(string \<Rightarrow> 'w io) \<Rightarrow> out_record \<Rightarrow> 'w text_sink \<Rightarrow> (io_error + unit) \<times> 'w text_sink" where
  "text_record wr rec sink =
     (case text_write wr (ts_opts sink) (ts_palette sink) rec (ts_out sink) of
        (r, w) \<Rightarrow> (r, sink\<lparr>ts_out := w\<rparr>))"

declare PLAIN_def [exec] ESC_def [exec] COLOR_def [exec] palette_new_def [exec]
  text_with_options_def [exec] text_new_def [exec] fmt_secs_def [exec] text_signal_name_def [exec]
  text_prefix_def [exec] write_args.simps [exec] write_call_def [exec] text_write_def [exec]
  text_record_def [exec] newline_def [exec]

subsection \<open>One record, one line\<close>

definition prefix_text :: "text_options \<Rightarrow> u32 \<Rightarrow> string" where
  "prefix_text opts pid =
     (if to_show_pid opts then ''[pid '' @ pad_left (CHR '' '') 5 (dec (unat pid)) @ ''] '' else [])"

definition timing_text :: "text_options \<Rightarrow> u64 \<Rightarrow> string" where
  "timing_text opts ns = (if to_show_timing opts then '' <'' @ fmt_secs ns @ ''>'' else [])"

fun text_body :: "text_options \<Rightarrow> palette \<Rightarrow> out_record \<Rightarrow> string" where
  "text_body opts p (RecSyscall s) =
     prefix_text opts (ds_pid s) @ pal_name p @ ds_name s @ pal_reset p @ ''(''
     @ join '', '' (map da_value (ds_args s)) @ '') = ''
     @ (if ds_error s = None then retval_str s else pal_error p @ retval_str s @ pal_reset p)
     @ timing_text opts (ds_duration_ns s)"
| "text_body opts p (RecExit pid code) =
     prefix_text opts pid @ pal_meta p @ ''+++ exited with '' @ dec_int (sint code) @ '' +++''
     @ pal_reset p"
| "text_body opts p (RecSignal pid sig) =
     prefix_text opts pid @ pal_meta p @ ''--- '' @ text_signal_name sig @ '' ---'' @ pal_reset p"

lemma push_args_join:
  "push_args i as out = out @ (if i > 0 \<and> as \<noteq> [] then '', '' else []) @ join '', '' (map da_value as)"
proof (induction as arbitrary: i out)
  case (Cons a as)
  show ?case unfolding push_args.simps(2) Cons.IH by (cases as) auto
qed simp

lemma signature_join: "signature d = ds_name d @ ''('' @ join '', '' (map da_value (ds_args d)) @ '')''"
  by (simp add: signature_def push_args_join)

lemma text_body_plain:
  "text_body opts PLAIN (RecSyscall s) =
     prefix_text opts (ds_pid s) @ signature s @ '' = '' @ retval_str s
     @ timing_text opts (ds_duration_ns s)"
  by (simp add: signature_join PLAIN_def)

context writer
begin

lemma write_args_once:
  "write_args wr i as = wr ((if i > 0 \<and> as \<noteq> [] then '', '' else []) @ join '', '' (map da_value as))"
proof (induction as arbitrary: i)
  case (Cons a as)
  show ?case unfolding write_args.simps(2) Cons.IH by (cases as) (auto simp: wr_join)
qed (simp add: wr_nil)

lemma text_prefix_once: "text_prefix wr opts pid = wr (prefix_text opts pid)"
  by (simp add: text_prefix_def prefix_text_def wr_nil)

lemma write_call_once:
  "write_call wr p s = wr (pal_name p @ ds_name s @ pal_reset p @ ''(''
     @ join '', '' (map da_value (ds_args s)) @ '') = ''
     @ (if ds_error s = None then retval_str s else pal_error p @ retval_str s @ pal_reset p))"
  by (cases "ds_error s") (simp_all add: write_call_def write_args_once wr_join Let_def)

lemma text_write_once: "text_write wr opts p rec = wr (text_body opts p rec @ [newline])"
proof (cases rec)
  case (RecSyscall s)
  then show ?thesis
    by (simp add: text_write_def text_prefix_once write_call_once timing_text_def wr_if wr_join
        del: append_assoc) (simp add: append_assoc)
qed (simp_all add: text_write_def text_prefix_once wr_join)

end

subsection \<open>Colours\<close>

text \<open>Removing escape sequences, up to and including the \<open>m\<close> that ends each.\<close>

fun strip_ansi :: "bool \<Rightarrow> string \<Rightarrow> string" where
  "strip_ansi esc [] = []"
| "strip_ansi True (c # cs) = strip_ansi (c \<noteq> CHR ''m'') cs"
| "strip_ansi False (c # cs) = (if c = ESC then strip_ansi True cs else c # strip_ansi False cs)"

lemma strip_ansi_plain: "ESC \<notin> set a \<Longrightarrow> strip_ansi False (a @ b) = a @ strip_ansi False b"
  by (induction a) auto

lemma strip_ansi_palette:
  "strip_ansi False (pal_name COLOR @ b) = strip_ansi False b"
  "strip_ansi False (pal_error COLOR @ b) = strip_ansi False b"
  "strip_ansi False (pal_meta COLOR @ b) = strip_ansi False b"
  "strip_ansi False (pal_reset COLOR @ b) = strip_ansi False b"
  "strip_ansi False (pal_reset COLOR) = []"
  by (simp_all add: COLOR_def)

lemma strip_ansi_id: "ESC \<notin> set a \<Longrightarrow> strip_ansi False a = a"
  using strip_ansi_plain [of a "[]"] by simp

lemma strip_ansi_body:
  assumes "ESC \<notin> set (text_body opts PLAIN rec)"
  shows "strip_ansi False (text_body opts COLOR rec) = text_body opts PLAIN rec"
proof (cases rec)
  case (RecSyscall s)
  with assms show ?thesis
    by (cases "ds_error s")
      (simp_all add: strip_ansi_plain strip_ansi_palette strip_ansi_id PLAIN_def ESC_def)
qed (use assms in \<open>simp_all add: strip_ansi_plain strip_ansi_palette strip_ansi_id PLAIN_def ESC_def\<close>)

subsection \<open>Properties\<close>

lemma printable_no_control: "printable_list s \<Longrightarrow> ESC \<notin> set s \<and> newline \<notin> set s"
  by (auto simp: printable_list_def printable_def ESC_def newline_def)

lemma printable_pad_left: "c \<in> printable \<Longrightarrow> printable_list s \<Longrightarrow> printable_list (pad_left c n s)"
  by (auto simp: pad_left_def printable_list_def)

lemma printable_prefix_text: "printable_list (prefix_text opts pid)"
  by (simp add: prefix_text_def printable_lit printable_pad_left)

lemma printable_fmt_fixed: "printable_list (fmt_fixed n x)"
  by (simp add: fmt_fixed_def fixed_text_def printable_lit printable_pad_left)

lemma printable_timing_text: "printable_list (timing_text opts ns)"
  by (simp add: timing_text_def fmt_secs_def printable_lit printable_fmt_fixed)

lemma printable_body:
  assumes "decode T ev mem = Some d" "table_printable T"
  shows "printable_list (text_body opts PLAIN (RecSyscall d))"
proof -
  have "printable_list (join '', '' (map da_value (ds_args d)))"
    using printable_decode_args [OF assms(1)] by (intro printable_join) (auto simp: printable_lit)
  then show ?thesis
    using printable_ds_name [OF assms] printable_retval_str [OF assms(1)]
    by (simp add: PLAIN_def printable_prefix_text printable_timing_text printable_lit)
qed

text \<open>
  Without colours a call is one line: the optional pid prefix, \<open>name(args) = result\<close>
  with the decoder's own signature and result, and the optional duration.
\<close>

lemma text_line_format:
  "text_record vec_write (RecSyscall s) (text_with_options buf
      \<lparr>to_show_pid = pid, to_show_timing = timing, to_color = False\<rparr>)
   = (Inr (), text_with_options
       (buf @ (if pid then ''[pid '' @ pad_left (CHR '' '') 5 (dec (unat (ds_pid s))) @ ''] '' else [])
        @ signature s @ '' = '' @ retval_str s
        @ (if timing then '' <'' @ fmt_secs (ds_duration_ns s) @ ''>'' else []) @ [newline])
       \<lparr>to_show_pid = pid, to_show_timing = timing, to_color = False\<rparr>)"
  unfolding text_record_def text_with_options_def
  by (simp add: vec_writer.text_write_once palette_new_def text_body_plain vec_write_def
      prefix_text_def timing_text_def del: text_body.simps)

text \<open>
  C16. A traced program cannot forge output.  Over a table whose names are printable (as those
  of the shipped one are, \<open>SYSCALLS_printable\<close>) the text sink appends one line per decoded call, and without colours
  all of the line is printable ASCII: the optional pid prefix, the decoder's signature and
  result, and the optional duration.  With colours it appends the same line with escape
  sequences in it: the only newline is the last byte, and without the sequences the line is
  the one without colours.
\<close>

theorem text_line_unforgeable:
  assumes "decode T ev mem = Some d" "table_printable T"
  shows "\<exists>line colored.
     line = (if pid then ''[pid '' @ pad_left (CHR '' '') 5 (dec (unat (ds_pid d))) @ ''] '' else [])
        @ signature d @ '' = '' @ retval_str d
        @ (if timing then '' <'' @ fmt_secs (ds_duration_ns d) @ ''>'' else [])
   \<and> text_record vec_write (RecSyscall d)
        (text_with_options buf \<lparr>to_show_pid = pid, to_show_timing = timing, to_color = False\<rparr>)
      = (Inr (), text_with_options (buf @ line @ [newline])
           \<lparr>to_show_pid = pid, to_show_timing = timing, to_color = False\<rparr>)
   \<and> text_record vec_write (RecSyscall d)
        (text_with_options buf \<lparr>to_show_pid = pid, to_show_timing = timing, to_color = True\<rparr>)
      = (Inr (), text_with_options (buf @ colored @ [newline])
           \<lparr>to_show_pid = pid, to_show_timing = timing, to_color = True\<rparr>)
   \<and> set line \<subseteq> printable \<and> newline \<notin> set colored \<and> strip_ansi False colored = line"
proof -
  let ?plain = "\<lparr>to_show_pid = pid, to_show_timing = timing, to_color = False\<rparr>"
  let ?opts = "\<lparr>to_show_pid = pid, to_show_timing = timing, to_color = True\<rparr>"
  let ?line = "text_body ?opts PLAIN (RecSyscall d)" and ?colored = "text_body ?opts COLOR (RecSyscall d)"
  have line: "?line = (if pid then ''[pid '' @ pad_left (CHR '' '') 5 (dec (unat (ds_pid d))) @ ''] '' else [])
        @ signature d @ '' = '' @ retval_str d
        @ (if timing then '' <'' @ fmt_secs (ds_duration_ns d) @ ''>'' else [])"
    by (simp add: text_body_plain prefix_text_def timing_text_def del: text_body.simps)
  have colored: "text_record vec_write (RecSyscall d) (text_with_options buf ?opts)
      = (Inr (), text_with_options (buf @ ?colored @ [newline]) ?opts)"
    by (simp add: text_record_def text_with_options_def vec_writer.text_write_once palette_new_def
        vec_write_def del: text_body.simps)
  note pr = printable_body [OF assms]
  have "newline \<notin> set ?colored"
    using printable_no_control [OF pr [of ?opts]] by (auto simp: PLAIN_def COLOR_def ESC_def newline_def split: if_splits)
  moreover have "strip_ansi False ?colored = ?line"
    by (rule strip_ansi_body) (use printable_no_control [OF pr] in blast)
  moreover have "set ?line \<subseteq> printable" using pr [of ?opts] by (simp only: printable_list_def)
  moreover have "text_record vec_write (RecSyscall d) (text_with_options buf ?plain)
      = (Inr (), text_with_options (buf @ ?line @ [newline]) ?plain)"
    unfolding line text_line_format by simp
  ultimately show ?thesis using line colored
    by (intro exI [of _ ?line] exI [of _ ?colored] conjI)
qed

text \<open>A file name with an escape sequence and a newline in it stays inside its line.\<close>

theorem text_line_unforgeable_witness:
  "\<exists>line. text_record vec_write
      (RecSyscall (the (decode
       [\<lparr>si_number = 80, si_name = ''chdir'', si_category = Fs,
         si_args = [\<lparr>ai_name = ''filename'', ai_ty = TyPath\<rparr>]\<rparr>]
       \<lparr>ev_pid = 1, ev_tid = 1, ev_nr = 80, ev_args = Args 4096 0 0 0 0 0, ev_retval = 0,
         ev_ts_enter_ns = 0, ev_duration_ns = 0\<rparr>
       (\<lambda>addr len. Some (take len [0x1B, 0x0A, 0])))))
      (text_with_options [] \<lparr>to_show_pid = False, to_show_timing = False, to_color = True\<rparr>)
    = (Inr (), text_with_options (line @ [newline])
        \<lparr>to_show_pid = False, to_show_timing = False, to_color = True\<rparr>) \<and> newline \<notin> set line"
proof -
  let ?T = "[\<lparr>si_number = 80, si_name = ''chdir'', si_category = Fs,
         si_args = [\<lparr>ai_name = ''filename'', ai_ty = TyPath\<rparr>]\<rparr>] :: syscall_info list"
  let ?ev = "\<lparr>ev_pid = 1, ev_tid = 1, ev_nr = 80, ev_args = Args 4096 0 0 0 0 0, ev_retval = 0,
         ev_ts_enter_ns = 0, ev_duration_ns = 0\<rparr> :: syscall_event"
  let ?mem = "\<lambda>addr len. Some (take len [0x1B, 0x0A, 0]) :: u8 list option"
  obtain d where d: "decode ?T ?ev ?mem = Some d"
    using decode_total [of ?T ?ev ?mem] by (auto simp: table_arity_ok_def)
  have "table_printable ?T" by (simp add: table_printable_def printable_lit)
  from text_line_unforgeable [OF d this, of False False "[]"] show ?thesis
    unfolding d option.sel append_Nil by blast
qed

text \<open>
  C34. The duration printed with \<^verbatim>\<open>-T\<close> is the time in seconds rounded to the nearest
  microsecond: the passage through \<^verbatim>\<open>f64\<close> costs nothing below \<open>2 ^ 53\<close> ns (104 days).
\<close>

theorem fmt_secs_nearest:
  assumes "unat ns < 2 ^ 53"
  shows "\<exists>us. fmt_secs ns = fixed_text 6 us \<and> \<bar>1000 * int us - int (unat ns)\<bar> \<le> 500"
  using fixed6_seconds [OF assms] by (auto simp: fmt_secs_def fmt_fixed_def)

theorem fmt_secs_nearest_witness:
  "\<exists>us. fmt_secs 1499 = fixed_text 6 us \<and> \<bar>1000 * int us - 1499\<bar> \<le> 500"
  using fmt_secs_nearest [of 1499] by simp

end
