(* ===== verification/Output_Json.thy ===== *)
theory Output_Json
  imports Output_Sink
begin

section \<open>Newline-delimited JSON (\<^verbatim>\<open>crates/syren-output/src/json.rs\<close>)\<close>

text \<open>
  One JSON object per record and line.  Which object a record becomes is what the derived
  \<^verbatim>\<open>Serialize\<close> implementations say: the fields in order, an absent option left out where the
  source says so, and the tag \<^verbatim>\<open>type\<close> in front.  The text of a JSON value is the serialiser's
  (\<^verbatim>\<open>serde_json\<close>), a parameter \<open>to_json\<close>; what it does with the writer is to write that text
  and, when the writer fails, to report an error of its own.
\<close>

datatype json_value =
    JNull
  | JBool bool
  | JInt int
  | JStr string
  | JArr "json_value list"
  | JObj "(string \<times> json_value) list"

text \<open>\<^verbatim>\<open>skip_serializing_if = "Option::is_none"\<close>\<close>

definition skip_none :: "string \<Rightarrow> ('a \<Rightarrow> json_value) \<Rightarrow> 'a option \<Rightarrow> (string \<times> json_value) list" where
  "skip_none key f x = (case x of None \<Rightarrow> [] | Some y \<Rightarrow> [(key, f y)])"

definition arg_json :: "decoded_arg \<Rightarrow> json_value" where
  "arg_json a = JObj (skip_none ''name'' JStr (da_name a)
     @ [(''value'', JStr (da_value a)), (''raw'', JInt (uint (da_raw a)))])"

definition error_json :: "decoded_error \<Rightarrow> json_value" where
  "error_json e = JObj [(''errno'', JInt (sint (de_errno e))), (''name'', JStr (de_name e)),
     (''description'', JStr (de_description e))]"

definition syscall_fields :: "decoded_syscall \<Rightarrow> (string \<times> json_value) list" where
  "syscall_fields d =
     [(''pid'', JInt (uint (ds_pid d))), (''tid'', JInt (uint (ds_tid d))), (''nr'', JInt (uint (ds_nr d))),
      (''name'', JStr (ds_name d)), (''args'', JArr (map arg_json (ds_args d))),
      (''retval'', JInt (sint (ds_retval d)))]
     @ skip_none ''error'' error_json (ds_error d)
     @ [(''duration_ns'', JInt (uint (ds_duration_ns d))), (''ts_enter_ns'', JInt (uint (ds_ts_enter_ns d)))]"

datatype json_record =
    JSyscall decoded_syscall
  | JExit u32 i32
  | JSignal u32 i32

text \<open>Internally tagged: the tag joins the fields of the syscall object.\<close>

definition record_json :: "json_record \<Rightarrow> json_value" where
  "record_json j =
     (case j of
        JSyscall d \<Rightarrow> JObj ((''type'', JStr ''syscall'') # syscall_fields d)
      | JExit pid code \<Rightarrow>
          JObj [(''type'', JStr ''exit''), (''pid'', JInt (uint pid)), (''code'', JInt (sint code))]
      | JSignal pid sig \<Rightarrow>
          JObj [(''type'', JStr ''signal''), (''pid'', JInt (uint pid)), (''signal'', JInt (sint sig))])"

definition json_of :: "out_record \<Rightarrow> json_record" where
  "json_of rec =
     (case rec of
        RecSyscall s \<Rightarrow> JSyscall s
      | RecExit pid code \<Rightarrow> JExit pid code
      | RecSignal pid sig \<Rightarrow> JSignal pid sig)"

text \<open>
  \<^verbatim>\<open>map_err(io::Error::other)\<close>: the serialiser's error becomes the payload of a new
  \<^verbatim>\<open>io::Error\<close> of kind \<^verbatim>\<open>Other\<close>, whatever the kind of the write error inside it; the
  serialiser's error hides the write error it stems from, also from the chain of causes.
\<close>

definition io_error_other :: "io_error \<Rightarrow> io_error" where
  "io_error_other e = CustomIo e"

record 'w json_sink =
  js_out :: 'w

definition json_new :: "'w \<Rightarrow> 'w json_sink" where
  "json_new out = \<lparr>js_out = out\<rparr>"

definition json_write ::
    "(string \<Rightarrow> 'w io) \<Rightarrow> (json_value \<Rightarrow> string) \<Rightarrow> out_record \<Rightarrow> 'w io" where
  "json_write wr to_json rec =
     (let json = json_of rec in
      io_then (io_map_err io_error_other (wr (to_json (record_json json)))) (wr [newline]))"

text \<open>The JSON value of a record.\<close>

definition record_value :: "out_record \<Rightarrow> json_value" where
  "record_value rec = record_json (json_of rec)"

definition json_sink_record :: "(string \<Rightarrow> 'w io) \<Rightarrow> (json_value \<Rightarrow> string) \<Rightarrow> out_record \<Rightarrow>
    'w json_sink \<Rightarrow> (io_error + unit) \<times> 'w json_sink" where
  "json_sink_record wr to_json rec sink =
     (case json_write wr to_json rec (js_out sink) of (r, w) \<Rightarrow> (r, sink\<lparr>js_out := w\<rparr>))"

declare skip_none_def [exec] arg_json_def [exec] error_json_def [exec] syscall_fields_def [exec]
  record_json_def [exec] record_value_def [exec] json_of_def [exec] io_error_other_def [exec] json_new_def [exec] json_write_def [exec]
  json_sink_record_def [exec]

lemma json_write_vec: "json_write vec_write to_json rec buf = (Inr (), buf @ to_json (record_value rec) @ [newline])"
  by (simp add: json_write_def vec_write_def io_then_def io_map_err_def record_value_def Let_def)

text \<open>A write error of any kind inside an object is reported wrapped.\<close>

lemma json_write_error:
  assumes "wr (to_json (record_value rec)) w = (Inl e, w')"
  shows "json_write wr to_json rec w = (Inl (CustomIo e), w')"
  using assms by (simp add: json_write_def io_then_def io_map_err_def io_error_other_def record_value_def Let_def)

subsection \<open>Reading a record back\<close>

text \<open>A consumer that looks its fields up by name.\<close>

definition jget :: "string \<Rightarrow> json_value \<Rightarrow> json_value option" where
  "jget k v = (case v of JObj fs \<Rightarrow> map_of fs k | _ \<Rightarrow> None)"

definition jint :: "string \<Rightarrow> json_value \<Rightarrow> int option" where
  "jint k v = (case jget k v of Some (JInt i) \<Rightarrow> Some i | _ \<Rightarrow> None)"

definition jstr :: "string \<Rightarrow> json_value \<Rightarrow> string option" where
  "jstr k v = (case jget k v of Some (JStr s) \<Rightarrow> Some s | _ \<Rightarrow> None)"

definition jarr :: "string \<Rightarrow> json_value \<Rightarrow> json_value list option" where
  "jarr k v = (case jget k v of Some (JArr vs) \<Rightarrow> Some vs | _ \<Rightarrow> None)"

definition read_arg :: "json_value \<Rightarrow> decoded_arg option" where
  "read_arg v = do {
     value \<leftarrow> jstr ''value'' v;
     raw \<leftarrow> jint ''raw'' v;
     Some \<lparr>da_name = jstr ''name'' v, da_value = value, da_raw = of_int raw\<rparr>
   }"

definition read_error :: "json_value \<Rightarrow> decoded_error option" where
  "read_error v = do {
     n \<leftarrow> jint ''errno'' v;
     name \<leftarrow> jstr ''name'' v;
     text \<leftarrow> jstr ''description'' v;
     Some \<lparr>de_errno = of_int n, de_name = name, de_description = text\<rparr>
   }"

definition read_syscall :: "json_value \<Rightarrow> decoded_syscall option" where
  "read_syscall v = do {
     pid \<leftarrow> jint ''pid'' v;
     tid \<leftarrow> jint ''tid'' v;
     nr \<leftarrow> jint ''nr'' v;
     name \<leftarrow> jstr ''name'' v;
     vs \<leftarrow> jarr ''args'' v;
     args \<leftarrow> those (map read_arg vs);
     retval \<leftarrow> jint ''retval'' v;
     dur \<leftarrow> jint ''duration_ns'' v;
     ts \<leftarrow> jint ''ts_enter_ns'' v;
     Some \<lparr>ds_pid = of_int pid, ds_tid = of_int tid, ds_nr = of_int nr, ds_name = name, ds_args = args,
       ds_retval = of_int retval, ds_error = Option.bind (jget ''error'' v) read_error,
       ds_duration_ns = of_int dur, ds_ts_enter_ns = of_int ts\<rparr>
   }"

definition read_record :: "json_value \<Rightarrow> out_record option" where
  "read_record v = do {
     tag \<leftarrow> jstr ''type'' v;
     if tag = ''syscall'' then map_option RecSyscall (read_syscall v)
     else do {
       pid \<leftarrow> jint ''pid'' v;
       if tag = ''exit'' then do { code \<leftarrow> jint ''code'' v; Some (RecExit (of_int pid) (of_int code)) }
       else if tag = ''signal'' then do { sig \<leftarrow> jint ''signal'' v; Some (RecSignal (of_int pid) (of_int sig)) }
       else None
     }
   }"

lemmas read_defs = jget_def jint_def jstr_def jarr_def

lemma read_arg_json: "read_arg (arg_json a) = Some a"
  by (cases "da_name a") (simp_all add: read_arg_def arg_json_def skip_none_def read_defs)

lemma read_error_json: "read_error (error_json e) = Some e"
  by (simp add: read_error_def error_json_def read_defs)

lemma those_read_args: "those (map (\<lambda>a. read_arg (arg_json a)) as) = Some as"
  by (induction as) (simp_all add: read_arg_json)

lemma read_syscall_json: "read_syscall (JObj ((''type'', JStr ''syscall'') # syscall_fields d)) = Some d"
  by (cases "ds_error d")
    (simp_all add: read_syscall_def syscall_fields_def skip_none_def read_defs those_read_args o_def read_error_json)

lemma read_record_value: "read_record (record_value r) = Some r"
proof (cases r)
  case (RecSyscall d)
  then have "record_value r = JObj ((''type'', JStr ''syscall'') # syscall_fields d)"
    by (simp add: record_value_def record_json_def json_of_def)
  then show ?thesis by (simp add: read_record_def jstr_def jget_def read_syscall_json RecSyscall)
qed (simp_all add: record_value_def record_json_def json_of_def read_record_def read_defs)

text \<open>The fields of every object have different names, and the tag comes first.\<close>

lemma syscall_field_names:
  "distinct (map fst ((''type'', JStr ''syscall'') # syscall_fields d))"
  by (cases "ds_error d") (simp_all add: syscall_fields_def skip_none_def)

lemma json_lines:
  assumes "\<forall>r\<in>set recs. CHR 0x0A \<notin> set (to_json (record_value r)) \<and> CHR 0x0D \<notin> set (to_json (record_value r))"
  shows "io_each (json_write vec_write to_json) recs []
      = (Inr (), concat (map (\<lambda>r. to_json (record_value r) @ [newline]) recs))
    \<and> str_lines (concat (map (\<lambda>r. to_json (record_value r) @ [newline]) recs)) = map (to_json \<circ> record_value) recs"
proof
  have "io_each (json_write vec_write to_json) recs buf
      = (Inr (), buf @ concat (map (\<lambda>r. to_json (record_value r) @ [newline]) recs))" for buf
    by (induction recs arbitrary: buf) (simp_all add: io_ok_def io_then_def json_write_vec)
  then show "io_each (json_write vec_write to_json) recs []
      = (Inr (), concat (map (\<lambda>r. to_json (record_value r) @ [newline]) recs))" by simp
  show "str_lines (concat (map (\<lambda>r. to_json (record_value r) @ [newline]) recs)) = map (to_json \<circ> record_value) recs"
    using str_lines_concat [of "map (to_json \<circ> record_value) recs"] assms
    by (auto simp: newline_def comp_def)
qed

lemma json_lines_parse:
  assumes "\<forall>r\<in>set recs. parse (to_json (record_value r)) = Some (record_value r)"
  shows "map (\<lambda>l. Option.bind (parse l) read_record) (map (to_json \<circ> record_value) recs) = map Some recs"
  using assms by (simp add: read_record_value)

subsection \<open>Properties\<close>

text \<open>
  A pipe that closes inside an object: the writer reports \<^verbatim>\<open>BrokenPipe\<close>, the JSON sink an error
  of kind \<^verbatim>\<open>Other\<close>.
\<close>

lemma json_hides_broken_pipe:
  assumes "room < length (to_json (record_value rec))"
  shows "fst (json_write pipe_write to_json rec (room, out)) = Inl (CustomIo BrokenPipe)
    \<and> fst (pipe_write (to_json (record_value rec)) (room, out)) = Inl BrokenPipe"
proof -
  have "pipe_write (to_json (record_value rec)) (room, out)
      = (Inl BrokenPipe, (0, out @ take room (to_json (record_value rec))))"
    using assms by (simp add: pipe_write_def)
  with json_write_error [where wr = pipe_write and to_json = to_json and rec = rec and w = "(room, out)"]
  show ?thesis by simp
qed

text \<open>
  C31. The JSON output is lossless: each record is one line, and a consumer that parses the
  lines and looks the fields up by name gets the records back, every argument, register,
  result, error and time included.  (The serialiser's text of a value has no line break and
  parses back to the value.)
\<close>

theorem ndjson_round_trip:
  assumes "\<forall>r\<in>set recs. CHR 0x0A \<notin> set (to_json (record_value r)) \<and> CHR 0x0D \<notin> set (to_json (record_value r))"
    and "\<forall>r\<in>set recs. parse (to_json (record_value r)) = Some (record_value r)"
  shows "\<exists>out. io_each (json_write vec_write to_json) recs [] = (Inr (), out)
    \<and> map (\<lambda>l. Option.bind (parse l) read_record) (str_lines out) = map Some recs"
  using json_lines [OF assms(1)] json_lines_parse [where parse = parse and to_json = to_json, OF assms(2)]
  by (intro exI conjI) (rule conjunct1, assumption, simp only:)

theorem ndjson_round_trip_witness:
  "map (\<lambda>l. Option.bind (if l = ''{e}'' then Some (record_value (RecExit 1 0)) else Some (record_value (RecSignal 1 9))) read_record)
     (str_lines (''{e}'' @ [newline] @ ''{s}'' @ [newline])) = [Some (RecExit 1 0), Some (RecSignal 1 9)]"
proof -
  let ?recs = "[RecExit 1 0, RecSignal 1 9]"
  let ?to_json = "\<lambda>v. if v = record_value (RecExit 1 0) then ''{e}'' else ''{s}''"
  let ?parse = "\<lambda>l. if l = ''{e}'' then Some (record_value (RecExit 1 0)) else Some (record_value (RecSignal 1 9))"
  have ne: "record_value (RecSignal 1 9) \<noteq> record_value (RecExit 1 0)" by (simp add: exec)
  have a: "\<forall>r\<in>set ?recs. CHR 0x0A \<notin> set (?to_json (record_value r)) \<and> CHR 0x0D \<notin> set (?to_json (record_value r))"
    by simp
  have b: "\<forall>r\<in>set ?recs. ?parse (?to_json (record_value r)) = Some (record_value r)"
    using ne by simp
  from ndjson_round_trip [where to_json = ?to_json and parse = ?parse, OF a b] obtain out where
    "io_each (json_write vec_write ?to_json) ?recs [] = (Inr (), out)"
    and m: "map (\<lambda>l. Option.bind (?parse l) read_record) (str_lines out) = map Some ?recs" by blast
  moreover have "io_each (json_write vec_write ?to_json) ?recs [] = (Inr (), ''{e}'' @ [newline] @ ''{s}'' @ [newline])"
    using ne by (simp add: io_ok_def io_then_def json_write_vec)
  ultimately show ?thesis by simp
qed

end
