(* ===== verification/Output_Summary.thy ===== *)
theory Output_Summary
  imports Output_Sink Output_Num "HOL-Library.Product_Lexorder" "HOL-Library.List_Lexorder"
begin

section \<open>The summary table (\<^verbatim>\<open>crates/syren-output/src/summary.rs\<close>)\<close>

text \<open>
  The sink behind \<^verbatim>\<open>-c\<close>: it counts calls, errors and time per syscall name and prints a
  table at the end.  The hash map is an association list with distinct keys; its order
  stands for the map's unspecified iteration order, and the lemmas show that the output
  does not depend on it.  The counters wrap at their width.
\<close>

type_synonym u128 = "128 word"

record stat =
  st_calls :: u64
  st_errors :: u64
  st_total_ns :: u128

definition stat_default :: stat where
  "stat_default = \<lparr>st_calls = 0, st_errors = 0, st_total_ns = 0\<rparr>"

type_synonym stats = "(string \<times> stat) list"

record 'w summary_sink =
  ss_out :: 'w
  ss_stats :: stats

definition summary_new :: "'w \<Rightarrow> 'w summary_sink" where
  "summary_new out = \<lparr>ss_out = out, ss_stats = []\<rparr>"

text \<open>\<^verbatim>\<open>entry(name).or_default()\<close>, followed by an update in place.\<close>

fun entry_update :: "string \<Rightarrow> (stat \<Rightarrow> stat) \<Rightarrow> stats \<Rightarrow> stats" where
  "entry_update name f [] = [(name, f stat_default)]"
| "entry_update name f ((n, s) # rest) =
     (if n = name then (n, f s) # rest else (n, s) # entry_update name f rest)"

definition count_call :: "decoded_syscall \<Rightarrow> stat \<Rightarrow> stat" where
  "count_call s stat =
     (let stat = stat\<lparr>st_calls := st_calls stat + 1\<rparr>;
          stat = stat\<lparr>st_total_ns := st_total_ns stat + ucast (ds_duration_ns s)\<rparr>
      in if ds_error s \<noteq> None then stat\<lparr>st_errors := st_errors stat + 1\<rparr> else stat)"

definition summary_count :: "out_record \<Rightarrow> stats \<Rightarrow> stats" where
  "summary_count rec stats =
     (case rec of
        RecSyscall s \<Rightarrow> entry_update (ds_name s) (count_call s) stats
      | RecExit _ _ \<Rightarrow> stats
      | RecSignal _ _ \<Rightarrow> stats)"

definition summary_record ::
    "out_record \<Rightarrow> 'w summary_sink \<Rightarrow> (io_error + unit) \<times> 'w summary_sink" where
  "summary_record rec sink = (Inr (), sink\<lparr>ss_stats := summary_count rec (ss_stats sink)\<rparr>)"

definition grand_total :: "stats \<Rightarrow> u128" where
  "grand_total stats = sum_list (map (\<lambda>(n, s). st_total_ns s) stats)"

text \<open>
  The comparison of \<^verbatim>\<open>sort_by\<close>: more time first, then more calls, then the name.  As a key:
  negated numbers, and the name as its bytes.
\<close>

definition row_key :: "string \<times> stat \<Rightarrow> int \<times> int \<times> nat list" where
  "row_key r = (- uint (st_total_ns (snd r)), - uint (st_calls (snd r)), map of_char (fst r))"

definition sorted_rows :: "stats \<Rightarrow> stats" where
  "sorted_rows stats = sort_key row_key stats"

definition errors_text :: "u64 \<Rightarrow> string" where
  "errors_text n = (if n = 0 then [] else dec (unat n))"

definition dashes :: string where
  "dashes = pad_left (CHR ''-'') 6 [] @ '' '' @ pad_left (CHR ''-'') 11 [] @ '' ''
     @ pad_left (CHR ''-'') 11 [] @ '' '' @ pad_left (CHR ''-'') 9 [] @ '' ''
     @ pad_left (CHR ''-'') 9 [] @ '' '' @ pad_right (CHR ''-'') 16 [] @ [newline]"

definition heading :: string where
  "heading = pad_left (CHR '' '') 6 ''% time'' @ '' '' @ pad_left (CHR '' '') 11 ''seconds'' @ '' ''
     @ pad_left (CHR '' '') 11 ''usecs/call'' @ '' '' @ pad_left (CHR '' '') 9 ''calls'' @ '' ''
     @ pad_left (CHR '' '') 9 ''errors'' @ '' syscall'' @ [newline]"

definition seconds :: "u128 \<Rightarrow> f64" where
  "seconds ns = f64_div (f64_of_nat (unat ns)) (1000000000, 1)"

definition percent :: "u128 \<Rightarrow> u128 \<Rightarrow> f64" where
  "percent part grand =
     (if grand = 0 then (0, 1)
      else f64_mul (f64_div (f64_of_nat (unat part)) (f64_of_nat (unat grand))) (100, 1))"

definition usecs_per_call :: "stat \<Rightarrow> u128" where
  "usecs_per_call s =
     (if st_calls s = 0 then 0 else st_total_ns s div ucast (st_calls s) div 1000)"

definition row_line :: "u128 \<Rightarrow> string \<times> stat \<Rightarrow> string" where
  "row_line grand r =
     (case r of (name, s) \<Rightarrow>
        pad_left (CHR '' '') 6 (fmt_fixed 2 (percent (st_total_ns s) grand)) @ '' ''
        @ pad_left (CHR '' '') 11 (fmt_fixed 6 (seconds (st_total_ns s))) @ '' ''
        @ pad_left (CHR '' '') 11 (dec (unat (usecs_per_call s))) @ '' ''
        @ pad_left (CHR '' '') 9 (dec (unat (st_calls s))) @ '' ''
        @ pad_left (CHR '' '') 9 (errors_text (st_errors s)) @ '' '' @ name @ [newline])"

text \<open>The loop over the rows, with its running totals.\<close>

fun write_rows ::
    "(string \<Rightarrow> 'w io) \<Rightarrow> u128 \<Rightarrow> stats \<Rightarrow> u64 \<Rightarrow> u64 \<Rightarrow> (u64 \<Rightarrow> u64 \<Rightarrow> 'w io) \<Rightarrow> 'w io" where
  "write_rows wr grand [] calls errs k = k calls errs"
| "write_rows wr grand (r # rs) calls errs k =
     io_then (wr (row_line grand r))
       (write_rows wr grand rs (calls + st_calls (snd r)) (errs + st_errors (snd r)) k)"

definition total_line :: "u128 \<Rightarrow> u64 \<Rightarrow> u64 \<Rightarrow> string" where
  "total_line grand calls errs =
     pad_left (CHR '' '') 6 ''100.00'' @ '' ''
     @ pad_left (CHR '' '') 11 (fmt_fixed 6 (seconds grand)) @ '' ''
     @ pad_left (CHR '' '') 11 [] @ '' '' @ pad_left (CHR '' '') 9 (dec (unat calls)) @ '' ''
     @ pad_left (CHR '' '') 9 (errors_text errs) @ '' total'' @ [newline]"

definition summary_write :: "(string \<Rightarrow> 'w io) \<Rightarrow> stats \<Rightarrow> 'w io" where
  "summary_write wr stats =
     (let grand = grand_total stats; rows = sorted_rows stats in
      io_then (wr heading)
        (io_then (wr dashes)
          (write_rows wr grand rows 0 0
            (\<lambda>calls errs. io_then (wr dashes) (wr (total_line grand calls errs))))))"

definition summary_finish ::
    "(string \<Rightarrow> 'w io) \<Rightarrow> 'w summary_sink \<Rightarrow> (io_error + unit) \<times> 'w summary_sink" where
  "summary_finish wr sink =
     (case summary_write wr (ss_stats sink) (ss_out sink) of (r, w) \<Rightarrow> (r, sink\<lparr>ss_out := w\<rparr>))"

declare stat_default_def [exec] summary_new_def [exec] entry_update.simps [exec]
  count_call_def [exec] summary_count_def [exec] summary_record_def [exec] grand_total_def [exec]
  row_key_def [exec] sorted_rows_def [exec] errors_text_def [exec] dashes_def [exec]
  heading_def [exec] seconds_def [exec] percent_def [exec] usecs_per_call_def [exec]
  row_line_def [exec] write_rows.simps [exec] total_line_def [exec] summary_write_def [exec]
  summary_finish_def [exec]

subsection \<open>What is counted\<close>

text \<open>The calls a stream of records makes under one name.\<close>

definition calls_of :: "string \<Rightarrow> out_record list \<Rightarrow> decoded_syscall list" where
  "calls_of name recs =
     List.map_filter (\<lambda>r. case r of RecSyscall s \<Rightarrow> if ds_name s = name then Some s else None
                            | _ \<Rightarrow> None) recs"

definition stat_of :: "decoded_syscall list \<Rightarrow> stat" where
  "stat_of cs = \<lparr>st_calls = of_nat (length cs),
     st_errors = of_nat (length (filter (\<lambda>s. ds_error s \<noteq> None) cs)),
     st_total_ns = of_nat (sum_list (map (\<lambda>s. unat (ds_duration_ns s)) cs))\<rparr>"

definition count_all :: "out_record list \<Rightarrow> stats" where
  "count_all recs = fold summary_count recs []"

lemma map_of_entry_update:
  "map_of (entry_update name f stats) n =
     (if n = name then Some (f (case map_of stats name of Some s \<Rightarrow> s | None \<Rightarrow> stat_default))
      else map_of stats n)"
  by (induction name f stats rule: entry_update.induct) auto

lemma keys_entry_update: "set (map fst (entry_update name f stats)) = insert name (set (map fst stats))"
  by (induction name f stats rule: entry_update.induct) auto

lemma distinct_entry_update:
  "distinct (map fst stats) \<Longrightarrow> distinct (map fst (entry_update name f stats))"
proof (induction name f stats rule: entry_update.induct)
  case (2 name f n s rest)
  then show ?case using keys_entry_update [of name f rest] by auto
qed simp

lemma of_nat_unat_u128: "(of_nat (unat (w :: u64)) :: u128) = ucast w"
  by (rule unsigned_word_eqI) (simp add: unsigned_ucast_eq unsigned_of_nat)

lemma stat_of_snoc: "stat_of (cs @ [s]) = count_call s (stat_of cs)"
  by (simp add: stat_of_def count_call_def Let_def of_nat_unat_u128 algebra_simps)

lemma stat_of_Nil: "stat_of [] = stat_default"
  by (simp add: stat_of_def stat_default_def)

lemma calls_of_append: "calls_of n (xs @ ys) = calls_of n xs @ calls_of n ys"
  by (simp add: calls_of_def List.map_filter_def)

lemma count_all_distinct: "distinct (map fst (count_all recs))"
proof -
  have "distinct (map fst stats) \<Longrightarrow> distinct (map fst (fold summary_count recs stats))" for stats
    by (induction recs arbitrary: stats)
      (auto simp: summary_count_def distinct_entry_update split: out_record.split)
  then show ?thesis by (simp add: count_all_def)
qed

lemma calls_of_single [simp]:
  "calls_of n [RecSyscall s] = (if ds_name s = n then [s] else [])"
  "calls_of n [RecExit p c] = []" "calls_of n [RecSignal p g] = []"
  by (simp_all add: calls_of_def List.map_filter_def)

lemma count_all_snoc: "count_all (recs @ [r]) = summary_count r (count_all recs)"
  by (simp add: count_all_def)

lemma count_all_map_of:
  "map_of (count_all recs) n = (if calls_of n recs = [] then None else Some (stat_of (calls_of n recs)))"
proof (induction recs rule: rev_induct)
  case Nil
  then show ?case by (simp add: count_all_def calls_of_def List.map_filter_def)
next
  case (snoc r recs)
  show ?case
  proof (cases r)
    case (RecSyscall s)
    have calls: "calls_of n (recs @ [r]) = calls_of n recs @ (if ds_name s = n then [s] else [])"
      by (simp add: calls_of_append RecSyscall)
    have upd: "map_of (count_all (recs @ [r])) n =
       (if n = ds_name s
        then Some (count_call s (case map_of (count_all recs) n of Some s \<Rightarrow> s | None \<Rightarrow> stat_default))
        else map_of (count_all recs) n)"
      by (simp add: count_all_snoc summary_count_def RecSyscall map_of_entry_update)
    show ?thesis
    proof (cases "n = ds_name s")
      case True
      have "(case map_of (count_all recs) n of Some s \<Rightarrow> s | None \<Rightarrow> stat_default)
          = stat_of (calls_of n recs)"
        by (simp add: snoc stat_of_Nil)
      with True show ?thesis unfolding upd calls by (simp add: stat_of_snoc)
    next
      case False
      then show ?thesis unfolding upd calls by (simp add: snoc)
    qed
  qed (simp_all add: count_all_snoc summary_count_def snoc calls_of_append)
qed

subsection \<open>What is printed\<close>

lemma row_key_inject: "row_key r = row_key q \<Longrightarrow> fst r = fst q"
proof -
  assume "row_key r = row_key q"
  then have "map of_char (fst r) = (map of_char (fst q) :: nat list)" by (simp add: row_key_def)
  moreover have "inj (of_char :: char \<Rightarrow> nat)" by (rule inj_of_char)
  ultimately show ?thesis by (simp add: inj_map_eq_map)
qed

lemma sorted_rows_mset:
  assumes "mset stats = mset stats'" "distinct (map fst stats)"
  shows "sorted_rows stats = sorted_rows stats'"
proof -
  have "inj_on row_key (set stats)"
  proof (rule inj_onI)
    fix x y assume "x \<in> set stats" "y \<in> set stats" "row_key x = row_key y"
    then show "x = y" using row_key_inject assms(2) by (metis distinct_map inj_on_def)
  qed
  then show ?thesis
    using assms(1) unfolding sorted_rows_def by (intro sort_key_inj_key_eq) simp_all
qed

lemma grand_total_mset:
  assumes "mset stats = mset stats'" shows "grand_total stats = grand_total stats'"
proof -
  have "mset (map (\<lambda>(n, s). st_total_ns s) stats) = mset (map (\<lambda>(n, s). st_total_ns s) stats')"
    using assms by simp
  then show ?thesis unfolding grand_total_def by (metis sum_mset_sum_list)
qed

lemma summary_write_mset:
  assumes "mset stats = mset stats'" "distinct (map fst stats)"
  shows "summary_write wr stats = summary_write wr stats'"
  unfolding summary_write_def Let_def grand_total_mset [OF assms(1)] sorted_rows_mset [OF assms] ..

text \<open>The table as one text: heading, one line per row, and the column sums.\<close>

definition summary_text :: "stats \<Rightarrow> string" where
  "summary_text stats =
     (let grand = grand_total stats; rows = sorted_rows stats in
      heading @ dashes @ concat (map (row_line grand) rows) @ dashes
      @ total_line grand (sum_list (map (\<lambda>r. st_calls (snd r)) rows))
          (sum_list (map (\<lambda>r. st_errors (snd r)) rows)))"

context writer
begin

lemma write_rows_once:
  "write_rows wr grand rows c e k =
     io_then (wr (concat (map (row_line grand) rows)))
       (k (c + sum_list (map (\<lambda>r. st_calls (snd r)) rows)) (e + sum_list (map (\<lambda>r. st_errors (snd r)) rows)))"
  by (induction rows arbitrary: c e) (simp_all add: wr_nil wr_append io_then_assoc add.assoc)

lemma summary_write_once: "summary_write wr stats = wr (summary_text stats)"
  unfolding summary_write_def summary_text_def Let_def write_rows_once
  by (simp add: wr_append io_then_assoc)

end

subsection \<open>Properties\<close>

text \<open>
  The row of a name counts exactly the calls of that name: their number, how many of
  them failed and the sum of their durations; names that were never called have no row.
\<close>

lemma summary_counts:
  "map_of (count_all recs) name =
     (if calls_of name recs = [] then None else Some (stat_of (calls_of name recs)))
   \<and> distinct (map fst (count_all recs))"
  by (simp add: count_all_map_of count_all_distinct)

text \<open>
  C32. The table does not depend on the iteration order of the hash map.
\<close>

theorem summary_order_irrelevant:
  assumes "mset stats = mset (count_all recs)"
  shows "summary_write wr stats = summary_write wr (count_all recs)"
  by (rule summary_write_mset [symmetric, OF assms [symmetric] count_all_distinct])

theorem summary_order_irrelevant_witness:
  "summary_write vec_write
     [(''b'', \<lparr>st_calls = 1, st_errors = 0, st_total_ns = 5\<rparr>),
      (''a'', \<lparr>st_calls = 1, st_errors = 0, st_total_ns = 5\<rparr>)]
   = summary_write vec_write
     [(''a'', \<lparr>st_calls = 1, st_errors = 0, st_total_ns = 5\<rparr>),
      (''b'', \<lparr>st_calls = 1, st_errors = 0, st_total_ns = 5\<rparr>)]"
proof -
  let ?ab = "[(''a'', \<lparr>st_calls = 1, st_errors = 0, st_total_ns = 5\<rparr>),
      (''b'', \<lparr>st_calls = 1, st_errors = 0, st_total_ns = 5\<rparr>)] :: stats"
  let ?ba = "[(''b'', \<lparr>st_calls = 1, st_errors = 0, st_total_ns = 5\<rparr>),
      (''a'', \<lparr>st_calls = 1, st_errors = 0, st_total_ns = 5\<rparr>)] :: stats"
  define call where "call n = RecSyscall \<lparr>ds_pid = 1, ds_tid = 1, ds_nr = 0, ds_name = n,
    ds_args = [], ds_retval = 0, ds_error = None, ds_duration_ns = 5, ds_ts_enter_ns = 0\<rparr>" for n
  have "count_all [call ''a'', call ''b''] =
     [(''a'', \<lparr>st_calls = 1, st_errors = 0, st_total_ns = 5\<rparr>),
      (''b'', \<lparr>st_calls = 1, st_errors = 0, st_total_ns = 5\<rparr>)]"
    by (simp add: call_def count_all_def summary_count_def count_call_def stat_default_def)
  then have c: "count_all [call ''a'', call ''b''] = ?ab" .
  have "mset ?ba = mset (count_all [call ''a'', call ''b''])" unfolding c by (simp add: add_mset_commute)
  from summary_order_irrelevant [OF this, of vec_write] show ?thesis by (simp only: c)
qed

lemma sum_entry_update:
  assumes "\<And>s. g (f s) = g s + k" "g stat_default = (0 :: 'a::comm_monoid_add)"
  shows "sum_list (map (\<lambda>r. g (snd r)) (entry_update name f stats))
      = sum_list (map (\<lambda>r. g (snd r)) stats) + k"
  using assms by (induction name f stats rule: entry_update.induct) (auto simp: ac_simps)

lemma sum_count_call:
  "sum_list (map (\<lambda>r. st_calls (snd r)) (entry_update name (count_call s) stats))
     = sum_list (map (\<lambda>r. st_calls (snd r)) stats) + 1"
  "sum_list (map (\<lambda>r. st_errors (snd r)) (entry_update name (count_call s) stats))
     = sum_list (map (\<lambda>r. st_errors (snd r)) stats) + (if ds_error s = None then 0 else 1)"
  "sum_list (map (\<lambda>r. st_total_ns (snd r)) (entry_update name (count_call s) stats))
     = sum_list (map (\<lambda>r. st_total_ns (snd r)) stats) + ucast (ds_duration_ns s)"
  by (rule sum_entry_update; simp add: count_call_def Let_def stat_default_def)+

text \<open>All calls of a stream of records, in order.\<close>

definition all_calls :: "out_record list \<Rightarrow> decoded_syscall list" where
  "all_calls recs = List.map_filter (\<lambda>r. case r of RecSyscall s \<Rightarrow> Some s | _ \<Rightarrow> None) recs"

lemma all_calls_snoc:
  "all_calls (recs @ [r]) = all_calls recs @ (case r of RecSyscall s \<Rightarrow> [s] | _ \<Rightarrow> [])"
  by (cases r) (simp_all add: all_calls_def List.map_filter_def)

lemma count_all_sums:
  "sum_list (map (\<lambda>r. st_calls (snd r)) (count_all recs)) = of_nat (length (all_calls recs))"
  "sum_list (map (\<lambda>r. st_errors (snd r)) (count_all recs))
     = of_nat (length (filter (\<lambda>s. ds_error s \<noteq> None) (all_calls recs)))"
  "sum_list (map (\<lambda>r. st_total_ns (snd r)) (count_all recs))
     = of_nat (sum_list (map (\<lambda>s. unat (ds_duration_ns s)) (all_calls recs)))"
proof (induction recs rule: rev_induct)
  case (snoc r recs)
  {
    case 1
    show ?case using snoc(1)
      by (cases r) (simp_all add: count_all_snoc all_calls_snoc summary_count_def sum_count_call)
  next
    case 2
    show ?case using snoc(2)
      by (cases r) (simp_all add: count_all_snoc all_calls_snoc summary_count_def sum_count_call)
  next
    case 3
    show ?case using snoc(3)
      by (cases r) (simp_all add: count_all_snoc all_calls_snoc summary_count_def sum_count_call
        of_nat_unat_u128)
  }
qed (simp_all add: count_all_def all_calls_def List.map_filter_def)

lemma sum_sorted_rows: "sum_list (map g (sorted_rows stats)) = sum_list (map g stats)"
  for g :: "string \<times> stat \<Rightarrow> 'a::comm_monoid_add"
proof -
  have "mset (map g (sorted_rows stats)) = mset (map g stats)" by (simp add: sorted_rows_def)
  then show ?thesis by (metis sum_mset_sum_list)
qed

subsection \<open>Reading the table\<close>

text \<open>The columns of a line are its words.\<close>

lemma split_by_snoc: "p c \<Longrightarrow> split_by p (w @ [c]) = split_by p w @ [[]]"
  by (induction w) (auto simp: split_by_nonempty split: list.split)

lemma split_whitespace_newline: "split_whitespace (w @ [newline]) = split_whitespace w"
  by (simp add: split_whitespace_def split_by_snoc is_ws_def whitespace_def newline_def)

lemma blanks_replicate: "blanks (replicate n (CHR '' ''))"
  by (simp add: blanks_def list_all_iff)

lemma word_ok_append: "word_ok v \<Longrightarrow> word_ok w \<Longrightarrow> word_ok (v @ w)"
  by (simp add: word_ok_def)

lemma word_ok_pad:
  assumes "word_ok w" shows "word_ok (pad_left (CHR ''0'') n w)"
proof -
  have "\<not> is_ws (CHR ''0'')" by (simp add: is_ws_def whitespace_def)
  with assms show ?thesis by (auto simp: pad_left_def word_ok_def list_all_iff in_set_replicate)
qed

lemma word_ok_fixed: "word_ok (fmt_fixed n x)"
proof -
  have "word_ok ''.''" by (simp add: word_ok_def is_ws_def whitespace_def)
  then show ?thesis
    by (simp only: fmt_fixed_def fixed_text_def) (intro word_ok_append word_ok_pad word_ok_dec)
qed

lemma split_column: "word_ok w \<Longrightarrow> split_whitespace (pad_left (CHR '' '') n w @ CHR '' '' # t) = w # split_whitespace t"
  using split_whitespace_blanks [OF blanks_replicate, of "n - length w" "w @ CHR '' '' # t"]
    split_whitespace_word [of w "'' ''" t] by (simp add: pad_left_def blanks_def)

lemma split_gap: "split_whitespace (pad_left (CHR '' '') n [] @ CHR '' '' # t) = split_whitespace t"
  using split_whitespace_blanks [OF blanks_replicate, of n "CHR '' '' # t"] split_whitespace_blanks [of "'' ''" t]
  by (simp add: pad_left_def blanks_def)

lemma split_errors:
  "split_whitespace (pad_left (CHR '' '') n (errors_text e) @ CHR '' '' # t)
     = (if e = 0 then [] else [dec (unat e)]) @ split_whitespace t"
  by (simp add: errors_text_def split_gap split_column [OF word_ok_dec])

lemma row_words:
  "split_whitespace (row_line grand (name, s)) =
     [fmt_fixed 2 (percent (st_total_ns s) grand), fmt_fixed 6 (seconds (st_total_ns s)), dec (unat (usecs_per_call s)),
      dec (unat (st_calls s))] @ (if st_errors s = 0 then [] else [dec (unat (st_errors s))]) @ split_whitespace name"
  by (simp add: row_line_def split_column [OF word_ok_fixed] split_column [OF word_ok_dec]
      split_errors split_whitespace_newline del: replicate.simps)

lemma total_words:
  "split_whitespace (total_line ns calls errs) = [''100.00'', fmt_fixed 6 (seconds ns), dec (unat calls)]
     @ (if errs = 0 then [] else [dec (unat errs)]) @ [''total'']"
proof -
  have w: "word_ok ''100.00''" "word_ok ''total''" by (simp_all add: word_ok_def is_ws_def whitespace_def)
  have "split_whitespace (''total'' @ [newline]) = [''total'']"
    by (simp only: split_whitespace_newline split_whitespace_single [OF w(2)])
  then show ?thesis
    by (simp only: total_line_def append_assoc split_column [OF w(1)] split_column [OF word_ok_fixed] split_column [OF word_ok_dec]
        split_gap split_errors append_Cons append_Nil)
qed

text \<open>A line has one newline, at its end, unless the name has one.\<close>

lemma word_ok_newline: "word_ok w \<Longrightarrow> newline \<notin> set w"
  by (auto simp: word_ok_def list_all_iff is_ws_def whitespace_def newline_def)

lemma newline_pad: "newline \<notin> set w \<Longrightarrow> newline \<notin> set (pad_left (CHR '' '') n w)"
  by (auto simp: pad_left_def newline_def)

lemmas newline_columns = newline_pad [OF word_ok_newline] newline_pad [of "[]"] word_ok_dec word_ok_fixed

lemma newline_errors: "newline \<notin> set (pad_left (CHR '' '') n (errors_text e))"
  by (simp add: errors_text_def newline_columns)

lemma row_framed: "\<exists>cols. row_line ns r = cols @ '' '' @ fst r @ [newline] \<and> newline \<notin> set cols"
proof -
  have "newline \<noteq> CHR '' ''" by (simp add: newline_def)
  then show ?thesis
    by (simp add: row_line_def split_beta newline_columns newline_errors flip: append_assoc)
qed

lemma total_framed: "\<exists>cols. total_line ns c e = cols @ '' total'' @ [newline] \<and> newline \<notin> set cols"
proof -
  have "newline \<noteq> CHR '' ''" "newline \<notin> set ''100.00''" by (simp_all add: newline_def)
  then show ?thesis
    by (simp add: total_line_def newline_columns newline_pad newline_errors flip: append_assoc)
qed

text \<open>The order of the rows.\<close>

definition before_row :: "string \<times> stat \<Rightarrow> string \<times> stat \<Rightarrow> bool" where
  "before_row a b \<longleftrightarrow> st_total_ns (snd b) < st_total_ns (snd a)
     \<or> st_total_ns (snd b) = st_total_ns (snd a)
       \<and> (st_calls (snd b) < st_calls (snd a)
          \<or> st_calls (snd b) = st_calls (snd a) \<and> (map of_char (fst a) :: nat list) < map of_char (fst b))"

lemma row_key_less: "row_key a < row_key b \<longleftrightarrow> before_row a b"
  by (auto simp: row_key_def before_row_def less_prod_simp word_less_def word_uint_eq_iff)

lemma sorted_rows_before:
  assumes "distinct (map fst stats)"
  shows "sorted_wrt before_row (sorted_rows stats)"
proof -
  let ?rows = "sorted_rows stats"
  have d: "distinct (map fst ?rows)"
    using assms by (simp add: sorted_rows_def distinct_map)
  have s: "sorted (map row_key ?rows)" by (simp add: sorted_rows_def)
  have "before_row (?rows ! i) (?rows ! j)" if "i < j" "j < length ?rows" for i j
  proof -
    have "row_key (?rows ! i) \<le> row_key (?rows ! j)" using sorted_nth_mono [OF s, of i j] that by simp
    moreover have "row_key (?rows ! i) \<noteq> row_key (?rows ! j)"
      using row_key_inject nth_eq_iff_index_eq [OF d, of i j] that by fastforce
    ultimately have "row_key (?rows ! i) < row_key (?rows ! j)" by simp
    then show ?thesis by (simp only: row_key_less)
  qed
  then show ?thesis by (simp add: sorted_wrt_iff_nth_less)
qed

text \<open>
  C17. The table is the heading, one line per name that was called, and a total line.  The
  line of a name holds, in order, its share of the time, its time in seconds, the microseconds
  per call, the number of its calls, that of its errors unless it is zero, and the name; these
  are those of its calls in the stream.  The lines are ordered by falling time, then by falling
  number of calls, then by name; the total line holds the time, calls and errors of the whole
  stream.
\<close>

theorem summary_table:
  "\<exists>rows ns calls errs. summary_write vec_write (count_all recs) out =
      (Inr (), out @ heading @ dashes @ concat (map (row_line ns) rows) @ dashes @ total_line ns calls errs)
   \<and> ns = of_nat (sum_list (map (\<lambda>s. unat (ds_duration_ns s)) (all_calls recs)))
   \<and> calls = of_nat (length (all_calls recs)) \<and> errs = of_nat (length (filter (\<lambda>s. ds_error s \<noteq> None) (all_calls recs)))
   \<and> distinct (map fst rows)
   \<and> (\<forall>name s. (name, s) \<in> set rows \<longleftrightarrow> calls_of name recs \<noteq> [] \<and> s = stat_of (calls_of name recs))
   \<and> sorted_wrt (\<lambda>a b. st_total_ns (snd b) < st_total_ns (snd a)
        \<or> st_total_ns (snd b) = st_total_ns (snd a)
          \<and> (st_calls (snd b) < st_calls (snd a)
             \<or> st_calls (snd b) = st_calls (snd a) \<and> (map of_char (fst a) :: nat list) < map of_char (fst b))) rows
   \<and> map (split_whitespace \<circ> row_line ns) rows = map (\<lambda>(name, s).
        [fmt_fixed 2 (if ns = 0 then (0, 1) else f64_mul (f64_div (f64_of_nat (unat (st_total_ns s))) (f64_of_nat (unat ns))) (100, 1)),
         fmt_fixed 6 (f64_div (f64_of_nat (unat (st_total_ns s))) (1000000000, 1)),
         dec (unat (if st_calls s = 0 then 0 else st_total_ns s div ucast (st_calls s) div 1000)), dec (unat (st_calls s))]
        @ (if st_errors s = 0 then [] else [dec (unat (st_errors s))]) @ split_whitespace name) rows
   \<and> split_whitespace (total_line ns calls errs) =
        [''100.00'', fmt_fixed 6 (f64_div (f64_of_nat (unat ns)) (1000000000, 1)), dec (unat calls)]
        @ (if errs = 0 then [] else [dec (unat errs)]) @ [''total'']
   \<and> (\<forall>r. \<exists>cols. row_line ns r = cols @ '' '' @ fst r @ [newline] \<and> newline \<notin> set cols)
   \<and> (\<exists>cols. total_line ns calls errs = cols @ '' total'' @ [newline] \<and> newline \<notin> set cols)"
proof -
  let ?rows = "sorted_rows (count_all recs)"
  define ns :: u128 where "ns = of_nat (sum_list (map (\<lambda>s. unat (ds_duration_ns s)) (all_calls recs)))"
  define calls :: u64 where "calls = of_nat (length (all_calls recs))"
  define errs :: u64 where "errs = of_nat (length (filter (\<lambda>s. ds_error s \<noteq> None) (all_calls recs)))"
  have "grand_total (count_all recs) = ns"
    using count_all_sums(3) [of recs] by (simp add: grand_total_def case_prod_unfold ns_def)
  then have written: "summary_write vec_write (count_all recs) out =
      (Inr (), out @ heading @ dashes @ concat (map (row_line ns) ?rows) @ dashes @ total_line ns calls errs)"
    by (simp add: vec_writer.summary_write_once vec_write_def summary_text_def Let_def
        sum_sorted_rows count_all_sums calls_def errs_def)
  have names: "distinct (map fst ?rows)" using count_all_distinct [of recs] by (simp add: sorted_rows_def distinct_map)
  have rows: "(name, s) \<in> set ?rows \<longleftrightarrow> calls_of name recs \<noteq> [] \<and> s = stat_of (calls_of name recs)" for name s
    using map_of_eq_Some_iff [OF count_all_distinct, of recs name s] count_all_map_of [of recs name]
    by (auto simp: sorted_rows_def split: if_splits)
  note total = total_words [of ns calls errs, unfolded seconds_def]
  have columns: "map (split_whitespace \<circ> row_line ns) ?rows = map (\<lambda>(name, s).
        [fmt_fixed 2 (percent (st_total_ns s) ns), fmt_fixed 6 (seconds (st_total_ns s)),
         dec (unat (usecs_per_call s)), dec (unat (st_calls s))]
        @ (if st_errors s = 0 then [] else [dec (unat (st_errors s))]) @ split_whitespace name) ?rows"
    by (rule map_cong [OF refl]) (simp add: row_words split: prod.split)
  note columns = columns [unfolded seconds_def percent_def usecs_per_call_def]
  note order = sorted_rows_before [OF count_all_distinct, of recs, unfolded before_row_def [abs_def]]
  from rows have "\<forall>name s. (name, s) \<in> set ?rows \<longleftrightarrow> calls_of name recs \<noteq> [] \<and> s = stat_of (calls_of name recs)"
    by blast
  moreover have "\<forall>r. \<exists>cols. row_line ns r = cols @ '' '' @ fst r @ [newline] \<and> newline \<notin> set cols"
    by (intro allI row_framed)
  ultimately show ?thesis
    using written ns_def calls_def errs_def names order columns total total_framed [of ns calls errs]
    by (intro exI [of _ ?rows] exI [of _ ns] exI [of _ calls] exI [of _ errs] conjI)
qed

end
