(* ===== verification/Cli_Filter.thy ===== *)
theory Cli_Filter
  imports Common_Table
begin

section \<open>Selecting syscalls (\<^verbatim>\<open>crates/syren-cli/src/filter.rs\<close>)\<close>

text \<open>
  The \<^verbatim>\<open>-e\<close> expressions.  The nested loops leave early in two ways, a \<^verbatim>\<open>return\<close> for
  \<^verbatim>\<open>all\<close> and a \<^verbatim>\<open>bail!\<close>; \<open>flow\<close> says how a loop body ends.
\<close>

datatype sys_filter = AllCalls | Numbers "u32 set"

datatype filter_error = UnsupportedQualifier string | UnknownToken string

datatype flow = Return sys_filter | Bail filter_error | Continue "u32 set"

definition expr_tokens :: "string \<Rightarrow> filter_error + string list" where
  "expr_tokens spec =
     (case (case split_once (CHR ''='') spec of
              Some (qualifier, rest) \<Rightarrow>
                if qualifier = ''trace'' then Inr rest else Inl (UnsupportedQualifier qualifier)
            | None \<Rightarrow> Inr spec) of
        Inl e \<Rightarrow> Inl e
      | Inr s \<Rightarrow> Inr (filter (\<lambda>t. t \<noteq> []) (map trim (split_by (\<lambda>c. c = CHR '','') s))))"

definition bare_token :: "string \<Rightarrow> string" where
  "bare_token token = (case strip_prefix ''%'' token of Some rest \<Rightarrow> rest | None \<Rightarrow> token)"

fun scan_tokens :: "syscall_info list \<Rightarrow> u32 set \<Rightarrow> string list \<Rightarrow> flow" where
  "scan_tokens T numbers [] = Continue numbers"
| "scan_tokens T numbers (token # ts) =
     (if eq_ignore_ascii_case token ''all'' then Return AllCalls
      else case category_parse (bare_token token) of
        Some category \<Rightarrow>
          scan_tokens T
            (numbers \<union> set (map si_number (filter (\<lambda>s. si_category s = category) T))) ts
      | None \<Rightarrow>
          (case syscall_by_name T token of
             Some info \<Rightarrow> scan_tokens T (insert (si_number info) numbers) ts
           | None \<Rightarrow> Bail (UnknownToken token)))"

fun scan_exprs :: "syscall_info list \<Rightarrow> u32 set \<Rightarrow> string list \<Rightarrow> flow" where
  "scan_exprs T numbers [] = Continue numbers"
| "scan_exprs T numbers (spec # specs) =
     (case expr_tokens spec of
        Inl e \<Rightarrow> Bail e
      | Inr ts \<Rightarrow>
          (case scan_tokens T numbers ts of
             Continue numbers' \<Rightarrow> scan_exprs T numbers' specs
           | Return f \<Rightarrow> Return f
           | Bail e \<Rightarrow> Bail e))"

definition from_exprs :: "syscall_info list \<Rightarrow> string list \<Rightarrow> filter_error + sys_filter" where
  "from_exprs T exprs =
     (if exprs = [] then Inr AllCalls
      else case scan_exprs T {} exprs of
             Return f \<Rightarrow> Inr f
           | Bail e \<Rightarrow> Inl e
           | Continue numbers \<Rightarrow> Inr (Numbers numbers))"

definition allows :: "sys_filter \<Rightarrow> u64 \<Rightarrow> bool" where
  "allows f nr =
     (case f of
        AllCalls \<Rightarrow> True
      | Numbers ns \<Rightarrow> (case u32_try_from nr of Some n \<Rightarrow> n \<in> ns | None \<Rightarrow> False))"

declare expr_tokens_def [exec] bare_token_def [exec] scan_tokens.simps [exec]
  scan_exprs.simps [exec] from_exprs_def [exec] allows_def [exec]

subsection \<open>What a filter selects\<close>

text \<open>The tokens of all expressions whose qualifier is accepted, and what a token means.\<close>

definition tokens_of :: "string list \<Rightarrow> string list" where
  "tokens_of exprs = concat (map (\<lambda>e. case expr_tokens e of Inr ts \<Rightarrow> ts | Inl _ \<Rightarrow> []) exprs)"

definition selects :: "syscall_info list \<Rightarrow> string \<Rightarrow> syscall_info \<Rightarrow> bool" where
  "selects T token s \<longleftrightarrow>
     (case category_parse (bare_token token) of
        Some c \<Rightarrow> s \<in> set T \<and> si_category s = c
      | None \<Rightarrow> syscall_by_name T token = Some s)"

definition is_all :: "string \<Rightarrow> bool" where
  "is_all token \<longleftrightarrow> eq_ignore_ascii_case token ''all''"

definition known :: "syscall_info list \<Rightarrow> string \<Rightarrow> bool" where
  "known T token \<longleftrightarrow> category_parse (bare_token token) \<noteq> None \<or> syscall_by_name T token \<noteq> None"

text \<open>The numbers a list of tokens selects, one token at a time.\<close>

definition selected :: "syscall_info list \<Rightarrow> string list \<Rightarrow> u32 set" where
  "selected T ts = (\<Union>t \<in> set ts. si_number ` {s. selects T t s})"

definition plain :: "syscall_info list \<Rightarrow> string list \<Rightarrow> bool" where
  "plain T ts \<longleftrightarrow> list_all (\<lambda>t. \<not> is_all t \<and> known T t) ts"

lemma selected_simps [simp]:
  "selected T [] = {}"
  "selected T (t # ts) = si_number ` {s. selects T t s} \<union> selected T ts"
  "selected T (ts @ us) = selected T ts \<union> selected T us"
  by (auto simp: selected_def)

lemma plain_simps [simp]:
  "plain T []" "plain T (t # ts) \<longleftrightarrow> \<not> is_all t \<and> known T t \<and> plain T ts"
  "plain T (ts @ us) \<longleftrightarrow> plain T ts \<and> plain T us"
  by (auto simp: plain_def)

lemma selects_category:
  "category_parse (bare_token t) = Some c \<Longrightarrow>
     {s. selects T t s} = set (filter (\<lambda>s. si_category s = c) T)"
  by (auto simp: selects_def)

lemma selects_name:
  "category_parse (bare_token t) = None \<Longrightarrow> syscall_by_name T t = Some info \<Longrightarrow>
     {s. selects T t s} = {info}"
  by (auto simp: selects_def)

lemma scan_tokens_Continue:
  "scan_tokens T ns ts = Continue ns' \<Longrightarrow> plain T ts \<and> ns' = ns \<union> selected T ts"
proof (induction ts arbitrary: ns)
  case (Cons t ts)
  then have na: "\<not> is_all t" by (auto simp: is_all_def split: if_splits)
  show ?case
  proof (cases "category_parse (bare_token t)")
    case None
    with Cons.prems na obtain info where info: "syscall_by_name T t = Some info"
      by (cases "syscall_by_name T t") (auto simp: is_all_def)
    with Cons.prems None na have "scan_tokens T (insert (si_number info) ns) ts = Continue ns'"
      by (simp add: is_all_def)
    from Cons.IH [OF this] show ?thesis
      using na None info by (simp add: known_def selects_name)
  next
    case (Some c)
    with Cons.prems na
    have "scan_tokens T (ns \<union> set (map si_number (filter (\<lambda>s. si_category s = c) T))) ts = Continue ns'"
      by (simp add: is_all_def)
    from Cons.IH [OF this] show ?thesis
      using na Some by (simp add: known_def selects_category Un_assoc)
  qed
qed simp

lemma scan_tokens_Return: "scan_tokens T ns ts = Return f \<Longrightarrow> f = AllCalls \<and> (\<exists>t \<in> set ts. is_all t)"
  by (induction T ns ts rule: scan_tokens.induct) (auto simp: is_all_def split: if_splits option.splits)

lemma scan_tokens_Bail:
  "scan_tokens T ns ts = Bail e \<Longrightarrow> \<exists>t \<in> set ts. e = UnknownToken t \<and> \<not> known T t \<and> \<not> is_all t"
  by (induction T ns ts rule: scan_tokens.induct)
    (auto simp: known_def is_all_def split: if_splits option.splits)

lemma tokens_of_simps [simp]:
  "tokens_of [] = []"
  "expr_tokens e = Inr ts \<Longrightarrow> tokens_of (e # es) = ts @ tokens_of es"
  by (simp_all add: tokens_of_def)

lemma scan_exprs_Continue:
  "scan_exprs T ns specs = Continue ns' \<Longrightarrow>
     plain T (tokens_of specs) \<and> ns' = ns \<union> selected T (tokens_of specs)"
proof (induction specs arbitrary: ns)
  case (Cons spec specs)
  then obtain ts where ts: "expr_tokens spec = Inr ts" by (auto split: sum.splits)
  with Cons.prems obtain ns1 where ns1: "scan_tokens T ns ts = Continue ns1"
    by (auto split: flow.splits)
  with Cons.prems ts have "scan_exprs T ns1 specs = Continue ns'" by simp
  from Cons.IH [OF this] scan_tokens_Continue [OF ns1] ts show ?case by auto
qed simp

lemma scan_exprs_Return:
  "scan_exprs T ns specs = Return f \<Longrightarrow> f = AllCalls \<and> (\<exists>t \<in> set (tokens_of specs). is_all t)"
proof (induction specs arbitrary: ns)
  case (Cons spec specs)
  then obtain ts where ts: "expr_tokens spec = Inr ts" by (auto split: sum.splits)
  with Cons show ?case by (auto split: flow.splits dest: scan_tokens_Return)
qed simp

definition bad_expr :: "syscall_info list \<Rightarrow> filter_error \<Rightarrow> string list \<Rightarrow> bool" where
  "bad_expr T e specs \<longleftrightarrow>
     (\<exists>q rest. e = UnsupportedQualifier q \<and> q \<noteq> ''trace'' \<and> q @ ''='' @ rest \<in> set specs)
     \<or> (\<exists>t \<in> set (tokens_of specs). e = UnknownToken t \<and> \<not> known T t \<and> \<not> is_all t)"

lemma bad_expr_tail: "expr_tokens spec = Inr ts \<Longrightarrow> bad_expr T e specs \<Longrightarrow> bad_expr T e (spec # specs)"
  by (auto simp: bad_expr_def)

lemma scan_exprs_Bail: "scan_exprs T ns specs = Bail e \<Longrightarrow> bad_expr T e specs"
proof (induction specs arbitrary: ns)
  case (Cons spec specs)
  show ?case
  proof (cases "expr_tokens spec")
    case (Inl e')
    with Cons have "e' = e" by simp
    moreover from Inl obtain q rest where "split_once (CHR ''='') spec = Some (q, rest)"
      "q \<noteq> ''trace''" "e' = UnsupportedQualifier q"
      by (auto simp: expr_tokens_def split: option.splits if_splits)
    ultimately show ?thesis by (auto simp: split_once_Some bad_expr_def)
  next
    case ts: (Inr ts)
    show ?thesis
    proof (cases "scan_tokens T ns ts")
      case (Bail e')
      with Cons.prems ts scan_tokens_Bail [OF Bail] show ?thesis by (auto simp: bad_expr_def)
    next
      case (Continue ns')
      with Cons ts show ?thesis by (auto intro: bad_expr_tail)
    qed (use Cons.prems ts in simp)
  qed
qed simp

subsection \<open>Properties\<close>

text \<open>
  C15. An accepted filter lets through exactly what its tokens select: everything without
  expressions or with \<^verbatim>\<open>all\<close>, otherwise the members of the named categories and the named
  syscalls; a raw number that is not a \<^verbatim>\<open>u32\<close> is never selected by a list.
\<close>

theorem filter_selects:
  assumes "from_exprs T exprs = Inr f"
  shows "allows f nr \<longleftrightarrow>
     exprs = [] \<or> (\<exists>t \<in> set (tokens_of exprs). is_all t)
     \<or> (\<exists>t \<in> set (tokens_of exprs). \<exists>s. selects T t s \<and> unat nr = unat (si_number s))"
proof (cases "exprs = []")
  case True
  with assms show ?thesis by (simp add: from_exprs_def allows_def)
next
  case False
  show ?thesis
  proof (cases "scan_exprs T {} exprs")
    case (Return g)
    with assms False have "f = AllCalls" using scan_exprs_Return by (auto simp: from_exprs_def)
    with scan_exprs_Return [OF Return] show ?thesis by (auto simp: allows_def)
  next
    case (Bail e)
    with assms False show ?thesis by (simp add: from_exprs_def)
  next
    case (Continue ns)
    with assms False have "f = Numbers ns" by (simp add: from_exprs_def)
    then have "allows f nr \<longleftrightarrow> (\<exists>n \<in> ns. u32_try_from nr = Some n)"
      by (auto simp: allows_def split: option.split)
    then have "allows f nr \<longleftrightarrow> (\<exists>n \<in> ns. unat nr = unat n)" by (simp add: u32_try_from_Some)
    with scan_exprs_Continue [OF Continue] False show ?thesis
      by (auto simp: plain_def list_all_iff selected_def)
  qed
qed

theorem filter_selects_witness:
  "allows (Numbers {3}) 3 \<and> \<not> allows (Numbers {3}) 0"
proof -
  let ?T = "[\<lparr>si_number = 0, si_name = ''read'', si_category = Fs, si_args = []\<rparr>,
      \<lparr>si_number = 3, si_name = ''close'', si_category = Fs, si_args = []\<rparr>] :: syscall_info list"
  have f: "from_exprs ?T [''trace= close''] = Inr (Numbers {3})" by (simp add: exec)
  have t: "tokens_of [''trace= close''] = [''close'']" by (simp add: tokens_of_def exec)
  from filter_selects [OF f, of 3] filter_selects [OF f, of 0] show ?thesis
    unfolding t by (simp add: is_all_def selects_def exec)
qed

text \<open>
  C33. A filter is refused only for a reason: an expression with a qualifier other than
  \<^verbatim>\<open>trace=\<close>, or a token that is neither \<^verbatim>\<open>all\<close> nor a category nor a syscall of the table.
\<close>

theorem filter_errors:
  assumes "from_exprs T exprs = Inl e"
  shows "(\<exists>q rest. e = UnsupportedQualifier q \<and> q \<noteq> ''trace'' \<and> q @ ''='' @ rest \<in> set exprs)
    \<or> (\<exists>t \<in> set (tokens_of exprs). e = UnknownToken t \<and> \<not> is_all t
        \<and> category_parse (bare_token t) = None \<and> (\<forall>s \<in> set T. si_name s \<noteq> t))"
proof -
  have "bad_expr T e exprs"
    using assms by (auto simp: from_exprs_def split: if_splits flow.splits intro: scan_exprs_Bail)
  then show ?thesis
    by (auto simp: bad_expr_def known_def syscall_by_name_def find_None_iff)
qed

theorem filter_errors_witness:
  "(\<exists>q rest. UnsupportedQualifier ''signal'' = UnsupportedQualifier q \<and> q \<noteq> ''trace''
     \<and> q @ ''='' @ rest \<in> set [''signal=SIGINT''])
   \<or> (\<exists>t \<in> set (tokens_of [''signal=SIGINT'']). UnsupportedQualifier ''signal'' = UnknownToken t
       \<and> \<not> is_all t \<and> category_parse (bare_token t) = None
       \<and> (\<forall>s \<in> set ([] :: syscall_info list). si_name s \<noteq> t))"
  by (rule filter_errors [of "[]" "[''signal=SIGINT'']"]) (simp add: exec)

text \<open>
  The token \<^verbatim>\<open>time\<close>, which is also a syscall's name, always means the category: the
  leading percent sign is optional and categories are tried first.
\<close>

lemma bare_time_is_category:
  "from_exprs T [''time''] = Inr (Numbers {si_number s | s. s \<in> set T \<and> si_category s = Time})"
proof -
  have "expr_tokens ''time'' = Inr [''time'']" by (simp add: exec)
  moreover have "category_parse (bare_token ''time'') = Some Time"
    by (simp add: category_parse_iff exec)
  moreover have "\<not> eq_ignore_ascii_case ''time'' ''all''" by (simp add: exec)
  ultimately show ?thesis by (auto simp: from_exprs_def)
qed

end
