(* ===== verification/Trace_Iface.thy ===== *)
theory Trace_Iface
  imports Common_Event Common_Mem
begin

section \<open>Tracers (\<^verbatim>\<open>crates/syren-trace/src/lib.rs\<close>)\<close>

text \<open>
  The vocabulary of the tracing backends: their errors, what to trace and how, and the
  sequencing of fallible operations on a state.  The state of a backend operation is the
  tracer paired with the operating system, a type parameter; what a failed operation has
  already done stays done.
\<close>

datatype trace_error =
    SpawnFailed string i32
  | Os i32
  | BackendUnavailable string
  | EbpfUnsupported string
  | OtherFailure string

datatype target =
    Spawn string "string list"
  | Attach "i32 list"

text \<open>
  The message of an error.  How the operating system words an error number is a parameter,
  once for the standard library's errors and once for those of the \<^verbatim>\<open>nix\<close> library.
\<close>

definition error_text :: "(i32 \<Rightarrow> string) \<Rightarrow> (i32 \<Rightarrow> string) \<Rightarrow> trace_error \<Rightarrow> string" where
  "error_text io_text nix_text e =
     (case e of
        SpawnFailed program source \<Rightarrow> ''failed to spawn `'' @ program @ ''`: '' @ io_text source
      | Os n \<Rightarrow> ''ptrace error: '' @ nix_text n
      | BackendUnavailable b \<Rightarrow> ''backend `'' @ b @ ''` is not available in this build''
      | EbpfUnsupported why \<Rightarrow> ''eBPF backend unavailable: '' @ why
      | OtherFailure msg \<Rightarrow> msg)"

record trace_options =
  follow_forks :: bool

datatype backend = Ptrace | Ebpf

definition backend_as_str :: "backend \<Rightarrow> string" where
  "backend_as_str b = (case b of Ptrace \<Rightarrow> ''ptrace'' | Ebpf \<Rightarrow> ''ebpf'')"

subsection \<open>Fallible operations on a state\<close>

type_synonym ('s, 'a) op = "'s \<Rightarrow> (trace_error + 'a) \<times> 's"

definition ret :: "'a \<Rightarrow> ('s, 'a) op" where
  "ret x s = (Inr x, s)"

definition fail :: "trace_error \<Rightarrow> ('s, 'a) op" where
  "fail e s = (Inl e, s)"

definition seq :: "('s, 'a) op \<Rightarrow> ('a \<Rightarrow> ('s, 'b) op) \<Rightarrow> ('s, 'b) op" where
  "seq m k s = (case m s of (Inl e, s') \<Rightarrow> (Inl e, s') | (Inr x, s') \<Rightarrow> k x s')"

text \<open>Reading and changing the tracer, and a call of the operating system that may fail.\<close>

definition gets :: "('t \<Rightarrow> 'a) \<Rightarrow> ('t \<times> 'w, 'a) op" where
  "gets f s = (Inr (f (fst s)), s)"

definition modify :: "('t \<Rightarrow> 't) \<Rightarrow> ('t \<times> 'w, unit) op" where
  "modify f s = (Inr (), (f (fst s), snd s))"

definition sys :: "('w \<Rightarrow> (i32 + 'a) \<times> 'w) \<Rightarrow> ('t \<times> 'w, 'a) op" where
  "sys f s =
     (case f (snd s) of (Inl e, w) \<Rightarrow> (Inl (Os e), (fst s, w)) | (Inr x, w) \<Rightarrow> (Inr x, (fst s, w)))"

text \<open>A call of the operating system whose result is not a \<^verbatim>\<open>Result\<close>, or is inspected by the caller.\<close>

definition ask :: "('w \<Rightarrow> 'a \<times> 'w) \<Rightarrow> ('t \<times> 'w, 'a) op" where
  "ask f s = (case f (snd s) of (x, w) \<Rightarrow> (Inr x, (fst s, w)))"

text \<open>
  A call whose failure is turned into the caller's own error, and one that only acts.
\<close>

definition sys_as :: "('e \<Rightarrow> trace_error) \<Rightarrow> ('w \<Rightarrow> ('e + 'a) \<times> 'w) \<Rightarrow> ('t \<times> 'w, 'a) op" where
  "sys_as mk f s =
     (case f (snd s) of (Inl e, w) \<Rightarrow> (Inl (mk e), (fst s, w)) | (Inr x, w) \<Rightarrow> (Inr x, (fst s, w)))"

definition act :: "('w \<Rightarrow> 'w) \<Rightarrow> ('t \<times> 'w, unit) op" where
  "act f s = (Inr (), (fst s, f (snd s)))"

fun each :: "('a \<Rightarrow> ('s, unit) op) \<Rightarrow> 'a list \<Rightarrow> ('s, unit) op" where
  "each f [] = ret ()"
| "each f (x # xs) = seq (f x) (\<lambda>_. each f xs)"

lemmas op_defs = ret_def fail_def seq_def gets_def modify_def sys_def ask_def sys_as_def act_def

declare op_defs [exec] each.simps [exec] backend_as_str_def [exec] error_text_def [exec]

lemma seq_ret [simp]: "seq (ret x) k = k x"
  by (rule ext) (simp add: seq_def ret_def)

lemma seq_fail [simp]: "seq (fail e) k = fail e"
  by (rule ext) (simp add: seq_def fail_def)

lemma seq_assoc: "seq (seq m k) h = seq m (\<lambda>x. seq (k x) h)"
  by (rule ext) (auto simp: seq_def split: prod.split sum.split)

lemma seq_Inr:
  "seq m k s = (Inr y, s') \<longleftrightarrow> (\<exists>x s1. m s = (Inr x, s1) \<and> k x s1 = (Inr y, s'))"
  by (auto simp: seq_def split: prod.splits sum.splits)

subsection \<open>Building a tracer\<close>

text \<open>
  \<^verbatim>\<open>tracer\<close>: the eBPF backend exists only when the feature is compiled in.  The two
  constructors are passed in; the boxed tracer is one type with two cases.
\<close>

datatype ('p, 'e) boxed = PtraceBox 'p | EbpfBox 'e

definition make_tracer ::
    "bool \<Rightarrow> (target \<Rightarrow> trace_options \<Rightarrow> 'w \<Rightarrow> (trace_error + 'p) \<times> 'w) \<Rightarrow>
     (target \<Rightarrow> trace_options \<Rightarrow> 'w \<Rightarrow> (trace_error + 'e) \<times> 'w) \<Rightarrow>
     backend \<Rightarrow> target \<Rightarrow> trace_options \<Rightarrow> 'w \<Rightarrow> (trace_error + ('p, 'e) boxed) \<times> 'w" where
  "make_tracer ebpf_feature new_ptrace new_ebpf b tgt opts w =
     (case b of
        Ptrace \<Rightarrow> (case new_ptrace tgt opts w of
            (Inl e, w') \<Rightarrow> (Inl e, w') | (Inr t, w') \<Rightarrow> (Inr (PtraceBox t), w'))
      | Ebpf \<Rightarrow>
          if ebpf_feature then (case new_ebpf tgt opts w of
            (Inl e, w') \<Rightarrow> (Inl e, w') | (Inr t, w') \<Rightarrow> (Inr (EbpfBox t), w'))
          else (Inl (BackendUnavailable ''ebpf''), w))"

text \<open>
  The default \<^verbatim>\<open>memory\<close> of the \<^verbatim>\<open>Tracer\<close> trait: \<^verbatim>\<open>/proc/<tid>/mem\<close>, or nothing when it
  cannot be opened.
\<close>

definition default_memory ::
    "(u32 \<Rightarrow> io_error + (u64 \<Rightarrow> nat \<Rightarrow> io_error + u8 list)) \<Rightarrow> syscall_event \<Rightarrow> reader" where
  "default_memory open_mem ev =
     (case proc_open open_mem (ev_tid ev) of Inr reader \<Rightarrow> reader | Inl _ \<Rightarrow> null_read)"

declare make_tracer_def [exec] default_memory_def [exec]

interpretation default_reader: memory_reader "default_memory open_mem ev" for open_mem ev
proof
  fix addr len bs
  assume "default_memory open_mem ev addr len = Some bs"
  then show "length bs \<le> len"
    by (auto simp: default_memory_def proc_open_def null_read_def split: sum.splits
        dest: proc_reader.read_bound)
qed

subsection \<open>Tracers that come to an end\<close>

text \<open>
  The contract of the \<^verbatim>\<open>Tracer\<close> trait that drivers rely on to finish: in a good state a call
  returns, and every event it returns uses up some of what is left.
\<close>

locale finite_tracer =
  fixes nxt :: "'s \<Rightarrow> ((trace_error + event option) \<times> 's) option"
    and good :: "'s \<Rightarrow> bool" and left :: "'s \<Rightarrow> nat"
  assumes next_total: "good s \<Longrightarrow> nxt s \<noteq> None"
    and next_left: "good s \<Longrightarrow> nxt s = Some (Inr (Some e), s') \<Longrightarrow> good s' \<and> left s' < left s"

end
