(* ===== verification/Cli_Main.thy ===== *)
theory Cli_Main
  imports Cli_Filter Output_Text Output_Json Output_Summary Trace_Iface
begin

section \<open>The command line program (\<^verbatim>\<open>crates/syren-cli/src/main.rs\<close>)\<close>

text \<open>
  The driver: what to trace and how from the parsed arguments, the tracer with its fallback,
  the sink, the loop that feeds one into the other, and the exit status.  Parsing the
  arguments is the \<^verbatim>\<open>clap\<close> library's; the model starts from its result.
\<close>

subsection \<open>Arguments\<close>

datatype color_arg = Auto | Always | Never

record cli =
  c_pids :: "i32 list"
  c_follow :: bool
  c_timing :: bool
  c_json :: bool
  c_summary :: bool
  c_exprs :: "string list"
  c_output :: "string option"
  c_color :: color_arg
  c_backend :: backend
  c_list_syscalls :: bool
  c_command :: "string list"

definition color_resolve :: "bool \<Rightarrow> color_arg \<Rightarrow> bool \<Rightarrow> bool" where
  "color_resolve no_color arg is_terminal =
     (case arg of Always \<Rightarrow> True | Never \<Rightarrow> False | Auto \<Rightarrow> is_terminal \<and> \<not> no_color)"

subsection \<open>Errors\<close>

text \<open>
  An \<^verbatim>\<open>anyhow\<close> error is the chain of its causes, the outermost first.  A spawn failure carries
  an \<^verbatim>\<open>io::Error\<close>, a failed system call an error number of the \<^verbatim>\<open>nix\<close> library.
\<close>

datatype cause =
    Msg string
  | IoCause io_error
  | TraceCause trace_error
  | ErrnoCause i32
  | FilterCause filter_error

definition trace_chain :: "trace_error \<Rightarrow> cause list" where
  "trace_chain e = TraceCause e #
     (case e of
        SpawnFailed _ n \<Rightarrow> [IoCause (OsErr n)]
      | Os n \<Rightarrow> [ErrnoCause n]
      | _ \<Rightarrow> [])"

definition is_broken_pipe :: "cause list \<Rightarrow> bool" where
  "is_broken_pipe chain \<longleftrightarrow> list_ex (\<lambda>c. c = IoCause BrokenPipe) chain"

text \<open>How a run ends: a status, an error or a panic.\<close>

datatype run_error = Failed "cause list" | Panicked

definition main_status :: "run_error + u8 \<Rightarrow> u8" where
  "main_status r =
     (case r of
        Inr code \<Rightarrow> code
      | Inl (Failed err) \<Rightarrow> if is_broken_pipe err then 0 else 1
      | Inl Panicked \<Rightarrow> 101)"

text \<open>
  The report of an error, \<^verbatim>\<open>{err:#}\<close>: the messages of its causes, separated by colons.  How an
  error number is worded is the operating system's or the \<^verbatim>\<open>nix\<close> library's, how the serialiser
  words its own error is that library's; a filter error carries the text of its \<^verbatim>\<open>bail!\<close>.
\<close>

definition filter_error_text :: "filter_error \<Rightarrow> string" where
  "filter_error_text e =
     (case e of
        UnsupportedQualifier q \<Rightarrow> ''unsupported `-e` qualifier `'' @ q @ ''=` (only `trace=` is supported)''
      | UnknownToken token \<Rightarrow> ''unknown syscall or category in `-e`: `'' @ token @ ''`'')"

definition io_error_text :: "(i32 \<Rightarrow> string) \<Rightarrow> (io_error \<Rightarrow> string) \<Rightarrow> io_error \<Rightarrow> string" where
  "io_error_text io_text serde_text e =
     (case e of OsErr n \<Rightarrow> io_text n | OtherIo msg \<Rightarrow> msg | CustomIo e' \<Rightarrow> serde_text e')"

definition cause_text ::
    "(i32 \<Rightarrow> string) \<Rightarrow> (i32 \<Rightarrow> string) \<Rightarrow> (io_error \<Rightarrow> string) \<Rightarrow> cause \<Rightarrow> string" where
  "cause_text io_text nix_text serde_text c =
     (case c of
        Msg s \<Rightarrow> s
      | IoCause e \<Rightarrow> io_error_text io_text serde_text e
      | TraceCause e \<Rightarrow> error_text io_text nix_text e
      | ErrnoCause n \<Rightarrow> nix_text n
      | FilterCause e \<Rightarrow> filter_error_text e)"

subsection \<open>The target and the tracer\<close>

definition build_target :: "cli \<Rightarrow> cause list + target" where
  "build_target c =
     (case (c_pids c, c_command c) of
        (_ # _, _ # _) \<Rightarrow> Inl [Msg ''cannot both attach with `-p` and spawn a COMMAND; choose one'']
      | ([], []) \<Rightarrow> Inl [Msg (''nothing to trace: give a COMMAND to run, or `-p PID` to attach.''
          @ [newline] @ ''Try `syren --help`.'')]
      | (_ # _, []) \<Rightarrow> Inr (Attach (c_pids c))
      | ([], program # args) \<Rightarrow> Inr (Spawn program args))"

text \<open>
  The two backends, as the driver sees them: their constructors, and the methods of the
  \<^verbatim>\<open>Tracer\<close> trait.  The world \<open>'w\<close> is the operating system's.
\<close>

record ('p, 'e, 'w) backends =
  bk_ebpf_feature :: bool
  bk_new_ptrace :: "target \<Rightarrow> trace_options \<Rightarrow> 'w \<Rightarrow> (trace_error + 'p) \<times> 'w"
  bk_new_ebpf :: "target \<Rightarrow> trace_options \<Rightarrow> 'w \<Rightarrow> (trace_error + 'e) \<times> 'w"
  bk_next_ptrace :: "'p \<times> 'w \<Rightarrow> ((trace_error + event option) \<times> ('p \<times> 'w)) option"
  bk_next_ebpf :: "'e \<times> 'w \<Rightarrow> ((trace_error + event option) \<times> ('e \<times> 'w)) option"
  bk_leader_ptrace :: "'p \<Rightarrow> u32 option"
  bk_leader_ebpf :: "'e \<Rightarrow> u32 option"
  bk_memory_ptrace :: "'p \<times> 'w \<Rightarrow> syscall_event \<Rightarrow> reader"
  bk_memory_ebpf :: "'e \<times> 'w \<Rightarrow> syscall_event \<Rightarrow> reader"
  bk_io_text :: "i32 \<Rightarrow> string"
  bk_nix_text :: "i32 \<Rightarrow> string"
  bk_serde_text :: "io_error \<Rightarrow> string"
  bk_eprintln :: "string \<Rightarrow> 'w \<Rightarrow> 'w"

definition start_failed :: "trace_error \<Rightarrow> cause list" where
  "start_failed e = Msg ''failed to start tracer'' # trace_chain e"

definition build_tracer ::
    "('p, 'e, 'w) backends \<Rightarrow> backend \<Rightarrow> target \<Rightarrow> trace_options \<Rightarrow> 'w \<Rightarrow> (cause list + ('p, 'e) boxed) \<times> 'w" where
  "build_tracer bk b tgt opts w =
     (let tracer = make_tracer (bk_ebpf_feature bk) (bk_new_ptrace bk) (bk_new_ebpf bk) in
      case tracer b tgt opts w of
        (Inr t, w1) \<Rightarrow> (Inr t, w1)
      | (Inl e, w1) \<Rightarrow>
          if (case e of EbpfUnsupported _ \<Rightarrow> True | BackendUnavailable _ \<Rightarrow> True | _ \<Rightarrow> False) \<and> b = Ebpf
          then (let w2 = bk_eprintln bk (''syren: '' @ error_text (bk_io_text bk) (bk_nix_text bk) e
                           @ ''; falling back to the ptrace backend'') w1 in
                case tracer Ptrace tgt opts w2 of
                  (Inr t, w3) \<Rightarrow> (Inr t, w3) | (Inl e', w3) \<Rightarrow> (Inl (start_failed e'), w3))
          else (Inl (start_failed e), w1))"

text \<open>Dynamic dispatch of the trait's methods.\<close>

definition box_next ::
    "('p, 'e, 'w) backends \<Rightarrow> ('p, 'e) boxed \<times> 'w \<Rightarrow>
     ((trace_error + event option) \<times> (('p, 'e) boxed \<times> 'w)) option" where
  "box_next bk s =
     (case fst s of
        PtraceBox t \<Rightarrow> map_option (\<lambda>(r, (t', w')). (r, (PtraceBox t', w'))) (bk_next_ptrace bk (t, snd s))
      | EbpfBox t \<Rightarrow> map_option (\<lambda>(r, (t', w')). (r, (EbpfBox t', w'))) (bk_next_ebpf bk (t, snd s)))"

definition box_leader :: "('p, 'e, 'w) backends \<Rightarrow> ('p, 'e) boxed \<Rightarrow> u32 option" where
  "box_leader bk t =
     (case t of PtraceBox t \<Rightarrow> bk_leader_ptrace bk t | EbpfBox t \<Rightarrow> bk_leader_ebpf bk t)"

definition box_memory ::
    "('p, 'e, 'w) backends \<Rightarrow> ('p, 'e) boxed \<times> 'w \<Rightarrow> syscall_event \<Rightarrow> reader" where
  "box_memory bk s =
     (case fst s of
        PtraceBox t \<Rightarrow> bk_memory_ptrace bk (t, snd s) | EbpfBox t \<Rightarrow> bk_memory_ebpf bk (t, snd s))"

subsection \<open>The sink\<close>

datatype 'v boxed_sink =
    TextBox "'v text_sink"
  | JsonBox "'v json_sink"
  | SummaryBox "'v summary_sink"

definition build_sink :: "cli \<Rightarrow> 'v \<Rightarrow> bool \<Rightarrow> 'v boxed_sink" where
  "build_sink c out color =
     (if c_summary c then SummaryBox (summary_new out)
      else if c_json c then JsonBox (json_new out)
      else TextBox (text_with_options out
             \<lparr>to_show_pid = c_follow c, to_show_timing = c_timing c, to_color = color\<rparr>))"

definition sink_record ::
    "(string \<Rightarrow> 'v io) \<Rightarrow> (json_value \<Rightarrow> string) \<Rightarrow> out_record \<Rightarrow> 'v boxed_sink \<Rightarrow> (io_error + unit) \<times> 'v boxed_sink"
  where
  "sink_record wr to_json rec sink =
     (case sink of
        TextBox s \<Rightarrow> map_prod id TextBox (text_record wr rec s)
      | JsonBox s \<Rightarrow> map_prod id JsonBox (json_sink_record wr to_json rec s)
      | SummaryBox s \<Rightarrow> map_prod id SummaryBox (summary_record rec s))"

definition sink_finish :: "(string \<Rightarrow> 'v io) \<Rightarrow> 'v boxed_sink \<Rightarrow> (io_error + unit) \<times> 'v boxed_sink" where
  "sink_finish wr sink =
     (case sink of
        SummaryBox s \<Rightarrow> map_prod id SummaryBox (summary_finish wr s)
      | TextBox s \<Rightarrow> (case sink_finish_default (ts_out s) of (r, w) \<Rightarrow> (r, TextBox (s\<lparr>ts_out := w\<rparr>)))
      | JsonBox s \<Rightarrow> (case sink_finish_default (js_out s) of (r, w) \<Rightarrow> (r, JsonBox (s\<lparr>js_out := w\<rparr>))))"

definition sink_out :: "'v boxed_sink \<Rightarrow> 'v" where
  "sink_out sink = (case sink of TextBox s \<Rightarrow> ts_out s | JsonBox s \<Rightarrow> js_out s | SummaryBox s \<Rightarrow> ss_out s)"

subsection \<open>The loop\<close>

text \<open>
  One event: nothing for a call the filter drops, else a record for the sink; the exit of the
  leader sets the status.  \<open>None\<close> is the panic of the decoder.
\<close>

definition event_record ::
    "syscall_info list \<Rightarrow> sys_filter \<Rightarrow> event \<Rightarrow> reader \<Rightarrow> out_record option option" where
  "event_record T filt event mem =
     (case event of
        SyscallEv ev \<Rightarrow>
          if \<not> allows filt (ev_nr ev) then Some None
          else map_option (\<lambda>d. Some (RecSyscall d)) (decode T ev mem)
      | ProcessExit pid code \<Rightarrow> Some (Some (RecExit pid code))
      | SignalEv pid sig \<Rightarrow> Some (Some (RecSignal pid sig)))"

definition next_status :: "u32 option \<Rightarrow> event \<Rightarrow> i32 \<Rightarrow> i32" where
  "next_status leader event status =
     (case event of ProcessExit pid code \<Rightarrow> if Some pid = leader then code else status | _ \<Rightarrow> status)"

record ('s, 'v) loop_ops =
  lo_next :: "'s \<Rightarrow> ((trace_error + event option) \<times> 's) option"
  lo_memory :: "'s \<Rightarrow> syscall_event \<Rightarrow> reader"
  lo_write :: "string \<Rightarrow> 'v io"
  lo_json :: "json_value \<Rightarrow> string"

definition memory_of :: "('s, 'v) loop_ops \<Rightarrow> 's \<Rightarrow> event \<Rightarrow> reader" where
  "memory_of ops s event = (case event of SyscallEv ev \<Rightarrow> lo_memory ops s ev | _ \<Rightarrow> null_read)"

definition on_event ::
    "('s, 'v) loop_ops \<Rightarrow> syscall_info list \<Rightarrow> sys_filter \<Rightarrow> 's \<Rightarrow> event \<Rightarrow> 'v boxed_sink \<Rightarrow>
     (run_error + unit) \<times> 'v boxed_sink" where
  "on_event ops T filt s event sink =
     (case event_record T filt event (memory_of ops s event) of
        None \<Rightarrow> (Inl Panicked, sink)
      | Some None \<Rightarrow> (Inr (), sink)
      | Some (Some rec) \<Rightarrow>
          (case sink_record (lo_write ops) (lo_json ops) rec sink of
             (Inl e, sink') \<Rightarrow> (Inl (Failed [IoCause e]), sink') | (Inr _, sink') \<Rightarrow> (Inr (), sink')))"

partial_function (option) run_loop ::
    "('s, 'v) loop_ops \<Rightarrow> syscall_info list \<Rightarrow> sys_filter \<Rightarrow> u32 option \<Rightarrow> 's \<Rightarrow> 'v boxed_sink \<Rightarrow> i32 \<Rightarrow>
     ((run_error + i32) \<times> 's \<times> 'v boxed_sink) option" where
  "run_loop ops T filt leader s sink status =
     (case lo_next ops s of
        None \<Rightarrow> None
      | Some r \<Rightarrow>
          (case fst r of
             Inl e \<Rightarrow> Some (Inl (Failed (trace_chain e)), snd r, sink)
           | Inr None \<Rightarrow> Some (Inr status, snd r, sink)
           | Inr (Some event) \<Rightarrow>
               (let o1 = on_event ops T filt (snd r) event sink in
                if fst o1 = Inr () then run_loop ops T filt leader (snd r) (snd o1) (next_status leader event status)
                else Some (map_sum id (\<lambda>_. status) (fst o1), snd r, snd o1))))"

text \<open>\<^verbatim>\<open>exit_code.clamp(0, 255) as u8\<close>\<close>

definition exit_status :: "i32 \<Rightarrow> u8" where
  "exit_status code = of_int (max 0 (min 255 (sint code)))"

subsection \<open>Listing the table\<close>

definition list_row :: "syscall_info \<Rightarrow> string" where
  "list_row s = pad_left (CHR '' '') 4 (dec (unat (si_number s))) @ ''  ''
     @ pad_right (CHR '' '') 24 (si_name s) @ '' '' @ as_str (si_category s) @ [newline]"

definition list_heading :: string where
  "list_heading = pad_left (CHR '' '') 4 ''nr'' @ ''  '' @ pad_right (CHR '' '') 24 ''name''
     @ '' category'' @ [newline]"

definition list_syscalls :: "(string \<Rightarrow> 'v io) \<Rightarrow> 'v io \<Rightarrow> syscall_info list \<Rightarrow> 'v io" where
  "list_syscalls wr flush T =
     io_then (wr list_heading) (io_then (io_each (\<lambda>s. wr (list_row s)) T) flush)"

subsection \<open>The whole run\<close>

text \<open>Where the output goes; a file is created, and written through a buffer.\<close>

datatype dest = Stdout | Stderr | ToFile string

record 'v outputs =
  ou_is_terminal :: "dest \<Rightarrow> bool"
  ou_no_color :: bool
  ou_create :: "string \<Rightarrow> 'v \<Rightarrow> (io_error + unit) \<times> 'v"
  ou_write :: "dest \<Rightarrow> string \<Rightarrow> 'v io"
  ou_flush :: "dest \<Rightarrow> 'v io"
  ou_drop :: "dest \<Rightarrow> 'v \<Rightarrow> 'v"

definition open_output :: "'v outputs \<Rightarrow> cli \<Rightarrow> 'v \<Rightarrow> (cause list + dest \<times> bool) \<times> 'v" where
  "open_output ou c v =
     (case c_output c of
        None \<Rightarrow> (Inr (Stderr, ou_is_terminal ou Stderr), v)
      | Some path \<Rightarrow>
          if path = ''-'' then (Inr (Stdout, ou_is_terminal ou Stdout), v)
          else (case ou_create ou path v of
             (Inl e, v') \<Rightarrow> (Inl [Msg (''cannot create output file `'' @ path @ ''`''), IoCause e], v')
           | (Inr _, v') \<Rightarrow> (Inr (ToFile path, False), v')))"

definition driver_ops ::
    "('p, 'e, 'w) backends \<Rightarrow> 'v outputs \<Rightarrow> (json_value \<Rightarrow> string) \<Rightarrow> dest \<Rightarrow> (('p, 'e) boxed \<times> 'w, 'v) loop_ops" where
  "driver_ops bk ou to_json d =
     \<lparr>lo_next = box_next bk, lo_memory = box_memory bk, lo_write = ou_write ou d, lo_json = to_json\<rparr>"

definition run ::
    "('p, 'e, 'w) backends \<Rightarrow> 'v outputs \<Rightarrow> (json_value \<Rightarrow> string) \<Rightarrow> syscall_info list \<Rightarrow> cli \<Rightarrow> 'w \<Rightarrow> 'v \<Rightarrow>
     ((run_error + u8) \<times> 'w \<times> 'v) option" where
  "run bk ou to_json T c w v =
     (if c_list_syscalls c then
        (case list_syscalls (ou_write ou Stdout) (ou_flush ou Stdout) T v of
           (Inl e, v') \<Rightarrow> Some (Inl (Failed [IoCause e]), w, v') | (Inr _, v') \<Rightarrow> Some (Inr 0, w, v'))
      else case build_target c of
        Inl e \<Rightarrow> Some (Inl (Failed e), w, v)
      | Inr tgt \<Rightarrow>
      (case from_exprs T (c_exprs c) of
        Inl e \<Rightarrow> Some (Inl (Failed [FilterCause e]), w, v)
      | Inr filt \<Rightarrow>
      (case build_tracer bk (c_backend c) tgt \<lparr>follow_forks = c_follow c\<rparr> w of
        (Inl e, w1) \<Rightarrow> Some (Inl (Failed e), w1, v)
      | (Inr t, w1) \<Rightarrow>
      (case open_output ou c v of
        (Inl e, v1) \<Rightarrow> Some (Inl (Failed e), w1, v1)
      | (Inr (d, tty), v1) \<Rightarrow>
          let sink = build_sink c v1 (color_resolve (ou_no_color ou) (c_color c) tty) in
          (case run_loop (driver_ops bk ou to_json d) T filt (box_leader bk t) (t, w1) sink 0 of
             None \<Rightarrow> None
           | Some (Inl e, s, sink1) \<Rightarrow> Some (Inl e, snd s, ou_drop ou d (sink_out sink1))
           | Some (Inr status, s, sink1) \<Rightarrow>
               (case sink_finish (ou_write ou d) sink1 of
                  (Inl e, sink2) \<Rightarrow> Some (Inl (Failed [IoCause e]), snd s, ou_drop ou d (sink_out sink2))
                | (Inr _, sink2) \<Rightarrow> Some (Inr (exit_status status), snd s, ou_drop ou d (sink_out sink2))))))))"

definition error_line :: "('p, 'e, 'w) backends \<Rightarrow> cause list \<Rightarrow> string" where
  "error_line bk err =
     ''syren: '' @ join '': '' (map (cause_text (bk_io_text bk) (bk_nix_text bk) (bk_serde_text bk)) err)"

definition report :: "('p, 'e, 'w) backends \<Rightarrow> run_error + u8 \<Rightarrow> 'w \<Rightarrow> 'w" where
  "report bk r w =
     (case r of
        Inl (Failed err) \<Rightarrow> if is_broken_pipe err then w else bk_eprintln bk (error_line bk err) w
      | _ \<Rightarrow> w)"

definition main_run ::
    "('p, 'e, 'w) backends \<Rightarrow> 'v outputs \<Rightarrow> (json_value \<Rightarrow> string) \<Rightarrow> syscall_info list \<Rightarrow> cli \<Rightarrow> 'w \<Rightarrow> 'v \<Rightarrow>
     (u8 \<times> 'w \<times> 'v) option" where
  "main_run bk ou to_json T c w v =
     map_option (\<lambda>(r, w', v'). (main_status r, report bk r w', v')) (run bk ou to_json T c w v)"

declare color_resolve_def [exec] trace_chain_def [exec] is_broken_pipe_def [exec]
  main_status_def [exec] build_target_def [exec] start_failed_def [exec] build_tracer_def [exec]
  box_next_def [exec] box_leader_def [exec] box_memory_def [exec] build_sink_def [exec]
  sink_record_def [exec] sink_finish_def [exec] sink_out_def [exec] event_record_def [exec]
  next_status_def [exec] memory_of_def [exec] on_event_def [exec] exit_status_def [exec]
  list_row_def [exec] list_heading_def [exec] list_syscalls_def [exec] open_output_def [exec]
  driver_ops_def [exec] run_def [exec] main_run_def [exec] filter_error_text_def [exec]
  io_error_text_def [exec] cause_text_def [exec] error_line_def [exec] report_def [exec]

subsection \<open>What the loop does with a stream of events\<close>

text \<open>The events a tracer delivers, each with the memory reader the loop takes for it.\<close>

fun delivers :: "('s, 'v) loop_ops \<Rightarrow> 's \<Rightarrow> (event \<times> reader) list \<Rightarrow> 's \<Rightarrow> bool" where
  "delivers ops s [] s' \<longleftrightarrow> s' = s"
| "delivers ops s (x # xs) s' \<longleftrightarrow>
     (\<exists>s1. lo_next ops s = Some (Inr (Some (fst x)), s1) \<and> snd x = memory_of ops s1 (fst x)
        \<and> delivers ops s1 xs s')"

text \<open>The records a stream is worth under a filter, and the status it ends with.\<close>

definition record_of :: "syscall_info list \<Rightarrow> sys_filter \<Rightarrow> event \<times> reader \<Rightarrow> out_record list" where
  "record_of T filt x =
     (case event_record T filt (fst x) (snd x) of Some (Some r) \<Rightarrow> [r] | _ \<Rightarrow> [])"

definition records_of :: "syscall_info list \<Rightarrow> sys_filter \<Rightarrow> (event \<times> reader) list \<Rightarrow> out_record list" where
  "records_of T filt xs = concat (map (record_of T filt) xs)"

definition final_status :: "u32 option \<Rightarrow> (event \<times> reader) list \<Rightarrow> i32 \<Rightarrow> i32" where
  "final_status leader xs status = fold (\<lambda>x. next_status leader (fst x)) xs status"

text \<open>Feeding records to a sink, up to the first error.\<close>

fun feed :: "(string \<Rightarrow> 'v io) \<Rightarrow> (json_value \<Rightarrow> string) \<Rightarrow> out_record list \<Rightarrow> 'v boxed_sink \<Rightarrow> (io_error + unit) \<times> 'v boxed_sink" where
  "feed wr js [] sink = (Inr (), sink)"
| "feed wr js (r # rs) sink =
     (case sink_record wr js r sink of (Inl e, sink') \<Rightarrow> (Inl e, sink') | (Inr _, sink') \<Rightarrow> feed wr js rs sink')"

lemma event_record_total:
  assumes "table_arity_ok T" shows "event_record T filt e m \<noteq> None"
  using decode_total [OF assms] by (cases e) (auto simp: event_record_def)

lemma on_event_feed:
  assumes "table_arity_ok T" "m = memory_of ops s e"
  shows "on_event ops T filt s e sink =
     (case feed (lo_write ops) (lo_json ops) (record_of T filt (e, m)) sink of
        (Inl err, sink') \<Rightarrow> (Inl (Failed [IoCause err]), sink') | (Inr _, sink') \<Rightarrow> (Inr (), sink'))"
  using event_record_total [OF assms(1), of filt e "memory_of ops s e"] assms(2)
  by (auto simp: on_event_def record_of_def split: option.splits prod.splits sum.splits)

lemma feed_append:
  "feed wr js (rs @ rs') sink =
     (case feed wr js rs sink of (Inl e, sink') \<Rightarrow> (Inl e, sink') | (Inr _, sink') \<Rightarrow> feed wr js rs' sink')"
  by (induction rs arbitrary: sink) (auto split: prod.split sum.split)

lemma run_loop_delivers:
  assumes "table_arity_ok T"
  shows "delivers ops s xs s1 \<Longrightarrow> feed (lo_write ops) (lo_json ops) (records_of T filt xs) sink = (Inr (), sink1) \<Longrightarrow>
     run_loop ops T filt leader s sink status = run_loop ops T filt leader s1 sink1 (final_status leader xs status)"
proof (induction xs arbitrary: s sink status)
  case (Cons x xs)
  from Cons.prems(1) obtain s' where n: "lo_next ops s = Some (Inr (Some (fst x)), s')"
    and m: "snd x = memory_of ops s' (fst x)" and d: "delivers ops s' xs s1" by auto
  from Cons.prems(2) obtain sink' where f: "feed (lo_write ops) (lo_json ops) (record_of T filt x) sink = (Inr (), sink')"
    and f': "feed (lo_write ops) (lo_json ops) (records_of T filt xs) sink' = (Inr (), sink1)"
    by (auto simp: records_of_def feed_append split: prod.splits sum.splits)
  have "on_event ops T filt s' (fst x) sink = (Inr (), sink')"
    using on_event_feed [OF assms m, of filt sink] f by simp
  then have "run_loop ops T filt leader s sink status
      = run_loop ops T filt leader s' sink' (next_status leader (fst x) status)"
    by (simp add: run_loop.simps [of ops T filt leader s] n Let_def)
  with Cons.IH [OF d f'] show ?case by (simp add: final_status_def)
qed (simp add: records_of_def final_status_def)

lemma run_loop_end:
  "lo_next ops s = Some (Inr None, s') \<Longrightarrow> run_loop ops T filt leader s sink status = Some (Inr status, s', sink)"
  by (simp add: run_loop.simps [of ops T filt leader s])

subsection \<open>The sinks of the driver\<close>

text \<open>The sink the driver built, after it has taken some records on a byte vector.\<close>

definition sink_opts :: "cli \<Rightarrow> bool \<Rightarrow> text_options" where
  "sink_opts c color = \<lparr>to_show_pid = c_follow c, to_show_timing = c_timing c, to_color = color\<rparr>"

definition stream_text :: "cli \<Rightarrow> (json_value \<Rightarrow> string) \<Rightarrow> bool \<Rightarrow> out_record list \<Rightarrow> string" where
  "stream_text c to_json color recs =
     (if c_summary c then []
      else if c_json c then concat (map (\<lambda>r. to_json (record_value r) @ [newline]) recs)
      else concat (map (\<lambda>r. text_body (sink_opts c color) (palette_new color) r @ [newline]) recs))"

definition sink_after :: "cli \<Rightarrow> (json_value \<Rightarrow> string) \<Rightarrow> bool \<Rightarrow> out_record list \<Rightarrow> string boxed_sink" where
  "sink_after c to_json color recs =
     (let out = stream_text c to_json color recs in
      if c_summary c then SummaryBox \<lparr>ss_out = out, ss_stats = count_all recs\<rparr>
      else if c_json c then JsonBox \<lparr>js_out = out\<rparr>
      else TextBox \<lparr>ts_out = out, ts_opts = sink_opts c color, ts_palette = palette_new color\<rparr>)"

text \<open>All that a run prints.\<close>

definition output_text :: "cli \<Rightarrow> (json_value \<Rightarrow> string) \<Rightarrow> bool \<Rightarrow> out_record list \<Rightarrow> string" where
  "output_text c to_json color recs =
     (if c_summary c then summary_text (count_all recs) else stream_text c to_json color recs)"

lemma build_sink_after: "build_sink c [] color = sink_after c to_json color []"
  by (simp add: build_sink_def sink_after_def summary_new_def json_new_def text_with_options_def
      stream_text_def sink_opts_def count_all_def)

lemma sink_record_after:
  "sink_record vec_write js r (sink_after c js color recs) = (Inr (), sink_after c js color (recs @ [r]))"
  by (simp add: sink_record_def sink_after_def stream_text_def summary_record_def count_all_snoc
      json_sink_record_def json_write_vec text_record_def vec_writer.text_write_once vec_write_def Let_def)

lemma feed_after:
  "feed vec_write js rs (sink_after c js color recs) = (Inr (), sink_after c js color (recs @ rs))"
  by (induction rs arbitrary: recs) (simp_all add: sink_record_after)

lemma sink_finish_after:
  "\<exists>sink'. sink_finish vec_write (sink_after c js color recs) = (Inr (), sink')
     \<and> sink_out sink' = output_text c js color recs"
  by (simp add: sink_finish_def sink_after_def output_text_def stream_text_def summary_finish_def
      vec_writer.summary_write_once vec_write_def sink_finish_default_def io_ok_def sink_out_def Let_def)

subsection \<open>The loop ends with the tracer\<close>

context finite_tracer
begin

lemma run_loop_total:
  assumes "lo_next ops = nxt" "good s"
  shows "\<exists>y. run_loop ops T filt leader s sink status = Some y"
  using assms(2)
proof (induction "left s" arbitrary: s sink status rule: less_induct)
  case less
  from next_total [OF less.prems] obtain r s1 where n: "nxt s = Some (r, s1)" by auto
  show ?case
  proof (cases "\<exists>event. r = Inr (Some event)")
    case True
    then obtain event where r: "r = Inr (Some event)" by blast
    from next_left [OF less.prems n [unfolded r]] have g: "good s1" and lt: "left s1 < left s" by auto
    show ?thesis
    proof (cases "fst (on_event ops T filt s1 event sink) = Inr ()")
      case True
      with less.hyps [OF lt g] n r show ?thesis
        by (simp add: run_loop.simps [of ops T filt leader s] assms(1) Let_def)
    next
      case False
      with n r show ?thesis by (simp add: run_loop.simps [of ops T filt leader s] assms(1) Let_def)
    qed
  next
    case False
    with n show ?thesis
      by (auto simp: run_loop.simps [of ops T filt leader s] assms(1) split: sum.split option.split)
  qed
qed

end

text \<open>A box of one of two tracers that end is a tracer that ends.\<close>

definition box_good ::
    "('p \<times> 'w \<Rightarrow> bool) \<Rightarrow> ('e \<times> 'w \<Rightarrow> bool) \<Rightarrow> ('p, 'e) boxed \<times> 'w \<Rightarrow> bool" where
  "box_good gp ge s = (case fst s of PtraceBox t \<Rightarrow> gp (t, snd s) | EbpfBox t \<Rightarrow> ge (t, snd s))"

definition box_left ::
    "('p \<times> 'w \<Rightarrow> nat) \<Rightarrow> ('e \<times> 'w \<Rightarrow> nat) \<Rightarrow> ('p, 'e) boxed \<times> 'w \<Rightarrow> nat" where
  "box_left mp me s = (case fst s of PtraceBox t \<Rightarrow> mp (t, snd s) | EbpfBox t \<Rightarrow> me (t, snd s))"

lemma finite_box:
  assumes p: "finite_tracer (bk_next_ptrace bk) gp mp" and e: "finite_tracer (bk_next_ebpf bk) ge me"
  shows "finite_tracer (box_next bk) (box_good gp ge) (box_left mp me)"
proof
  fix s
  assume g: "box_good gp ge s"
  show "box_next bk s \<noteq> None"
  proof (cases "fst s")
    case (PtraceBox t)
    with g finite_tracer.next_total [OF p, of "(t, snd s)"] show ?thesis
      by (simp add: box_good_def box_next_def del: not_None_eq)
  next
    case (EbpfBox t)
    with g finite_tracer.next_total [OF e, of "(t, snd s)"] show ?thesis
      by (simp add: box_good_def box_next_def del: not_None_eq)
  qed
next
  fix s ev s'
  assume "box_good gp ge s" "box_next bk s = Some (Inr (Some ev), s')"
  then show "box_good gp ge s' \<and> box_left mp me s' < box_left mp me s"
    using finite_tracer.next_left [OF p] finite_tracer.next_left [OF e]
    by (auto simp: box_good_def box_left_def box_next_def split: boxed.splits)
qed

text \<open>The status after a stream is decided by the last exit of the leader.\<close>

lemma final_status_skip:
  "\<forall>x\<in>set xs. \<forall>code. fst x \<noteq> ProcessExit l code \<Longrightarrow> final_status (Some l) xs status = status"
proof (induction xs arbitrary: status)
  case (Cons x xs)
  then have "next_status (Some l) (fst x) status = status"
    by (auto simp: next_status_def split: event.split)
  with Cons show ?case by (simp add: final_status_def)
qed (simp add: final_status_def)

lemma final_status_append:
  "final_status l (xs @ ys) status = final_status l ys (final_status l xs status)"
  by (simp add: final_status_def)

lemma uint_exit_status: "uint (exit_status code) = max 0 (min 255 (sint code))"
proof -
  have "uint (of_int k :: u8) = k" if "0 \<le> k" "k \<le> 255" for k
    using that by (simp add: unsigned_of_int take_bit_int_eq_self)
  then show ?thesis by (simp add: exit_status_def)
qed

subsection \<open>A tracer that reads from a list\<close>

definition list_next :: "event list \<Rightarrow> ((trace_error + event option) \<times> event list) option" where
  "list_next es = (case es of [] \<Rightarrow> Some (Inr None, []) | e # es' \<Rightarrow> Some (Inr (Some e), es'))"

definition list_ops :: "(string \<Rightarrow> 'v io) \<Rightarrow> (event list, 'v) loop_ops" where
  "list_ops wr = \<lparr>lo_next = list_next, lo_memory = (\<lambda>_ _. null_read), lo_write = wr, lo_json = (\<lambda>_. ''{}'')\<rparr>"

definition no_args :: cli where
  "no_args = \<lparr>c_pids = [], c_follow = False, c_timing = False, c_json = False, c_summary = False, c_exprs = [],
     c_output = None, c_color = Auto, c_backend = Ptrace, c_list_syscalls = False, c_command = []\<rparr>"

declare list_next_def [exec] list_ops_def [exec] no_args_def [exec]

subsection \<open>Properties\<close>

text \<open>
  What a run prints and how it ends: when the tracer delivers a stream of events and then
  says it is done, the output is that of the chosen sink on the decoded calls the filter
  lets through and all exits and signals, in order, and the status is the last exit status
  of the leader.
\<close>

lemma run_output:
  assumes "table_arity_ok T" "delivers ops s xs s1" "lo_next ops s1 = Some (Inr None, s2)" "lo_write ops = vec_write"
  shows "\<exists>sink sink'. run_loop ops T filt leader s (build_sink c [] color) 0
        = Some (Inr (final_status leader xs 0), s2, sink)
    \<and> sink_finish vec_write sink = (Inr (), sink')
    \<and> sink_out sink' = output_text c (lo_json ops) color (records_of T filt xs)"
proof -
  let ?sink = "sink_after c (lo_json ops) color (records_of T filt xs)"
  have "feed (lo_write ops) (lo_json ops) (records_of T filt xs) (build_sink c [] color) = (Inr (), ?sink)"
    unfolding build_sink_after [of c color "lo_json ops"] assms(4) feed_after by simp
  from run_loop_delivers [OF assms(1,2) this] run_loop_end [OF assms(3)]
  have "run_loop ops T filt leader s (build_sink c [] color) 0 = Some (Inr (final_status leader xs 0), s2, ?sink)"
    by simp
  with sink_finish_after [of c "lo_json ops" color "records_of T filt xs"] show ?thesis by blast
qed

text \<open>Why the arguments are refused, if they are: the target first, then the filter.\<close>

definition refused :: "syscall_info list \<Rightarrow> cli \<Rightarrow> cause list option" where
  "refused T c =
     (case build_target c of
        Inl e \<Rightarrow> Some e
      | Inr _ \<Rightarrow> (case from_exprs T (c_exprs c) of Inl e \<Rightarrow> Some [FilterCause e] | Inr _ \<Rightarrow> None))"

lemma refused_no_pipe: "refused T c = Some err \<Longrightarrow> \<not> is_broken_pipe err"
  by (auto simp: refused_def build_target_def is_broken_pipe_def split: sum.splits list.splits)

lemma main_run_failed:
  assumes "run bk ou js T c w v = Some (Inl (Failed err), w', v')" "\<not> is_broken_pipe err"
  shows "main_run bk ou js T c w v = Some (1, bk_eprintln bk (error_line bk err) w', v')"
  using assms by (simp add: main_run_def main_status_def report_def)

text \<open>
  A tracer that cannot be started is reported before anything is printed or created.  The
  message of a spawn failure and of a failed system call holds the text of its cause, which
  the alternate format appends once more.
\<close>

lemma start_failure_reported:
  assumes "\<not> c_list_syscalls c" "refused T c = None" "build_target c = Inr tgt"
    and "build_tracer bk (c_backend c) tgt \<lparr>follow_forks = c_follow c\<rparr> w = (Inl err, w1)" "\<not> is_broken_pipe err"
  shows "main_run bk ou js T c w v = Some (1, bk_eprintln bk (error_line bk err) w1, v)"
proof (rule main_run_failed [OF _ assms(5)])
  show "run bk ou js T c w v = Some (Inl (Failed err), w1, v)"
    using assms(1-4) by (simp add: run_def refused_def split: sum.splits)
qed

lemma cause_said_twice:
  "error_line bk (start_failed (SpawnFailed program n))
     = ''syren: failed to start tracer: failed to spawn `'' @ program @ ''`: '' @ bk_io_text bk n @ '': '' @ bk_io_text bk n"
  "error_line bk (trace_chain (Os n)) = ''syren: ptrace error: '' @ bk_nix_text bk n @ '': '' @ bk_nix_text bk n"
  by (simp_all add: error_line_def start_failed_def trace_chain_def cause_text_def io_error_text_def error_text_def)

text \<open>
  C38. Bad arguments start nothing: when the target or the filter is refused the program reports
  the reason once on standard error and ends with status 1; no tracer is started and the output
  is as before.
\<close>

theorem bad_arguments_start_nothing:
  assumes "\<not> c_list_syscalls c" "refused T c = Some err"
  shows "main_run bk ou js T c w v = Some (1, bk_eprintln bk (error_line bk err) w, v)"
proof (rule main_run_failed [OF _ refused_no_pipe [OF assms(2)]])
  show "run bk ou js T c w v = Some (Inl (Failed err), w, v)"
    using assms by (auto simp: run_def refused_def split: sum.splits)
qed

theorem bad_arguments_start_nothing_witness:
  "\<forall>bk ou js w v. main_run bk ou js [] (no_args\<lparr>c_command := [''ls''], c_exprs := [''desc=x'']\<rparr>) w v
     = Some (1, bk_eprintln bk ''syren: unsupported `-e` qualifier `desc=` (only `trace=` is supported)'' w, v)"
proof (intro allI)
  fix bk :: "('p, 'e, 'w) backends" and ou :: "'v outputs" and js w v
  have r: "refused [] (no_args\<lparr>c_command := [''ls''], c_exprs := [''desc=x'']\<rparr>) = Some [FilterCause (UnsupportedQualifier ''desc'')]"
    and l: "\<not> c_list_syscalls (no_args\<lparr>c_command := [''ls''], c_exprs := [''desc=x'']\<rparr>)"
    by (simp_all add: refused_def exec)
  have "error_line bk [FilterCause (UnsupportedQualifier ''desc'')]
      = ''syren: unsupported `-e` qualifier `desc=` (only `trace=` is supported)''"
    by (simp add: exec)
  with bad_arguments_start_nothing [OF l r, of bk ou js w v]
  show "main_run bk ou js [] (no_args\<lparr>c_command := [''ls''], c_exprs := [''desc=x'']\<rparr>) w v
     = Some (1, bk_eprintln bk ''syren: unsupported `-e` qualifier `desc=` (only `trace=` is supported)'' w, v)" by simp
qed

text \<open>
  C35. What the status is when the reader of the output goes away, whatever the writer and the
  record at which its \<^verbatim>\<open>BrokenPipe\<close> shows.  A text run ends with success.  A JSON run ends with
  success only if the object had been written and the newline after it was refused, as with a
  short object on a line-buffered standard output; when the object itself is cut off, as on the
  unbuffered standard error, the run ends with failure.
\<close>

theorem broken_pipe_status:
  assumes "lo_next ops s = Some (Inr (Some event), s1)"
    and "event_record T filt event (memory_of ops s1 event) = Some (Some rec)"
    and "fst (text_write (lo_write ops) opts p rec w) = Inl BrokenPipe"
    and "fst (io_then (lo_write ops (lo_json ops (record_value rec))) (lo_write ops [newline]) v) = Inl BrokenPipe"
  shows "map_option (\<lambda>(r, _, _). main_status (map_sum id exit_status r))
      (run_loop ops T filt leader s (TextBox \<lparr>ts_out = w, ts_opts = opts, ts_palette = p\<rparr>) status) = Some 0
    \<and> map_option (\<lambda>(r, _, _). main_status (map_sum id exit_status r))
      (run_loop ops T filt leader s (JsonBox \<lparr>js_out = v\<rparr>) status)
      = Some (if fst (lo_write ops (lo_json ops (record_value rec)) v) = Inr () then 0 else 1)"
proof -
  let ?obj = "lo_write ops (lo_json ops (record_value rec)) v"
  have t: "fst (on_event ops T filt s1 event (TextBox \<lparr>ts_out = w, ts_opts = opts, ts_palette = p\<rparr>)) = Inl (Failed [IoCause BrokenPipe])"
    using assms(2,3) by (cases "text_write (lo_write ops) opts p rec w")
      (simp add: on_event_def sink_record_def text_record_def)
  have "fst (json_write (lo_write ops) (lo_json ops) rec v)
      = Inl (if fst ?obj = Inr () then BrokenPipe else CustomIo BrokenPipe)"
    using assms(4) by (cases ?obj)
      (auto simp: json_write_def Let_def io_then_def io_map_err_def io_error_other_def record_value_def split: sum.splits)
  then have j: "fst (on_event ops T filt s1 event (JsonBox \<lparr>js_out = v\<rparr>))
      = Inl (Failed [IoCause (if fst ?obj = Inr () then BrokenPipe else CustomIo BrokenPipe)])"
    using assms(2) by (cases "json_write (lo_write ops) (lo_json ops) rec v")
      (simp add: on_event_def sink_record_def json_sink_record_def)
  show ?thesis
    using assms(1) t j by (simp add: run_loop.simps [of ops T filt leader s] Let_def main_status_def is_broken_pipe_def)
qed

text \<open>A pipe that takes one byte cuts the object off; one that takes two takes it whole.\<close>

theorem broken_pipe_status_witness:
  "map_option (\<lambda>(r, _, _). main_status (map_sum id exit_status r))
      (run_loop (list_ops pipe_write) [] AllCalls None [ProcessExit 7 0] (JsonBox \<lparr>js_out = (1, [])\<rparr>) 0) = Some 1
    \<and> map_option (\<lambda>(r, _, _). main_status (map_sum id exit_status r))
      (run_loop (list_ops pipe_write) [] AllCalls None [ProcessExit 7 0] (JsonBox \<lparr>js_out = (2, [])\<rparr>) 0) = Some 0"
proof -
  let ?ops = "list_ops pipe_write" and ?ev = "ProcessExit 7 0" and ?rec = "RecExit 7 0"
  have nx: "lo_next ?ops [?ev] = Some (Inr (Some ?ev), [])" by (simp add: exec)
  have rc: "event_record [] AllCalls ?ev (memory_of ?ops [] ?ev) = Some (Some ?rec)" by (simp add: event_record_def)
  have tx: "fst (text_write (lo_write ?ops) (sink_opts no_args False) PLAIN ?rec (1, [])) = Inl BrokenPipe"
    by (simp add: exec)
  have cut: "fst (io_then (lo_write ?ops (lo_json ?ops (record_value ?rec))) (lo_write ?ops [newline]) (1, [])) = Inl BrokenPipe"
    "fst (lo_write ?ops (lo_json ?ops (record_value ?rec)) (1, [])) \<noteq> Inr ()" by (simp_all add: exec)
  have whole: "fst (io_then (lo_write ?ops (lo_json ?ops (record_value ?rec))) (lo_write ?ops [newline]) (2, [])) = Inl BrokenPipe"
    "fst (lo_write ?ops (lo_json ?ops (record_value ?rec)) (2, [])) = Inr ()" by (simp_all add: exec)
  from broken_pipe_status [OF nx rc tx cut(1), of None 0] broken_pipe_status [OF nx rc tx whole(1), of None 0]
  show ?thesis using cut(2) whole(2) by simp
qed

text \<open>
  The exit status is that of the leader when it fits a byte: the code of a normal exit
  and 128 plus the number of a fatal signal are passed on, anything outside is clamped.
\<close>

lemma run_status:
  assumes "\<forall>y\<in>set ys. \<forall>code'. fst y \<noteq> ProcessExit l code'"
  shows "uint (exit_status (final_status (Some l) (xs @ (ProcessExit l code, m) # ys) 0)) = max 0 (min 255 (sint code))"
proof -
  have "final_status (Some l) (xs @ (ProcessExit l code, m) # ys) 0 = code"
    using final_status_skip [OF assms] by (simp add: final_status_def next_status_def)
  then show ?thesis by (simp add: uint_exit_status)
qed

end
