(* ===== verification/Kernel_Ebpf.thy ===== *)
theory Kernel_Ebpf
  imports Common_Record "HOL-Library.AList"
begin

section \<open>The in-kernel programs (\<^verbatim>\<open>crates/syren-ebpf/src/main.rs\<close>)\<close>

text \<open>
  Three programs run on tracepoints and share four maps.  A BPF hash map is an association
  list with a capacity; the ring buffer is the list of the records submitted and not yet
  consumed.  What one run of a program reads from outside (the current task, the tracepoint's
  context, the clock, the room in the ring, user memory) is the record \<open>kenv\<close>.
\<close>

subsection \<open>State\<close>

record enter =
  e_nr :: u64
  e_args :: args6
  e_ts :: u64

record raw_enter =
  re_id :: i64
  re_args :: args6

definition ENTERS_MAX :: nat where "ENTERS_MAX = 10240"
definition TARGETS_MAX :: nat where "TARGETS_MAX = 4096"

record kernel =
  k_events :: "bpf_record list"
  k_enters :: "(u32 \<times> enter) list"
  k_targets :: "(u32 \<times> u8) list"
  k_patharg :: "u8 list"

text \<open>\<^verbatim>\<open>HashMap::insert\<close> without flags: a new key needs room, an old one is overwritten.\<close>

definition bpf_insert :: "nat \<Rightarrow> 'k \<Rightarrow> 'v \<Rightarrow> ('k \<times> 'v) list \<Rightarrow> (i64 + unit) \<times> ('k \<times> 'v) list" where
  "bpf_insert cap k v m =
     (if map_of m k \<noteq> None \<or> length m < cap then (Inr (), AList.update k v m)
      else (Inl (- 7), m))"

text \<open>
  One run of a program.  \<open>kv_ctx off n\<close> is \<^verbatim>\<open>ctx.read_at\<close> of \<open>n\<close> bytes, \<open>kv_reserve\<close> the old
  contents of the ring storage that is reserved (none when the ring is full), and
  \<open>kv_probe addr dst\<close> the helper \<^verbatim>\<open>bpf_probe_read_user_str_bytes\<close>: its result and the
  buffer after it.
\<close>

record kenv =
  kv_pid_tgid :: u64
  kv_ctx :: "nat \<Rightarrow> nat \<Rightarrow> i64 + u8 list"
  kv_now :: u64
  kv_reserve :: "bpf_record option"
  kv_probe :: "u64 \<Rightarrow> u8 list \<Rightarrow> (i64 + u8 list) \<times> u8 list"

subsection \<open>Reading the context\<close>

definition read_word :: "kenv \<Rightarrow> nat \<Rightarrow> nat \<Rightarrow> i64 + nat" where
  "read_word env off n = (case kv_ctx env off n of Inl e \<Rightarrow> Inl e | Inr bs \<Rightarrow> Inr (field bs 0 n))"

definition read_raw_enter :: "kenv \<Rightarrow> nat \<Rightarrow> i64 + raw_enter" where
  "read_raw_enter env off =
     (case kv_ctx env off 56 of
        Inl e \<Rightarrow> Inl e
      | Inr bs \<Rightarrow> Inr \<lparr>re_id = of_nat (field bs 0 8),
          re_args = Args (of_nat (field bs 8 8)) (of_nat (field bs 16 8)) (of_nat (field bs 24 8))
            (of_nat (field bs 32 8)) (of_nat (field bs 40 8)) (of_nat (field bs 48 8))\<rparr>)"

definition read_or :: "nat \<Rightarrow> i64 + nat \<Rightarrow> nat" where
  "read_or d r = (case r of Inl _ \<Rightarrow> d | Inr v \<Rightarrow> v)"

subsection \<open>The programs\<close>

definition is_target :: "kernel \<Rightarrow> u32 \<Rightarrow> bool" where
  "is_target k tid \<longleftrightarrow> map_of (k_targets k) tid \<noteq> None"

definition arm_target :: "u32 \<Rightarrow> kernel \<Rightarrow> kernel" where
  "arm_target tid k = k\<lparr>k_targets := snd (bpf_insert TARGETS_MAX tid 1 (k_targets k))\<rparr>"

text \<open>The benchmark build arms a task that makes a marker call; \<^verbatim>\<open>MAGIC\<close> spells "SYREN".\<close>

definition MAGIC :: u64 where "MAGIC = 0x535952454E"
definition MARKER_NR :: u64 where "MARKER_NR = 135"

definition selfarm :: "kenv \<Rightarrow> u32 \<Rightarrow> kernel \<Rightarrow> kernel" where
  "selfarm env tid k =
     (let nr = (case read_word env 8 8 of Inl _ \<Rightarrow> - 1 | Inr v \<Rightarrow> of_nat v) in
      if nr \<noteq> MARKER_NR then k
      else if (of_nat (read_or 0 (read_word env 16 8)) :: u64) = MAGIC then arm_target tid k
      else k)"

definition try_enter :: "bool \<Rightarrow> kenv \<Rightarrow> kernel \<Rightarrow> (i64 + unit) \<times> kernel" where
  "try_enter bench env k0 =
     (let tid = ucast (kv_pid_tgid env); k = (if bench then selfarm env tid k0 else k0) in
      if \<not> is_target k tid then (Inr (), k)
      else case read_raw_enter env 8 of
             Inl e \<Rightarrow> (Inl e, k)
           | Inr raw \<Rightarrow>
               let enter = \<lparr>e_nr = re_id raw, e_args = re_args raw, e_ts = kv_now env\<rparr> in
               (Inr (), k\<lparr>k_enters := snd (bpf_insert ENTERS_MAX tid enter (k_enters k))\<rparr>))"

definition capture_path :: "kenv \<Rightarrow> u8 list \<Rightarrow> enter \<Rightarrow> bpf_record \<Rightarrow> bpf_record" where
  "capture_path env patharg enter r =
     (let nr = (ucast (e_nr enter) :: u32) in
      if MAX_SYSCALLS \<le> nr then r
      else case (if unat nr < length patharg then Some (patharg ! unat nr) else None) of
        None \<Rightarrow> r
      | Some idx1 \<Rightarrow>
          if idx1 = 0 \<or> \<not> idx1 \<le> 6 then r
          else let addr = args_list (e_args enter) ! unat (idx1 - 1) in
          if addr = 0 then r
          else case kv_probe env addr (rec_cap r) of
            (Inl _, cap) \<Rightarrow> r\<lparr>rec_cap := cap\<rparr>
          | (Inr bs, cap) \<Rightarrow>
              let n = length bs in
              r\<lparr>rec_cap := cap, rec_cap_addr := addr,
                rec_cap_len := (if n < CAP_BYTES then of_nat (n + 1) else of_nat CAP_BYTES)\<rparr>)"

definition try_exit :: "kenv \<Rightarrow> kernel \<Rightarrow> (i64 + unit) \<times> kernel" where
  "try_exit env k =
     (let tgid = ucast (drop_bit 32 (kv_pid_tgid env)); tid = ucast (kv_pid_tgid env) in
      case map_of (k_enters k) tid of
        None \<Rightarrow> (Inr (), k)
      | Some enter \<Rightarrow>
          let k1 = k\<lparr>k_enters := AList.delete tid (k_enters k)\<rparr>;
              retv = (of_nat (read_or 0 (read_word env 16 8)) :: i64);
              now = kv_now env in
          case kv_reserve env of
            None \<Rightarrow> (Inr (), k1)
          | Some r0 \<Rightarrow>
              let r = r0\<lparr>rec_pid := tgid, rec_tid := tid, rec_nr := e_nr enter,
                    rec_args := e_args enter, rec_retval := retv, rec_ts_enter_ns := e_ts enter,
                    rec_duration_ns := saturating_sub now (e_ts enter), rec_cap_addr := 0,
                    rec_cap_len := 0, rec_pad := 0\<rparr> in
              (Inr (), k1\<lparr>k_events := k_events k1 @ [capture_path env (k_patharg k1) enter r]\<rparr>))"

definition try_fork :: "kenv \<Rightarrow> kernel \<Rightarrow> (i64 + unit) \<times> kernel" where
  "try_fork env k =
     (let parent = (of_nat (read_or 0 (read_word env 24 4)) :: i32);
          child = (of_nat (read_or 0 (read_word env 44 4)) :: i32) in
      (Inr (), if is_target k parent then arm_target child k else k))"

text \<open>The entry points throw the result away and return 0.\<close>

definition sys_enter :: "bool \<Rightarrow> kenv \<Rightarrow> kernel \<Rightarrow> u32 \<times> kernel" where
  "sys_enter bench env k = (0, snd (try_enter bench env k))"

definition sys_exit :: "kenv \<Rightarrow> kernel \<Rightarrow> u32 \<times> kernel" where
  "sys_exit env k = (0, snd (try_exit env k))"

definition sched_process_fork :: "kenv \<Rightarrow> kernel \<Rightarrow> u32 \<times> kernel" where
  "sched_process_fork env k = (0, snd (try_fork env k))"

subsection \<open>Runs of the programs\<close>

text \<open>A tracepoint hit; the fork program is attached only when children are followed.\<close>

datatype hit = HitEnter kenv | HitExit kenv | HitFork kenv

fun hit_env :: "hit \<Rightarrow> kenv" where
  "hit_env (HitEnter env) = env"
| "hit_env (HitExit env) = env"
| "hit_env (HitFork env) = env"

definition env_tid :: "kenv \<Rightarrow> u32" where
  "env_tid env = ucast (kv_pid_tgid env)"

definition env_tgid :: "kenv \<Rightarrow> u32" where
  "env_tgid env = ucast (drop_bit 32 (kv_pid_tgid env))"

fun k_step :: "bool \<Rightarrow> bool \<Rightarrow> hit \<Rightarrow> kernel \<Rightarrow> kernel" where
  "k_step bench follow (HitEnter env) k = snd (sys_enter bench env k)"
| "k_step bench follow (HitExit env) k = snd (sys_exit env k)"
| "k_step bench follow (HitFork env) k = (if follow then snd (sched_process_fork env k) else k)"

definition k_run :: "bool \<Rightarrow> bool \<Rightarrow> hit list \<Rightarrow> kernel \<Rightarrow> kernel" where
  "k_run bench follow hits k = fold (k_step bench follow) hits k"

declare ENTERS_MAX_def [exec] TARGETS_MAX_def [exec] bpf_insert_def [exec] read_word_def [exec]
  read_raw_enter_def [exec] read_or_def [exec] is_target_def [exec] arm_target_def [exec]
  MAGIC_def [exec] MARKER_NR_def [exec] selfarm_def [exec] try_enter_def [exec]
  capture_path_def [exec] try_exit_def [exec] try_fork_def [exec] sys_enter_def [exec]
  sys_exit_def [exec] sched_process_fork_def [exec] env_tid_def [exec] env_tgid_def [exec]
  k_run_def [exec]

subsection \<open>Bounded maps\<close>

definition fits :: "nat \<Rightarrow> 'k \<Rightarrow> ('k \<times> 'v) list \<Rightarrow> bool" where
  "fits cap k m \<longleftrightarrow> map_of m k \<noteq> None \<or> length m < cap"

definition map_ok :: "nat \<Rightarrow> ('k \<times> 'v) list \<Rightarrow> bool" where
  "map_ok cap m \<longleftrightarrow> distinct (map fst m) \<and> length m \<le> cap"

lemma bpf_insert_lookup:
  "map_of (snd (bpf_insert cap k v m)) k' =
     (if k' = k \<and> fits cap k m then Some v else map_of m k')"
  by (simp add: bpf_insert_def fits_def update_conv')

lemma update_length: "length (AList.update k v m) = (if map_of m k = None then Suc (length m) else length m)"
  by (induction m) auto

lemma bpf_insert_ok: "map_ok cap m \<Longrightarrow> map_ok cap (snd (bpf_insert cap k v m))"
  by (auto simp: bpf_insert_def map_ok_def update_length distinct_update split: if_splits)

lemma delete_ok: "map_ok cap m \<Longrightarrow> map_ok cap (AList.delete k m)"
proof -
  assume a: "map_ok cap m"
  have "length (AList.delete k m) \<le> length m" by (simp add: AList.delete_eq)
  with a show ?thesis by (simp add: map_ok_def distinct_delete)
qed

lemma lookup_delete: "map_of (AList.delete k m) k' = (if k' = k then None else map_of m k')"
  by (simp add: delete_conv')

subsection \<open>What a hit changes\<close>

lemma selfarm_fields [simp]:
  "k_enters (selfarm env tid k) = k_enters k" "k_events (selfarm env tid k) = k_events k"
  "k_patharg (selfarm env tid k) = k_patharg k"
  by (simp_all add: selfarm_def arm_target_def Let_def)

lemma arm_target_is:
  "is_target (arm_target t k) t' \<longleftrightarrow> is_target k t' \<or> (t' = t \<and> fits TARGETS_MAX t (k_targets k))"
  by (auto simp: is_target_def arm_target_def bpf_insert_lookup)

lemma selfarm_target: "is_target k t \<Longrightarrow> is_target (selfarm env tid k) t"
  by (simp add: selfarm_def Let_def arm_target_is)

lemma enter_fields [simp]:
  "k_events (snd (try_enter b env k)) = k_events k" "k_patharg (snd (try_enter b env k)) = k_patharg k"
  "k_targets (snd (try_enter False env k)) = k_targets k"
  by (simp_all add: try_enter_def Let_def split: sum.split)

lemma fork_fields [simp]:
  "k_events (snd (try_fork env k)) = k_events k" "k_patharg (snd (try_fork env k)) = k_patharg k"
  "k_enters (snd (try_fork env k)) = k_enters k"
  by (simp_all add: try_fork_def arm_target_def Let_def)

lemma exit_fields [simp]:
  "k_targets (snd (try_exit env k)) = k_targets k" "k_patharg (snd (try_exit env k)) = k_patharg k"
  by (simp_all add: try_exit_def Let_def split: option.split)

lemma enter_enters_other:
  "t \<noteq> env_tid env \<Longrightarrow> map_of (k_enters (snd (try_enter b env k))) t = map_of (k_enters k) t"
  by (auto simp: try_enter_def Let_def env_tid_def bpf_insert_lookup split: sum.split)

lemma exit_enters:
  "map_of (k_enters (snd (try_exit env k))) t = (if t = env_tid env then None else map_of (k_enters k) t)"
  by (auto simp: try_exit_def Let_def env_tid_def lookup_delete split: option.split)

lemma enter_target_mono: "is_target k t \<Longrightarrow> is_target (snd (try_enter b env k)) t"
  using selfarm_target [of k t env "ucast (kv_pid_tgid env)"]
  by (auto simp: try_enter_def Let_def is_target_def split: sum.split)

lemma enter_records:
  assumes "is_target k (env_tid env)" "read_raw_enter env 8 = Inr raw" "fits ENTERS_MAX (env_tid env) (k_enters k)"
  shows "map_of (k_enters (snd (try_enter b env k))) (env_tid env) =
     Some \<lparr>e_nr = re_id raw, e_args = re_args raw, e_ts = kv_now env\<rparr>"
proof -
  let ?k = "if b then selfarm env (env_tid env) k else k"
  have "is_target ?k (env_tid env)" using assms(1) selfarm_target by auto
  then have "k_enters (snd (try_enter b env k)) = snd (bpf_insert ENTERS_MAX (env_tid env)
      \<lparr>e_nr = re_id raw, e_args = re_args raw, e_ts = kv_now env\<rparr> (k_enters k))"
    using assms(2) by (cases b) (simp_all add: try_enter_def Let_def env_tid_def)
  then show ?thesis using assms(3) by (simp add: bpf_insert_lookup)
qed

lemma k_step_enters_other:
  assumes "\<And>env. h = HitEnter env \<or> h = HitExit env \<Longrightarrow> env_tid env \<noteq> t"
  shows "map_of (k_enters (k_step b f h k)) t = map_of (k_enters k) t"
  using assms by (cases h) (auto simp: sys_enter_def sys_exit_def sched_process_fork_def
      enter_enters_other exit_enters)

lemma k_run_simps [simp]:
  "k_run b f [] k = k" "k_run b f (h # hs) k = k_run b f hs (k_step b f h k)"
  "k_run b f (hs @ hs') k = k_run b f hs' (k_run b f hs k)"
  by (simp_all add: k_run_def)

text \<open>The calls of a task: its entries and exits.\<close>

fun call_of :: "u32 \<Rightarrow> hit \<Rightarrow> bool" where
  "call_of t (HitEnter env) = (env_tid env = t)"
| "call_of t (HitExit env) = (env_tid env = t)"
| "call_of t (HitFork env) = False"

lemma k_run_enters_other:
  "\<forall>h\<in>set hs. \<not> call_of t h \<Longrightarrow> map_of (k_enters (k_run b f hs k)) t = map_of (k_enters k) t"
proof (induction hs arbitrary: k)
  case (Cons h hs)
  then have "map_of (k_enters (k_step b f h k)) t = map_of (k_enters k) t"
    by (intro k_step_enters_other) auto
  with Cons show ?case by simp
qed simp

lemma capture_fields:
  "rec_pid (capture_path env pa en r) = rec_pid r" "rec_tid (capture_path env pa en r) = rec_tid r"
  "rec_nr (capture_path env pa en r) = rec_nr r" "rec_args (capture_path env pa en r) = rec_args r"
  "rec_retval (capture_path env pa en r) = rec_retval r"
  "rec_ts_enter_ns (capture_path env pa en r) = rec_ts_enter_ns r"
  "rec_duration_ns (capture_path env pa en r) = rec_duration_ns r"
  by (simp_all add: capture_path_def Let_def split: option.split prod.split sum.split)

lemma exit_emits:
  assumes "map_of (k_enters k) (env_tid env) = Some en" "kv_reserve env = Some r0"
  shows "\<exists>r. k_events (snd (try_exit env k)) = k_events k @ [r]
     \<and> rec_pid r = env_tgid env \<and> rec_tid r = env_tid env \<and> rec_nr r = e_nr en
     \<and> rec_args r = e_args en \<and> rec_retval r = of_nat (read_or 0 (read_word env 16 8))
     \<and> rec_ts_enter_ns r = e_ts en \<and> rec_duration_ns r = saturating_sub (kv_now env) (e_ts en)"
  using assms by (auto simp: try_exit_def Let_def env_tid_def env_tgid_def capture_fields)

lemma exit_silent:
  "map_of (k_enters k) (env_tid env) = None \<Longrightarrow> k_events (snd (try_exit env k)) = k_events k"
  by (simp add: try_exit_def env_tid_def Let_def)

subsection \<open>The traced set\<close>

definition forked :: "kenv \<Rightarrow> u32 \<times> u32" where
  "forked env = (of_nat (read_or 0 (read_word env 24 4)), of_nat (read_or 0 (read_word env 44 4)))"

text \<open>The set of tasks and all tasks forked from it, in the order of the forks.\<close>

fun with_children :: "hit \<Rightarrow> u32 set \<Rightarrow> u32 set" where
  "with_children (HitFork env) S = (if fst (forked env) \<in> S then insert (snd (forked env)) S else S)"
| "with_children _ S = S"

definition targets :: "kernel \<Rightarrow> u32 set" where
  "targets k = {t. is_target k t}"

lemma targets_iff [simp]: "t \<in> targets k \<longleftrightarrow> is_target k t"
  by (simp add: targets_def)

lemma fork_targets:
  "targets (snd (try_fork env k)) =
     (if is_target k (fst (forked env)) \<and> fits TARGETS_MAX (snd (forked env)) (k_targets k)
      then insert (snd (forked env)) (targets k) else targets k)"
  by (auto simp: targets_def try_fork_def forked_def Let_def arm_target_is)

lemma targets_eq: "k_targets k = k_targets k' \<Longrightarrow> targets k = targets k'"
  by (simp add: targets_def is_target_def)

lemma k_step_targets_subset: "targets (k_step False f h k) \<subseteq> with_children h (targets k)"
  by (cases h) (auto simp: sys_enter_def sys_exit_def sched_process_fork_def fork_targets
      targets_eq [OF enter_fields(3)] targets_eq [OF exit_fields(1)])

lemma with_children_mono: "S \<subseteq> S' \<Longrightarrow> with_children h S \<subseteq> with_children h S'"
  by (cases h) auto

lemma k_step_targets_mono: "targets k \<subseteq> targets (k_step b f h k)"
  by (cases h) (auto simp: sys_enter_def sys_exit_def sched_process_fork_def fork_targets
      targets_eq [OF exit_fields(1)] enter_target_mono)

lemma k_run_targets_mono: "targets k \<subseteq> targets (k_run b f hs k)"
proof (induction hs arbitrary: k)
  case (Cons h hs)
  then show ?case using k_step_targets_mono [of k b f h] by (metis k_run_simps(2) subset_trans)
qed simp

lemma k_run_targets_subset: "targets (k_run False f hs k) \<subseteq> fold with_children hs (targets k)"
proof (induction hs arbitrary: k)
  case (Cons h hs)
  have mono: "S \<subseteq> S' \<Longrightarrow> fold with_children hs S \<subseteq> fold with_children hs S'" for S S'
    by (induction hs arbitrary: S S') (auto simp: with_children_mono)
  have "targets (k_run False f (h # hs) k) \<subseteq> fold with_children hs (targets (k_step False f h k))"
    using Cons by simp
  also have "\<dots> \<subseteq> fold with_children hs (with_children h (targets k))"
    by (rule mono [OF k_step_targets_subset])
  finally show ?case by simp
qed simp

text \<open>With room for every fork, the traced set is exactly the tasks and their descendants.\<close>

fun is_fork :: "hit \<Rightarrow> bool" where
  "is_fork (HitFork _) = True"
| "is_fork _ = False"

lemma arm_length: "length (k_targets (arm_target t k)) \<le> Suc (length (k_targets k))"
  by (simp add: arm_target_def bpf_insert_def update_length)

lemma k_step_targets_length:
  "length (k_targets (k_step False f h k)) \<le> length (k_targets k) + (if is_fork h then 1 else 0)"
  by (cases h) (auto simp: sys_enter_def sys_exit_def sched_process_fork_def try_fork_def Let_def
      arm_length)

lemma k_step_targets_exact:
  assumes "length (k_targets k) < TARGETS_MAX \<or> \<not> is_fork h"
  shows "targets (k_step False True h k) = with_children h (targets k)"
  using assms by (cases h) (auto simp: sys_enter_def sys_exit_def sched_process_fork_def fork_targets
      targets_eq [OF enter_fields(3)] targets_eq [OF exit_fields(1)] fits_def)

lemma k_run_targets_exact:
  "length (k_targets k) + length (filter is_fork hs) \<le> TARGETS_MAX \<Longrightarrow>
     targets (k_run False True hs k) = fold with_children hs (targets k)"
proof (induction hs arbitrary: k)
  case (Cons h hs)
  have "length (k_targets (k_step False True h k)) + length (filter is_fork hs) \<le> TARGETS_MAX"
    using k_step_targets_length [of True h k] Cons.prems by (auto split: if_splits)
  moreover have "targets (k_step False True h k) = with_children h (targets k)"
    by (rule k_step_targets_exact) (use Cons.prems in auto)
  ultimately show ?case using Cons.IH by simp
qed simp

subsection \<open>The invariant of the maps and records\<close>

text \<open>
  What a record in the ring promises its reader: a capture of full size, of which at most
  128 bytes count, taken from a non-null argument, or none at all.
\<close>

definition record_fine :: "bpf_record \<Rightarrow> bool" where
  "record_fine r \<longleftrightarrow> rec_ok r \<and> unat (rec_cap_len r) \<le> CAP_BYTES \<and> rec_pad r = 0
     \<and> (rec_cap_len r = 0 \<longleftrightarrow> rec_cap_addr r = 0)
     \<and> (rec_cap_addr r \<noteq> 0 \<longrightarrow> rec_cap_addr r \<in> set (args_list (rec_args r)) \<and> unat (ucast (rec_nr r) :: u32) < 512)"

definition kernel_ok :: "kernel \<Rightarrow> bool" where
  "kernel_ok k \<longleftrightarrow> map_ok ENTERS_MAX (k_enters k) \<and> map_ok TARGETS_MAX (k_targets k)
     \<and> (\<forall>r\<in>set (k_events k). record_fine r)"

text \<open>Ring storage has room for a record, and the probe helper writes inside its buffer.\<close>

definition env_ok :: "kenv \<Rightarrow> bool" where
  "env_ok env \<longleftrightarrow> (\<forall>r. kv_reserve env = Some r \<longrightarrow> rec_ok r)
     \<and> (\<forall>a dst. length (snd (kv_probe env a dst)) = length dst)"

lemma enter_ok: "kernel_ok k \<Longrightarrow> kernel_ok (snd (try_enter b env k))"
  by (auto simp: kernel_ok_def try_enter_def Let_def selfarm_def arm_target_def bpf_insert_ok
      split: sum.split)

lemma fork_ok: "kernel_ok k \<Longrightarrow> kernel_ok (snd (try_fork env k))"
  by (simp add: kernel_ok_def try_fork_def Let_def arm_target_def bpf_insert_ok)

lemma capture_fine:
  assumes "env_ok env" "rec_ok r" "rec_cap_addr r = 0" "rec_cap_len r = 0" "rec_pad r = 0"
    "rec_args r = e_args en" "rec_nr r = e_nr en"
  shows "record_fine (capture_path env pa en r)"
proof (cases "capture_path env pa en r = r")
  case True
  with assms show ?thesis by (simp add: record_fine_def)
next
  case False
  let ?i = "pa ! unat (ucast (e_nr en) :: u32)" let ?addr = "args_list (e_args en) ! unat (?i - 1)"
  obtain res cap where p: "kv_probe env ?addr (rec_cap r) = (res, cap)" by (cases "kv_probe env ?addr (rec_cap r)")
  have len: "length cap = CAP_BYTES"
    using assms(1,2) p unfolding env_ok_def rec_ok_def by (metis snd_conv)
  from False have nr: "unat (ucast (e_nr en) :: u32) < 512" and i: "?i \<noteq> 0" "?i \<le> 6" and a: "?addr \<noteq> 0"
    by (auto simp: capture_path_def Let_def MAX_SYSCALLS_def word_less_nat_alt word_le_nat_alt split: if_splits)
  have eq: "capture_path env pa en r = (case res of Inl _ \<Rightarrow> r\<lparr>rec_cap := cap\<rparr>
      | Inr bs \<Rightarrow> r\<lparr>rec_cap := cap, rec_cap_addr := ?addr,
          rec_cap_len := (if length bs < CAP_BYTES then of_nat (length bs + 1) else of_nat CAP_BYTES)\<rparr>)"
    using False p by (auto simp: capture_path_def Let_def split: if_splits sum.split)
  have "unat (?i - 1) < 6"
  proof -
    have "unat ?i \<noteq> 0" using i(1) by (simp add: unat_eq_0)
    moreover have "unat (?i - 1) = unat ?i - 1" using i(1) by (simp add: unat_sub word_le_nat_alt unat_gt_0 Suc_le_eq)
    ultimately show ?thesis using i(2) by (simp add: word_le_nat_alt)
  qed
  then have mem: "?addr \<in> set (args_list (e_args en))" by (intro nth_mem) simp
  have small: "unat (1 + of_nat n :: u32) = Suc n" if "n < 128" for n
    using that by (simp add: unat_of_nat flip: of_nat_Suc)
  show ?thesis
    using assms(2-) len nr a mem small
    by (auto simp: eq record_fine_def rec_ok_def CAP_BYTES_def unat_eq_0 [symmetric] split: sum.split)
qed

lemma exit_ok: "env_ok env \<Longrightarrow> kernel_ok k \<Longrightarrow> kernel_ok (snd (try_exit env k))"
  by (auto simp: kernel_ok_def try_exit_def Let_def delete_ok env_ok_def rec_ok_def
      intro!: capture_fine split: option.split)

lemma k_step_ok: "env_ok (hit_env h) \<Longrightarrow> kernel_ok k \<Longrightarrow> kernel_ok (k_step b f h k)"
  by (cases h) (auto simp: sys_enter_def sys_exit_def sched_process_fork_def enter_ok exit_ok fork_ok)

subsection \<open>A concrete environment\<close>

text \<open>A task of a process, a context given by its bytes from offset 8, and ready ring storage.\<close>

definition blank_record :: bpf_record where
  "blank_record = \<lparr>rec_pid = 0, rec_tid = 0, rec_nr = 0, rec_args = Args 0 0 0 0 0 0, rec_retval = 0,
     rec_ts_enter_ns = 0, rec_duration_ns = 0, rec_cap_addr = 0, rec_cap_len = 0, rec_pad = 0,
     rec_cap = replicate CAP_BYTES 0\<rparr>"

definition demo_env :: "u64 \<Rightarrow> u64 \<Rightarrow> u8 list \<Rightarrow> kenv" where
  "demo_env task now ctx = \<lparr>kv_pid_tgid = task, kv_ctx = (\<lambda>off n. Inr (take n (drop (off - 8) ctx))),
     kv_now = now, kv_reserve = Some blank_record,
     kv_probe = (\<lambda>addr dst. (Inr [47, 120], take (length dst) ([47, 120, 0] @ drop 3 dst)))\<rparr>"

definition demo_kernel :: kernel where
  "demo_kernel = \<lparr>k_events = [], k_enters = [], k_targets = [(9, 1)], k_patharg = [0, 0, 1]\<rparr>"

definition open_ctx :: "u8 list" where
  "open_ctx = [2, 0, 0, 0, 0, 0, 0, 0, 0, 16, 0, 0, 0, 0, 0, 0,
     0, 0, 0, 0, 0, 0, 0, 0, 0, 0, 0, 0, 0, 0, 0, 0,
     0, 0, 0, 0, 0, 0, 0, 0, 0, 0, 0, 0, 0, 0, 0, 0, 0, 0, 0, 0, 0, 0, 0, 0]"

declare blank_record_def [exec] demo_env_def [exec] demo_kernel_def [exec] open_ctx_def [exec]

lemma demo_raw: "read_raw_enter (demo_env task now open_ctx) 8 = Inr \<lparr>re_id = 2, re_args = Args 4096 0 0 0 0 0\<rparr>"
  by (simp add: exec)

definition fork_ctx :: "u8 list" where
  "fork_ctx = [0, 0, 0, 0, 0, 0, 0, 0, 0, 0, 0, 0, 0, 0, 0, 0, 9, 0, 0, 0,
     0, 0, 0, 0, 0, 0, 0, 0, 0, 0, 0, 0, 0, 0, 0, 0, 11, 0, 0, 0]"

lemma demo_forked: "forked (demo_env task now fork_ctx) = (9, 11)"
  by (simp add: forked_def fork_ctx_def exec)

lemma update_length_ge: "length m \<le> length (AList.update k v m)"
  by (simp add: update_length)

lemma k_step_targets_full:
  assumes "TARGETS_MAX \<le> length (k_targets k)"
  shows "targets (k_step False f h k) = targets k \<and> TARGETS_MAX \<le> length (k_targets (k_step False f h k))"
proof (cases h)
  case (HitFork env)
  have "targets (snd (try_fork env k)) = targets k"
  proof (cases "fits TARGETS_MAX (snd (forked env)) (k_targets k)")
    case True
    with assms have "snd (forked env) \<in> targets k" by (simp add: fits_def is_target_def)
    then show ?thesis by (simp add: fork_targets insert_absorb)
  qed (simp add: fork_targets)
  moreover have "length (k_targets k) \<le> length (k_targets (snd (try_fork env k)))"
    by (simp add: try_fork_def Let_def arm_target_def bpf_insert_def update_length_ge)
  ultimately show ?thesis using HitFork assms by (simp add: sched_process_fork_def)
qed (use assms in \<open>simp_all add: sys_enter_def sys_exit_def targets_eq [OF enter_fields(3)] targets_eq [OF exit_fields(1)]\<close>)

lemma k_run_targets_full:
  "TARGETS_MAX \<le> length (k_targets k) \<Longrightarrow> targets (k_run False f hs k) = targets k"
proof (induction hs arbitrary: k)
  case (Cons h hs)
  from k_step_targets_full [OF Cons.prems, of f h] Cons.IH show ?case by simp
qed simp

lemma kernel_sel_upd: "k_enters (k\<lparr>k_enters := es\<rparr>) = es" "k_targets (k\<lparr>k_targets := ts\<rparr>) = ts"
  by simp_all

lemma k_run_ok:
  "\<forall>h\<in>set hs. env_ok (hit_env h) \<Longrightarrow> kernel_ok k \<Longrightarrow> kernel_ok (k_run b f hs k)"
  by (induction hs arbitrary: k) (auto simp: k_step_ok)

lemma demo_env_ok: "env_ok (demo_env task now ctx)"
  by (auto simp: env_ok_def rec_ok_def demo_env_def blank_record_def)

text \<open>A call, from entry to exit.\<close>

lemma k_pairing:
  assumes "is_target k t" "env_tid en = t" "read_raw_enter en 8 = Inr raw" "fits ENTERS_MAX t (k_enters k)"
    and "\<forall>h\<in>set mid. \<not> call_of t h" "env_tid ex = t" "kv_reserve ex = Some r0"
  shows "\<exists>r. k_events (k_run b f (HitEnter en # mid @ [HitExit ex]) k)
        = k_events (k_run b f (HitEnter en # mid) k) @ [r]
     \<and> rec_pid r = env_tgid ex \<and> rec_tid r = t \<and> rec_nr r = re_id raw \<and> rec_args r = re_args raw
     \<and> rec_retval r = of_nat (read_or 0 (read_word ex 16 8)) \<and> rec_ts_enter_ns r = kv_now en
     \<and> unat (rec_duration_ns r) = unat (kv_now ex) - unat (kv_now en)
     \<and> map_of (k_enters (k_run b f (HitEnter en # mid @ [HitExit ex]) k)) t = None"
proof -
  let ?k1 = "k_step b f (HitEnter en) k" let ?k2 = "k_run b f mid ?k1"
  have "map_of (k_enters ?k1) t = Some \<lparr>e_nr = re_id raw, e_args = re_args raw, e_ts = kv_now en\<rparr>"
    using enter_records [of k en raw b] assms(1-4) by (simp add: sys_enter_def)
  then have "map_of (k_enters ?k2) (env_tid ex) = Some \<lparr>e_nr = re_id raw, e_args = re_args raw, e_ts = kv_now en\<rparr>"
    using k_run_enters_other [OF assms(5)] assms(6) by simp
  from exit_emits [OF this assms(7)] show ?thesis
    using assms(6) exit_enters [of ex ?k2 t] by (auto simp: sys_exit_def unat_saturating_sub)
qed

subsection \<open>Properties\<close>

text \<open>
  C19. With \<^verbatim>\<open>--follow\<close> the traced set is the initial tasks and every task forked, directly or
  not, from one of them, as long as the set has room for all forks; in any case nothing else
  is ever traced.
\<close>

theorem traced_set:
  "targets (k_run False f hits k) \<subseteq> fold with_children hits (targets k)
   \<and> (length (k_targets k) + length (filter is_fork hits) \<le> TARGETS_MAX \<longrightarrow>
        targets (k_run False True hits k) = fold with_children hits (targets k))"
  by (simp add: k_run_targets_subset k_run_targets_exact)

theorem traced_set_witness:
  "targets (k_run False True [HitFork (demo_env 9 0 fork_ctx)] demo_kernel) = {11, 9}"
proof -
  have "targets demo_kernel = {9}" by (auto simp: targets_def is_target_def demo_kernel_def split: if_splits)
  moreover have "length (k_targets demo_kernel) + length (filter is_fork [HitFork (demo_env 9 0 fork_ctx)]) \<le> TARGETS_MAX"
    by (simp add: demo_kernel_def TARGETS_MAX_def)
  ultimately show ?thesis
    using traced_set [of True "[HitFork (demo_env 9 0 fork_ctx)]" demo_kernel] demo_forked by simp
qed

text \<open>
  C39. The traced set never shrinks: no tracepoint removes a task, so the ids of tasks that
  have exited stay traced when they are reused, and once the set holds 4096 ids no new
  child is traced.
\<close>

theorem targets_never_shrink:
  "targets k \<subseteq> targets (k_run b f hits k)
   \<and> (TARGETS_MAX \<le> length (k_targets k) \<longrightarrow> targets (k_run False f hits k) = targets k)"
  by (simp add: k_run_targets_mono k_run_targets_full)

theorem targets_never_shrink_witness:
  "targets (k_run False True [HitFork (demo_env 9 0 fork_ctx)]
     (demo_kernel\<lparr>k_targets := replicate 4096 (9, 1)\<rparr>)) = targets (demo_kernel\<lparr>k_targets := replicate 4096 (9, 1)\<rparr>)"
  using targets_never_shrink [of "demo_kernel\<lparr>k_targets := replicate 4096 (9, 1)\<rparr>" False True "[HitFork (demo_env 9 0 fork_ctx)]"]
  by (simp only: kernel_sel_upd length_replicate TARGETS_MAX_def order_refl simp_thms)

text \<open>
  Once 10240 calls are pending (the entries of tasks that exited inside a call are never
  removed), the calls of a further task leave no trace: its entry is dropped without notice
  and its exit submits nothing.
\<close>

lemma full_enters_lose_calls:
  assumes "ENTERS_MAX \<le> length (k_enters k)" "map_of (k_enters k) t = None" "env_tid en = t"
    and "\<forall>h\<in>set mid. \<not> call_of t h" "env_tid ex = t"
  shows "fst (sys_enter b en k) = 0 \<and> k_events (k_run b f (HitEnter en # mid @ [HitExit ex]) k)
     = k_events (k_run b f (HitEnter en # mid) k)"
proof -
  let ?k1 = "k_step b f (HitEnter en) k"
  have "map_of (k_enters ?k1) t = None"
    using assms(1-3) by (auto simp: sys_enter_def try_enter_def Let_def bpf_insert_lookup fits_def env_tid_def split: sum.split)
  then have "map_of (k_enters (k_run b f mid ?k1)) (env_tid ex) = None"
    using k_run_enters_other [OF assms(4)] assms(5) by simp
  then show ?thesis by (simp add: sys_enter_def sys_exit_def exit_silent)
qed

text \<open>
  C18. Over any run the maps stay within their capacities without duplicate keys, and every
  record submitted is well formed: a capture area of 128 bytes of which at most 128 count,
  taken from a non-null argument of a call below 512, or no capture at all.
\<close>

theorem kernel_invariant:
  assumes "kernel_ok k" "\<forall>h\<in>set hits. env_ok (hit_env h)"
  shows "kernel_ok (k_run b f hits k)"
  using k_run_ok [OF assms(2,1)] .

theorem kernel_invariant_witness:
  "kernel_ok (k_run False True [HitEnter (demo_env 9 50 open_ctx),
     HitExit (demo_env 9 80 open_ctx)] demo_kernel)"
  by (rule kernel_invariant)
    (simp_all add: demo_env_ok, simp add: kernel_ok_def map_ok_def demo_kernel_def ENTERS_MAX_def TARGETS_MAX_def)

end
