(* ===== verification/Trace_Ptrace.thy ===== *)
theory Trace_Ptrace
  imports Trace_Iface
begin

section \<open>The ptrace backend (\<^verbatim>\<open>crates/syren-trace/src/ptrace.rs\<close>)\<close>

text \<open>
  The unprivileged backend.  The operating system is a record of its calls over a world
  of its own; a process id is the same 32 bits whether read as \<^verbatim>\<open>pid_t\<close> or \<^verbatim>\<open>u32\<close>.
\<close>

subsection \<open>What the operating system provides\<close>

text \<open>Signals are their numbers; \<^verbatim>\<open>PTRACE_EVENT_*\<close> codes as in the C library.\<close>

definition SIGSTOP :: i32 where "SIGSTOP = 19"
definition SIGTRAP :: i32 where "SIGTRAP = 5"
definition ECHILD :: i32 where "ECHILD = 10"
definition ENOENT :: i32 where "ENOENT = 2"
definition EVENT_FORK :: i32 where "EVENT_FORK = 1"
definition EVENT_VFORK :: i32 where "EVENT_VFORK = 2"
definition EVENT_CLONE :: i32 where "EVENT_CLONE = 3"
definition EVENT_EXEC :: i32 where "EVENT_EXEC = 4"

datatype wait_status =
    Exited i32 i32
  | Signaled i32 i32 bool
  | Stopped i32 i32
  | PtraceEvent i32 i32 i32
  | PtraceSyscall i32
  | Continued i32
  | StillAlive

datatype ptrace_option = TraceSysgood | Exitkill | TraceFork | TraceVfork | TraceClone | TraceExec

record regs =
  r_orig_rax :: u64
  r_rax :: u64
  r_rdi :: u64
  r_rsi :: u64
  r_rdx :: u64
  r_r10 :: u64
  r_r8 :: u64
  r_r9 :: u64

record 'w ptrace_os =
  os_fork_exec :: "string \<Rightarrow> string list \<Rightarrow> 'w \<Rightarrow> (i32 + i32) \<times> 'w"
  os_attach :: "i32 \<Rightarrow> 'w \<Rightarrow> (i32 + unit) \<times> 'w"
  os_waitpid :: "i32 \<Rightarrow> 'w \<Rightarrow> (i32 + wait_status) \<times> 'w"
  os_wait_any :: "'w \<Rightarrow> (i32 + wait_status) \<times> 'w"
  os_setoptions :: "i32 \<Rightarrow> ptrace_option list \<Rightarrow> 'w \<Rightarrow> (i32 + unit) \<times> 'w"
  os_resume :: "i32 \<Rightarrow> i32 option \<Rightarrow> 'w \<Rightarrow> (i32 + unit) \<times> 'w"
  os_getregs :: "i32 \<Rightarrow> 'w \<Rightarrow> (i32 + regs) \<times> 'w"
  os_getevent :: "i32 \<Rightarrow> 'w \<Rightarrow> (i32 + u64) \<times> 'w"
  os_elapsed_ns :: "'w \<Rightarrow> nat \<times> 'w"
  os_proc_status :: "i32 \<Rightarrow> 'w \<Rightarrow> string option \<times> 'w"

subsection \<open>The tracer\<close>

record inflight =
  in_nr :: u64
  in_args :: args6
  in_enter_ns :: u64

record ptrace_tracer =
  pt_follow :: bool
  pt_live :: "i32 set"
  pt_inflight :: "i32 \<rightharpoonup> inflight"
  pt_tgid :: "i32 \<rightharpoonup> u32"
  pt_pending :: "(i32 \<times> i32 option) option"
  pt_leader :: "u32 option"

definition pt_empty :: "trace_options \<Rightarrow> ptrace_tracer" where
  "pt_empty opts =
     \<lparr>pt_follow = follow_forks opts, pt_live = {}, pt_inflight = Map.empty, pt_tgid = Map.empty,
      pt_pending = None, pt_leader = None\<rparr>"

text \<open>
  \<^verbatim>\<open>cstring\<close>: an argument with a NUL byte is refused, with the message of the standard
  library's \<^verbatim>\<open>NulError\<close> after the program's own.
\<close>

definition cstring :: "string \<Rightarrow> ('s, string) op" where
  "cstring bytes =
     (if CHR 0x00 \<in> set bytes
      then fail (OtherFailure (''invalid (NUL-containing) argument: ''
        @ ''nul byte found in provided data at position: ''
        @ dec (length (takeWhile (\<lambda>c. c \<noteq> CHR 0x00) bytes))))
      else ret bytes)"

fun cstrings :: "string list \<Rightarrow> ('s, string list) op" where
  "cstrings [] = ret []"
| "cstrings (a # as) = seq (cstring a) (\<lambda>c. seq (cstrings as) (\<lambda>cs. ret (c # cs)))"

text \<open>\<^verbatim>\<open>read_tgid\<close>: the \<^verbatim>\<open>Tgid:\<close> line of \<^verbatim>\<open>/proc/<pid>/status\<close>.\<close>

definition find_tgid :: "string \<Rightarrow> u32 option" where
  "find_tgid status =
     (case List.find (\<lambda>l. strip_prefix ''Tgid:'' l \<noteq> None) (str_lines status) of
        None \<Rightarrow> None
      | Some l \<Rightarrow> (case strip_prefix ''Tgid:'' l of
                    None \<Rightarrow> None
                  | Some rest \<Rightarrow> map_option of_nat (parse_uint 32 10 (trim rest))))"

definition read_tgid :: "'w ptrace_os \<Rightarrow> i32 \<Rightarrow> (ptrace_tracer \<times> 'w, u32 option) op" where
  "read_tgid os pid = seq (ask (os_proc_status os pid)) (\<lambda>status. ret (Option.bind status find_tgid))"

definition now_ns :: "'w ptrace_os \<Rightarrow> (ptrace_tracer \<times> 'w, u64) op" where
  "now_ns os = seq (ask (os_elapsed_ns os)) (\<lambda>n. ret (of_nat n))"

definition tgid_of :: "'w ptrace_os \<Rightarrow> i32 \<Rightarrow> (ptrace_tracer \<times> 'w, u32) op" where
  "tgid_of os pid = seq (gets (\<lambda>t. pt_tgid t pid)) (\<lambda>known.
     case known of
       Some t \<Rightarrow> ret t
     | None \<Rightarrow> seq (read_tgid os pid) (\<lambda>r.
         let tgid = (case r of Some t \<Rightarrow> t | None \<Rightarrow> pid) in
         seq (modify (\<lambda>t. t\<lparr>pt_tgid := (pt_tgid t)(pid \<mapsto> tgid)\<rparr>)) (\<lambda>_. ret tgid)))"

definition forget :: "i32 \<Rightarrow> ptrace_tracer \<Rightarrow> ptrace_tracer" where
  "forget pid t =
     t\<lparr>pt_live := pt_live t - {pid}, pt_inflight := (pt_inflight t)(pid := None),
       pt_tgid := (pt_tgid t)(pid := None)\<rparr>"

definition resume :: "'w ptrace_os \<Rightarrow> i32 \<Rightarrow> i32 option \<Rightarrow> (ptrace_tracer \<times> 'w, unit) op" where
  "resume os pid sig = sys (os_resume os pid sig)"

subsection \<open>Setting up\<close>

definition configure :: "'w ptrace_os \<Rightarrow> i32 \<Rightarrow> (ptrace_tracer \<times> 'w, unit) op" where
  "configure os pid = seq (gets pt_follow) (\<lambda>follow.
     let opts = [TraceSysgood, Exitkill]
       @ (if follow then [TraceFork, TraceVfork, TraceClone, TraceExec] else [])
     in sys (os_setoptions os pid opts))"

text \<open>
  \<^verbatim>\<open>spawn\<close>, on the parent's side.  The child asks to be traced and executes the program;
  from the parent it is one call that returns the child's id.
\<close>

definition pt_spawn ::
    "'w ptrace_os \<Rightarrow> string \<Rightarrow> string list \<Rightarrow> (ptrace_tracer \<times> 'w, unit) op" where
  "pt_spawn os program args =
     seq (cstring program) (\<lambda>prog_c. seq (cstrings (program # args)) (\<lambda>argv.
     seq (sys (os_fork_exec os prog_c argv)) (\<lambda>child.
     seq (sys (os_waitpid os child)) (\<lambda>status.
     case status of
       Exited _ _ \<Rightarrow> fail (SpawnFailed program ENOENT)
     | Signaled _ _ _ \<Rightarrow> fail (SpawnFailed program ENOENT)
     | _ \<Rightarrow>
         seq (configure os child) (\<lambda>_.
         seq (modify (\<lambda>t. t\<lparr>pt_live := insert child (pt_live t),
               pt_tgid := (pt_tgid t)(child \<mapsto> child), pt_leader := Some child\<rparr>)) (\<lambda>_.
         resume os child None))))))"

definition attach_one :: "'w ptrace_os \<Rightarrow> i32 \<Rightarrow> (ptrace_tracer \<times> 'w, unit) op" where
  "attach_one os pid =
     seq (sys (os_attach os pid)) (\<lambda>_.
     seq (sys (os_waitpid os pid)) (\<lambda>_.
     seq (configure os pid) (\<lambda>_.
     seq (modify (\<lambda>t. t\<lparr>pt_live := insert pid (pt_live t)\<rparr>)) (\<lambda>_.
     resume os pid None))))"

definition pt_attach :: "'w ptrace_os \<Rightarrow> i32 list \<Rightarrow> (ptrace_tracer \<times> 'w, unit) op" where
  "pt_attach os pids =
     (case pids of
        [] \<Rightarrow> fail (OtherFailure ''no pids supplied to attach to'')
      | p # _ \<Rightarrow>
          seq (modify (\<lambda>t. t\<lparr>pt_leader := Some p\<rparr>)) (\<lambda>_. each (attach_one os) pids))"

definition pt_new ::
    "'w ptrace_os \<Rightarrow> target \<Rightarrow> trace_options \<Rightarrow> 'w \<Rightarrow> (trace_error + ptrace_tracer) \<times> 'w" where
  "pt_new os tgt opts w =
     (case (case tgt of
              Spawn program args \<Rightarrow> pt_spawn os program args
            | Attach pids \<Rightarrow> pt_attach os pids) (pt_empty opts, w) of
        (Inl e, (t, w')) \<Rightarrow> (Inl e, w')
      | (Inr _, (t, w')) \<Rightarrow> (Inr t, w'))"

subsection \<open>Handling a stop\<close>

definition on_syscall_stop ::
    "'w ptrace_os \<Rightarrow> i32 \<Rightarrow> (ptrace_tracer \<times> 'w, event option) op" where
  "on_syscall_stop os pid = seq (gets (\<lambda>t. pt_inflight t pid)) (\<lambda>entry.
     case entry of
       Some i \<Rightarrow>
         seq (modify (\<lambda>t. t\<lparr>pt_inflight := (pt_inflight t)(pid := None)\<rparr>)) (\<lambda>_.
         seq (sys (os_getregs os pid)) (\<lambda>r.
         seq (now_ns os) (\<lambda>exit_ns.
         seq (modify (\<lambda>t. t\<lparr>pt_pending := Some (pid, None)\<rparr>)) (\<lambda>_.
         seq (tgid_of os pid) (\<lambda>tgid.
         ret (Some (SyscallEv
           \<lparr>ev_pid = tgid, ev_tid = pid, ev_nr = in_nr i, ev_args = in_args i,
            ev_retval = r_rax r, ev_ts_enter_ns = in_enter_ns i,
            ev_duration_ns = saturating_sub exit_ns (in_enter_ns i)\<rparr>)))))))
     | None \<Rightarrow>
         seq (sys (os_getregs os pid)) (\<lambda>r.
         seq (now_ns os) (\<lambda>now.
         seq (modify (\<lambda>t. t\<lparr>pt_inflight := (pt_inflight t)(pid \<mapsto>
             \<lparr>in_nr = r_orig_rax r,
              in_args = Args (r_rdi r) (r_rsi r) (r_rdx r) (r_r10 r) (r_r8 r) (r_r9 r),
              in_enter_ns = now\<rparr>)\<rparr>)) (\<lambda>_.
         seq (resume os pid None) (\<lambda>_. ret None)))))"

definition follow_child :: "'w ptrace_os \<Rightarrow> i32 \<Rightarrow> (ptrace_tracer \<times> 'w, unit) op" where
  "follow_child os pid = seq (ask (os_getevent os pid)) (\<lambda>r.
     case r of
       Inl _ \<Rightarrow> ret ()
     | Inr new \<Rightarrow> modify (\<lambda>t. t\<lparr>pt_live := insert (ucast new) (pt_live t)\<rparr>))"

definition handle :: "'w ptrace_os \<Rightarrow> wait_status \<Rightarrow> (ptrace_tracer \<times> 'w, event option) op" where
  "handle os status =
     (case status of
        PtraceSyscall pid \<Rightarrow> on_syscall_stop os pid
      | Exited pid code \<Rightarrow>
          seq (tgid_of os pid) (\<lambda>tgid. seq (modify (forget pid)) (\<lambda>_.
            ret (Some (ProcessExit tgid code))))
      | Signaled pid sig core_dumped \<Rightarrow>
          seq (tgid_of os pid) (\<lambda>tgid. seq (modify (forget pid)) (\<lambda>_.
            ret (Some (ProcessExit tgid (128 + sig)))))
      | PtraceEvent pid sig ev \<Rightarrow>
          seq (gets pt_follow) (\<lambda>follow.
          seq (if ev = EVENT_EXEC
               then modify (\<lambda>t. t\<lparr>pt_inflight := (pt_inflight t)(pid := None)\<rparr>)
               else if follow \<and> ev \<in> set [EVENT_FORK, EVENT_VFORK, EVENT_CLONE]
               then follow_child os pid
               else ret ()) (\<lambda>_.
          seq (resume os pid None) (\<lambda>_. ret None)))
      | Stopped pid sig \<Rightarrow>
          let deliver = (if sig \<in> set [SIGSTOP, SIGTRAP] then None else Some sig) in
          seq (resume os pid deliver) (\<lambda>_.
            case deliver of
              Some s \<Rightarrow> seq (tgid_of os pid) (\<lambda>tgid. ret (Some (SignalEv tgid s)))
            | None \<Rightarrow> ret None)
      | Continued _ \<Rightarrow> ret None
      | StillAlive \<Rightarrow> ret None)"

subsection \<open>The event loop\<close>

text \<open>\<^verbatim>\<open>pending_resume.take()\<close> and the resumption it stands for.\<close>

definition resume_pending :: "'w ptrace_os \<Rightarrow> (ptrace_tracer \<times> 'w, unit) op" where
  "resume_pending os = seq (gets pt_pending) (\<lambda>p.
     seq (modify (\<lambda>t. t\<lparr>pt_pending := None\<rparr>)) (\<lambda>_.
       case p of Some (pid, sig) \<Rightarrow> resume os pid sig | None \<Rightarrow> ret ()))"

text \<open>
  One round of the loop.  The result is an event or the end of the trace (\<open>Inl\<close>), or the
  loop goes round again (\<open>Inr\<close>).
\<close>

definition pt_round :: "'w ptrace_os \<Rightarrow> (ptrace_tracer \<times> 'w, event option + unit) op" where
  "pt_round os =
     seq (resume_pending os) (\<lambda>_.
     seq (gets pt_live) (\<lambda>live.
     if live = {} then ret (Inl None)
     else seq (ask (os_wait_any os)) (\<lambda>r.
       case r of
         Inr status \<Rightarrow> seq (handle os status) (\<lambda>ev.
           ret (case ev of Some e \<Rightarrow> Inl (Some e) | None \<Rightarrow> Inr ()))
       | Inl e \<Rightarrow> if e = ECHILD then ret (Inl None) else fail (Os e))))"

partial_function (option) pt_next_event ::
    "'w ptrace_os \<Rightarrow> ptrace_tracer \<times> 'w \<Rightarrow> ((trace_error + event option) \<times> (ptrace_tracer \<times> 'w)) option"
  where
  "pt_next_event os s =
     (case pt_round os s of
        (Inl e, s') \<Rightarrow> Some (Inl e, s')
      | (Inr r, s') \<Rightarrow> (case r of Inl ev \<Rightarrow> Some (Inr ev, s') | Inr _ \<Rightarrow> pt_next_event os s'))"

declare SIGSTOP_def [exec] SIGTRAP_def [exec] ECHILD_def [exec] ENOENT_def [exec]
  EVENT_FORK_def [exec] EVENT_VFORK_def [exec] EVENT_CLONE_def [exec] EVENT_EXEC_def [exec]
  pt_empty_def [exec] cstring_def [exec] cstrings.simps [exec] find_tgid_def [exec]
  read_tgid_def [exec] now_ns_def [exec] tgid_of_def [exec] forget_def [exec] resume_def [exec]
  configure_def [exec] pt_spawn_def [exec] attach_one_def [exec] pt_attach_def [exec]
  pt_new_def [exec] on_syscall_stop_def [exec] follow_child_def [exec] handle_def [exec]
  resume_pending_def [exec] pt_round_def [exec]

end
