(* ===== verification/Trace_Ebpf.thy ===== *)
theory Trace_Ebpf
  imports Trace_Ptrace Common_Record
begin

section \<open>The eBPF backend: events and memory (\<^verbatim>\<open>crates/syren-trace/src/ebpf.rs\<close>)\<close>

text \<open>
  The user-space half of the privileged backend: it drains the ring buffer the in-kernel
  programs fill, watches whether the traced program is still alive, and serves the memory
  the kernel captured.  Setting it up is the theory \<open>Ebpf_Setup\<close>.
\<close>

subsection \<open>State\<close>

record capture =
  cap_addr :: u64
  cap_bytes :: "u8 list"

record ebpf_tracer =
  eb_leader :: "u32 option"
  eb_baseline :: u64
  eb_child :: "i32 option"
  eb_watch :: "u32 list"
  eb_queue :: "(event \<times> capture option) list"
  eb_current :: "capture option"
  eb_finished :: bool

text \<open>
  What the loop asks of the operating system: the next sample of the ring, a
  \<^verbatim>\<open>waitpid\<close> that does not block, \<^verbatim>\<open>kill(pid, 0)\<close> and \<^verbatim>\<open>poll\<close> on the ring.
\<close>

record 'w ring_os =
  ro_next :: "'w \<Rightarrow> u8 list option \<times> 'w"
  ro_waitpid_nohang :: "i32 \<Rightarrow> 'w \<Rightarrow> (i32 + wait_status) \<times> 'w"
  ro_kill0 :: "i32 \<Rightarrow> 'w \<Rightarrow> (i32 + unit) \<times> 'w"
  ro_poll :: "i32 \<Rightarrow> 'w \<Rightarrow> 'w"

definition EPERM :: i32 where "EPERM = 1"

subsection \<open>Samples become events\<close>

definition record_to_event :: "bpf_record \<Rightarrow> u64 \<Rightarrow> syscall_event" where
  "record_to_event r baseline =
     \<lparr>ev_pid = rec_pid r, ev_tid = rec_tid r, ev_nr = rec_nr r, ev_args = rec_args r,
      ev_retval = rec_retval r, ev_ts_enter_ns = saturating_sub (rec_ts_enter_ns r) baseline,
      ev_duration_ns = rec_duration_ns r\<rparr>"

definition record_capture :: "bpf_record \<Rightarrow> capture option" where
  "record_capture r =
     (if 0 < rec_cap_len r then Some \<lparr>cap_addr = rec_cap_addr r, cap_bytes = captured r\<rparr> else None)"

definition push_item :: "u8 list \<Rightarrow> ebpf_tracer \<Rightarrow> ebpf_tracer" where
  "push_item item t =
     (case rec_from_bytes item of
        None \<Rightarrow> t
      | Some r \<Rightarrow> t\<lparr>eb_queue := eb_queue t
          @ [(SyscallEv (record_to_event r (eb_baseline t)), record_capture r)]\<rparr>)"

text \<open>The ring may be filled faster than it is drained: the loop need not end.\<close>

partial_function (option) drain_ring ::
    "'w ring_os \<Rightarrow> ebpf_tracer \<times> 'w \<Rightarrow> (ebpf_tracer \<times> 'w) option" where
  "drain_ring os s =
     (case ro_next os (snd s) of
        (None, w) \<Rightarrow> Some (fst s, w)
      | (Some item, w) \<Rightarrow> drain_ring os (push_item item (fst s), w))"

subsection \<open>Is the program still there?\<close>

definition pid_alive :: "'w ring_os \<Rightarrow> u32 \<Rightarrow> 'w \<Rightarrow> bool \<times> 'w" where
  "pid_alive os pid w =
     (case ro_kill0 os pid w of
        (Inr _, w') \<Rightarrow> (True, w')
      | (Inl e, w') \<Rightarrow> (e = EPERM, w'))"

text \<open>\<^verbatim>\<open>all(|p| !pid_alive(p))\<close> stops at the first task that is alive.\<close>

fun all_dead :: "'w ring_os \<Rightarrow> u32 list \<Rightarrow> 'w \<Rightarrow> bool \<times> 'w" where
  "all_dead os [] w = (True, w)"
| "all_dead os (p # ps) w =
     (case pid_alive os p w of (True, w') \<Rightarrow> (False, w') | (False, w') \<Rightarrow> all_dead os ps w')"

definition enqueue_exit ::
    "'w ring_os \<Rightarrow> i32 \<Rightarrow> ebpf_tracer \<times> 'w \<Rightarrow> (ebpf_tracer \<times> 'w) option" where
  "enqueue_exit os code s =
     (case drain_ring os s of
        None \<Rightarrow> None
      | Some (t, w) \<Rightarrow>
          let t' = (case eb_leader t of
                      Some pid \<Rightarrow> t\<lparr>eb_queue := eb_queue t @ [(ProcessExit pid code, None)]\<rparr>
                    | None \<Rightarrow> t)
          in Some (t'\<lparr>eb_finished := True\<rparr>, w))"

definition liveness_done ::
    "'w ring_os \<Rightarrow> ebpf_tracer \<times> 'w \<Rightarrow> (bool \<times> (ebpf_tracer \<times> 'w)) option" where
  "liveness_done os s =
     (let t = fst s; over = \<lambda>code w. map_option (\<lambda>s'. (True, s')) (enqueue_exit os code (t, w)) in
      case eb_child t of
        Some child \<Rightarrow>
          (case ro_waitpid_nohang os child (snd s) of
             (Inr (Exited _ code), w) \<Rightarrow> over code w
           | (Inr (Signaled _ sig _), w) \<Rightarrow> over (128 + sig) w
           | (Inr _, w) \<Rightarrow> Some (False, (t, w))
           | (Inl _, w) \<Rightarrow> over 0 w)
      | None \<Rightarrow>
          if eb_watch t \<noteq> [] then
            (case all_dead os (eb_watch t) (snd s) of
               (True, w) \<Rightarrow> over 0 w | (False, w) \<Rightarrow> Some (False, (t, w)))
          else Some (True, s))"

subsection \<open>The event loop\<close>

partial_function (option) eb_next_event ::
    "'w ring_os \<Rightarrow> ebpf_tracer \<times> 'w \<Rightarrow> ((trace_error + event option) \<times> (ebpf_tracer \<times> 'w)) option"
  where
  "eb_next_event os s =
     (case eb_queue (fst s) of
        (ev, cap) # rest \<Rightarrow>
          Some (Inr (Some ev), ((fst s)\<lparr>eb_queue := rest, eb_current := cap\<rparr>, snd s))
      | [] \<Rightarrow>
          (case drain_ring os s of
             None \<Rightarrow> None
           | Some s1 \<Rightarrow>
               if eb_queue (fst s1) \<noteq> [] then eb_next_event os s1
               else if eb_finished (fst s1) then Some (Inr None, s1)
               else (case liveness_done os s1 of
                 None \<Rightarrow> None
               | Some r \<Rightarrow>
                   if fst r then eb_next_event os (snd r)
                   else eb_next_event os (fst (snd r), ro_poll os 100 (snd (snd r))))))"

subsection \<open>The memory of the current event\<close>

text \<open>
  \<^verbatim>\<open>EbpfMemory::read\<close>.  The end of the capture is a 64-bit sum; it wraps in a release build,
  and no user address is near the top.  Memory outside the capture is read from
  \<^verbatim>\<open>/proc/<tid>/mem\<close>, which each read opens anew.
\<close>

definition ebpf_read ::
    "(u32 \<Rightarrow> io_error + (u64 \<Rightarrow> nat \<Rightarrow> io_error + u8 list)) \<Rightarrow> u32 \<Rightarrow> capture option \<Rightarrow> reader" where
  "ebpf_read open_mem tid capt addr len =
     (let fallback = (case proc_open open_mem tid of Inl _ \<Rightarrow> None | Inr m \<Rightarrow> m addr len) in
      case capt of
        None \<Rightarrow> fallback
      | Some cap \<Rightarrow>
          let endp = cap_addr cap + of_nat (length (cap_bytes cap)) in
          if cap_addr cap \<le> addr \<and> addr < endp then
            let off = unat (addr - cap_addr cap);
                stop = min (off + len) (length (cap_bytes cap))
            in Some (take (stop - off) (drop off (cap_bytes cap)))
          else fallback)"

definition ebpf_memory ::
    "(u32 \<Rightarrow> io_error + (u64 \<Rightarrow> nat \<Rightarrow> io_error + u8 list)) \<Rightarrow> ebpf_tracer \<Rightarrow> syscall_event \<Rightarrow> reader" where
  "ebpf_memory open_mem t ev = ebpf_read open_mem (ev_tid ev) (eb_current t)"

declare EPERM_def [exec] record_to_event_def [exec] record_capture_def [exec] push_item_def [exec]
  pid_alive_def [exec] all_dead.simps [exec] enqueue_exit_def [exec] liveness_done_def [exec]
  ebpf_read_def [exec] ebpf_memory_def [exec]

interpretation ebpf_reader: memory_reader "ebpf_read open_mem tid capt" for open_mem tid capt
proof
  fix addr len bs
  assume "ebpf_read open_mem tid capt addr len = Some bs"
  then show "length bs \<le> len"
    by (auto simp: ebpf_read_def Let_def proc_open_def split: option.splits sum.splits if_splits
        dest: proc_reader.read_bound)
qed

end
