(* ===== verification/Ptrace_Session.thy ===== *)
theory Ptrace_Session
  imports Trace_Ptrace
begin

section \<open>Sessions of the ptrace backend\<close>

text \<open>
  What the event loop of \<open>Trace_Ptrace\<close> does over time: a step relation for its rounds, the
  pairing of entries and exits, the accounting of stops against resumptions, and the end of
  the loop.
\<close>

subsection \<open>Steps of the loop\<close>

text \<open>
  One round that sees a status: resume what is pending, wait, handle.  \<open>pt_trace\<close> is a
  sequence of such rounds, labelled with the status and the event of each.
\<close>

definition pt_step ::
    "'w ptrace_os \<Rightarrow> ptrace_tracer \<times> 'w \<Rightarrow> wait_status \<Rightarrow> event option \<Rightarrow> ptrace_tracer \<times> 'w \<Rightarrow> bool" where
  "pt_step os s st ev s' \<longleftrightarrow>
     (\<exists>t w w'. resume_pending os s = (Inr (), (t, w)) \<and> pt_live t \<noteq> {}
        \<and> os_wait_any os w = (Inr st, w') \<and> handle os st (t, w') = (Inr ev, s'))"

inductive pt_trace ::
    "'w ptrace_os \<Rightarrow> ptrace_tracer \<times> 'w \<Rightarrow> (wait_status \<times> event option) list \<Rightarrow> ptrace_tracer \<times> 'w \<Rightarrow> bool"
  for os s where
  trace_start: "pt_trace os s [] s"
| trace_step: "pt_trace os s tr s1 \<Longrightarrow> pt_step os s1 st ev s2 \<Longrightarrow> pt_trace os s (tr @ [(st, ev)]) s2"

lemmas pt_trace_intros [intro] = pt_trace.intros

inductive_cases pt_trace_snoc: "pt_trace os s (tr @ [x]) s'"
inductive_cases pt_trace_Nil: "pt_trace os s [] s'"

text \<open>Whether handling a status may change the entry of task \<open>p\<close>.\<close>

fun touches :: "i32 \<Rightarrow> wait_status \<Rightarrow> bool" where
  "touches p (Exited pid _) = (pid = p)"
| "touches p (Signaled pid _ _) = (pid = p)"
| "touches p (PtraceEvent pid _ e) = (pid = p \<and> e = EVENT_EXEC)"
| "touches p (PtraceSyscall pid) = (pid = p)"
| "touches p (Stopped _ _) = False"
| "touches p (Continued _) = False"
| "touches p StillAlive = False"

lemma resume_pending_effect:
  assumes "resume_pending os (t, w) = (r, (t', w'))"
  shows "t' = t\<lparr>pt_pending := None\<rparr>"
  using assms
  by (auto simp: resume_pending_def resume_def op_defs split: option.splits prod.splits sum.splits)

lemma tgid_of_effect:
  "\<exists>g w'. tgid_of os pid (t, w) = (Inr g, (t\<lparr>pt_tgid := (pt_tgid t)(pid \<mapsto> g)\<rparr>, w'))"
proof (cases "pt_tgid t pid")
  case (Some g)
  then have "(pt_tgid t)(pid \<mapsto> g) = pt_tgid t" by (simp add: fun_upd_idem)
  then show ?thesis using Some by (auto simp: tgid_of_def op_defs)
next
  case None
  then show ?thesis
    by (auto simp: tgid_of_def read_tgid_def op_defs Let_def split: prod.split)
qed

lemma tgid_of_Inr:
  assumes "tgid_of os pid (t, w) = (r, s')"
  shows "\<exists>g w'. r = Inr g \<and> s' = (t\<lparr>pt_tgid := (pt_tgid t)(pid \<mapsto> g)\<rparr>, w')"
  using tgid_of_effect [of os pid t w] assms by auto

text \<open>What a successful handler did, case by case.\<close>

lemma handle_exited:
  assumes "handle os (Exited pid code) (t, w) = (Inr ev, (t', w'))"
  shows "\<exists>g. ev = Some (ProcessExit g code) \<and> t' = forget pid (t\<lparr>pt_tgid := (pt_tgid t)(pid \<mapsto> g)\<rparr>)"
  using assms
  by (auto simp: handle_def seq_Inr modify_def ret_def dest!: tgid_of_Inr)

lemma handle_signaled:
  assumes "handle os (Signaled pid sig core) (t, w) = (Inr ev, (t', w'))"
  shows "\<exists>g. ev = Some (ProcessExit g (128 + sig))
     \<and> t' = forget pid (t\<lparr>pt_tgid := (pt_tgid t)(pid \<mapsto> g)\<rparr>)"
  using assms
  by (auto simp: handle_def seq_Inr modify_def ret_def dest!: tgid_of_Inr)

lemma sys_Inr: "sys f (t, w) = (Inr x, s') \<longleftrightarrow> (\<exists>w'. f w = (Inr x, w') \<and> s' = (t, w'))"
  by (auto simp: sys_def split: prod.splits sum.splits)

lemma ask_eq: "ask f (t, w) = (Inr (fst (f w)), (t, snd (f w)))"
  by (simp add: ask_def split: prod.split)

lemma now_ns_eq: "now_ns os (t, w) = (Inr (of_nat (fst (os_elapsed_ns os w))), (t, snd (os_elapsed_ns os w)))"
  by (simp add: now_ns_def seq_def ask_eq ret_def)

lemma handle_entry:
  assumes "handle os (PtraceSyscall pid) (t, w) = (Inr ev, (t', w'))" "pt_inflight t pid = None"
  shows "ev = None \<and> (\<exists>r w1 now. os_getregs os pid w = (Inr r, w1)
     \<and> t' = t\<lparr>pt_inflight := (pt_inflight t)(pid \<mapsto> \<lparr>in_nr = r_orig_rax r,
          in_args = Args (r_rdi r) (r_rsi r) (r_rdx r) (r_r10 r) (r_r8 r) (r_r9 r),
          in_enter_ns = now\<rparr>)\<rparr>)"
  using assms
  by (auto simp: handle_def on_syscall_stop_def resume_def seq_Inr gets_def modify_def ret_def
      sys_Inr now_ns_eq)

lemma handle_exit:
  assumes "handle os (PtraceSyscall pid) (t, w) = (Inr ev, (t', w'))" "pt_inflight t pid = Some i"
  shows "\<exists>r w1 g now. os_getregs os pid w = (Inr r, w1)
     \<and> ev = Some (SyscallEv \<lparr>ev_pid = g, ev_tid = pid, ev_nr = in_nr i, ev_args = in_args i,
          ev_retval = r_rax r, ev_ts_enter_ns = in_enter_ns i,
          ev_duration_ns = saturating_sub now (in_enter_ns i)\<rparr>)
     \<and> t' = t\<lparr>pt_inflight := (pt_inflight t)(pid := None), pt_pending := Some (pid, None),
          pt_tgid := (pt_tgid t)(pid \<mapsto> g)\<rparr>"
  using assms
  by (auto simp: handle_def on_syscall_stop_def seq_Inr gets_def modify_def ret_def
      sys_Inr now_ns_eq dest!: tgid_of_Inr)

lemma live_update_self [simp]: "\<exists>L. t = t\<lparr>pt_live := L\<rparr>" for t :: ptrace_tracer
  by (rule exI [of _ "pt_live t"]) simp

lemma follow_child_effect:
  "follow_child os pid (t, w) = (r, (t', w')) \<Longrightarrow> r = Inr () \<and> (\<exists>L. t' = t\<lparr>pt_live := L\<rparr>)"
  by (auto simp: follow_child_def seq_def ask_eq ret_def modify_def split: sum.splits)

lemma handle_event:
  assumes "handle os (PtraceEvent pid sig e) (t, w) = (Inr ev, (t', w'))"
  shows "ev = None \<and> (if e = EVENT_EXEC then t' = t\<lparr>pt_inflight := (pt_inflight t)(pid := None)\<rparr>
     else \<exists>L. t' = t\<lparr>pt_live := L\<rparr>)"
  using assms
  by (auto simp: handle_def resume_def seq_Inr gets_def modify_def ret_def sys_Inr
      dest!: follow_child_effect split: if_splits)

lemma handle_stopped:
  assumes "handle os (Stopped pid sig) (t, w) = (Inr ev, (t', w'))"
  shows "(if sig \<in> {SIGSTOP, SIGTRAP} then ev = None \<and> t' = t
     else \<exists>g. ev = Some (SignalEv g sig) \<and> t' = t\<lparr>pt_tgid := (pt_tgid t)(pid \<mapsto> g)\<rparr>)"
  using assms
  by (auto simp: handle_def resume_def seq_Inr ret_def sys_Inr Let_def dest!: tgid_of_Inr split: if_splits)

lemma handle_other:
  "handle os (Continued pid) s = (Inr ev, s') \<Longrightarrow> ev = None \<and> s' = s"
  "handle os StillAlive s = (Inr ev, s') \<Longrightarrow> ev = None \<and> s' = s"
  by (simp_all add: handle_def ret_def)

lemmas handle_effects = handle_exited handle_signaled handle_entry handle_exit handle_event
  handle_stopped handle_other

subsection \<open>Entries and exits\<close>

lemma resume_pending_inflight:
  "resume_pending os s = (r, (t, w)) \<Longrightarrow> pt_inflight t = pt_inflight (fst s)"
  by (cases s) (auto dest: resume_pending_effect)

text \<open>A round changes the entry of no task but the one its status is about.\<close>

lemma pt_step_other:
  assumes "pt_step os s st ev s'" "\<not> touches p st"
  shows "pt_inflight (fst s') p = pt_inflight (fst s) p"
proof -
  from assms(1) obtain t w w' where r: "resume_pending os s = (Inr (), (t, w))"
    and h: "handle os st (t, w') = (Inr ev, s')" by (auto simp: pt_step_def)
  obtain t' w2 where s': "s' = (t', w2)" by (cases s')
  note h = h [unfolded s']
  have "pt_inflight t' p = pt_inflight t p"
  proof (cases st)
    case (PtraceSyscall pid)
    show ?thesis
    proof (cases "pt_inflight t pid")
      case None
      from handle_entry [OF h [unfolded PtraceSyscall] None] assms(2) PtraceSyscall
      show ?thesis by auto
    next
      case (Some i)
      from handle_exit [OF h [unfolded PtraceSyscall] Some] assms(2) PtraceSyscall
      show ?thesis by auto
    qed
  qed (use h assms(2) in \<open>auto simp: forget_def dest!: handle_exited handle_signaled handle_event
      handle_stopped handle_other split: if_splits\<close>)
  then show ?thesis by (simp add: s' resume_pending_inflight [OF r])
qed

lemma pt_trace_other:
  "pt_trace os s tr s' \<Longrightarrow> (\<And>st ev. (st, ev) \<in> set tr \<Longrightarrow> \<not> touches p st) \<Longrightarrow>
     pt_inflight (fst s') p = pt_inflight (fst s) p"
proof (induction rule: pt_trace.induct)
  case (trace_step tr s1 st ev s2)
  have "pt_inflight (fst s2) p = pt_inflight (fst s1) p"
    by (rule pt_step_other [OF trace_step.hyps(2)]) (rule trace_step.prems [of st ev], simp)
  also have "\<dots> = pt_inflight (fst s) p"
  proof (rule trace_step.IH)
    fix st' ev' assume "(st', ev') \<in> set tr"
    then show "\<not> touches p st'" by (intro trace_step.prems [of st' ev']) simp
  qed
  finally show ?case .
qed simp

text \<open>
  Whether a task is inside a call, from the statuses alone: every syscall stop toggles it,
  the end of the task and an exec event reset it.
\<close>

fun inside_after :: "i32 \<Rightarrow> bool \<Rightarrow> wait_status \<Rightarrow> bool" where
  "inside_after p b (PtraceSyscall pid) = (if pid = p then \<not> b else b)"
| "inside_after p b (Exited pid _) = (b \<and> pid \<noteq> p)"
| "inside_after p b (Signaled pid _ _) = (b \<and> pid \<noteq> p)"
| "inside_after p b (PtraceEvent pid _ e) = (b \<and> \<not> (pid = p \<and> e = EVENT_EXEC))"
| "inside_after p b (Stopped _ _) = b"
| "inside_after p b (Continued _) = b"
| "inside_after p b StillAlive = b"

lemma pt_step_inside:
  assumes "pt_step os s st ev s'"
  shows "pt_inflight (fst s') p \<noteq> None \<longleftrightarrow> inside_after p (pt_inflight (fst s) p \<noteq> None) st"
proof (cases "touches p st")
  case False
  with pt_step_other [OF assms False] show ?thesis by (cases st) auto
next
  case True
  from assms obtain t w w' where r: "resume_pending os s = (Inr (), (t, w))"
    and h: "handle os st (t, w') = (Inr ev, s')" by (auto simp: pt_step_def)
  obtain t' w2 where s': "s' = (t', w2)" by (cases s')
  note h = h [unfolded s']
  have "pt_inflight t' p \<noteq> None \<longleftrightarrow> inside_after p (pt_inflight t p \<noteq> None) st"
  proof (cases st)
    case (PtraceSyscall pid)
    then have pid: "pid = p" using True by simp
    show ?thesis
    proof (cases "pt_inflight t pid")
      case None
      from handle_entry [OF h [unfolded PtraceSyscall] None] PtraceSyscall pid None
      show ?thesis by auto
    next
      case (Some i)
      from handle_exit [OF h [unfolded PtraceSyscall] Some] PtraceSyscall pid Some
      show ?thesis by auto
    qed
  qed (use h True in \<open>auto simp: forget_def dest!: handle_exited handle_signaled handle_event
      handle_stopped handle_other split: if_splits\<close>)
  then show ?thesis by (simp add: s' resume_pending_inflight [OF r])
qed

lemma pt_trace_inside:
  "pt_trace os s tr s' \<Longrightarrow>
     pt_inflight (fst s') p \<noteq> None \<longleftrightarrow>
     fold (\<lambda>st b. inside_after p b st) (map fst tr) (pt_inflight (fst s) p \<noteq> None)"
  by (induction rule: pt_trace.induct) (auto simp: pt_step_inside simp del: not_None_eq)

text \<open>The registers a round reads when it stops at a call of \<open>p\<close>.\<close>

definition stop_regs :: "'w ptrace_os \<Rightarrow> i32 \<Rightarrow> ptrace_tracer \<times> 'w \<Rightarrow> i32 + regs" where
  "stop_regs os p s =
     fst (os_getregs os p (snd (os_wait_any os (snd (snd (resume_pending os s))))))"

lemma pt_step_entry:
  assumes "pt_step os s (PtraceSyscall p) ev s'" "pt_inflight (fst s) p = None"
  shows "ev = None \<and> (\<exists>r now. stop_regs os p s = Inr r
    \<and> pt_inflight (fst s') p = Some \<lparr>in_nr = r_orig_rax r,
         in_args = Args (r_rdi r) (r_rsi r) (r_rdx r) (r_r10 r) (r_r8 r) (r_r9 r), in_enter_ns = now\<rparr>)"
proof -
  from assms(1) obtain t w w' where r: "resume_pending os s = (Inr (), (t, w))"
    and wait: "os_wait_any os w = (Inr (PtraceSyscall p), w')"
    and h: "handle os (PtraceSyscall p) (t, w') = (Inr ev, s')" by (auto simp: pt_step_def)
  obtain t' w2 where s': "s' = (t', w2)" by (cases s')
  have "pt_inflight t p = None" using assms(2) resume_pending_inflight [OF r] by simp
  from handle_entry [OF h [unfolded s'] this] show ?thesis
    by (auto simp: stop_regs_def r wait s')
qed

lemma pt_step_exit:
  assumes "pt_step os s (PtraceSyscall p) ev s'" "pt_inflight (fst s) p = Some i"
  shows "\<exists>e r. ev = Some (SyscallEv e) \<and> stop_regs os p s = Inr r \<and> ev_tid e = p \<and> ev_nr e = in_nr i
    \<and> ev_args e = in_args i \<and> ev_ts_enter_ns e = in_enter_ns i \<and> ev_retval e = r_rax r
    \<and> pt_inflight (fst s') p = None \<and> pt_pending (fst s') = Some (p, None)"
proof -
  from assms(1) obtain t w w' where r: "resume_pending os s = (Inr (), (t, w))"
    and wait: "os_wait_any os w = (Inr (PtraceSyscall p), w')"
    and h: "handle os (PtraceSyscall p) (t, w') = (Inr ev, s')" by (auto simp: pt_step_def)
  obtain t' w2 where s': "s' = (t', w2)" by (cases s')
  have "pt_inflight t p = Some i" using assms(2) resume_pending_inflight [OF r] by simp
  from handle_exit [OF h [unfolded s'] this] show ?thesis
    by (auto simp: stop_regs_def r wait s')
qed

subsection \<open>Every stop is answered once\<close>

text \<open>
  The operating system with a log of the resumptions that succeeded, and the resumptions a
  status asks for.
\<close>

definition lift_log :: "('w \<Rightarrow> 'a \<times> 'w) \<Rightarrow> 'w \<times> (i32 \<times> i32 option) list \<Rightarrow> 'a \<times> ('w \<times> (i32 \<times> i32 option) list)" where
  "lift_log f s = (case f (fst s) of (x, w) \<Rightarrow> (x, (w, snd s)))"

definition logged :: "'w ptrace_os \<Rightarrow> ('w \<times> (i32 \<times> i32 option) list) ptrace_os" where
  "logged os =
     \<lparr>os_fork_exec = (\<lambda>p a. lift_log (os_fork_exec os p a)), os_attach = (\<lambda>p. lift_log (os_attach os p)),
      os_waitpid = (\<lambda>p. lift_log (os_waitpid os p)), os_wait_any = lift_log (os_wait_any os),
      os_setoptions = (\<lambda>p l. lift_log (os_setoptions os p l)),
      os_resume = (\<lambda>p sig s. case os_resume os p sig (fst s) of
         (Inl e, w) \<Rightarrow> (Inl e, (w, snd s)) | (Inr u, w) \<Rightarrow> (Inr u, (w, snd s @ [(p, sig)]))),
      os_getregs = (\<lambda>p. lift_log (os_getregs os p)), os_getevent = (\<lambda>p. lift_log (os_getevent os p)),
      os_elapsed_ns = lift_log (os_elapsed_ns os),
      os_proc_status = (\<lambda>p. lift_log (os_proc_status os p))\<rparr>"

fun answers :: "wait_status \<Rightarrow> (i32 \<times> i32 option) list" where
  "answers (PtraceSyscall pid) = [(pid, None)]"
| "answers (PtraceEvent pid _ _) = [(pid, None)]"
| "answers (Stopped pid sig) = [(pid, if sig = SIGSTOP \<or> sig = SIGTRAP then None else Some sig)]"
| "answers (Exited _ _) = []"
| "answers (Signaled _ _ _) = []"
| "answers (Continued _) = []"
| "answers StillAlive = []"

definition pending_list :: "ptrace_tracer \<Rightarrow> (i32 \<times> i32 option) list" where
  "pending_list t = (case pt_pending t of None \<Rightarrow> [] | Some p \<Rightarrow> [p])"

definition answered :: "ptrace_tracer \<times> ('w \<times> (i32 \<times> i32 option) list) \<Rightarrow> (i32 \<times> i32 option) list" where
  "answered s = snd (snd s) @ pending_list (fst s)"

lemma lift_log_eq: "lift_log f s = (r, s') \<longleftrightarrow> (\<exists>w. f (fst s) = (r, w) \<and> s' = (w, snd s))"
  by (auto simp: lift_log_def split: prod.split)

lemma resume_logged:
  "resume (logged os) p sig (t, (w, l)) = (Inr u, s') \<longleftrightarrow>
     (\<exists>w'. os_resume os p sig w = (Inr u, w') \<and> s' = (t, (w', l @ [(p, sig)])))"
  by (auto simp: resume_def sys_def logged_def split: prod.splits sum.splits)

lemma resume_pending_answered:
  assumes "resume_pending (logged os) s = (Inr (), s')"
  shows "answered s' = answered s \<and> pt_pending (fst s') = None"
proof -
  obtain t w l where s: "s = (t, (w, l))" by (metis prod.exhaust)
  show ?thesis
  proof (cases "pt_pending t")
    case None
    with assms show ?thesis
      by (auto simp: s resume_pending_def op_defs answered_def pending_list_def)
  next
    case (Some p)
    then obtain pid sig where p: "pt_pending t = Some (pid, sig)" by (cases p) auto
    with assms have "resume (logged os) pid sig (t\<lparr>pt_pending := None\<rparr>, (w, l)) = (Inr (), s')"
      by (simp add: s resume_pending_def seq_def gets_def modify_def)
    then show ?thesis
      by (auto simp: s p resume_logged answered_def pending_list_def)
  qed
qed

text \<open>The calls that are not resumptions leave the log alone.\<close>

lemma ask_logged: "ask (lift_log g) (t, (w, l)) = (Inr (fst (g w)), (t, (snd (g w), l)))"
  by (simp add: ask_def lift_log_def split: prod.split)

lemma logged_sel [simp]:
  "os_wait_any (logged os) = lift_log (os_wait_any os)"
  "os_getregs (logged os) p = lift_log (os_getregs os p)"
  "os_getevent (logged os) p = lift_log (os_getevent os p)"
  "os_elapsed_ns (logged os) = lift_log (os_elapsed_ns os)"
  "os_proc_status (logged os) p = lift_log (os_proc_status os p)"
  by (simp_all add: logged_def)

lemma tgid_of_logged:
  assumes "tgid_of (logged os) pid (t, (w, l)) = (r, s')"
  shows "\<exists>g w'. r = Inr g \<and> s' = (t\<lparr>pt_tgid := (pt_tgid t)(pid \<mapsto> g)\<rparr>, (w', l))"
proof (cases "pt_tgid t pid")
  case (Some g)
  then have "(pt_tgid t)(pid \<mapsto> g) = pt_tgid t" by (simp add: fun_upd_idem)
  then show ?thesis using Some assms by (auto simp: tgid_of_def op_defs)
next
  case None
  then show ?thesis using assms
    by (auto simp: tgid_of_def read_tgid_def seq_def ask_logged ret_def gets_def modify_def Let_def)
qed

lemma now_logged: "now_ns (logged os) (t, (w, l)) = (Inr (of_nat (fst (os_elapsed_ns os w))), (t, (snd (os_elapsed_ns os w), l)))"
  by (simp add: now_ns_def seq_def ask_logged ret_def)

lemma sys_logged_Inr:
  "sys (lift_log g) (t, (w, l)) = (Inr x, s') \<longleftrightarrow> (\<exists>w'. g w = (Inr x, w') \<and> s' = (t, (w', l)))"
  by (auto simp: sys_def lift_log_def split: prod.splits sum.splits)

lemma follow_child_logged:
  assumes "follow_child (logged os) pid (t, (w, l)) = (r, s')"
  shows "\<exists>L w'. s' = (t\<lparr>pt_live := L\<rparr>, (w', l))"
  using assms
  by (cases "fst (os_getevent os pid w)")
    (auto simp: follow_child_def seq_def ask_logged ret_def modify_def)

lemma handle_answered:
  assumes "handle (logged os) st s = (Inr ev, s')" "pt_pending (fst s) = None"
  shows "answered s' = answered s @ answers st"
proof -
  obtain t w l where s: "s = (t, (w, l))" by (metis prod.exhaust)
  note h = assms(1) [unfolded s]
  have none: "pt_pending t = None" using assms(2) s by simp
  note defs = seq_Inr gets_def modify_def ret_def resume_logged answered_def pending_list_def s none
  show ?thesis
  proof (cases st)
    case (Exited pid code)
    with h show ?thesis
      by (auto simp: handle_def defs forget_def dest!: tgid_of_logged)
  next
    case (Signaled pid sig core)
    with h show ?thesis
      by (auto simp: handle_def defs forget_def dest!: tgid_of_logged)
  next
    case (Stopped pid sig)
    with h show ?thesis
      by (auto simp: handle_def defs Let_def dest!: tgid_of_logged split: if_splits)
  next
    case (PtraceEvent pid sig e)
    with h show ?thesis
      by (auto simp: handle_def defs dest!: follow_child_logged split: if_splits)
  next
    case (PtraceSyscall pid)
    with h have h: "on_syscall_stop (logged os) pid (t, (w, l)) = (Inr ev, s')"
      by (simp add: handle_def)
    show ?thesis
    proof (cases "pt_inflight t pid")
      case None
      with h PtraceSyscall show ?thesis
        by (auto simp: on_syscall_stop_def defs sys_logged_Inr now_logged)
    next
      case (Some i)
      with h PtraceSyscall show ?thesis
        by (auto simp: on_syscall_stop_def defs sys_logged_Inr now_logged dest!: tgid_of_logged)
    qed
  qed (use h in \<open>auto simp: handle_def defs\<close>)
qed

lemma pt_step_answered:
  assumes "pt_step (logged os) s st ev s'"
  shows "answered s' = answered s @ answers st"
proof -
  from assms obtain t w w' where r: "resume_pending (logged os) s = (Inr (), (t, w))"
    and wait: "os_wait_any (logged os) w = (Inr st, w')"
    and h: "handle (logged os) st (t, w') = (Inr ev, s')" unfolding pt_step_def by blast
  from resume_pending_answered [OF r] have a: "answered (t, w) = answered s"
    and n: "pt_pending (fst (t, w')) = None" by simp_all
  from wait have "snd w' = snd w" by (auto simp: lift_log_def split: prod.splits)
  then have "answered (t, w') = answered (t, w)" by (simp add: answered_def)
  with handle_answered [OF h n] a show ?thesis by simp
qed

lemma pt_trace_answered:
  "pt_trace (logged os) s tr s' \<Longrightarrow> answered s' = answered s @ concat (map answers (map fst tr))"
  by (induction rule: pt_trace.induct) (simp_all add: pt_step_answered)

subsection \<open>The loop follows the steps\<close>

lemma pt_round_step:
  assumes "pt_round os s = (Inr r, s')"
  shows "(r = Inl None \<and> (pt_live (fst s') = {} \<or> (\<exists>w. fst (os_wait_any os w) = Inl ECHILD)))
    \<or> (\<exists>st ev. pt_step os s st ev s' \<and> r = (case ev of Some e \<Rightarrow> Inl (Some e) | None \<Rightarrow> Inr ()))"
proof -
  from assms obtain t w where r: "resume_pending os s = (Inr (), (t, w))"
    and rest: "seq (gets pt_live) (\<lambda>live.
     if live = {} then ret (Inl None)
     else seq (ask (os_wait_any os)) (\<lambda>r.
       case r of
         Inr status \<Rightarrow> seq (handle os status) (\<lambda>ev.
           ret (case ev of Some e \<Rightarrow> Inl (Some e) | None \<Rightarrow> Inr ()))
       | Inl e \<Rightarrow> if e = ECHILD then ret (Inl None) else fail (Os e))) (t, w) = (Inr r, s')"
    by (auto simp: pt_round_def seq_Inr)
  show ?thesis
  proof (cases "pt_live t = {}")
    case True
    with rest show ?thesis by (auto simp: seq_def gets_def ret_def)
  next
    case False
    obtain a w' where wait: "os_wait_any os w = (a, w')" by fastforce
    show ?thesis
    proof (cases a)
      case (Inl e)
      with False rest wait show ?thesis
        by (auto simp: seq_def gets_def ret_def ask_def fail_def split: if_splits intro!: exI [of _ w])
    next
      case (Inr st)
      with False rest wait
      have "seq (handle os st) (\<lambda>ev. ret (case ev of Some e \<Rightarrow> Inl (Some e) | None \<Rightarrow> Inr ())) (t, w') = (Inr r, s')"
        by (simp add: seq_def gets_def ask_def)
      then obtain ev where "handle os st (t, w') = (Inr ev, s')"
        and "r = (case ev of Some e \<Rightarrow> Inl (Some e) | None \<Rightarrow> Inr ())"
        by (auto simp: seq_Inr ret_def)
      with False r wait Inr show ?thesis unfolding pt_step_def by blast
    qed
  qed
qed

lemma pt_trace_append:
  "pt_trace os s1 tr2 s2 \<Longrightarrow> pt_trace os s tr1 s1 \<Longrightarrow> pt_trace os s (tr1 @ tr2) s2"
  by (induction rule: pt_trace.induct) (auto simp flip: append_assoc)

text \<open>What a call of \<open>pt_next_event\<close> that returns an event did: rounds without one, then its own.\<close>

lemma pt_next_event_rounds:
  assumes "pt_next_event os s = Some (Inr (Some e), s')"
  shows "\<exists>tr st. pt_trace os s (tr @ [(st, Some e)]) s' \<and> (\<forall>x\<in>set tr. snd x = None)"
proof -
  have "\<forall>e s'. y = (Inr (Some e), s') \<longrightarrow>
    (\<exists>tr st. pt_trace os s (tr @ [(st, Some e)]) s' \<and> (\<forall>x\<in>set tr. snd x = None))"
    if "pt_next_event os s = Some y" for y
    using that
  proof (induction rule: pt_next_event.raw_induct [rotated, consumes 1, case_names loop])
    case (loop loop os s y)
    note IH = loop(1) and body = loop(2)
    show ?case
    proof (intro allI impI)
      fix e s'
      assume y: "y = (Inr (Some e), s')"
      obtain a s1 where round: "pt_round os s = (a, s1)" by (cases "pt_round os s") blast
      with body y obtain r where a: "a = Inr r" by (cases a) auto
      from pt_round_step [OF round [unfolded a]]
      show "\<exists>tr st. pt_trace os s (tr @ [(st, Some e)]) s' \<and> (\<forall>x\<in>set tr. snd x = None)"
      proof (elim disjE conjE exE)
        assume "r = Inl None"
        with body y round a show ?thesis by auto
      next
        assume "r = Inl None"
        with body y round a show ?thesis by auto
      next
        fix st ev
        assume step: "pt_step os s st ev s1"
          and r: "r = (case ev of Some e \<Rightarrow> Inl (Some e) | None \<Rightarrow> Inr ())"
        show ?thesis
        proof (cases ev)
          case (Some e')
          with body y round a r have eq: "e' = e" "s1 = s'" by auto
          from trace_step [OF trace_start step] Some show ?thesis
            by (intro exI [of _ "[]"] exI [of _ st]) (simp add: eq)
        next
          case None
          with body y round a r have "loop os s1 = Some (Inr (Some e), s')" by auto
          with IH obtain tr st2 where "pt_trace os s1 (tr @ [(st2, Some e)]) s'"
            and none: "\<forall>x\<in>set tr. snd x = None" by blast
          from pt_trace_append [OF this(1) trace_step [OF trace_start step]] none None
          show ?thesis by (intro exI [of _ "(st, None) # tr"] exI [of _ st2]) simp
        qed
      qed
    qed
  qed
  with assms show ?thesis by blast
qed

text \<open>A session: the events successive calls of \<open>pt_next_event\<close> return.\<close>

fun pt_returns ::
    "'w ptrace_os \<Rightarrow> ptrace_tracer \<times> 'w \<Rightarrow> event list \<Rightarrow> ptrace_tracer \<times> 'w \<Rightarrow> bool" where
  "pt_returns os s [] s' \<longleftrightarrow> s' = s"
| "pt_returns os s (e # es) s' \<longleftrightarrow>
     (\<exists>s1. pt_next_event os s = Some (Inr (Some e), s1) \<and> pt_returns os s1 es s')"

text \<open>The events of a trace, in order.\<close>

definition trace_events :: "(wait_status \<times> event option) list \<Rightarrow> event list" where
  "trace_events tr = concat (map (\<lambda>x. case snd x of None \<Rightarrow> [] | Some e \<Rightarrow> [e]) tr)"

lemma trace_events_append [simp]: "trace_events (a @ b) = trace_events a @ trace_events b"
  by (simp add: trace_events_def)

lemma trace_events_silent: "\<forall>x\<in>set tr. snd x = None \<Longrightarrow> trace_events tr = []"
  by (induction tr) (auto simp: trace_events_def)

lemma pt_returns_trace:
  "pt_returns os s es s' \<Longrightarrow> \<exists>tr. pt_trace os s tr s' \<and> trace_events tr = es"
proof (induction es arbitrary: s)
  case Nil
  then show ?case using trace_start by (fastforce simp: trace_events_def)
next
  case (Cons e es)
  then obtain s1 where "pt_next_event os s = Some (Inr (Some e), s1)" and "pt_returns os s1 es s'"
    by auto
  moreover from pt_next_event_rounds [OF this(1)] obtain tr st
    where a: "pt_trace os s (tr @ [(st, Some e)]) s1" and n: "\<forall>x\<in>set tr. snd x = None" by blast
  ultimately obtain tr2 where b: "pt_trace os s1 tr2 s'" "trace_events tr2 = es" using Cons.IH by blast
  from pt_trace_append [OF b(1) a] b(2) trace_events_silent [OF n] show ?case
    by (intro exI [of _ "(tr @ [(st, Some e)]) @ tr2"]) (simp add: trace_events_def)
qed

subsection \<open>The loop ends when the statuses do\<close>

text \<open>
  A measure of the world that every status collected by \<^verbatim>\<open>waitpid\<close> uses up and no other
  call increases: the statuses still to come.
\<close>

definition quiet :: "('w \<Rightarrow> nat) \<Rightarrow> ('w \<Rightarrow> 'a \<times> 'w) \<Rightarrow> bool" where
  "quiet \<mu> f \<longleftrightarrow> (\<forall>w. \<mu> (snd (f w)) \<le> \<mu> w)"

definition runs_down :: "'w ptrace_os \<Rightarrow> ('w \<Rightarrow> nat) \<Rightarrow> bool" where
  "runs_down os \<mu> \<longleftrightarrow>
     (\<forall>w st w'. os_wait_any os w = (Inr st, w') \<longrightarrow> \<mu> w' < \<mu> w)
     \<and> (\<forall>w e w'. os_wait_any os w = (Inl e, w') \<longrightarrow> \<mu> w' \<le> \<mu> w)
     \<and> (\<forall>p sig. quiet \<mu> (os_resume os p sig)) \<and> (\<forall>p. quiet \<mu> (os_getregs os p))
     \<and> (\<forall>p. quiet \<mu> (os_getevent os p)) \<and> quiet \<mu> (os_elapsed_ns os)
     \<and> (\<forall>p. quiet \<mu> (os_proc_status os p))"

definition down :: "('w \<Rightarrow> nat) \<Rightarrow> ('t \<times> 'w, 'a) op \<Rightarrow> bool" where
  "down \<mu> m \<longleftrightarrow> (\<forall>s. \<mu> (snd (snd (m s))) \<le> \<mu> (snd s))"

lemma down_basic [intro!]:
  "down \<mu> (ret x)" "down \<mu> (fail e)" "down \<mu> (gets f)" "down \<mu> (modify g)"
  by (simp_all add: down_def op_defs)

lemma downD: "down \<mu> m \<Longrightarrow> m s = (r, s') \<Longrightarrow> \<mu> (snd s') \<le> \<mu> (snd s)"
  unfolding down_def by (metis snd_conv)

lemma quietD: "quiet \<mu> f \<Longrightarrow> f w = (r, w') \<Longrightarrow> \<mu> w' \<le> \<mu> w"
  unfolding quiet_def by (metis snd_conv)

lemma down_sys [intro!]: "quiet \<mu> f \<Longrightarrow> down \<mu> (sys f)"
  by (auto simp: down_def sys_def dest: quietD split: prod.split sum.split)

lemma down_ask [intro!]: "quiet \<mu> f \<Longrightarrow> down \<mu> (ask f)"
  by (auto simp: down_def ask_def dest: quietD split: prod.split)

lemma down_seq [intro!]:
  assumes "down \<mu> m" "\<And>x. down \<mu> (k x)"
  shows "down \<mu> (seq m k)"
  unfolding down_def
proof
  fix s
  obtain r s1 where m: "m s = (r, s1)" by (cases "m s") blast
  show "\<mu> (snd (snd (seq m k s))) \<le> \<mu> (snd s)"
  proof (cases r)
    case (Inr x)
    have "\<mu> (snd (snd (k x s1))) \<le> \<mu> (snd s1)" using assms(2) by (simp only: down_def)
    with downD [OF assms(1) m] m Inr show ?thesis by (simp add: seq_def)
  qed (use downD [OF assms(1) m] m in \<open>simp add: seq_def\<close>)
qed

lemma runs_downD [simp]:
  assumes "runs_down os \<mu>"
  shows "quiet \<mu> (os_resume os p sig)" "quiet \<mu> (os_getregs os p)" "quiet \<mu> (os_getevent os p)"
    "quiet \<mu> (os_elapsed_ns os)" "quiet \<mu> (os_proc_status os p)"
  using assms by (auto simp: runs_down_def)

lemma down_tgid_of: "runs_down os \<mu> \<Longrightarrow> down \<mu> (tgid_of os pid)"
  by (auto simp: tgid_of_def read_tgid_def Let_def split: option.split)

lemma down_handle: "runs_down os \<mu> \<Longrightarrow> down \<mu> (handle os st)"
  by (auto simp: handle_def on_syscall_stop_def follow_child_def resume_def now_ns_def Let_def
      intro!: down_tgid_of split: wait_status.split option.split sum.split)

lemma down_resume_pending: "runs_down os \<mu> \<Longrightarrow> down \<mu> (resume_pending os)"
  by (auto simp: resume_pending_def resume_def split: option.split)

lemma pt_step_down:
  assumes "runs_down os \<mu>" "pt_step os s st ev s'"
  shows "\<mu> (snd s') < \<mu> (snd s)"
proof -
  from assms(2) obtain t w w' where r: "resume_pending os s = (Inr (), (t, w))"
    and wait: "os_wait_any os w = (Inr st, w')" and h: "handle os st (t, w') = (Inr ev, s')"
    unfolding pt_step_def by blast
  have "\<mu> (snd s') \<le> \<mu> w'" using downD [OF down_handle [OF assms(1)] h] by simp
  also have "\<mu> w' < \<mu> w" using assms(1) wait unfolding runs_down_def by blast
  also have "\<mu> w \<le> \<mu> (snd s)" using downD [OF down_resume_pending [OF assms(1)] r] by simp
  finally show ?thesis .
qed

lemma pt_trace_down:
  "pt_trace os s tr s' \<Longrightarrow> runs_down os \<mu> \<Longrightarrow> length tr + \<mu> (snd s') \<le> \<mu> (snd s)"
  by (induction rule: pt_trace.induct) (auto dest!: pt_step_down)

lemma pt_next_event_total:
  assumes "runs_down os \<mu>"
  shows "\<exists>r s'. pt_next_event os s = Some (r, s')"
proof (induction "\<mu> (snd s)" arbitrary: s rule: less_induct)
  case less
  obtain a s1 where round: "pt_round os s = (a, s1)" by (cases "pt_round os s") blast
  show ?case
  proof (cases "a = Inr (Inr ())")
    case True
    from pt_round_step [OF round [unfolded True]] obtain st ev where "pt_step os s st ev s1"
      by (auto split: option.splits)
    from less [OF pt_step_down [OF assms this]] round True show ?thesis
      by (simp add: pt_next_event.simps [of os s])
  next
    case False
    with round show ?thesis
      by (auto simp: pt_next_event.simps [of os s] split: sum.split)
  qed
qed

lemma trace_events_length: "length (trace_events tr) \<le> length tr"
  by (induction tr) (auto simp: trace_events_def split: option.split)

subsection \<open>A scripted operating system\<close>

text \<open>
  A concrete operating system to run the tracer on: the statuses to come with the registers
  of each stop, a clock that ticks at every reading, one process 7.
\<close>

record script =
  sc_next :: "(wait_status \<times> regs) list"
  sc_regs :: regs
  sc_clock :: nat

definition scripted :: "script ptrace_os" where
  "scripted =
     \<lparr>os_fork_exec = (\<lambda>_ _ w. (Inr 7, w)), os_attach = (\<lambda>_ w. (Inr (), w)),
      os_waitpid = (\<lambda>p w. (Inr (Stopped p SIGTRAP), w)),
      os_wait_any = (\<lambda>w. case sc_next w of
         [] \<Rightarrow> (Inl ECHILD, w) | (st, r) # rest \<Rightarrow> (Inr st, w\<lparr>sc_next := rest, sc_regs := r\<rparr>)),
      os_setoptions = (\<lambda>_ _ w. (Inr (), w)), os_resume = (\<lambda>_ _ w. (Inr (), w)),
      os_getregs = (\<lambda>_ w. (Inr (sc_regs w), w)), os_getevent = (\<lambda>_ w. (Inr 8, w)),
      os_elapsed_ns = (\<lambda>w. (sc_clock w, w\<lparr>sc_clock := sc_clock w + 10\<rparr>)),
      os_proc_status = (\<lambda>_ w. (Some ''Tgid: 7'', w))\<rparr>"

definition no_regs :: regs where
  "no_regs = \<lparr>r_orig_rax = 0, r_rax = 0, r_rdi = 0, r_rsi = 0, r_rdx = 0, r_r10 = 0, r_r8 = 0, r_r9 = 0\<rparr>"

definition script_of :: "(wait_status \<times> regs) list \<Rightarrow> script" where
  "script_of l = \<lparr>sc_next = l, sc_regs = no_regs, sc_clock = 100\<rparr>"

definition tracing :: "ptrace_tracer" where
  "tracing = (pt_empty \<lparr>follow_forks = True\<rparr>)\<lparr>pt_live := {7}, pt_tgid := [7 \<mapsto> 7], pt_leader := Some 7\<rparr>"

lemma scripted_runs_down: "runs_down scripted (\<lambda>w. length (sc_next w))"
  by (auto simp: runs_down_def quiet_def scripted_def split: list.splits prod.splits)

text \<open>One round as a function.\<close>

definition pt_do ::
    "'w ptrace_os \<Rightarrow> ptrace_tracer \<times> 'w \<Rightarrow> (wait_status \<times> event option \<times> (ptrace_tracer \<times> 'w)) option" where
  "pt_do os s =
     (case resume_pending os s of
        (Inl _, _) \<Rightarrow> None
      | (Inr _, s1) \<Rightarrow>
          if pt_live (fst s1) = {} then None
          else case os_wait_any os (snd s1) of
            (Inl _, _) \<Rightarrow> None
          | (Inr st, w') \<Rightarrow> (case handle os st (fst s1, w') of
              (Inl _, _) \<Rightarrow> None | (Inr ev, s') \<Rightarrow> Some (st, ev, s')))"

lemma pt_step_code: "pt_step os s st ev s' \<longleftrightarrow> pt_do os s = Some (st, ev, s')"
  unfolding pt_step_def pt_do_def by (auto split: prod.splits sum.splits)

text \<open>The state after a round, and after several.\<close>

fun after_rounds :: "nat \<Rightarrow> 'w ptrace_os \<Rightarrow> ptrace_tracer \<times> 'w \<Rightarrow> ptrace_tracer \<times> 'w" where
  "after_rounds 0 os s = s"
| "after_rounds (Suc n) os s = (case pt_do os s of None \<Rightarrow> s | Some (_, _, s') \<Rightarrow> after_rounds n os s')"

declare scripted_def [exec] no_regs_def [exec] script_of_def [exec] tracing_def [exec]
  pt_do_def [exec] lift_log_def [exec] logged_def [exec]

lemma after_rounds_numeral [simp]:
  "after_rounds (numeral k) os s =
     (case pt_do os s of None \<Rightarrow> s | Some (_, _, s') \<Rightarrow> after_rounds (pred_numeral k) os s')"
  by (simp add: numeral_eq_Suc)

lemma pt_trace_Cons:
  "pt_trace os s (x # tr) s' \<longleftrightarrow> (\<exists>s1. pt_step os s (fst x) (snd x) s1 \<and> pt_trace os s1 tr s')"
proof
  show "pt_trace os s (x # tr) s' \<Longrightarrow> \<exists>s1. pt_step os s (fst x) (snd x) s1 \<and> pt_trace os s1 tr s'"
  proof (induction tr arbitrary: s' rule: rev_induct)
    case Nil
    then have "pt_trace os s ([] @ [x]) s'" by simp
    then obtain s1 st ev where "x = (st, ev)" "pt_trace os s [] s1" "pt_step os s1 st ev s'"
      by (rule pt_trace_snoc)
    moreover from this(2) have "s1 = s" by (rule pt_trace_Nil)
    ultimately show ?case using trace_start by (intro exI [of _ s']) simp
  next
    case (snoc y tr)
    then have "pt_trace os s ((x # tr) @ [y]) s'" by simp
    then obtain s2 st ev where y: "y = (st, ev)" and init: "pt_trace os s (x # tr) s2"
      and last: "pt_step os s2 st ev s'"
      by (rule pt_trace_snoc)
    from snoc.IH [OF init] obtain s1 where "pt_step os s (fst x) (snd x) s1" "pt_trace os s1 tr s2"
      by blast
    with trace_step [OF this(2) last] y show ?case by blast
  qed
next
  assume "\<exists>s1. pt_step os s (fst x) (snd x) s1 \<and> pt_trace os s1 tr s'"
  then obtain s1 where a: "pt_step os s (fst x) (snd x) s1" and b: "pt_trace os s1 tr s'" by blast
  from pt_trace_append [OF b trace_step [OF trace_start a]] show "pt_trace os s (x # tr) s'" by simp
qed

inductive_simps pt_trace_Nil_iff [simp]: "pt_trace os s [] s'"

text \<open>A round that resumes, waits and handles without a call of interest reads no status.\<close>

lemma pt_step_silent_event:
  "pt_step os s (PtraceEvent p sig e) ev s' \<Longrightarrow> ev = None"
  unfolding pt_step_def by (cases s') (auto dest!: handle_event)

lemma find_prefix_append:
  "\<forall>l\<in>set pre. \<not> P l \<Longrightarrow> P x \<Longrightarrow> List.find P (pre @ x # post) = Some x"
  by (induction pre) auto

lemma trim_tab_dec: "trim (CHR 0x09 # dec n) = dec n"
proof -
  have "trim (CHR 0x09 # dec n) = trim (dec n)"
    by (simp add: trim_def is_ws_def whitespace_def)
  moreover have "\<not> is_ws c" if "c \<in> set (dec n)" for c
    using that set_dec [of n] by (auto simp: is_ws_def whitespace_def)
  ultimately show ?thesis using trim_noop [of "dec n"] by simp
qed

subsection \<open>The contract of a tracer\<close>

text \<open>While statuses run down, the backend fulfils the contract of a tracer that ends.\<close>

interpretation pt: finite_tracer "pt_next_event os" "\<lambda>s. runs_down os \<mu>" "\<lambda>s. \<mu> (snd s)" for os \<mu>
proof
  fix s e s'
  assume run: "runs_down os \<mu>"
  show "pt_next_event os s \<noteq> None" using pt_next_event_total [OF run, of s] by auto
  assume "pt_next_event os s = Some (Inr (Some e), s')"
  from pt_next_event_rounds [OF this] obtain tr st where "pt_trace os s (tr @ [(st, Some e)]) s'" by blast
  from pt_trace_down [OF this run] run show "runs_down os \<mu> \<and> \<mu> (snd s') < \<mu> (snd s)" by simp
qed

text \<open>A call, from entry to exit.\<close>

lemma pt_pairing:
  assumes "pt_step os s0 (PtraceSyscall p) ev0 s1" "pt_inflight (fst s0) p = None"
    and "pt_trace os s1 tr s2" "\<forall>x\<in>set tr. \<not> touches p (fst x)"
    and "pt_step os s2 (PtraceSyscall p) ev s3"
  shows "ev0 = None \<and> (\<exists>e r0 r. ev = Some (SyscallEv e)
     \<and> stop_regs os p s0 = Inr r0 \<and> stop_regs os p s2 = Inr r
     \<and> ev_tid e = p \<and> ev_nr e = r_orig_rax r0
     \<and> ev_args e = Args (r_rdi r0) (r_rsi r0) (r_rdx r0) (r_r10 r0) (r_r8 r0) (r_r9 r0)
     \<and> ev_retval e = r_rax r) \<and> pt_inflight (fst s3) p = None"
proof -
  from pt_step_entry [OF assms(1,2)] obtain r0 now where none: "ev0 = None"
    and r0: "stop_regs os p s0 = Inr r0"
    and i: "pt_inflight (fst s1) p = Some \<lparr>in_nr = r_orig_rax r0, in_args =
      Args (r_rdi r0) (r_rsi r0) (r_rdx r0) (r_r10 r0) (r_r8 r0) (r_r9 r0), in_enter_ns = now\<rparr>"
    by blast
  have "pt_inflight (fst s2) p = pt_inflight (fst s1) p"
    by (rule pt_trace_other [OF assms(3)]) (use assms(4) in force)
  with i have "pt_inflight (fst s2) p = Some \<lparr>in_nr = r_orig_rax r0, in_args =
      Args (r_rdi r0) (r_rsi r0) (r_rdx r0) (r_r10 r0) (r_r8 r0) (r_r9 r0), in_enter_ns = now\<rparr>"
    by simp
  from pt_step_exit [OF assms(5) this] none r0 show ?thesis by auto
qed

subsection \<open>What each status becomes\<close>

text \<open>The world a round handles its status in, and the thread group a task is reported as.\<close>

definition stop_world :: "'w ptrace_os \<Rightarrow> ptrace_tracer \<times> 'w \<Rightarrow> 'w" where
  "stop_world os s = snd (os_wait_any os (snd (snd (resume_pending os s))))"

definition group_of :: "'w ptrace_os \<Rightarrow> ptrace_tracer \<Rightarrow> i32 \<Rightarrow> 'w \<Rightarrow> u32" where
  "group_of os t p w =
     (case pt_tgid t p of
        Some g \<Rightarrow> g
      | None \<Rightarrow> (case Option.bind (fst (os_proc_status os p w)) find_tgid of Some g \<Rightarrow> g | None \<Rightarrow> p))"

lemma tgid_of_group:
  assumes "tgid_of os p (t, w) = (r, s')"
  shows "r = Inr (group_of os t p w) \<and> fst s' = t\<lparr>pt_tgid := (pt_tgid t)(p \<mapsto> group_of os t p w)\<rparr>"
proof (cases "pt_tgid t p")
  case (Some g)
  then have "(pt_tgid t)(p \<mapsto> g) = pt_tgid t" by (simp add: fun_upd_idem)
  then show ?thesis using Some assms by (auto simp: tgid_of_def group_of_def op_defs)
next
  case None
  then show ?thesis using assms
    by (auto simp: tgid_of_def read_tgid_def group_of_def op_defs Let_def split: prod.splits option.splits)
qed

lemma handle_end_group:
  "handle os (Exited p code) (t, w) = (Inr ev, s') \<Longrightarrow>
     ev = Some (ProcessExit (group_of os t p w) code) \<and> pt_live (fst s') = pt_live t - {p}
     \<and> pt_inflight (fst s') p = None \<and> pt_tgid (fst s') p = None"
  "handle os (Signaled p sig core) (t, w) = (Inr ev, s') \<Longrightarrow>
     ev = Some (ProcessExit (group_of os t p w) (128 + sig)) \<and> pt_live (fst s') = pt_live t - {p}
     \<and> pt_inflight (fst s') p = None \<and> pt_tgid (fst s') p = None"
  by (auto simp: handle_def seq_Inr modify_def ret_def forget_def dest!: tgid_of_group)

lemma handle_signal_group:
  assumes "handle os (Stopped p sig) (t, w) = (Inr ev, s')" "sig \<noteq> SIGSTOP" "sig \<noteq> SIGTRAP"
  shows "ev = Some (SignalEv (group_of os t p (snd (os_resume os p (Some sig) w))) sig)"
  using assms by (auto simp: handle_def resume_def seq_Inr ret_def sys_Inr Let_def dest!: tgid_of_group)

lemma handle_call_group:
  assumes "handle os (PtraceSyscall p) (t, w) = (Inr ev, s')" "pt_inflight t p = Some i"
  shows "\<exists>r. fst (os_getregs os p w) = Inr r \<and> pt_inflight (fst s') p = None
    \<and> (let (now, w2) = os_elapsed_ns os (snd (os_getregs os p w)) in
       ev = Some (SyscallEv \<lparr>ev_pid = group_of os t p w2, ev_tid = p, ev_nr = in_nr i, ev_args = in_args i,
         ev_retval = r_rax r, ev_ts_enter_ns = in_enter_ns i, ev_duration_ns = saturating_sub (of_nat now) (in_enter_ns i)\<rparr>))"
  using assms
  by (auto simp: handle_def on_syscall_stop_def seq_Inr gets_def modify_def ret_def group_of_def
      sys_Inr now_ns_eq dest!: tgid_of_group split: prod.split)

lemma handle_entry_now:
  assumes "handle os (PtraceSyscall p) (t, w) = (Inr ev, s')" "pt_inflight t p = None"
  shows "\<exists>r. fst (os_getregs os p w) = Inr r \<and> ev = None
    \<and> pt_inflight (fst s') p = Some \<lparr>in_nr = r_orig_rax r, in_args = Args (r_rdi r) (r_rsi r) (r_rdx r) (r_r10 r) (r_r8 r) (r_r9 r),
        in_enter_ns = of_nat (fst (os_elapsed_ns os (snd (os_getregs os p w))))\<rparr>"
  using assms
  by (auto simp: handle_def on_syscall_stop_def resume_def seq_Inr gets_def modify_def ret_def
      sys_Inr now_ns_eq)

subsection \<open>Properties\<close>

text \<open>
  C6. Over any session, the resumptions performed together with the one still owed are those
  of before followed by exactly one for each stop collected, in order: without a signal for
  syscall stops, ptrace events, SIGSTOP and SIGTRAP, with the signal for any other.  No task
  is left stopped and none is resumed twice.
\<close>

theorem every_stop_answered:
  assumes "pt_returns (logged os) s es s'"
  shows "\<exists>tr. pt_trace (logged os) s tr s' \<and> trace_events tr = es
    \<and> answered s' = answered s @ concat (map answers (map fst tr))"
  using pt_returns_trace [OF assms] pt_trace_answered by blast

theorem every_stop_answered_witness:
  "\<exists>tr. pt_trace (logged scripted) (tracing, (script_of [(Stopped 7 10, no_regs)], [])) tr
     (tracing, (script_of [], [(7, Some 10)])) \<and> trace_events tr = [SignalEv 7 10]"
proof -
  have "pt_returns (logged scripted) (tracing, (script_of [(Stopped 7 10, no_regs)], []))
     [SignalEv 7 10] (tracing, (script_of [], [(7, Some 10)]))"
    by (simp add: exec pt_next_event.simps)
  from every_stop_answered [OF this] show ?thesis by blast
qed

text \<open>
  C25. What each status becomes.  An exit or a fatal signal is a process exit (128 plus the
  signal) and the task is forgotten; a signal stop is a signal event unless the signal is
  SIGSTOP or SIGTRAP, whoever sent it; ptrace events are silent, and an exec event drops an open
  call.  A syscall stop of a task outside a call opens one, with the registers and the time of
  the stop, and is silent; the next one closes it and is the event of that call.  The process
  reported is the thread group known of the task, else the one its status file names, else the
  task itself.  The open calls of other tasks stay as they are.
\<close>

theorem status_events:
  assumes "pt_step os s st ev s'"
  shows "(case st of
      Exited p code \<Rightarrow> ev = Some (ProcessExit (group_of os (fst s) p (stop_world os s)) code)
        \<and> pt_live (fst s') = pt_live (fst s) - {p} \<and> pt_inflight (fst s') p = None \<and> pt_tgid (fst s') p = None
    | Signaled p sig _ \<Rightarrow> ev = Some (ProcessExit (group_of os (fst s) p (stop_world os s)) (128 + sig))
        \<and> pt_live (fst s') = pt_live (fst s) - {p} \<and> pt_inflight (fst s') p = None \<and> pt_tgid (fst s') p = None
    | Stopped p sig \<Rightarrow> ev = (if sig = SIGSTOP \<or> sig = SIGTRAP then None
        else Some (SignalEv (group_of os (fst s) p (snd (os_resume os p (Some sig) (stop_world os s)))) sig))
    | PtraceSyscall p \<Rightarrow> \<exists>r. fst (os_getregs os p (stop_world os s)) = Inr r
        \<and> (let (now, w2) = os_elapsed_ns os (snd (os_getregs os p (stop_world os s))) in
           case pt_inflight (fst s) p of
             None \<Rightarrow> ev = None \<and> pt_inflight (fst s') p = Some \<lparr>in_nr = r_orig_rax r,
               in_args = Args (r_rdi r) (r_rsi r) (r_rdx r) (r_r10 r) (r_r8 r) (r_r9 r), in_enter_ns = of_nat now\<rparr>
           | Some i \<Rightarrow> ev = Some (SyscallEv \<lparr>ev_pid = group_of os (fst s) p w2, ev_tid = p, ev_nr = in_nr i,
               ev_args = in_args i, ev_retval = r_rax r, ev_ts_enter_ns = in_enter_ns i,
               ev_duration_ns = saturating_sub (of_nat now) (in_enter_ns i)\<rparr>) \<and> pt_inflight (fst s') p = None)
    | PtraceEvent p _ e \<Rightarrow> ev = None \<and> pt_inflight (fst s') p = (if e = EVENT_EXEC then None else pt_inflight (fst s) p)
    | _ \<Rightarrow> ev = None)
    \<and> (\<forall>q. \<not> touches q st \<longrightarrow> pt_inflight (fst s') q = pt_inflight (fst s) q)"
proof -
  from assms obtain t w w' where r: "resume_pending os s = (Inr (), (t, w))" and wait: "os_wait_any os w = (Inr st, w')"
    and h: "handle os st (t, w') = (Inr ev, s')" unfolding pt_step_def by blast
  have w': "stop_world os s = w'" by (simp add: stop_world_def r wait)
  obtain t0 w0 where s: "s = (t0, w0)" by (cases s)
  have t: "t = t0\<lparr>pt_pending := None\<rparr>" using resume_pending_effect [of os t0 w0] r s by simp
  then have same: "pt_live t = pt_live (fst s)" "pt_inflight t = pt_inflight (fst s)" "group_of os t p u = group_of os (fst s) p u" for p u
    by (simp_all add: s group_of_def)
  have others: "\<forall>q. \<not> touches q st \<longrightarrow> pt_inflight (fst s') q = pt_inflight (fst s) q"
    using pt_step_other [OF assms] by blast
  obtain t' w2 where s': "s' = (t', w2)" by (cases s')
  show ?thesis
  proof (cases st)
    case (PtraceSyscall p)
    note h = h [unfolded PtraceSyscall]
    show ?thesis
      unfolding PtraceSyscall wait_status.case
      using others [unfolded PtraceSyscall] handle_entry_now [OF h] handle_call_group [OF h]
      by (cases "pt_inflight t p") (auto simp: w' same split: prod.splits)
  qed (use others h w' same in \<open>auto simp: s' dest!: handle_end_group handle_event handle_other split: if_splits
      dest: handle_stopped handle_signal_group\<close>)
qed

theorem status_events_witness:
  "7 \<notin> pt_live (fst (after_rounds 1 scripted (tracing, script_of [(Signaled 7 9 False, no_regs)])))"
proof -
  let ?s = "(tracing, script_of [(Signaled 7 9 False, no_regs)])"
  have "pt_step scripted ?s (Signaled 7 9 False) (Some (ProcessExit 7 137)) (after_rounds 1 scripted ?s)"
    by (simp add: pt_step_code exec)
  from status_events [OF this] show ?thesis by simp
qed

text \<open>
  C27. The exec event of a followed task ends the pairing that its execve call began, so the
  exit stop of that call is taken for an entry: the task counts as inside a call while it
  runs, and its next call is reported, at its entry, with the registers of execve's return.
\<close>

theorem exec_event_inverts_pairing:
  assumes "pt_trace os s [(PtraceSyscall p, ev1), (PtraceEvent p sig EVENT_EXEC, ev2),
     (PtraceSyscall p, ev3)] s3" "pt_inflight (fst s) p = None"
    and "pt_step os s3 (PtraceSyscall p) ev4 s4"
  shows "ev1 = None \<and> ev2 = None \<and> ev3 = None \<and> pt_inflight (fst s3) p \<noteq> None
     \<and> (\<exists>e. ev4 = Some (SyscallEv e) \<and> ev_tid e = p)"
proof -
  from assms(1) obtain s1 s2 where a: "pt_step os s (PtraceSyscall p) ev1 s1"
    and b: "pt_step os s1 (PtraceEvent p sig EVENT_EXEC) ev2 s2"
    and c: "pt_step os s2 (PtraceSyscall p) ev3 s3"
    by (auto simp: pt_trace_Cons)
  have "pt_inflight (fst s2) p = None"
    using pt_step_inside [OF b, of p] by simp
  from pt_step_entry [OF c this] obtain i where e3: "ev3 = None" and i: "pt_inflight (fst s3) p = Some i"
    by auto
  from pt_step_entry [OF a assms(2)] pt_step_silent_event [OF b] e3 pt_step_exit [OF assms(3) i] i
  show ?thesis by auto
qed

theorem exec_event_inverts_pairing_witness:
  "let s = (tracing, script_of
       [(PtraceSyscall 7, no_regs\<lparr>r_orig_rax := 59\<rparr>), (PtraceEvent 7 SIGTRAP EVENT_EXEC, no_regs),
        (PtraceSyscall 7, no_regs\<lparr>r_orig_rax := 59\<rparr>),
        (PtraceSyscall 7, no_regs\<lparr>r_orig_rax := 12, r_rax := - 38\<rparr>)])
   in pt_inflight (fst (after_rounds 3 scripted s)) 7 \<noteq> None"
proof -
  define s where "s = (tracing, script_of
       [(PtraceSyscall 7, no_regs\<lparr>r_orig_rax := 59\<rparr>), (PtraceEvent 7 SIGTRAP EVENT_EXEC, no_regs),
        (PtraceSyscall 7, no_regs\<lparr>r_orig_rax := 59\<rparr>),
        (PtraceSyscall 7, no_regs\<lparr>r_orig_rax := 12, r_rax := - 38\<rparr>)])"
  have a: "pt_trace scripted s [(PtraceSyscall 7, None), (PtraceEvent 7 SIGTRAP EVENT_EXEC, None),
     (PtraceSyscall 7, None)] (after_rounds 3 scripted s)"
    by (simp add: s_def pt_trace_Cons pt_step_code exec)
  have n: "pt_inflight (fst s) 7 = None" by (simp add: s_def exec)
  have b: "pt_step scripted (after_rounds 3 scripted s) (PtraceSyscall 7)
     (Some (SyscallEv \<lparr>ev_pid = 7, ev_tid = 7, ev_nr = 59, ev_args = Args 0 0 0 0 0 0,
        ev_retval = - 38, ev_ts_enter_ns = 110, ev_duration_ns = 10\<rparr>)) (after_rounds 4 scripted s)"
    by (simp add: s_def pt_step_code exec)
  from exec_event_inverts_pairing [OF a n b] show ?thesis unfolding s_def Let_def by blast
qed

text \<open>
  When the operating system has only finitely many statuses left to deliver, the loop
  that waits for an event returns, and a session returns at most that many events.
\<close>

lemma pt_session_ends:
  assumes "runs_down os \<mu>"
  shows "(\<exists>r s'. pt_next_event os s = Some (r, s'))
    \<and> (pt_returns os s es s2 \<longrightarrow> length es + \<mu> (snd s2) \<le> \<mu> (snd s))"
proof -
  have "length es + \<mu> (snd s2) \<le> \<mu> (snd s)" if "pt_returns os s es s2"
  proof -
    from pt_returns_trace [OF that] obtain tr where tr: "pt_trace os s tr s2" "trace_events tr = es"
      by blast
    with pt_trace_down [OF tr(1) assms] trace_events_length [of tr] show ?thesis by simp
  qed
  with pt_next_event_total [OF assms, of s] show ?thesis by blast
qed

text \<open>
  A task that vanishes while it is stopped (a SIGKILL, for which the resumption fails with
  ESRCH) ends the whole trace with that error, whatever other tasks are still traced.
\<close>

lemma vanished_task_ends_trace:
  assumes "pt_pending t = Some (p, sig)" "os_resume os p sig w = (Inl e, w')"
  shows "pt_next_event os (t, w) = Some (Inl (Os e), (t\<lparr>pt_pending := None\<rparr>, w'))"
  using assms
  by (simp add: pt_next_event.simps [of os "(t, w)"] pt_round_def resume_pending_def resume_def op_defs)

text \<open>
  The thread group of a task is the number on the first Tgid line of its status file,
  written in decimal after white space, wherever the line stands.
\<close>

lemma find_tgid_reads:
  assumes "\<forall>l\<in>set pre. strip_prefix ''Tgid:'' l = None" "\<forall>l\<in>set (pre @ post). newline \<notin> set l \<and> CHR 0x0D \<notin> set l"
    and "n < 2 ^ 32"
  shows "find_tgid (concat (map (\<lambda>l. l @ [newline]) (pre @ (''Tgid:'' @ CHR 0x09 # dec n) # post)))
     = Some (of_nat n)"
proof -
  let ?l = "''Tgid:'' @ CHR 0x09 # dec n" and ?P = "\<lambda>l. strip_prefix ''Tgid:'' l \<noteq> None"
  have "newline \<notin> set ?l \<and> CHR 0x0D \<notin> set ?l"
    using set_dec [of n] by (auto simp: newline_def)
  with assms(2) have "str_lines (concat (map (\<lambda>l. l @ [newline]) (pre @ ?l # post))) = pre @ ?l # post"
    unfolding newline_def by (intro str_lines_concat) auto
  moreover have "List.find ?P (pre @ ?l # post) = Some ?l"
    by (rule find_prefix_append) (use assms(1) in auto)
  ultimately have "find_tgid (concat (map (\<lambda>l. l @ [newline]) (pre @ ?l # post)))
      = map_option of_nat (parse_uint 32 10 (trim (CHR 0x09 # dec n)))"
    by (simp only: find_tgid_def option.case strip_prefix_Some [THEN iffD2, OF refl])
  then show ?thesis using parse_dec [OF assms(3)] by (simp only: trim_tab_dec option.map)
qed

end
