(* ===== verification/Ebpf_Session.thy ===== *)
theory Ebpf_Session
  imports Trace_Ebpf Ptrace_Session
begin

section \<open>Sessions of the eBPF backend\<close>

text \<open>
  What the event loop of \<open>Trace_Ebpf\<close> does over time: the balance of samples taken against
  events delivered, the exit of the leader, and the end of the loop.
\<close>

subsection \<open>What the tracer looks at\<close>

text \<open>
  The calls of the tracer into the system: a look at the ring, which takes a sample or finds
  none, the tests whether a task is still there, and the wait.  A path is a sequence of looks
  that leads from one world to another.
\<close>

datatype look =
    Took "u8 list"
  | Bare
  | Waited i32 "i32 + wait_status"
  | Killed i32 "i32 + unit"
  | Polled

fun look_at :: "'w ring_os \<Rightarrow> 'w \<Rightarrow> look \<Rightarrow> 'w \<Rightarrow> bool" where
  "look_at os w (Took item) w' \<longleftrightarrow> ro_next os w = (Some item, w')"
| "look_at os w Bare w' \<longleftrightarrow> ro_next os w = (None, w')"
| "look_at os w (Waited p r) w' \<longleftrightarrow> ro_waitpid_nohang os p w = (r, w')"
| "look_at os w (Killed p k) w' \<longleftrightarrow> ro_kill0 os p w = (k, w')"
| "look_at os w Polled w' \<longleftrightarrow> w' = ro_poll os 100 w"

fun ring_path :: "'w ring_os \<Rightarrow> 'w \<Rightarrow> look list \<Rightarrow> 'w \<Rightarrow> bool" where
  "ring_path os w [] w' \<longleftrightarrow> w' = w"
| "ring_path os w (l # ls) w' \<longleftrightarrow> (\<exists>w1. look_at os w l w1 \<and> ring_path os w1 ls w')"

lemma ring_path_append [simp]:
  "ring_path os w (ls @ ms) w' \<longleftrightarrow> (\<exists>w1. ring_path os w ls w1 \<and> ring_path os w1 ms w')"
  by (induction ls arbitrary: w) auto

text \<open>The samples taken on a path.\<close>

fun took :: "look list \<Rightarrow> u8 list list" where
  "took [] = []"
| "took (Took item # ls) = item # took ls"
| "took (_ # ls) = took ls"

lemma took_append [simp]: "took (ls @ ms) = took ls @ took ms"
  by (induction ls rule: took.induct) auto

text \<open>
  The program is seen to be over: the spawned child is reported gone, with the status to pass
  on, or every watched task has been found gone.
\<close>

fun over_code :: "i32 + wait_status \<Rightarrow> i32 option" where
  "over_code (Inl _) = Some 0"
| "over_code (Inr (Exited _ code)) = Some code"
| "over_code (Inr (Signaled _ sig _)) = Some (128 + sig)"
| "over_code (Inr _) = None"

definition gone :: "u32 \<Rightarrow> look \<Rightarrow> bool" where
  "gone p l \<longleftrightarrow> (\<exists>e. l = Killed p (Inl e) \<and> e \<noteq> EPERM)"

definition sees_over :: "ebpf_tracer \<Rightarrow> look list \<Rightarrow> i32 \<Rightarrow> bool" where
  "sees_over t ls code \<longleftrightarrow>
     (case eb_child t of
        Some child \<Rightarrow> \<exists>r. ls = [Waited child r] \<and> over_code r = Some code
      | None \<Rightarrow> eb_watch t \<noteq> [] \<and> code = 0 \<and> list_all2 gone (eb_watch t) ls)"

subsection \<open>Accounting for every sample\<close>

text \<open>What a sample is worth: an event with its capture, or nothing when it is too short.\<close>

definition item_entry :: "u64 \<Rightarrow> u8 list \<Rightarrow> (event \<times> capture option) list" where
  "item_entry baseline item =
     (case rec_from_bytes item of
        None \<Rightarrow> [] | Some r \<Rightarrow> [(SyscallEv (record_to_event r baseline), record_capture r)])"

definition entries :: "u64 \<Rightarrow> u8 list list \<Rightarrow> (event \<times> capture option) list" where
  "entries baseline items = concat (map (item_entry baseline) items)"

definition exit_entry :: "u32 option \<Rightarrow> i32 \<Rightarrow> (event \<times> capture option) list" where
  "exit_entry leader code = (case leader of None \<Rightarrow> [] | Some pid \<Rightarrow> [(ProcessExit pid code, None)])"

lemma entries_simps [simp]:
  "entries b [] = []" "entries b (x # xs) = item_entry b x @ entries b xs"
  "entries b (xs @ ys) = entries b xs @ entries b ys"
  by (simp_all add: entries_def)

lemma push_item_eq: "push_item item t = t\<lparr>eb_queue := eb_queue t @ item_entry (eb_baseline t) item\<rparr>"
  by (simp add: push_item_def item_entry_def split: option.split)

definition same_target :: "ebpf_tracer \<Rightarrow> ebpf_tracer \<Rightarrow> bool" where
  "same_target t t' \<longleftrightarrow> eb_baseline t' = eb_baseline t \<and> eb_leader t' = eb_leader t
     \<and> eb_child t' = eb_child t \<and> eb_watch t' = eb_watch t"

text \<open>
  A stretch of a session that delivers \<open>D\<close>.  What is delivered and queued is what was queued
  before and what the samples taken meanwhile are worth, in order; when the program is seen to
  be over, the exit of the leader stands behind the samples taken up to the next empty look.
\<close>

definition finishing :: "ebpf_tracer \<Rightarrow> look list \<Rightarrow> (event \<times> capture option) list \<Rightarrow> bool" where
  "finishing t ls evs \<longleftrightarrow> (\<exists>before over rest late code.
     ls = before @ over @ rest @ Bare # late \<and> sees_over t over code
     \<and> evs = entries (eb_baseline t) (took (before @ over @ rest)) @ exit_entry (eb_leader t) code
         @ entries (eb_baseline t) (took late))"

definition stretch ::
    "'w ring_os \<Rightarrow> ebpf_tracer \<times> 'w \<Rightarrow> (event \<times> capture option) list \<Rightarrow> look list \<Rightarrow> ebpf_tracer \<times> 'w \<Rightarrow> bool"
  where
  "stretch os s D ls s' \<longleftrightarrow> ring_path os (snd s) ls (snd s') \<and> same_target (fst s) (fst s')
     \<and> (\<exists>evs. D @ eb_queue (fst s') = eb_queue (fst s) @ evs
         \<and> (if eb_finished (fst s') = eb_finished (fst s) then evs = entries (eb_baseline (fst s)) (took ls)
            else eb_finished (fst s') \<and> finishing (fst s) ls evs))"

lemma same_target_refl [simp]: "same_target t t"
  by (simp add: same_target_def)

lemma same_target_trans: "same_target t t1 \<Longrightarrow> same_target t1 t2 \<Longrightarrow> same_target t t2"
  by (simp add: same_target_def)

lemma finishing_same: "same_target t t' \<Longrightarrow> finishing t' = finishing t"
  by (cases "eb_child t") (simp_all add: finishing_def sees_over_def same_target_def fun_eq_iff)

lemma finishing_before: "finishing t ls evs \<Longrightarrow> finishing t (pre @ ls) (entries (eb_baseline t) (took pre) @ evs)"
  unfolding finishing_def by (metis append.assoc entries_simps(3) took_append)

lemma finishing_after: "finishing t ls evs \<Longrightarrow> finishing t (ls @ post) (evs @ entries (eb_baseline t) (took post))"
  unfolding finishing_def by (elim exE conjE) (metis (no_types, lifting) append.assoc append_Cons entries_simps(3) took_append)

lemma stretch_refl: "stretch os s [] [] s"
  by (simp add: stretch_def)

lemma stretch_trans:
  assumes "stretch os s D ls s1" "stretch os s1 E ms s2"
  shows "stretch os s (D @ E) (ls @ ms) s2"
proof -
  let ?b = "eb_baseline (fst s)"
  from assms(1) obtain e1 where 1: "ring_path os (snd s) ls (snd s1)" "same_target (fst s) (fst s1)"
    "D @ eb_queue (fst s1) = eb_queue (fst s) @ e1"
    "if eb_finished (fst s1) = eb_finished (fst s) then e1 = entries ?b (took ls)
     else eb_finished (fst s1) \<and> finishing (fst s) ls e1"
    by (auto simp: stretch_def)
  have same: "eb_baseline (fst s1) = ?b" "finishing (fst s1) = finishing (fst s)"
    using finishing_same [OF 1(2)] 1(2) by (simp_all add: same_target_def)
  from assms(2) obtain e2 where 2: "ring_path os (snd s1) ms (snd s2)" "same_target (fst s1) (fst s2)"
    "E @ eb_queue (fst s2) = eb_queue (fst s1) @ e2"
    "if eb_finished (fst s2) = eb_finished (fst s1) then e2 = entries ?b (took ms)
     else eb_finished (fst s2) \<and> finishing (fst s) ms e2"
    unfolding stretch_def same by blast
  have "(D @ E) @ eb_queue (fst s2) = eb_queue (fst s) @ e1 @ e2"
    using 1(3) 2(3) by (metis append.assoc)
  moreover have "if eb_finished (fst s2) = eb_finished (fst s) then e1 @ e2 = entries ?b (took (ls @ ms))
     else eb_finished (fst s2) \<and> finishing (fst s) (ls @ ms) (e1 @ e2)"
    using 1(4) 2(4) finishing_before [of "fst s" ms e2 ls] finishing_after [of "fst s" ls e1 ms]
    by (auto split: if_splits)
  ultimately show ?thesis
    using 1(1,2) 2(1,2) unfolding stretch_def by (auto intro: same_target_trans)
qed

subsection \<open>The steps of the loop\<close>

text \<open>Draining takes samples up to the first look that finds none.\<close>

definition drains :: "'w ring_os \<Rightarrow> ebpf_tracer \<times> 'w \<Rightarrow> look list \<Rightarrow> ebpf_tracer \<times> 'w \<Rightarrow> bool" where
  "drains os s ls s' \<longleftrightarrow> ring_path os (snd s) (ls @ [Bare]) (snd s') \<and> same_target (fst s) (fst s')
     \<and> eb_queue (fst s') = eb_queue (fst s) @ entries (eb_baseline (fst s)) (took ls)
     \<and> eb_finished (fst s') = eb_finished (fst s)"

lemma drain_ring_drains:
  assumes "drain_ring os s = Some s'"
  shows "\<exists>ls. drains os s ls s'"
  using assms
proof (induction rule: drain_ring.raw_induct [rotated, consumes 1, case_names loop])
  case (loop drain os s s')
  obtain t w where s: "s = (t, w)" by (cases s)
  obtain r w' where r: "ro_next os w = (r, w')" by (cases "ro_next os w") blast
  show ?case
  proof (cases r)
    case None
    with loop(2) s r show ?thesis by (auto simp: drains_def intro!: exI [of _ "[]"])
  next
    case (Some item)
    with loop(2) s r have "drain os (push_item item t, w') = Some s'" by simp
    from loop(1) [OF this] obtain ls where "drains os (push_item item t, w') ls s'" ..
    with s r Some have "drains os s (Took item # ls) s'" by (auto simp: drains_def push_item_eq same_target_def)
    then show ?thesis ..
  qed
qed

lemma drains_stretch: "drains os s ls s' \<Longrightarrow> stretch os s [] (ls @ [Bare]) s'"
  by (auto simp: drains_def stretch_def)

lemma enqueue_exit_finishes:
  assumes "enqueue_exit os code (t, w1) = Some s'" "\<not> eb_finished t"
    and "ring_path os w over w1" "sees_over t over code" "took over = []"
  shows "\<exists>ls. stretch os (t, w) [] ls s'"
proof -
  from assms(1) obtain t1 w2 where d: "drain_ring os (t, w1) = Some (t1, w2)"
    by (auto simp: enqueue_exit_def split: option.splits)
  from drain_ring_drains [OF d] obtain ls where ls: "drains os (t, w1) ls (t1, w2)" ..
  with assms(1) d have s': "ring_path os w1 (ls @ [Bare]) (snd s')" "same_target t (fst s')" "eb_finished (fst s')"
    "eb_queue (fst s') = eb_queue t @ entries (eb_baseline t) (took ls) @ exit_entry (eb_leader t) code"
    by (auto simp: enqueue_exit_def Let_def drains_def same_target_def exit_entry_def split: option.splits)
  have "finishing t (over @ ls @ [Bare]) (entries (eb_baseline t) (took ls) @ exit_entry (eb_leader t) code)"
    unfolding finishing_def
    using assms(4,5) by (intro exI [of _ "[]"] exI [of _ over] exI [of _ ls] exI [of _ code] conjI) simp_all
  moreover have "ring_path os w (over @ ls @ [Bare]) (snd s')" using assms(3) s'(1) by auto
  ultimately have "stretch os (t, w) [] (over @ ls @ [Bare]) s'"
    using s'(2-4) assms(2) by (auto simp: stretch_def)
  then show ?thesis ..
qed

lemma all_dead_looks:
  assumes "all_dead os ps w = (d, w')"
  shows "\<exists>ls. ring_path os w ls w' \<and> took ls = [] \<and> (d \<longrightarrow> list_all2 gone ps ls)"
  using assms
proof (induction ps arbitrary: w)
  case Nil
  then show ?case by (auto intro: exI [of _ "[]"])
next
  case (Cons p ps)
  obtain k w1 where k: "ro_kill0 os p w = (k, w1)" by (cases "ro_kill0 os p w") blast
  show ?case
  proof (cases "gone p (Killed p k)")
    case True
    then have "pid_alive os p w = (False, w1)" by (auto simp: gone_def pid_alive_def k)
    with Cons.prems have "all_dead os ps w1 = (d, w')" by simp
    from Cons.IH [OF this] obtain ls where "ring_path os w1 ls w'" "took ls = []" "d \<longrightarrow> list_all2 gone ps ls" by blast
    with True k show ?thesis by (intro exI [of _ "Killed p k # ls"]) auto
  next
    case False
    then have "pid_alive os p w = (True, w1)" by (cases k) (auto simp: gone_def pid_alive_def k)
    with Cons.prems k show ?thesis by (intro exI [of _ "[Killed p k]"]) auto
  qed
qed

lemma liveness_done_stretch:
  assumes "liveness_done os s = Some (b, s')" "\<not> eb_finished (fst s)"
  shows "\<exists>ls. stretch os s [] ls s'"
proof -
  obtain t w where s: "s = (t, w)" by (cases s)
  with assms(2) have nf: "\<not> eb_finished t" by simp
  have idle: "\<exists>ls. stretch os s [] ls s'" if "s' = (t, w1)" "ring_path os w ls w1" "took ls = []" for w1 ls
    using that s by (auto simp: stretch_def)
  show ?thesis
  proof (cases "eb_child t")
    case (Some child)
    obtain r w1 where r: "ro_waitpid_nohang os child w = (r, w1)" by (cases "ro_waitpid_nohang os child w") blast
    then have p: "ring_path os w [Waited child r] w1" by simp
    show ?thesis
    proof (cases "over_code r")
      case None
      with assms(1) s Some r have "s' = (t, w1)" by (cases r rule: over_code.cases) (auto simp: liveness_done_def)
      from idle [OF this p] show ?thesis by simp
    next
      case code: (Some code)
      with assms(1) s Some r have "enqueue_exit os code (t, w1) = Some s'"
        by (cases r rule: over_code.cases) (auto simp: liveness_done_def)
      from enqueue_exit_finishes [OF this nf p] Some code s show ?thesis by (simp add: sees_over_def)
    qed
  next
    case None
    show ?thesis
    proof (cases "eb_watch t = []")
      case True
      with assms(1) s None have "s' = (t, w)" by (simp add: liveness_done_def)
      from idle [OF this, of "[]"] show ?thesis by simp
    next
      case watch: False
      obtain d w1 where d: "all_dead os (eb_watch t) w = (d, w1)" by (cases "all_dead os (eb_watch t) w") blast
      from all_dead_looks [OF d] obtain ls where ls: "ring_path os w ls w1" "took ls = []" "d \<longrightarrow> list_all2 gone (eb_watch t) ls"
        by blast
      show ?thesis
      proof (cases d)
        case True
        with assms(1) s None d watch have "enqueue_exit os 0 (t, w1) = Some s'" by (auto simp: liveness_done_def)
        from enqueue_exit_finishes [OF this nf ls(1)] ls(2,3) True None watch s show ?thesis by (simp add: sees_over_def)
      next
        case False
        with assms(1) s None d watch have "s' = (t, w1)" by (auto simp: liveness_done_def)
        from idle [OF this ls(1,2)] show ?thesis .
      qed
    qed
  qed
qed

subsection \<open>What a session delivers\<close>

definition armed :: "ebpf_tracer \<Rightarrow> bool" where
  "armed t \<longleftrightarrow> eb_child t \<noteq> None \<or> eb_watch t \<noteq> []"

fun is_call :: "event \<Rightarrow> bool" where
  "is_call (SyscallEv _) = True"
| "is_call _ = False"

text \<open>The event a call returns, with the capture that serves its memory.\<close>

definition delivered :: "trace_error + event option \<Rightarrow> ebpf_tracer \<Rightarrow> (event \<times> capture option) list" where
  "delivered r t = (case r of Inr (Some e) \<Rightarrow> [(e, eb_current t)] | _ \<Rightarrow> [])"

text \<open>A call that says that tracing is complete has just found the ring empty.\<close>

definition ended :: "ebpf_tracer \<Rightarrow> look list \<Rightarrow> bool" where
  "ended t ls \<longleftrightarrow> eb_queue t = [] \<and> eb_finished t \<and> ls \<noteq> [] \<and> last ls = Bare"

lemma eb_next_event_stretch:
  assumes "eb_next_event os s = Some y"
  shows "\<exists>ls. stretch os s (delivered (fst y) (fst (snd y))) ls (snd y)
    \<and> (\<exists>r. fst y = Inr r \<and> (r = None \<longrightarrow> ended (fst (snd y)) ls))"
  using assms
proof (induction rule: eb_next_event.raw_induct [rotated, consumes 1, case_names loop])
  case (loop again os s y)
  have step: ?case if "again os s3 = Some y" "stretch os s [] ls s3" for s3 ls
  proof -
    from loop(1) [OF that(1)] obtain ms where "stretch os s3 (delivered (fst y) (fst (snd y))) ms (snd y)"
      "\<exists>r. fst y = Inr r \<and> (r = None \<longrightarrow> ended (fst (snd y)) ms)" by blast
    with stretch_trans [OF that(2)] show ?thesis
      by (intro exI [of _ "ls @ ms"]) (auto simp: ended_def)
  qed
  show ?case
  proof (cases "eb_queue (fst s)")
    case (Cons x rest)
    obtain ev cap where x: "x = (ev, cap)" by (cases x)
    from loop(2) Cons x have "y = (Inr (Some ev), ((fst s)\<lparr>eb_queue := rest, eb_current := cap\<rparr>, snd s))" by simp
    with Cons x show ?thesis
      by (intro exI [of _ "[]"]) (simp add: stretch_def delivered_def same_target_def)
  next
    case Nil
    with loop(2) obtain s1 where d: "drain_ring os s = Some s1" by (auto split: option.splits)
    from drain_ring_drains [OF d] obtain ls where ls: "drains os s ls s1" ..
    note st1 = drains_stretch [OF ls]
    consider "eb_queue (fst s1) \<noteq> []" | "eb_queue (fst s1) = []" "eb_finished (fst s1)"
      | "eb_queue (fst s1) = []" "\<not> eb_finished (fst s1)" by blast
    then show ?thesis
    proof cases
      case 1
      with loop(2) Nil d have "again os s1 = Some y" by simp
      from step [OF this st1] show ?thesis .
    next
      case 2
      with loop(2) Nil d have "y = (Inr None, s1)" by simp
      with 2 st1 show ?thesis by (intro exI [of _ "ls @ [Bare]"]) (simp add: delivered_def ended_def)
    next
      case 3
      with loop(2) Nil d obtain b s2 where l: "liveness_done os s1 = Some (b, s2)" by (auto split: option.splits)
      from liveness_done_stretch [OF l 3(2)] obtain ms where st2: "stretch os s1 [] ms s2" ..
      let ?s3 = "if b then s2 else (fst s2, ro_poll os 100 (snd s2))"
      have "\<exists>ns. stretch os s2 [] ns ?s3"
        by (cases b) (auto simp: stretch_def intro: exI [of _ "[]"] exI [of _ "[Polled]"])
      then obtain ns where "stretch os s2 [] ns ?s3" ..
      from stretch_trans [OF st1 stretch_trans [OF st2 this]]
      have st3: "stretch os s [] ((ls @ [Bare]) @ ms @ ns) ?s3" by simp
      from loop(2) Nil d 3 l have "again os ?s3 = Some y" by (auto split: if_splits)
      from step [OF this st3] show ?thesis .
    qed
  qed
qed

text \<open>The events successive calls return, each with its capture.\<close>

fun eb_returns ::
    "'w ring_os \<Rightarrow> ebpf_tracer \<times> 'w \<Rightarrow> (event \<times> capture option) list \<Rightarrow> ebpf_tracer \<times> 'w \<Rightarrow> bool" where
  "eb_returns os s [] s' \<longleftrightarrow> s' = s"
| "eb_returns os s (x # xs) s' \<longleftrightarrow>
     (\<exists>s1. eb_next_event os s = Some (Inr (Some (fst x)), s1) \<and> eb_current (fst s1) = snd x
        \<and> eb_returns os s1 xs s')"

lemma eb_returns_stretch: "eb_returns os s xs s' \<Longrightarrow> \<exists>ls. stretch os s xs ls s'"
proof (induction xs arbitrary: s)
  case Nil
  then show ?case by (auto intro: stretch_refl)
next
  case (Cons x xs)
  then obtain s1 where n: "eb_next_event os s = Some (Inr (Some (fst x)), s1)"
    and c: "eb_current (fst s1) = snd x" and r: "eb_returns os s1 xs s'" by auto
  from eb_next_event_stretch [OF n] c obtain ls where "stretch os s [x] ls s1" by (auto simp: delivered_def)
  moreover from Cons.IH [OF r] obtain ms where "stretch os s1 xs ms s'" ..
  ultimately show ?case using stretch_trans [of os s "[x]" ls s1 xs ms s'] by auto
qed

text \<open>A whole session: events, then the answer that tracing is complete.\<close>

definition eb_session ::
    "'w ring_os \<Rightarrow> ebpf_tracer \<times> 'w \<Rightarrow> (event \<times> capture option) list \<Rightarrow> ebpf_tracer \<times> 'w \<Rightarrow> bool" where
  "eb_session os s xs s' \<longleftrightarrow> (\<exists>s1. eb_returns os s xs s1 \<and> eb_next_event os s1 = Some (Inr None, s'))"

text \<open>
  A whole session sees the program to be over once, then finds the ring empty, and ends with a
  look that finds it empty: up to the first of these looks everything taken stands before the
  exit of the leader.
\<close>

lemma eb_session_looks:
  assumes "eb_session os s xs s'" "eb_queue (fst s) = []" "\<not> eb_finished (fst s)"
  shows "\<exists>before over rest late code. ring_path os (snd s) (before @ over @ rest @ Bare # late) (snd s')
    \<and> sees_over (fst s) over code \<and> last (Bare # late) = Bare
    \<and> xs = entries (eb_baseline (fst s)) (took (before @ over @ rest)) @ exit_entry (eb_leader (fst s)) code
        @ entries (eb_baseline (fst s)) (took late)"
proof -
  from assms(1) obtain s1 where r: "eb_returns os s xs s1" and n: "eb_next_event os s1 = Some (Inr None, s')"
    by (auto simp: eb_session_def)
  from eb_returns_stretch [OF r] obtain ls where ls: "stretch os s xs ls s1" ..
  from eb_next_event_stretch [OF n] obtain ms where ms: "stretch os s1 [] ms s'" and e: "ended (fst s') ms"
    by (auto simp: delivered_def)
  from stretch_trans [OF ls ms] e assms(2,3) have "ring_path os (snd s) (ls @ ms) (snd s')" "finishing (fst s) (ls @ ms) xs"
    by (auto simp: stretch_def ended_def)
  moreover from this(2) obtain before over rest late code where f: "ls @ ms = before @ over @ rest @ Bare # late"
    "sees_over (fst s) over code"
    "xs = entries (eb_baseline (fst s)) (took (before @ over @ rest)) @ exit_entry (eb_leader (fst s)) code
        @ entries (eb_baseline (fst s)) (took late)" unfolding finishing_def by blast
  moreover have "last (Bare # late) = Bare" using e arg_cong [OF f(1), of last] by (simp add: ended_def split: if_splits)
  ultimately show ?thesis by metis
qed

subsection \<open>The loop ends when the program and the ring do\<close>

text \<open>
  A measure of what is still to come: every sample taken uses some of it up and so does
  every wait, unless it ends because there is a sample to take; once there is nothing left,
  the program is over.
\<close>

definition over_status :: "i32 + wait_status \<Rightarrow> bool" where
  "over_status r \<longleftrightarrow> over_code r \<noteq> None"

lemma over_status_simps [simp]:
  "over_status (Inl e)" "over_status (Inr (Exited p c))" "over_status (Inr (Signaled p sig d))"
  "\<not> over_status (Inr (Stopped p st))" "\<not> over_status (Inr (PtraceEvent p st ev))"
  "\<not> over_status (Inr (PtraceSyscall p))" "\<not> over_status (Inr (Continued p))" "\<not> over_status (Inr StillAlive)"
  by (simp_all add: over_status_def)

definition ring_runs_down :: "'w ring_os \<Rightarrow> ('w \<Rightarrow> nat) \<Rightarrow> bool" where
  "ring_runs_down os \<mu> \<longleftrightarrow>
     (\<forall>w item w'. ro_next os w = (Some item, w') \<longrightarrow> \<mu> w' < \<mu> w)
     \<and> (\<forall>w w'. ro_next os w = (None, w') \<longrightarrow> \<mu> w' \<le> \<mu> w)
     \<and> (\<forall>p. quiet \<mu> (ro_waitpid_nohang os p)) \<and> (\<forall>p. quiet \<mu> (ro_kill0 os p))
     \<and> (\<forall>w. \<mu> (ro_poll os 100 w) \<le> \<mu> w)
     \<and> (\<forall>w. 0 < \<mu> w \<longrightarrow> \<mu> (ro_poll os 100 w) < \<mu> w \<or> fst (ro_next os (ro_poll os 100 w)) \<noteq> None)
     \<and> (\<forall>p w. \<mu> w = 0 \<longrightarrow> over_status (fst (ro_waitpid_nohang os p w)))
     \<and> (\<forall>p w. \<mu> w = 0 \<longrightarrow> (\<exists>e. fst (ro_kill0 os p w) = Inl e \<and> e \<noteq> EPERM))"

lemma ring_runs_downD:
  assumes "ring_runs_down os \<mu>"
  shows "ro_next os w = (Some item, w') \<Longrightarrow> \<mu> w' < \<mu> w" "ro_next os w = (None, w') \<Longrightarrow> \<mu> w' \<le> \<mu> w"
    "ro_waitpid_nohang os p w = (r, w') \<Longrightarrow> \<mu> w' \<le> \<mu> w" "ro_kill0 os p w = (k, w') \<Longrightarrow> \<mu> w' \<le> \<mu> w"
    "\<mu> (ro_poll os 100 w) \<le> \<mu> w"
    "ro_waitpid_nohang os p w = (r, w') \<Longrightarrow> \<mu> w = 0 \<Longrightarrow> over_status r"
    "ro_kill0 os p w = (k, w') \<Longrightarrow> \<mu> w = 0 \<Longrightarrow> \<exists>e. k = Inl e \<and> e \<noteq> EPERM"
    "0 < \<mu> w \<Longrightarrow> \<mu> (ro_poll os 100 w) < \<mu> w \<or> fst (ro_next os (ro_poll os 100 w)) \<noteq> None"
  using assms unfolding ring_runs_down_def
  by (blast, blast, meson quietD, meson quietD, blast, metis fst_conv, metis fst_conv, blast)

lemma drain_ring_total:
  assumes "ring_runs_down os \<mu>"
  shows "\<exists>s'. drain_ring os s = Some s' \<and> \<mu> (snd s') \<le> \<mu> (snd s) \<and> eb_finished (fst s') = eb_finished (fst s)
    \<and> eb_child (fst s') = eb_child (fst s) \<and> eb_watch (fst s') = eb_watch (fst s)"
proof (induction "\<mu> (snd s)" arbitrary: s rule: less_induct)
  case less
  obtain r w where r: "ro_next os (snd s) = (r, w)" by (cases "ro_next os (snd s)") blast
  show ?case
  proof (cases r)
    case None
    with r ring_runs_downD(2) [OF assms] show ?thesis by (simp add: drain_ring.simps [of os s])
  next
    case (Some item)
    let ?s1 = "(push_item item (fst s), w)"
    have lt: "\<mu> (snd ?s1) < \<mu> (snd s)" using r Some ring_runs_downD(1) [OF assms] by simp
    from less [OF lt] obtain s' where "drain_ring os ?s1 = Some s'" "\<mu> (snd s') \<le> \<mu> w"
      "eb_finished (fst s') = eb_finished (fst s)" "eb_child (fst s') = eb_child (fst s)"
      "eb_watch (fst s') = eb_watch (fst s)"
      by (auto simp: push_item_eq)
    with r Some lt show ?thesis by (simp add: drain_ring.simps [of os s])
  qed
qed

lemma enqueue_exit_total:
  assumes "ring_runs_down os \<mu>"
  shows "\<exists>s'. enqueue_exit os code s = Some s' \<and> eb_finished (fst s')"
proof -
  from drain_ring_total [OF assms, of s] obtain t w where "drain_ring os s = Some (t, w)" by auto
  then show ?thesis by (simp add: enqueue_exit_def Let_def)
qed

lemma all_dead_down:
  assumes "ring_runs_down os \<mu>"
  shows "all_dead os ps w = (b, w') \<Longrightarrow> \<mu> w' \<le> \<mu> w \<and> (\<mu> w = 0 \<longrightarrow> b)"
proof (induction ps arbitrary: w)
  case (Cons p ps)
  obtain k w1 where k: "ro_kill0 os p w = (k, w1)" by (cases "ro_kill0 os p w") blast
  note d = ring_runs_downD(4,7) [OF assms k]
  show ?case
  proof (cases "fst (pid_alive os p w)")
    case True
    with Cons.prems k d show ?thesis by (auto simp: pid_alive_def split: sum.splits)
  next
    case False
    with k have "pid_alive os p w = (False, w1)" by (auto simp: pid_alive_def split: sum.splits)
    with Cons.prems have "all_dead os ps w1 = (b, w')" by simp
    from Cons.IH [OF this] d show ?thesis by auto
  qed
qed simp

lemma liveness_done_total:
  assumes "ring_runs_down os \<mu>" "armed (fst s)"
  shows "\<exists>b s'. liveness_done os s = Some (b, s')
     \<and> (if b then eb_finished (fst s') else \<mu> (snd s) \<noteq> 0 \<and> \<mu> (snd s') \<le> \<mu> (snd s) \<and> fst s' = fst s)"
proof (cases "eb_child (fst s)")
  case (Some child)
  obtain r w where r: "ro_waitpid_nohang os child (snd s) = (r, w)"
    by (cases "ro_waitpid_nohang os child (snd s)") blast
  note d = ring_runs_downD(3,6) [OF assms(1) r]
  show ?thesis
  proof (cases "over_status r")
    case True
    then obtain code where "liveness_done os s = map_option (\<lambda>s'. (True, s')) (enqueue_exit os code (fst s, w))"
      using Some r by (cases r rule: over_code.cases) (auto simp: liveness_done_def)
    with enqueue_exit_total [OF assms(1), of code "(fst s, w)"] show ?thesis by auto
  next
    case False
    then have "liveness_done os s = Some (False, (fst s, w))"
      using Some r by (cases r rule: over_code.cases) (simp_all add: liveness_done_def)
    with d False show ?thesis by auto
  qed
next
  case None
  with assms(2) have watch: "eb_watch (fst s) \<noteq> []" by (simp add: armed_def)
  obtain b w where b: "all_dead os (eb_watch (fst s)) (snd s) = (b, w)"
    by (cases "all_dead os (eb_watch (fst s)) (snd s)") blast
  from all_dead_down [OF assms(1) b] enqueue_exit_total [OF assms(1), of 0 "(fst s, w)"] None watch b
  show ?thesis by (cases b) (auto simp: liveness_done_def)
qed

lemma eb_next_event_queued: "eb_queue (fst s) \<noteq> [] \<Longrightarrow> \<exists>y. eb_next_event os s = Some y"
  by (cases "eb_queue (fst s)") (auto simp: eb_next_event.simps [of os s])

lemma eb_next_event_finished:
  assumes "ring_runs_down os \<mu>" "eb_finished (fst s)"
  shows "\<exists>y. eb_next_event os s = Some y"
proof -
  from drain_ring_total [OF assms(1), of s] obtain s1 where d: "drain_ring os s = Some s1"
    and f: "eb_finished (fst s1)" using assms(2) by auto
  show ?thesis
    using eb_next_event_queued [of s os] eb_next_event_queued [of s1 os] d f
    by (cases "eb_queue (fst s)") (auto simp: eb_next_event.simps [of os s])
qed

text \<open>A sample that is there is taken, so draining uses some of the measure up.\<close>

lemma drain_ring_progress:
  assumes "drain_ring os s = Some s1" "ring_runs_down os \<mu>" "fst (ro_next os (snd s)) \<noteq> None"
  shows "\<mu> (snd s1) < \<mu> (snd s)"
proof -
  from assms(3) obtain item w where n: "ro_next os (snd s) = (Some item, w)"
    by (cases "ro_next os (snd s)") auto
  with assms(1) have "drain_ring os (push_item item (fst s), w) = Some s1" by (simp add: drain_ring.simps [of os s])
  with drain_ring_total [OF assms(2), of "(push_item item (fst s), w)"] have "\<mu> (snd s1) \<le> \<mu> w" by auto
  with ring_runs_downD(1) [OF assms(2) n] show ?thesis by simp
qed

definition ring_measure :: "'w ring_os \<Rightarrow> ('w \<Rightarrow> nat) \<Rightarrow> 'w \<Rightarrow> nat" where
  "ring_measure os \<mu> w = 2 * \<mu> w + (if fst (ro_next os w) = None then 1 else 0)"

lemma eb_next_event_total:
  assumes "ring_runs_down os \<mu>" "armed (fst s)"
  shows "\<exists>y. eb_next_event os s = Some y"
  using assms(2)
proof (induction "ring_measure os \<mu> (snd s)" arbitrary: s rule: less_induct)
  case less
  show ?case
  proof (cases "eb_queue (fst s) = [] \<and> \<not> eb_finished (fst s)")
    case True
    from drain_ring_total [OF assms(1), of s] obtain s1 where d: "drain_ring os s = Some s1"
      and m1: "\<mu> (snd s1) \<le> \<mu> (snd s)" and f1: "\<not> eb_finished (fst s1)" and a1: "armed (fst s1)"
      using True less.prems by (auto simp: armed_def)
    show ?thesis
    proof (cases "eb_queue (fst s1) = []")
      case empty: True
      from liveness_done_total [OF assms(1) a1] obtain b s2 where l: "liveness_done os s1 = Some (b, s2)"
        and eff: "if b then eb_finished (fst s2) else \<mu> (snd s1) \<noteq> 0 \<and> \<mu> (snd s2) \<le> \<mu> (snd s1) \<and> fst s2 = fst s1"
        by blast
      have step: "eb_next_event os s = (if b then eb_next_event os s2
          else eb_next_event os (fst s2, ro_poll os 100 (snd s2)))"
        using True d empty f1 l by (simp add: eb_next_event.simps [of os s])
      show ?thesis
      proof (cases b)
        case True
        with step eff eb_next_event_finished [OF assms(1)] show ?thesis by simp
      next
        case False
        let ?w = "ro_poll os 100 (snd s2)"
        have "\<mu> ?w \<le> \<mu> (snd s2)" by (rule ring_runs_downD(5) [OF assms(1)])
        moreover have "0 < \<mu> (snd s2) \<Longrightarrow> \<mu> ?w < \<mu> (snd s2) \<or> fst (ro_next os ?w) \<noteq> None"
          by (rule ring_runs_downD(8) [OF assms(1)])
        moreover from False eff have "0 < \<mu> (snd s1)" "\<mu> (snd s2) \<le> \<mu> (snd s1)" by simp_all
        moreover have "fst (ro_next os (snd s)) \<noteq> None \<Longrightarrow> \<mu> (snd s1) < \<mu> (snd s)"
          by (rule drain_ring_progress [OF d assms(1)])
        ultimately have lt: "ring_measure os \<mu> (snd (fst s2, ?w)) < ring_measure os \<mu> (snd s)"
          using m1 unfolding snd_conv ring_measure_def by (cases "\<mu> (snd s2) = 0") (auto split: if_splits)
        from less.hyps [OF lt] False eff a1 step show ?thesis by simp
      qed
    next
      case False
      with True d eb_next_event_queued [of s1 os] show ?thesis
        by (simp add: eb_next_event.simps [of os s])
    qed
  next
    case False
    then show ?thesis using eb_next_event_queued [of s os] eb_next_event_finished [OF assms(1), of s] by blast
  qed
qed

subsection \<open>A scripted ring\<close>

text \<open>
  A concrete world: what is still to come, samples and the pauses between them; the program
  exits with status 3 when nothing is.
\<close>

definition scripted_ring :: "u8 list option list ring_os" where
  "scripted_ring =
     \<lparr>ro_next = (\<lambda>w. case w of Some item # rest \<Rightarrow> (Some item, rest) | _ \<Rightarrow> (None, w)),
      ro_waitpid_nohang = (\<lambda>p w. (Inr (if w = [] then Exited p 3 else StillAlive), w)),
      ro_kill0 = (\<lambda>p w. (if w = [] then Inl 3 else Inr (), w)),
      ro_poll = (\<lambda>n w. drop 1 w)\<rparr>"

definition watching :: "ebpf_tracer" where
  "watching = \<lparr>eb_leader = Some 7, eb_baseline = 100, eb_child = Some 7, eb_watch = [], eb_queue = [],
     eb_current = None, eb_finished = False\<rparr>"

declare scripted_ring_def [exec] watching_def [exec] item_entry_def [exec] entries_def [exec] exit_entry_def [exec]

lemma scripted_ring_runs_down: "ring_runs_down scripted_ring length"
  by (auto simp: ring_runs_down_def scripted_ring_def quiet_def EPERM_def split: list.splits option.splits)

subsection \<open>The contract of a tracer\<close>

text \<open>
  What is left of a session: the events queued, the samples and waits to come, and the exit
  unless it is already reported.
\<close>

definition eb_left :: "('w \<Rightarrow> nat) \<Rightarrow> ebpf_tracer \<times> 'w \<Rightarrow> nat" where
  "eb_left \<mu> s = length (eb_queue (fst s)) + \<mu> (snd s) + (if eb_finished (fst s) then 0 else 1)"

lemma length_item_entry: "length (item_entry b item) \<le> 1"
  by (simp add: item_entry_def split: option.split)

lemma drain_ring_left:
  assumes "drain_ring os s = Some s'" "ring_runs_down os \<mu>"
  shows "length (eb_queue (fst s')) + \<mu> (snd s') \<le> length (eb_queue (fst s)) + \<mu> (snd s)
    \<and> eb_finished (fst s') = eb_finished (fst s) \<and> eb_child (fst s') = eb_child (fst s)
    \<and> eb_watch (fst s') = eb_watch (fst s) \<and> eb_leader (fst s') = eb_leader (fst s)"
  using assms
proof (induction rule: drain_ring.raw_induct [rotated, consumes 1, case_names loop])
  case (loop drain os s s')
  obtain r w where r: "ro_next os (snd s) = (r, w)" by (cases "ro_next os (snd s)") blast
  show ?case
  proof (cases r)
    case None
    with loop(2) r ring_runs_downD(2) [OF loop(3)] show ?thesis by auto
  next
    case (Some item)
    with loop(2) r have "drain os (push_item item (fst s), w) = Some s'" by simp
    from loop(1) [OF this loop(3)] length_item_entry [of "eb_baseline (fst s)" item]
      ring_runs_downD(1) [OF loop(3)] r Some
    show ?thesis by (fastforce simp: push_item_eq)
  qed
qed

lemma enqueue_exit_left:
  assumes "enqueue_exit os code (t, w) = Some s'" "ring_runs_down os \<mu>" "\<not> eb_finished t" "\<mu> w \<le> n"
  shows "eb_left \<mu> s' \<le> length (eb_queue t) + n + 1 \<and> eb_child (fst s') = eb_child t \<and> eb_watch (fst s') = eb_watch t"
proof -
  from assms(1) obtain t1 w1 where d: "drain_ring os (t, w) = Some (t1, w1)"
    by (auto simp: enqueue_exit_def split: option.splits)
  from drain_ring_left [OF d assms(2)] assms(1,3,4) d show ?thesis
    by (auto simp: enqueue_exit_def eb_left_def Let_def split: option.splits)
qed

lemma liveness_done_left:
  assumes "liveness_done os s = Some (b, s')" "ring_runs_down os \<mu>" "armed (fst s)" "\<not> eb_finished (fst s)"
  shows "eb_left \<mu> s' \<le> eb_left \<mu> s \<and> armed (fst s')"
proof -
  obtain t w where s: "s = (t, w)" by (cases s)
  have over: "eb_left \<mu> s' \<le> eb_left \<mu> s \<and> armed (fst s')"
    if "enqueue_exit os code (t, w') = Some s'" "\<mu> w' \<le> \<mu> w" for code w'
    using enqueue_exit_left [OF that(1) assms(2) _ that(2)] assms(3,4) s
    by (simp add: eb_left_def armed_def)
  have wait: "eb_left \<mu> (t, w') \<le> eb_left \<mu> s" if "\<mu> w' \<le> \<mu> w" for w'
    using that s by (simp add: eb_left_def)
  show ?thesis
  proof (cases "eb_child t")
    case (Some child)
    obtain r w' where r: "ro_waitpid_nohang os child w = (r, w')" by (cases "ro_waitpid_nohang os child w") blast
    note le = ring_runs_downD(3) [OF assms(2) r]
    show ?thesis
    proof (cases "over_status r")
      case True
      with assms(1) s Some r have "\<exists>code. enqueue_exit os code (t, w') = Some s'"
        by (cases r rule: over_code.cases) (auto simp: liveness_done_def)
      with over le show ?thesis by blast
    next
      case False
      with assms(1) s Some r have "s' = (t, w')"
        by (cases r rule: over_code.cases) (auto simp: liveness_done_def)
      with wait [OF le] assms(3) s show ?thesis by simp
    qed
  next
    case None
    with assms(3) s have watch: "eb_watch t \<noteq> []" by (simp add: armed_def)
    obtain d w' where d: "all_dead os (eb_watch t) w = (d, w')" by (cases "all_dead os (eb_watch t) w") blast
    have le: "\<mu> w' \<le> \<mu> w" using all_dead_down [OF assms(2) d] by simp
    show ?thesis
    proof (cases d)
      case True
      with assms(1) s None d watch have "enqueue_exit os 0 (t, w') = Some s'"
        by (auto simp: liveness_done_def)
      from over [OF this le] show ?thesis .
    next
      case False
      with assms(1) s None d watch have "s' = (t, w')" by (auto simp: liveness_done_def)
      with wait [OF le] assms(3) s show ?thesis by simp
    qed
  qed
qed

lemma eb_next_event_left:
  assumes "eb_next_event os s = Some y" "ring_runs_down os \<mu>" "armed (fst s)"
  shows "\<forall>e s'. y = (Inr (Some e), s') \<longrightarrow> eb_left \<mu> s' < eb_left \<mu> s \<and> armed (fst s')"
  using assms
proof (induction rule: eb_next_event.raw_induct [rotated, consumes 1, case_names loop])
  case (loop again os s y)
  show ?case
  proof (cases "eb_queue (fst s)")
    case (Cons x rest)
    with loop(2,4) show ?thesis by (cases x) (auto simp: eb_left_def armed_def)
  next
    case Nil
    with loop(2) obtain s1 where d: "drain_ring os s = Some s1" by (auto split: option.splits)
    from drain_ring_left [OF d loop(3)] loop(4) have le: "eb_left \<mu> s1 \<le> eb_left \<mu> s" and a: "armed (fst s1)"
      by (auto simp: eb_left_def armed_def)
    show ?thesis
    proof (cases "eb_queue (fst s1) = [] \<and> \<not> eb_finished (fst s1)")
      case False
      with loop(2) Nil d consider "again os s1 = Some y" | "y = (Inr None, s1)" by (auto split: if_splits)
      then show ?thesis
      proof cases
        case 1
        from loop(1) [OF this loop(3) a] le show ?thesis by auto
      qed simp
    next
      case True
      with loop(2) Nil d obtain b s2 where l: "liveness_done os s1 = Some (b, s2)" by (auto split: option.splits)
      from liveness_done_left [OF l loop(3) a] True have le2: "eb_left \<mu> s2 \<le> eb_left \<mu> s1" and a2: "armed (fst s2)"
        by auto
      let ?s3 = "if b then s2 else (fst s2, ro_poll os 100 (snd s2))"
      have "\<mu> (ro_poll os 100 (snd s2)) \<le> \<mu> (snd s2)" using ring_runs_downD(5) [OF loop(3), of "snd s2"] by simp
      then have le3: "eb_left \<mu> ?s3 \<le> eb_left \<mu> s2" by (simp add: eb_left_def)
      have "again os ?s3 = Some y" using loop(2) Nil d True l by (auto split: if_splits)
      moreover have "armed (fst ?s3)" using a2 by simp
      ultimately have IH: "\<forall>e s'. y = (Inr (Some e), s') \<longrightarrow> eb_left \<mu> s' < eb_left \<mu> ?s3 \<and> armed (fst s')"
        using loop(1) loop(3) by blast
      show ?thesis
      proof (intro allI impI)
        fix e s'
        assume "y = (Inr (Some e), s')"
        with IH have "eb_left \<mu> s' < eb_left \<mu> ?s3 \<and> armed (fst s')" by blast
        with le le2 le3 show "eb_left \<mu> s' < eb_left \<mu> s \<and> armed (fst s')" by linarith
      qed
    qed
  qed
qed

text \<open>While the ring runs down, an armed tracer fulfils the contract of a tracer that ends.\<close>

interpretation eb: finite_tracer "eb_next_event os" "\<lambda>s. ring_runs_down os \<mu> \<and> armed (fst s)" "eb_left \<mu>"
  for os :: "'w ring_os" and \<mu>
proof
  fix s s' :: "ebpf_tracer \<times> 'w" and e
  assume g: "ring_runs_down os \<mu> \<and> armed (fst s)"
  then show "eb_next_event os s \<noteq> None" using eb_next_event_total [of os \<mu> s] by auto
  assume "eb_next_event os s = Some (Inr (Some e), s')"
  from eb_next_event_left [OF this, of \<mu>] g
  show "(ring_runs_down os \<mu> \<and> armed (fst s')) \<and> eb_left \<mu> s' < eb_left \<mu> s" by blast
qed

subsection \<open>Properties\<close>

text \<open>
  A tracer that watches something always gets an answer, when only finitely many samples
  and waits remain before the program is over.
\<close>

lemma ebpf_loop_ends:
  assumes "ring_runs_down os \<mu>" "armed (fst s)"
  shows "\<exists>y. eb_next_event os s = Some y"
  by (rule eb_next_event_total [OF assms])

text \<open>
  The trace is over as soon as the spawned program has exited and the ring is empty, even
  when tasks it forked are still running and still traced: the exit is reported and the next
  call says that tracing is complete.
\<close>

lemma ebpf_ends_with_leader:
  assumes "eb_queue t = []" "\<not> eb_finished t" "eb_child t = Some c" "eb_leader t = Some l"
    and "ro_next os w = (None, w1)" "ro_waitpid_nohang os c w1 = (Inr (Exited c code), w2)"
    and "ro_next os w2 = (None, w3)" "ro_next os w3 = (None, w4)"
  shows "eb_next_event os (t, w) = Some (Inr (Some (ProcessExit l code)), (t\<lparr>eb_current := None, eb_finished := True\<rparr>, w3))
    \<and> eb_next_event os (t\<lparr>eb_current := None, eb_finished := True\<rparr>, w3) =
        Some (Inr None, (t\<lparr>eb_current := None, eb_finished := True\<rparr>, w4))"
  using assms
  by (simp add: eb_next_event.simps drain_ring.simps liveness_done_def enqueue_exit_def)

end
