(* ===== verification/Ebpf_Setup.thy ===== *)
theory Ebpf_Setup
  imports Ebpf_Session Common_Table
begin

section \<open>The eBPF backend: setting up (\<^verbatim>\<open>crates/syren-trace/src/ebpf.rs\<close>)\<close>

text \<open>
  Probing for privileges, loading and attaching the in-kernel programs, filling their maps
  and starting or adopting the traced program.  The \<^verbatim>\<open>aya\<close> library and the operating system
  are a record of calls over a world of their own; the text of a library error comes with
  the failed call.
\<close>

subsection \<open>What is called\<close>

record 'w setup_os =
  so_btf_exists :: "'w \<Rightarrow> bool \<times> 'w"
  so_geteuid :: "'w \<Rightarrow> u32 \<times> 'w"
  so_self_status :: "'w \<Rightarrow> string option \<times> 'w"
  so_setrlimit :: "'w \<Rightarrow> 'w"
  so_load :: "'w \<Rightarrow> (string + unit) \<times> 'w"
  so_program :: "string \<Rightarrow> 'w \<Rightarrow> bool \<times> 'w"
  so_as_tracepoint :: "string \<Rightarrow> 'w \<Rightarrow> (string + unit) \<times> 'w"
  so_prog_load :: "string \<Rightarrow> 'w \<Rightarrow> (string + unit) \<times> 'w"
  so_prog_attach :: "string \<Rightarrow> string \<Rightarrow> string \<Rightarrow> 'w \<Rightarrow> (string + unit) \<times> 'w"
  so_map :: "string \<Rightarrow> 'w \<Rightarrow> bool \<times> 'w"
  so_map_as :: "string \<Rightarrow> 'w \<Rightarrow> (string + unit) \<times> 'w"
  so_patharg_set :: "u32 \<Rightarrow> u8 \<Rightarrow> 'w \<Rightarrow> (string + unit) \<times> 'w"
  so_target_insert :: "u32 \<Rightarrow> u8 \<Rightarrow> 'w \<Rightarrow> (string + unit) \<times> 'w"
  so_clock :: "'w \<Rightarrow> (i64 \<times> i64) \<times> 'w"
  so_metadata :: "string \<Rightarrow> 'w \<Rightarrow> (bool \<times> u32) option \<times> 'w"
  so_path_var :: "'w \<Rightarrow> string option \<times> 'w"
  so_pipe2 :: "'w \<Rightarrow> (string + i32 \<times> i32) \<times> 'w"
  so_fork :: "string \<Rightarrow> string list \<Rightarrow> i32 \<Rightarrow> 'w \<Rightarrow> (i32 + i32) \<times> 'w"
  so_write :: "i32 \<Rightarrow> u8 list \<Rightarrow> 'w \<Rightarrow> 'w"
  so_close :: "i32 \<Rightarrow> 'w \<Rightarrow> 'w"

subsection \<open>Privileges\<close>

text \<open>\<^verbatim>\<open>read_cap_eff\<close>: the effective capabilities, a hexadecimal number in the status file.\<close>

definition find_cap_eff :: "string \<Rightarrow> u64 option" where
  "find_cap_eff status =
     (case List.find (\<lambda>l. strip_prefix ''CapEff:'' l \<noteq> None) (str_lines status) of
        None \<Rightarrow> None
      | Some l \<Rightarrow> (case strip_prefix ''CapEff:'' l of
                    None \<Rightarrow> None
                  | Some rest \<Rightarrow> map_option of_nat (parse_uint 64 16 (trim rest))))"

definition read_cap_eff :: "'w setup_os \<Rightarrow> 'w \<Rightarrow> u64 option \<times> 'w" where
  "read_cap_eff os w =
     (case so_self_status os w of (status, w') \<Rightarrow> (Option.bind status find_cap_eff, w'))"

definition has_bpf_capability :: "'w setup_os \<Rightarrow> 'w \<Rightarrow> bool \<times> 'w" where
  "has_bpf_capability os w =
     (case so_geteuid os w of (uid, w1) \<Rightarrow>
        if uid = 0 then (True, w1)
        else case read_cap_eff os w1 of
          (None, w2) \<Rightarrow> (False, w2)
        | (Some eff, w2) \<Rightarrow> (drop_bit 21 eff AND 1 = 1 \<or> drop_bit 39 eff AND 1 = 1, w2))"

definition probe :: "'w setup_os \<Rightarrow> ('t \<times> 'w, unit) op" where
  "probe os =
     seq (ask (so_btf_exists os)) (\<lambda>btf.
     if \<not> btf then fail (EbpfUnsupported ''kernel BTF (/sys/kernel/btf/vmlinux) is required but missing'')
     else seq (ask (has_bpf_capability os)) (\<lambda>cap.
       if \<not> cap then fail (EbpfUnsupported ''loading BPF needs root or CAP_BPF (try sudo)'')
       else ret ()))"

definition raise_memlock :: "'w setup_os \<Rightarrow> ('t \<times> 'w, unit) op" where
  "raise_memlock os = act (so_setrlimit os)"

definition monotonic_ns :: "'w setup_os \<Rightarrow> ('t \<times> 'w, u64) op" where
  "monotonic_ns os = seq (ask (so_clock os)) (\<lambda>(sec, nsec). ret (sec * 1000000000 + nsec))"

subsection \<open>Programs and maps\<close>

definition attach_tracepoint ::
    "'w setup_os \<Rightarrow> string \<Rightarrow> string \<Rightarrow> string \<Rightarrow> ('t \<times> 'w, unit) op" where
  "attach_tracepoint os prog_name category event =
     seq (ask (so_program os prog_name)) (\<lambda>present.
     if \<not> present then fail (EbpfUnsupported (''program `'' @ prog_name @ ''` missing''))
     else
       seq (sys_as (\<lambda>e. EbpfUnsupported (''`'' @ prog_name @ ''` is not a tracepoint: '' @ e))
              (so_as_tracepoint os prog_name)) (\<lambda>_.
       seq (sys_as (\<lambda>e. EbpfUnsupported (''loading `'' @ prog_name @ ''`: '' @ e))
              (so_prog_load os prog_name)) (\<lambda>_.
       sys_as (\<lambda>e. EbpfUnsupported (''attaching `'' @ prog_name @ ''`: '' @ e))
         (so_prog_attach os prog_name category event))))"

text \<open>\<^verbatim>\<open>map_mut\<close> (or \<^verbatim>\<open>take_map\<close>) and the conversion to a typed map.\<close>

definition open_map :: "'w setup_os \<Rightarrow> string \<Rightarrow> string \<Rightarrow> ('t \<times> 'w, unit) op" where
  "open_map os name what =
     seq (ask (so_map os name)) (\<lambda>present.
     if \<not> present then fail (EbpfUnsupported (name @ '' map missing''))
     else sys_as (\<lambda>e. EbpfUnsupported (name @ what @ '': '' @ e)) (so_map_as os name))"

definition path_arg_slot :: "syscall_info \<Rightarrow> u8 option" where
  "path_arg_slot s =
     (if si_name s = ''execve'' \<or> si_name s = ''execveat'' then None
      else case position (\<lambda>a. ai_ty a = TyPath) (si_args s) of
        None \<Rightarrow> None
      | Some idx \<Rightarrow> if si_number s < MAX_SYSCALLS \<and> idx < 6 then Some (of_nat (idx + 1)) else None)"

definition set_patharg :: "'w setup_os \<Rightarrow> syscall_info \<Rightarrow> ('t \<times> 'w, unit) op" where
  "set_patharg os s =
     (case path_arg_slot s of
        None \<Rightarrow> ret ()
      | Some slot \<Rightarrow>
          sys_as (\<lambda>e. EbpfUnsupported (''PATHARG['' @ dec (unat (si_number s)) @ '']: '' @ e))
            (so_patharg_set os (si_number s) slot))"

definition populate_patharg :: "'w setup_os \<Rightarrow> syscall_info list \<Rightarrow> ('t \<times> 'w, unit) op" where
  "populate_patharg os T =
     seq (open_map os ''PATHARG'' '' map'') (\<lambda>_. each (set_patharg os) T)"

definition arm :: "'w setup_os \<Rightarrow> u32 list \<Rightarrow> ('t \<times> 'w, unit) op" where
  "arm os tids =
     seq (open_map os ''TARGETS'' '' map'') (\<lambda>_.
     each (\<lambda>tid. sys_as (\<lambda>e. EbpfUnsupported (''seeding TARGETS: '' @ e)) (so_target_insert os tid 1)) tids)"

subsection \<open>The program to run\<close>

text \<open>The mode is tested against 0o111, the three execute bits.\<close>

definition is_executable :: "'w setup_os \<Rightarrow> string \<Rightarrow> 'w \<Rightarrow> bool \<times> 'w" where
  "is_executable os path w =
     (case so_metadata os path w of
        (None, w') \<Rightarrow> (False, w')
      | (Some (is_file, mode), w') \<Rightarrow> (is_file \<and> mode AND 73 \<noteq> 0, w'))"

text \<open>\<^verbatim>\<open>Path::join\<close> of a directory and a relative name, and \<^verbatim>\<open>split_paths\<close>.\<close>

definition path_join :: "string \<Rightarrow> string \<Rightarrow> string" where
  "path_join dir p =
     (if dir = [] then p else if last dir = CHR ''/'' then dir @ p else dir @ ''/'' @ p)"

definition split_paths :: "string \<Rightarrow> string list" where
  "split_paths s = split_by (\<lambda>c. c = CHR '':'') s"

fun any_executable :: "'w setup_os \<Rightarrow> string list \<Rightarrow> string \<Rightarrow> 'w \<Rightarrow> bool \<times> 'w" where
  "any_executable os [] program w = (False, w)"
| "any_executable os (dir # dirs) program w =
     (case is_executable os (path_join dir program) w of
        (True, w') \<Rightarrow> (True, w') | (False, w') \<Rightarrow> any_executable os dirs program w')"

definition resolve_program :: "'w setup_os \<Rightarrow> string \<Rightarrow> ('t \<times> 'w, unit) op" where
  "resolve_program os program =
     seq (ask (\<lambda>w.
            if CHR ''/'' \<in> set program then is_executable os program w
            else case so_path_var os w of
              (None, w') \<Rightarrow> (False, w')
            | (Some paths, w') \<Rightarrow> any_executable os (split_paths paths) program w')) (\<lambda>found.
     if found then ret () else fail (SpawnFailed program ENOENT))"

subsection \<open>Spawning and attaching\<close>

text \<open>
  The child of the fork blocks on the pipe until a byte arrives or the write end is closed,
  then executes the program; the parent arms the filter first.
\<close>

definition arm_and_release :: "'w setup_os \<Rightarrow> i32 \<Rightarrow> u32 \<Rightarrow> (ebpf_tracer \<times> 'w, unit) op" where
  "arm_and_release os write_fd tid s =
     (case arm os [tid] s of
        (armed_result, (t, w)) \<Rightarrow> (armed_result, (t, so_close os write_fd (so_write os write_fd [1] w))))"

definition eb_spawn ::
    "'w setup_os \<Rightarrow> string \<Rightarrow> string list \<Rightarrow> (ebpf_tracer \<times> 'w, unit) op" where
  "eb_spawn os program args =
     seq (resolve_program os program) (\<lambda>_.
     seq (cstring program) (\<lambda>prog_c. seq (cstrings (program # args)) (\<lambda>argv.
     seq (sys_as (\<lambda>e. OtherFailure (''pipe2: '' @ e)) (so_pipe2 os)) (\<lambda>(read_fd, write_fd).
     seq (sys (so_fork os prog_c argv read_fd)) (\<lambda>child.
     seq (act (so_close os read_fd)) (\<lambda>_.
     seq (modify (\<lambda>t. t\<lparr>eb_leader := Some child, eb_child := Some child\<rparr>)) (\<lambda>_.
     arm_and_release os write_fd child)))))))"

definition eb_attach :: "'w setup_os \<Rightarrow> i32 list \<Rightarrow> (ebpf_tracer \<times> 'w, unit) op" where
  "eb_attach os pids =
     (case pids of
        [] \<Rightarrow> fail (OtherFailure ''no pids supplied to attach to'')
      | p # _ \<Rightarrow>
          seq (modify (\<lambda>t. t\<lparr>eb_leader := Some p, eb_watch := pids\<rparr>)) (\<lambda>_. arm os pids))"

definition eb_empty :: "u64 \<Rightarrow> ebpf_tracer" where
  "eb_empty baseline =
     \<lparr>eb_leader = None, eb_baseline = baseline, eb_child = None, eb_watch = [], eb_queue = [],
      eb_current = None, eb_finished = False\<rparr>"

text \<open>What \<^verbatim>\<open>new\<close> does before there is a tracer; it yields the baseline of the clock.\<close>

definition eb_prepare :: "'w setup_os \<Rightarrow> syscall_info list \<Rightarrow> bool \<Rightarrow> (unit \<times> 'w, u64) op" where
  "eb_prepare os T follow =
     seq (probe os) (\<lambda>_. seq (raise_memlock os) (\<lambda>_.
     seq (sys_as (\<lambda>e. EbpfUnsupported (''loading BPF object: '' @ e)) (so_load os)) (\<lambda>_.
     seq (attach_tracepoint os ''sys_enter'' ''raw_syscalls'' ''sys_enter'') (\<lambda>_.
     seq (attach_tracepoint os ''sys_exit'' ''raw_syscalls'' ''sys_exit'') (\<lambda>_.
     seq (if follow then attach_tracepoint os ''sched_process_fork'' ''sched'' ''sched_process_fork''
          else ret ()) (\<lambda>_.
     seq (populate_patharg os T) (\<lambda>_.
     seq (open_map os ''EVENTS'' '' ring buffer'') (\<lambda>_. monotonic_ns os))))))))"

definition eb_new ::
    "'w setup_os \<Rightarrow> syscall_info list \<Rightarrow> target \<Rightarrow> trace_options \<Rightarrow> 'w \<Rightarrow> (trace_error + ebpf_tracer) \<times> 'w" where
  "eb_new os T tgt opts w =
     (case eb_prepare os T (follow_forks opts) ((), w) of
        (Inl e, (_, w1)) \<Rightarrow> (Inl e, w1)
      | (Inr baseline, (_, w1)) \<Rightarrow>
          (case (case tgt of Spawn program args \<Rightarrow> eb_spawn os program args
                           | Attach pids \<Rightarrow> eb_attach os pids) (eb_empty baseline, w1) of
             (Inl e, (_, w2)) \<Rightarrow> (Inl e, w2)
           | (Inr _, (t, w2)) \<Rightarrow> (Inr t, w2)))"

declare find_cap_eff_def [exec] read_cap_eff_def [exec] has_bpf_capability_def [exec]
  probe_def [exec] raise_memlock_def [exec] monotonic_ns_def [exec] attach_tracepoint_def [exec]
  open_map_def [exec] path_arg_slot_def [exec] set_patharg_def [exec] populate_patharg_def [exec]
  arm_def [exec] is_executable_def [exec] path_join_def [exec] split_paths_def [exec]
  any_executable.simps [exec] resolve_program_def [exec] arm_and_release_def [exec] eb_spawn_def [exec] eb_attach_def [exec]
  eb_empty_def [exec] eb_prepare_def [exec] eb_new_def [exec]

subsection \<open>Which errors there are\<close>

definition unsupported_only :: "('s, 'a) op \<Rightarrow> bool" where
  "unsupported_only m \<longleftrightarrow> (\<forall>s e s'. m s = (Inl e, s') \<longrightarrow> (\<exists>why. e = EbpfUnsupported why))"

lemma unsupported_basic [intro!]:
  "unsupported_only (ret x)" "unsupported_only (fail (EbpfUnsupported why))" "unsupported_only (ask f)"
  "unsupported_only (modify g)" "unsupported_only (act h)"
  by (simp_all add: unsupported_only_def op_defs split: prod.split)

lemma unsupported_sys_as [intro!]: "unsupported_only (sys_as (\<lambda>e. EbpfUnsupported (k e)) f)"
  by (auto simp: unsupported_only_def sys_as_def split: prod.splits sum.splits)

lemma unsupported_seq [intro!]:
  assumes "unsupported_only m" "\<And>x. unsupported_only (k x)"
  shows "unsupported_only (seq m k)"
  unfolding unsupported_only_def
proof (intro allI impI)
  fix s e s'
  assume eq: "seq m k s = (Inl e, s')"
  obtain r s1 where m: "m s = (r, s1)" by (cases "m s") blast
  show "\<exists>why. e = EbpfUnsupported why"
  proof (cases r)
    case (Inl e')
    with eq m have "m s = (Inl e, s')" by (simp add: seq_def)
    with assms(1) show ?thesis unfolding unsupported_only_def by blast
  next
    case (Inr x)
    with eq m have "k x s1 = (Inl e, s')" by (simp add: seq_def)
    with assms(2) show ?thesis unfolding unsupported_only_def by blast
  qed
qed

lemma unsupported_each [intro!]: "(\<And>x. unsupported_only (f x)) \<Longrightarrow> unsupported_only (each f xs)"
  by (induction xs) auto

lemma unsupported_parts [intro!]:
  "unsupported_only (probe os)" "unsupported_only (raise_memlock os)" "unsupported_only (monotonic_ns os)"
  "unsupported_only (attach_tracepoint os p c e)" "unsupported_only (open_map os n x)"
  "unsupported_only (arm os tids)" "unsupported_only (set_patharg os s)"
  by (auto simp: probe_def raise_memlock_def monotonic_ns_def attach_tracepoint_def open_map_def arm_def
      set_patharg_def split: option.split)

lemma unsupported_prepare: "unsupported_only (eb_prepare os T follow)"
  by (auto simp: eb_prepare_def populate_patharg_def)

subsection \<open>What the operations keep of the tracer\<close>

text \<open>Operations that change the world only.\<close>

definition keeps :: "('t \<times> 'w, 'a) op \<Rightarrow> bool" where
  "keeps m \<longleftrightarrow> (\<forall>s. fst (snd (m s)) = fst s)"

lemma keeps_basic [intro!]:
  "keeps (ret x)" "keeps (fail e)" "keeps (ask f)" "keeps (act h)" "keeps (sys_as mk g)" "keeps (sys g')"
  by (simp_all add: keeps_def op_defs split: prod.split sum.split)

lemma keepsD: "keeps m \<Longrightarrow> m s = (r, s') \<Longrightarrow> fst s' = fst s"
  unfolding keeps_def by (metis snd_conv)

lemma keeps_seq [intro!]:
  assumes "keeps m" "\<And>x. keeps (k x)"
  shows "keeps (seq m k)"
  unfolding keeps_def
proof
  fix s
  obtain r s1 where m: "m s = (r, s1)" by (cases "m s") blast
  show "fst (snd (seq m k s)) = fst s"
  proof (cases r)
    case (Inr x)
    have "fst (snd (k x s1)) = fst s1" using assms(2) [of x] unfolding keeps_def by blast
    with m Inr keepsD [OF assms(1) m] show ?thesis by (simp add: seq_def)
  qed (use m keepsD [OF assms(1) m] in \<open>simp add: seq_def\<close>)
qed

lemma keeps_each [intro!]: "(\<And>x. keeps (f x)) \<Longrightarrow> keeps (each f xs)"
  by (induction xs) auto

lemma keeps_parts [intro!]: "keeps (arm os tids)" "keeps (resolve_program os p)" "keeps (cstring p)"
  by (auto simp: arm_def open_map_def resolve_program_def cstring_def)

lemma keeps_cstrings [intro!]: "keeps (cstrings ps)"
  by (induction ps) auto

text \<open>The end of \<open>eb_spawn\<close>: whatever became of arming, the child is released.\<close>

lemma cstring_ok: "CHR 0x00 \<notin> set p \<Longrightarrow> cstring p = ret p"
  by (simp add: cstring_def)

lemma cstrings_ok: "\<forall>p\<in>set ps. CHR 0x00 \<notin> set p \<Longrightarrow> cstrings ps = ret ps"
  by (induction ps) (auto simp: cstring_ok)

lemma arm_and_release_keeps: "arm_and_release os wfd tid s = (r, s') \<Longrightarrow> fst s' = fst s"
  by (auto simp: arm_and_release_def split: prod.splits dest: keepsD [OF keeps_parts(1)])

lemma eb_spawn_fields:
  assumes "eb_spawn os program args (t, w) = (Inr (), (t', w'))"
  shows "\<exists>child. t' = t\<lparr>eb_leader := Some child, eb_child := Some child\<rparr>"
proof -
  from assms obtain s1 s2 s3 s4 s5 s6 s7 p argv fds child where
    "resolve_program os program (t, w) = (Inr (), s1)" "cstring program s1 = (Inr p, s2)"
    "cstrings (program # args) s2 = (Inr argv, s3)"
    "sys_as (\<lambda>e. OtherFailure (''pipe2: '' @ e)) (so_pipe2 os) s3 = (Inr fds, s4)"
    "sys (so_fork os p argv (fst fds)) s4 = (Inr child, s5)" "act (so_close os (fst fds)) s5 = (Inr (), s6)"
    and m: "modify (\<lambda>t. t\<lparr>eb_leader := Some child, eb_child := Some child\<rparr>) s6 = (Inr (), s7)"
    and a: "arm_and_release os (snd fds) child s7 = (Inr (), (t', w'))"
    by (auto simp: eb_spawn_def seq_Inr)
  then have "fst s6 = t"
    using keepsD [OF keeps_parts(2)] keepsD [OF keeps_parts(3)] keepsD [OF keeps_cstrings]
      keepsD [OF keeps_basic(5)] keepsD [OF keeps_basic(6)] keepsD [OF keeps_basic(4)]
    by (metis fst_conv)
  with m arm_and_release_keeps [OF a] show ?thesis by (auto simp: modify_def)
qed

lemma eb_attach_fields:
  assumes "eb_attach os pids (t, w) = (Inr (), (t', w'))"
  shows "\<exists>p ps. pids = p # ps \<and> t' = t\<lparr>eb_leader := Some p, eb_watch := pids\<rparr>"
  using assms keepsD [OF keeps_parts(1)]
  by (cases pids) (auto simp: eb_attach_def seq_def modify_def fail_def)

subsection \<open>A concrete system\<close>

text \<open>
  A root user on a kernel where everything works, except that the TARGETS map may be
  missing.  The world is a log of the forks and of the bytes written to pipes.
\<close>

definition demo_setup :: "bool \<Rightarrow> string list setup_os" where
  "demo_setup targets_present =
     \<lparr>so_btf_exists = (\<lambda>w. (True, w)), so_geteuid = (\<lambda>w. (0, w)), so_self_status = (\<lambda>w. (None, w)),
      so_setrlimit = (\<lambda>w. w), so_load = (\<lambda>w. (Inr (), w)), so_program = (\<lambda>_ w. (True, w)),
      so_as_tracepoint = (\<lambda>_ w. (Inr (), w)), so_prog_load = (\<lambda>_ w. (Inr (), w)),
      so_prog_attach = (\<lambda>_ _ _ w. (Inr (), w)),
      so_map = (\<lambda>name w. (name \<noteq> ''TARGETS'' \<or> targets_present, w)), so_map_as = (\<lambda>_ w. (Inr (), w)),
      so_patharg_set = (\<lambda>_ _ w. (Inr (), w)), so_target_insert = (\<lambda>_ _ w. (Inr (), w)),
      so_clock = (\<lambda>w. ((1, 5), w)), so_metadata = (\<lambda>_ w. (Some (True, 73), w)),
      so_path_var = (\<lambda>w. (Some ''/bin:/usr/bin'', w)), so_pipe2 = (\<lambda>w. (Inr (3, 4), w)),
      so_fork = (\<lambda>prog _ _ w. (Inr 7, w @ [''fork '' @ prog])),
      so_write = (\<lambda>_ _ w. w @ [''go'']), so_close = (\<lambda>_ w. w)\<rparr>"

definition no_follow :: trace_options where
  "no_follow = \<lparr>follow_forks = False\<rparr>"

declare demo_setup_def [exec] no_follow_def [exec]

lemma eb_new_is_armed:
  assumes "eb_new os T tgt opts w = (Inr t, w')"
  shows "armed t \<and> eb_leader t \<noteq> None \<and> eb_queue t = [] \<and> \<not> eb_finished t"
proof -
  from assms obtain b w1 where
    start: "(case tgt of Spawn program args \<Rightarrow> eb_spawn os program args
        | Attach pids \<Rightarrow> eb_attach os pids) (eb_empty b, w1) = (Inr (), (t, w'))"
    by (auto simp: eb_new_def split: prod.splits sum.splits)
  then show ?thesis
    by (cases tgt) (auto simp: eb_empty_def armed_def dest!: eb_spawn_fields eb_attach_fields)
qed

lemma eb_spawn_releases:
  assumes "resolve_program os program (t, w) = (Inr (), (t, w1))" "\<forall>p\<in>set (program # args). CHR 0x00 \<notin> set p"
    and "so_pipe2 os w1 = (Inr (rfd, wfd), w2)" "so_fork os program (program # args) rfd w2 = (Inr child, w3)"
    and "arm os [child] (t\<lparr>eb_leader := Some child, eb_child := Some child\<rparr>, so_close os rfd w3) = (result, (t', w4))"
  shows "eb_spawn os program args (t, w) = (result, (t', so_close os wfd (so_write os wfd [1] w4)))"
proof -
  have c: "cstring program = ret program" "cstrings (program # args) = ret (program # args)"
    using cstring_ok [of program] cstrings_ok [of "program # args"] assms(2) by simp_all
  show ?thesis
    unfolding eb_spawn_def seq_def [of "resolve_program os program"] assms(1)
    by (simp del: cstrings.simps add: c)
      (simp add: op_defs assms arm_and_release_def)
qed

subsection \<open>Properties\<close>

text \<open>
  Everything that goes wrong before a program is spawned or adopted is reported as
  unsupported, the cue for falling back to ptrace, whichever step of probing, loading,
  attaching or filling the maps it was.
\<close>

lemma prepare_errors:
  assumes "eb_prepare os T follow s = (Inl e, s')"
  shows "\<exists>why. e = EbpfUnsupported why"
  using unsupported_prepare [of os T follow] assms unfolding unsupported_only_def by blast

text \<open>
  The probe succeeds exactly when the kernel has type information and the process is
  root or holds CAP_SYS_ADMIN (bit 21) or CAP_BPF (bit 39).
\<close>

lemma probe_succeeds_iff:
  "fst (probe os (t, w)) = Inr () \<longleftrightarrow>
     (let (btf, w1) = so_btf_exists os w; (uid, w2) = so_geteuid os w1; (eff, w3) = read_cap_eff os w2
      in btf \<and> (uid = 0 \<or> (\<exists>caps. eff = Some caps \<and> (bit caps 21 \<or> bit caps 39))))"
proof -
  have b: "drop_bit n x AND 1 = 1 \<longleftrightarrow> bit x n" for n and x :: u64
    by (simp add: and_one_eq mod_2_eq_odd bit_iff_odd_drop_bit)
  show ?thesis
    by (auto simp: probe_def seq_def ask_def fail_def ret_def has_bpf_capability_def b
        split: prod.split option.split)
qed

text \<open>
  Once the child is forked the filter is armed first and the child is released
  afterwards, whether or not arming succeeded: the result is that of arming, and the program
  runs in either case.
\<close>

lemma spawn_arms_then_releases:
  assumes "resolve_program os program (t, w) = (Inr (), (t, w1))" "\<forall>p\<in>set (program # args). CHR 0x00 \<notin> set p"
    and "so_pipe2 os w1 = (Inr (rfd, wfd), w2)" "so_fork os program (program # args) rfd w2 = (Inr child, w3)"
    and "arm os [child] (t\<lparr>eb_leader := Some child, eb_child := Some child\<rparr>, so_close os rfd w3) = (result, (t', w4))"
  shows "eb_spawn os program args (t, w) = (result, (t', so_close os wfd (so_write os wfd [1] w4)))"
  using assms by (rule eb_spawn_releases)

end
