(* ===== verification/Ebpf_Paths.thy ===== *)
theory Ebpf_Paths
  imports Kernel_Ebpf Ebpf_Setup Decode_Lib
begin

section \<open>Path arguments from the kernel to the screen\<close>

text \<open>
  How the parts of the eBPF backend work together on a path argument: the slot table the
  set-up writes, the string the kernel program copies, the sample, and the memory reader the
  decoder is given.  The rendering is that of a reader of the live memory.
\<close>

subsection \<open>The slot table\<close>

definition put_slot :: "syscall_info \<Rightarrow> u8 list \<Rightarrow> u8 list" where
  "put_slot s a = (case path_arg_slot s of None \<Rightarrow> a | Some v \<Rightarrow> a[unat (si_number s) := v])"

definition patharg_of :: "syscall_info list \<Rightarrow> u8 list" where
  "patharg_of T = fold put_slot T (replicate 512 0)"

text \<open>A system whose PATHARG map is an array of 512 bytes.\<close>

definition array_set :: "u32 \<Rightarrow> u8 \<Rightarrow> u8 list \<Rightarrow> (string + unit) \<times> u8 list" where
  "array_set i v a =
     (if unat i < length a then (Inr (), a[unat i := v]) else (Inl ''Argument list too long'', a))"

lemma length_put_slot [simp]: "length (put_slot s a) = length a"
  by (simp add: put_slot_def split: option.split)

lemma length_fold_put_slot [simp]: "length (fold put_slot T a) = length a"
  by (induction T arbitrary: a) simp_all

lemma path_arg_slot_number: "path_arg_slot s = Some v \<Longrightarrow> unat (si_number s) < 512"
  by (auto simp: path_arg_slot_def MAX_SYSCALLS_def word_less_nat_alt split: if_splits option.splits)

lemma path_arg_slot_range:
  assumes "path_arg_slot s = Some v"
  shows "\<exists>idx. position (\<lambda>a. ai_ty a = TyPath) (si_args s) = Some idx \<and> idx < 6 \<and> v = of_nat (idx + 1)"
  using assms by (auto simp: path_arg_slot_def split: if_splits option.splits)

text \<open>\<open>populate_patharg\<close> fills the array with the slots of the table.\<close>

lemma each_set_patharg:
  assumes "so_patharg_set os = array_set" "length a = 512"
  shows "each (set_patharg os) T (t, a) = (Inr (), (t, fold put_slot T a))"
  using assms(2)
proof (induction T arbitrary: a)
  case (Cons s T)
  have "set_patharg os s (t, a) = (Inr (), (t, put_slot s a))"
  proof (cases "path_arg_slot s")
    case (Some v)
    with path_arg_slot_number [OF Some] Cons.prems show ?thesis
      by (simp add: set_patharg_def put_slot_def sys_as_def assms(1) array_set_def)
  qed (simp add: set_patharg_def put_slot_def ret_def)
  with Cons show ?case by (simp add: seq_def)
qed (simp add: ret_def)

lemma fold_put_slot_other:
  "\<forall>s\<in>set T. unat (si_number s) \<noteq> i \<Longrightarrow> fold put_slot T a ! i = a ! i"
  by (induction T arbitrary: a) (auto simp: put_slot_def split: option.split)

lemma fold_put_slot_nth:
  "table_sorted T \<Longrightarrow> s \<in> set T \<Longrightarrow> unat (si_number s) < length a \<Longrightarrow>
     fold put_slot T a ! unat (si_number s) = (case path_arg_slot s of Some v \<Rightarrow> v | None \<Rightarrow> a ! unat (si_number s))"
proof (induction T arbitrary: a)
  case (Cons x T)
  have sorted: "table_sorted T" and less: "\<forall>y\<in>set T. si_number x < si_number y"
    using Cons.prems(1) by (auto simp: table_sorted_def)
  show ?case
  proof (cases "s = x")
    case True
    have "\<forall>y\<in>set T. unat (si_number y) \<noteq> unat (si_number s)"
      using less True by (auto simp: word_less_nat_alt)
    from fold_put_slot_other [OF this, of "put_slot x a"] True
    have "fold put_slot (x # T) a ! unat (si_number s) = put_slot s a ! unat (si_number s)" by simp
    moreover have "put_slot s a ! unat (si_number s)
        = (case path_arg_slot s of Some v \<Rightarrow> v | None \<Rightarrow> a ! unat (si_number s))"
      using Cons.prems(3) by (cases "path_arg_slot s") (simp_all add: put_slot_def)
    ultimately show ?thesis by simp
  next
    case False
    with Cons.prems(2) have s: "s \<in> set T" by simp
    with less have "unat (si_number x) \<noteq> unat (si_number s)" by (auto simp: word_less_nat_alt)
    then have "put_slot x a ! unat (si_number s) = a ! unat (si_number s)"
      by (simp add: put_slot_def split: option.split)
    with Cons.IH [OF sorted s, of "put_slot x a"] Cons.prems(3) show ?thesis
      by (cases "path_arg_slot s") simp_all
  qed
qed simp

lemma patharg_of_nth:
  assumes "table_sorted T" "s \<in> set T" "path_arg_slot s = Some v"
  shows "patharg_of T ! unat (si_number s) = v \<and> length (patharg_of T) = 512"
  using fold_put_slot_nth [OF assms(1,2), of "replicate 512 0"] path_arg_slot_number [OF assms(3)] assms(3)
  by (simp add: patharg_of_def)

subsection \<open>Strings in memory\<close>

lemma take_cstr_at: "take n (cstr_at mapped mem m addr) = cstr_at mapped mem (min n m) addr"
proof (induction m arbitrary: n addr)
  case (Suc m)
  then show ?case by (cases n) auto
qed simp

lemma cstr_at_mapped:
  assumes "\<And>i. i \<le> length (cstr_at (\<lambda>_. True) mem n addr) \<Longrightarrow> mapped (addr + of_nat i)"
  shows "cstr_at mapped mem n addr = cstr_at (\<lambda>_. True) mem n addr"
  using assms
proof (induction n arbitrary: addr)
  case (Suc n)
  show ?case
  proof (cases "mem addr = 0")
    case False
    have "mapped (addr + 1 + of_nat i)" if "i \<le> length (cstr_at (\<lambda>_. True) mem n (addr + 1))" for i
      using Suc.prems [of "Suc i"] that False by (simp add: add.commute add.left_commute)
    from Suc.IH [OF this] Suc.prems [of 0] False show ?thesis by simp
  qed (use Suc.prems [of 0] in simp)
qed simp

lemma cstr_at_no_nul: "0 \<notin> set (cstr_at mapped mem n addr)"
  by (induction n arbitrary: addr) auto

lemma length_cstr_at: "length (cstr_at mapped mem n addr) \<le> n"
  by (induction n arbitrary: addr) auto

lemma quote_bytes_take:
  assumes "take 33 bs = take 33 cs"
  shows "quote_bytes bs = quote_bytes cs"
proof -
  have "take 32 bs = take 32 cs" using arg_cong [OF assms, of "take 32"] by simp
  moreover have "min 33 (length bs) = min 33 (length cs)" using arg_cong [OF assms, of length] by (simp add: min.commute)
  ultimately show ?thesis by (simp add: quote_bytes_def MAX_STR_def min_def split: if_splits)
qed

subsection \<open>The kernel's copy\<close>

text \<open>
  What the probe helper documents: of a string whose bytes, up to and including its
  terminator or the 128th, are mapped, it copies at most 127 into the buffer, terminates
  them, and returns them without the terminator.
\<close>

definition kernel_str :: "(u64 \<Rightarrow> u8) \<Rightarrow> u64 \<Rightarrow> u8 list" where
  "kernel_str mem addr = cstr_at (\<lambda>_. True) mem 127 addr"

definition str_mapped :: "(u64 \<Rightarrow> bool) \<Rightarrow> (u64 \<Rightarrow> u8) \<Rightarrow> u64 \<Rightarrow> bool" where
  "str_mapped mapped mem addr \<longleftrightarrow> (\<forall>i \<le> length (kernel_str mem addr). mapped (addr + of_nat i))"

definition probe_copies :: "kenv \<Rightarrow> (u64 \<Rightarrow> bool) \<Rightarrow> (u64 \<Rightarrow> u8) \<Rightarrow> bool" where
  "probe_copies env mapped mem \<longleftrightarrow>
     (\<forall>addr dst. length dst = CAP_BYTES \<longrightarrow> str_mapped mapped mem addr \<longrightarrow>
        kv_probe env addr dst = (Inr (kernel_str mem addr),
          kernel_str mem addr @ [0] @ drop (length (kernel_str mem addr) + 1) dst))"

lemma length_kernel_str: "length (kernel_str mem addr) \<le> 127"
  using length_cstr_at by (simp add: kernel_str_def)

lemma capture_path_copies:
  assumes "probe_copies env mapped mem" "str_mapped mapped mem addr" "rec_ok r"
    and "unat (ucast (e_nr en) :: u32) = n" "n < 512" "length pa = 512" "pa ! n = of_nat (idx + 1)" "idx < 6"
    and "addr = args_list (e_args en) ! idx" "addr \<noteq> 0"
  shows "record_capture (capture_path env pa en r) = Some \<lparr>cap_addr = addr, cap_bytes = kernel_str mem addr @ [0]\<rparr>
     \<and> rec_ok (capture_path env pa en r)"
proof -
  let ?s = "kernel_str mem addr"
  have len: "length ?s \<le> 127" by (rule length_kernel_str)
  have nr: "\<not> MAX_SYSCALLS \<le> (ucast (e_nr en) :: u32)"
    using assms(4,5) by (simp add: MAX_SYSCALLS_def word_le_nat_alt)
  have i: "unat (of_nat (idx + 1) :: u8) = idx + 1" using assms(8) unfolding unat_of_nat by simp
  then have i0: "(of_nat (idx + 1) :: u8) \<noteq> 0" and i6: "(of_nat (idx + 1) :: u8) \<le> 6"
    and im: "unat ((of_nat (idx + 1) :: u8) - 1) = idx"
    using assms(8) by (auto simp: word_le_nat_alt unat_eq_0 [symmetric] unat_of_nat)
  have p: "kv_probe env addr (rec_cap r) = (Inr ?s, ?s @ [0] @ drop (length ?s + 1) (rec_cap r))"
    using assms(1-3) by (simp add: probe_copies_def rec_ok_def)
  have eq: "capture_path env pa en r = r\<lparr>rec_cap := ?s @ [0] @ drop (length ?s + 1) (rec_cap r),
      rec_cap_addr := addr, rec_cap_len := of_nat (length ?s + 1)\<rparr>"
    unfolding capture_path_def Let_def if_not_P [OF nr] assms(4)
    using assms(5-10) i0 i6 im p len by (simp add: CAP_BYTES_def)
  have l: "unat (of_nat (length ?s + 1) :: u32) = length ?s + 1" using len unfolding unat_of_nat by simp
  then have "0 < (of_nat (length ?s + 1) :: u32)" by (simp add: word_less_nat_alt)
  then show ?thesis
    using len l assms(3) unfolding eq by (simp add: record_capture_def captured_def rec_ok_def CAP_BYTES_def)
qed

subsection \<open>Reading it back\<close>

lemma ebpf_read_capture:
  assumes "unat addr + length bs < 2 ^ 64" "bs \<noteq> []" "length bs \<le> len"
  shows "ebpf_read open_mem tid (Some \<lparr>cap_addr = addr, cap_bytes = bs\<rparr>) addr len = Some bs"
proof -
  have "unat (addr + of_nat (length bs)) = unat addr + length bs"
    using assms(1) by (simp add: unat_word_ariths unat_of_nat)
  then have "addr < addr + of_nat (length bs)" using assms(2) by (simp add: word_less_nat_alt)
  then show ?thesis using assms(3) by (simp add: ebpf_read_def)
qed

lemma position_append_zero: "0 \<notin> set s \<Longrightarrow> position (\<lambda>b. b = 0) (s @ [0 :: u8]) = Some (length s)"
  by (induction s) auto

lemma read_cstr_capture:
  assumes "unat addr + 128 < 2 ^ 64" "addr \<noteq> 0"
  shows "read_cstr (ebpf_read open_mem tid (Some \<lparr>cap_addr = addr, cap_bytes = kernel_str mem addr @ [0]\<rparr>)) addr PATH_CAP
     = Some (kernel_str mem addr)"
proof -
  let ?s = "kernel_str mem addr"
  have "ebpf_read open_mem tid (Some \<lparr>cap_addr = addr, cap_bytes = ?s @ [0]\<rparr>) addr 256 = Some (?s @ [0])"
    by (rule ebpf_read_capture) (use assms(1) length_kernel_str [of mem addr] in auto)
  moreover have "0 \<notin> set ?s" by (simp add: kernel_str_def cstr_at_no_nul)
  ultimately show ?thesis
    using assms(2)
    by (simp add: read_cstr_def PATH_CAP_def read_cstr_loop.simps [of _ addr "[]"] position_append_zero Let_def)
qed

text \<open>Any reader of the live memory shows the same quoted text.\<close>

lemma read_cstr_live:
  assumes "mapped_reader read mem mapped" "str_mapped mapped mem addr" "addr \<noteq> 0"
  shows "\<exists>bs. read_cstr read addr PATH_CAP = Some bs \<and> quote_bytes bs = quote_bytes (kernel_str mem addr)"
proof -
  let ?t = "\<lambda>n. cstr_at (\<lambda>_. True) mem n addr"
  have m0: "mapped addr" using assms(2) by (force simp: str_mapped_def)
  have short: "length (?t 33) \<le> length (kernel_str mem addr)"
    using take_cstr_at [of 33 "\<lambda>_. True" mem 127 addr] by (simp add: kernel_str_def) (metis length_take min.cobounded1 min_def)
  have "cstr_at mapped mem 33 addr = ?t 33"
    by (rule cstr_at_mapped) (use assms(2) short in \<open>auto simp: str_mapped_def\<close>)
  then have "take 33 (cstr_at mapped mem PATH_CAP addr) = take 33 (kernel_str mem addr)"
    by (simp add: take_cstr_at kernel_str_def PATH_CAP_def)
  from quote_bytes_take [OF this] m0 assms(3) mapped_reader.read_cstr_spec [OF assms(1), of PATH_CAP addr]
  show ?thesis by (simp add: PATH_CAP_def)
qed

subsection \<open>Concrete instances\<close>

definition open_info :: syscall_info where
  "open_info = \<lparr>si_number = 2, si_name = ''open'', si_category = Fs,
     si_args = [\<lparr>ai_name = ''filename'', ai_ty = TyPath\<rparr>, \<lparr>ai_name = ''flags'', ai_ty = TyFlags\<rparr>]\<rparr>"

definition demo_mem :: "u64 \<Rightarrow> u8" where
  "demo_mem a = (if a = 4096 then 47 else if a = 4097 then 120 else 0)"

definition all_mapped :: "u64 \<Rightarrow> bool" where
  "all_mapped a = True"

definition copy_env :: kenv where
  "copy_env = (demo_env 9 80 open_ctx)\<lparr>kv_probe := \<lambda>addr dst.
     (Inr (kernel_str demo_mem addr), kernel_str demo_mem addr @ [0] @ drop (length (kernel_str demo_mem addr) + 1) dst)\<rparr>"

text \<open>A system of which only the map calls matter; its world is the array.\<close>

definition array_setup :: "u8 list setup_os" where
  "array_setup =
     \<lparr>so_btf_exists = (\<lambda>w. (True, w)), so_geteuid = (\<lambda>w. (0, w)), so_self_status = (\<lambda>w. (None, w)),
      so_setrlimit = (\<lambda>w. w), so_load = (\<lambda>w. (Inr (), w)), so_program = (\<lambda>_ w. (True, w)),
      so_as_tracepoint = (\<lambda>_ w. (Inr (), w)), so_prog_load = (\<lambda>_ w. (Inr (), w)),
      so_prog_attach = (\<lambda>_ _ _ w. (Inr (), w)), so_map = (\<lambda>_ w. (True, w)), so_map_as = (\<lambda>_ w. (Inr (), w)),
      so_patharg_set = array_set, so_target_insert = (\<lambda>_ _ w. (Inr (), w)),
      so_clock = (\<lambda>w. ((1, 5), w)), so_metadata = (\<lambda>_ w. (None, w)), so_path_var = (\<lambda>w. (None, w)),
      so_pipe2 = (\<lambda>w. (Inr (3, 4), w)), so_fork = (\<lambda>_ _ _ w. (Inr 7, w)),
      so_write = (\<lambda>_ _ w. w), so_close = (\<lambda>_ w. w)\<rparr>"

subsection \<open>Properties\<close>

text \<open>
  C37. Filling the PATHARG map over an ascending table leaves, for every call with a traced
  path argument, the slot of that argument at its number; nothing fails, and every slot names
  one of the six registers.
\<close>

theorem patharg_filled:
  assumes "so_patharg_set os = array_set" "so_map os ''PATHARG'' (replicate 512 0) = (True, replicate 512 0)"
    and "so_map_as os ''PATHARG'' (replicate 512 0) = (Inr (), replicate 512 0)" "table_sorted T"
  shows "populate_patharg os T (t, replicate 512 0) = (Inr (), (t, patharg_of T))
    \<and> (\<forall>s v. s \<in> set T \<and> path_arg_slot s = Some v \<longrightarrow>
         patharg_of T ! unat (si_number s) = v \<and> 1 \<le> v \<and> v \<le> 6)"
proof -
  have "populate_patharg os T (t, replicate 512 0) = (Inr (), (t, patharg_of T))"
    using each_set_patharg [OF assms(1), of "replicate 512 0" T t] assms(2,3)
    by (simp add: populate_patharg_def open_map_def seq_def ask_def sys_as_def patharg_of_def)
  moreover have "1 \<le> v \<and> v \<le> 6" if v: "path_arg_slot s = Some v" for s v
  proof -
    from path_arg_slot_range [OF v] obtain idx where "idx < 6" "v = of_nat (idx + 1)" by blast
    moreover from this(1) have "unat (of_nat (idx + 1) :: u8) = idx + 1" unfolding unat_of_nat by simp
    ultimately show ?thesis by (simp add: word_le_nat_alt)
  qed
  ultimately show ?thesis using patharg_of_nth [OF assms(4)] by blast
qed

theorem patharg_filled_witness:
  "patharg_of [open_info] ! 2 = 1"
proof -
  let ?os = "array_setup"
  have a: "so_patharg_set ?os = array_set" "so_map ?os ''PATHARG'' (replicate 512 0) = (True, replicate 512 0)"
    "so_map_as ?os ''PATHARG'' (replicate 512 0) = (Inr (), replicate 512 0)" "table_sorted [open_info]"
    "path_arg_slot open_info = Some 1" "unat (si_number open_info) = 2"
    by (simp_all add: array_setup_def table_sorted_def open_info_def exec)
  from patharg_filled [OF a(1-4), of "()"] a(5,6) show ?thesis by simp
qed

text \<open>
  C11. From the kernel to the screen: the record a traced call leaves in the ring carries a
  copy of its path argument, and rendering that argument through the backend's memory gives
  the text a reader of the live memory of the task gives, however long the string and
  whatever else is mapped.
\<close>

theorem ebpf_path_rendering:
  assumes "table_sorted T" "s \<in> set T" "path_arg_slot s = Some v" "position (\<lambda>a. ai_ty a = TyPath) (si_args s) = Some idx"
    and "k_patharg k = patharg_of T" "map_of (k_enters k) (env_tid ex) = Some en" "unat (e_nr en) = unat (si_number s)"
    and "kv_reserve ex = Some r0" "rec_ok r0" "addr = args_list (e_args en) ! idx" "addr \<noteq> 0" "unat addr + 128 < 2 ^ 64"
    and "probe_copies ex mapped mem" "str_mapped mapped mem addr" "mapped_reader live mem mapped"
  shows "\<exists>r cap. k_events (snd (try_exit ex k)) = k_events k @ [r]
    \<and> item_entry b (rec_to_bytes r) = [(SyscallEv (record_to_event r b), cap)]
    \<and> render_typed name (si_args s) idx (record_to_event r b)
          (ebpf_memory open_mem (t\<lparr>eb_current := cap\<rparr>) (record_to_event r b)) (si_args s ! idx) addr
      = render_typed name (si_args s) idx (record_to_event r b) live (si_args s ! idx) addr"
proof -
  let ?slot = "r0\<lparr>rec_pid := ucast (drop_bit 32 (kv_pid_tgid ex)), rec_tid := ucast (kv_pid_tgid ex), rec_nr := e_nr en,
      rec_args := e_args en, rec_retval := of_nat (read_or 0 (read_word ex 16 8)), rec_ts_enter_ns := e_ts en,
      rec_duration_ns := saturating_sub (kv_now ex) (e_ts en), rec_cap_addr := 0, rec_cap_len := 0, rec_pad := 0\<rparr>"
  let ?out = "capture_path ex (k_patharg k) en ?slot"
  let ?cap = "\<lparr>cap_addr = addr, cap_bytes = kernel_str mem addr @ [0]\<rparr>"
  have n: "unat (si_number s) < 512" by (rule path_arg_slot_number [OF assms(3)])
  from path_arg_slot_range [OF assms(3)] assms(4) have idx: "idx < 6" and v: "v = of_nat (idx + 1)" by auto
  have nr: "unat (ucast (e_nr en) :: u32) = unat (si_number s)" using n assms(7) by (simp add: unat_u32_ucast)
  have pa: "patharg_of T ! unat (si_number s) = of_nat (idx + 1)" "length (patharg_of T) = 512"
    using patharg_of_nth [OF assms(1-3)] v by simp_all
  have "rec_ok ?slot" using assms(9) by (simp add: rec_ok_def)
  from capture_path_copies [OF assms(13,14) this nr n pa(2,1) idx assms(10,11)]
  have cap: "record_capture ?out = Some ?cap" and ok: "rec_ok ?out" unfolding assms(5) by blast+
  have ev: "k_events (snd (try_exit ex k)) = k_events k @ [?out]"
    using assms(6,8) by (simp add: try_exit_def Let_def env_tid_def)
  have item: "item_entry b (rec_to_bytes ?out) = [(SyscallEv (record_to_event ?out b), Some ?cap)]"
    using rec_from_to_bytes [OF ok, of "[]"] cap by (simp add: item_entry_def)
  have ty: "ai_ty (si_args s ! idx) = TyPath" using position_Some [OF assms(4)] by blast
  from read_cstr_live [OF assms(15,14,11)] obtain bs where "read_cstr live addr PATH_CAP = Some bs"
    and "quote_bytes bs = quote_bytes (kernel_str mem addr)" by blast
  with read_cstr_capture [OF assms(12,11)] ty
  have "render_typed name (si_args s) idx (record_to_event ?out b)
          (ebpf_memory open_mem (t\<lparr>eb_current := Some ?cap\<rparr>) (record_to_event ?out b)) (si_args s ! idx) addr
      = render_typed name (si_args s) idx (record_to_event ?out b) live (si_args s ! idx) addr"
    by (simp add: render_typed_def ebpf_memory_def)
  with ev item show ?thesis by blast
qed

theorem ebpf_path_rendering_witness:
  "\<exists>r cap. k_events (snd (try_exit copy_env (demo_kernel\<lparr>k_patharg := patharg_of [open_info],
        k_enters := [(9, \<lparr>e_nr = 2, e_args = Args 4096 0 0 0 0 0, e_ts = 1\<rparr>)]\<rparr>))) = [r]
    \<and> item_entry 0 (rec_to_bytes r) = [(SyscallEv (record_to_event r 0), cap)]
    \<and> render_typed ''open'' (si_args open_info) 0 (record_to_event r 0)
          (ebpf_memory (\<lambda>_. Inl (OsErr 2)) (watching\<lparr>eb_current := cap\<rparr>) (record_to_event r 0)) (si_args open_info ! 0) 4096
      = render_typed ''open'' (si_args open_info) 0 (record_to_event r 0)
          (proc_read (mapped_pread all_mapped demo_mem)) (si_args open_info ! 0) 4096"
proof -
  have live: "mapped_reader (proc_read (mapped_pread all_mapped demo_mem)) demo_mem all_mapped"
    by (rule live_reader.mapped_reader_axioms)
  have c: "probe_copies copy_env all_mapped demo_mem" by (simp add: probe_copies_def copy_env_def)
  have m: "str_mapped all_mapped demo_mem 4096" by (simp add: str_mapped_def all_mapped_def)
  have e: "env_tid copy_env = 9" "kv_reserve copy_env = Some blank_record" "rec_ok blank_record"
    by (simp_all add: copy_env_def demo_env_def env_tid_def blank_record_def rec_ok_def)
  have s: "table_sorted [open_info]" "path_arg_slot open_info = Some 1" "position (\<lambda>a. ai_ty a = TyPath) (si_args open_info) = Some 0"
    by (simp_all add: table_sorted_def open_info_def exec)
  let ?en = "\<lparr>e_nr = 2, e_args = Args 4096 0 0 0 0 0, e_ts = 1\<rparr>"
  let ?k = "demo_kernel\<lparr>k_patharg := patharg_of [open_info], k_enters := [(9, ?en)]\<rparr>"
  have k: "k_patharg ?k = patharg_of [open_info]" "map_of (k_enters ?k) (env_tid copy_env) = Some ?en"
    "unat (e_nr ?en) = unat (si_number open_info)" "k_events ?k = []"
    by (simp_all add: e demo_kernel_def open_info_def)
  from ebpf_path_rendering [OF s(1) _ s(2,3) k(1-3) e(2,3) _ _ _ c m live, of 0 "''open''" "\<lambda>_. Inl (OsErr 2)" watching]
  show ?thesis unfolding k(4) by simp
qed

end
