(* ===== verification/Syren.thy ===== *)
theory Syren
  imports Cli_Main Ebpf_Paths
begin

section \<open>The program put together\<close>

text \<open>
  The operating system as both backends see it, and the backends built on it.
\<close>

record 'w system =
  sy_ptrace :: "'w ptrace_os"
  sy_setup :: "'w setup_os"
  sy_ring :: "'w ring_os"
  sy_open_mem :: "'w \<Rightarrow> u32 \<Rightarrow> io_error + (u64 \<Rightarrow> nat \<Rightarrow> io_error + u8 list)"
  sy_io_text :: "i32 \<Rightarrow> string"
  sy_nix_text :: "i32 \<Rightarrow> string"
  sy_serde_text :: "io_error \<Rightarrow> string"
  sy_eprintln :: "string \<Rightarrow> 'w \<Rightarrow> 'w"

definition syren_backends ::
    "bool \<Rightarrow> syscall_info list \<Rightarrow> 'w system \<Rightarrow> (ptrace_tracer, ebpf_tracer, 'w) backends" where
  "syren_backends ebpf_feature T sy =
     \<lparr>bk_ebpf_feature = ebpf_feature,
      bk_new_ptrace = pt_new (sy_ptrace sy), bk_new_ebpf = eb_new (sy_setup sy) T,
      bk_next_ptrace = pt_next_event (sy_ptrace sy), bk_next_ebpf = eb_next_event (sy_ring sy),
      bk_leader_ptrace = pt_leader, bk_leader_ebpf = eb_leader,
      bk_memory_ptrace = (\<lambda>s ev. default_memory (sy_open_mem sy (snd s)) ev),
      bk_memory_ebpf = (\<lambda>s ev. ebpf_memory (sy_open_mem sy (snd s)) (fst s) ev),
      bk_io_text = sy_io_text sy, bk_nix_text = sy_nix_text sy, bk_serde_text = sy_serde_text sy,
      bk_eprintln = sy_eprintln sy\<rparr>"

declare syren_backends_def [exec]

lemma make_tracer_Inr:
  assumes "make_tracer f new_p new_e b tgt opts w = (Inr t, w')"
  shows "(\<exists>p. t = PtraceBox p \<and> new_p tgt opts w = (Inr p, w')) \<or> (\<exists>e. t = EbpfBox e \<and> new_e tgt opts w = (Inr e, w'))"
  using assms by (auto simp: make_tracer_def split: backend.splits prod.splits sum.splits if_splits)

lemma build_tracer_Inr:
  assumes "build_tracer bk b tgt opts w = (Inr t, w')"
  shows "\<exists>b' w0. make_tracer (bk_ebpf_feature bk) (bk_new_ptrace bk) (bk_new_ebpf bk) b' tgt opts w0 = (Inr t, w')"
  using assms by (auto simp: build_tracer_def Let_def split: prod.splits sum.splits if_splits)

text \<open>Whatever tracer a run builds is in a state from which it comes to an end.\<close>

lemma built_tracer_good:
  assumes "build_tracer (syren_backends feature T sy) b tgt opts w = (Inr t, w')"
    and "runs_down (sy_ptrace sy) \<mu>" "ring_runs_down (sy_ring sy) \<nu>"
  shows "box_good (\<lambda>s. runs_down (sy_ptrace sy) \<mu>) (\<lambda>s. ring_runs_down (sy_ring sy) \<nu> \<and> armed (fst s)) (t, w')"
proof -
  from build_tracer_Inr [OF assms(1)] obtain b' w0 where
    "make_tracer feature (pt_new (sy_ptrace sy)) (eb_new (sy_setup sy) T) b' tgt opts w0 = (Inr t, w')"
    by (auto simp: syren_backends_def)
  from make_tracer_Inr [OF this] assms(2,3) show ?thesis
    by (auto simp: box_good_def dest: eb_new_is_armed)
qed

lemma syren_box_finite:
  "finite_tracer (box_next (syren_backends feature T sy))
     (box_good (\<lambda>s. runs_down (sy_ptrace sy) \<mu>) (\<lambda>s. ring_runs_down (sy_ring sy) \<nu> \<and> armed (fst s)))
     (box_left (\<lambda>s. \<mu> (snd s)) (eb_left \<nu>))"
  by (rule finite_box)
    (simp_all add: syren_backends_def pt.finite_tracer_axioms eb.finite_tracer_axioms)

lemma run_total:
  assumes "\<And>tgt t w1 d filt leader sink. build_tracer bk (c_backend c) tgt \<lparr>follow_forks = c_follow c\<rparr> w = (Inr t, w1) \<Longrightarrow>
     \<exists>y. run_loop (driver_ops bk ou js d) T filt leader (t, w1) sink 0 = Some y"
  shows "\<exists>y. run bk ou js T c w v = Some y"
proof (cases "c_list_syscalls c")
  case True
  then show ?thesis by (auto simp: run_def split: prod.split sum.split)
next
  case False
  note list = False
  show ?thesis
  proof (cases "\<exists>tgt filt. build_target c = Inr tgt \<and> from_exprs T (c_exprs c) = Inr filt")
    case True
    then obtain tgt filt where a: "build_target c = Inr tgt" "from_exprs T (c_exprs c) = Inr filt" by blast
    obtain r w1 where b: "build_tracer bk (c_backend c) tgt \<lparr>follow_forks = c_follow c\<rparr> w = (r, w1)" by (metis prod.exhaust)
    show ?thesis
    proof (cases r)
      case (Inl e)
      with list a b show ?thesis by (simp add: run_def)
    next
      case (Inr t)
      obtain o1 v1 where o: "open_output ou c v = (o1, v1)" by (metis prod.exhaust)
      show ?thesis
      proof (cases o1)
        case (Inl e)
        with list a b Inr o show ?thesis by (simp add: run_def)
      next
        case out: (Inr x)
        obtain d tty where x: "x = (d, tty)" by (cases x)
        let ?sink = "build_sink c v1 (color_resolve (ou_no_color ou) (c_color c) tty)"
        from assms [OF b [unfolded Inr], of d filt "box_leader bk t" ?sink] obtain y where
          y: "run_loop (driver_ops bk ou js d) T filt (box_leader bk t) (t, w1) ?sink 0 = Some y" by blast
        obtain r2 s2 k2 where y2: "y = (r2, s2, k2)" by (cases y)
        with list a b Inr o out x y show ?thesis
          by (cases r2) (auto simp: run_def split: prod.split sum.split)
      qed
    qed
  next
    case False
    with list show ?thesis by (cases "build_target c"; cases "from_exprs T (c_exprs c)") (auto simp: run_def)
  qed
qed

text \<open>No decoder panic: a run over a table of the build script's never ends in one.\<close>

lemma on_event_no_panic:
  "table_arity_ok T \<Longrightarrow> fst (on_event ops T filt s e sink) \<noteq> Inl Panicked"
  using event_record_total [of T filt e "memory_of ops s e"]
  by (auto simp: on_event_def split: option.split prod.split sum.split)

lemma run_loop_no_panic:
  assumes "run_loop ops T filt leader s sink status = Some y" "table_arity_ok T"
  shows "fst y \<noteq> Inl Panicked"
  using assms
proof (induction rule: run_loop.raw_induct [rotated, consumes 1, case_names loop])
  case (loop again ops T filt leader s sink status y)
  obtain r s1 where n: "lo_next ops s = Some (r, s1)" using loop(2) by (cases "lo_next ops s") auto
  show ?case
  proof (cases "\<exists>event. r = Inr (Some event)")
    case True
    then obtain event where r: "r = Inr (Some event)" by blast
    let ?o = "on_event ops T filt s1 event sink"
    show ?thesis
    proof (cases "fst ?o = Inr ()")
      case True
      with loop(2) n r have "again ops T filt leader s1 (snd ?o) (next_status leader event status) = Some y"
        by (simp add: Let_def)
      from loop(1) [OF this loop(3)] show ?thesis .
    next
      case False
      then obtain e where e: "fst ?o = Inl e" by (cases "fst ?o") auto
      with on_event_no_panic [OF loop(3), of ops filt s1 event sink] have "e \<noteq> Panicked" by auto
      with loop(2) n r False e show ?thesis by (auto simp: Let_def)
    qed
  next
    case False
    with loop(2) n show ?thesis by (auto split: sum.splits option.splits)
  qed
qed

lemma run_no_panic:
  assumes "table_arity_ok T" "run bk ou js T c w v = Some (r, w', v')"
  shows "r \<noteq> Inl Panicked"
  using assms(2) run_loop_no_panic [OF _ assms(1)]
  by (fastforce simp: run_def Let_def split: if_splits sum.splits prod.splits option.splits)

subsection \<open>The same call through both backends\<close>

text \<open>Decoding looks at the number, the registers and the result of an event only.\<close>

lemma render_arg_cong:
  assumes "ev_args ev' = ev_args ev"
  shows "render_arg syscall metas i ev' mem = render_arg syscall metas i ev mem"
  unfolding render_arg_def consts_render_def render_typed_def render_buf_def render_sockopt_optval_def assms ..

lemma decode_cong:
  assumes "ev_nr ev' = ev_nr ev" "ev_args ev' = ev_args ev" "ev_retval ev' = ev_retval ev"
    and "decode T ev mem = Some d" "decode T ev' mem = Some d'"
  shows "ds_nr d' = ds_nr d \<and> ds_name d' = ds_name d \<and> ds_args d' = ds_args d \<and> ds_retval d' = ds_retval d \<and> ds_error d' = ds_error d"
proof -
  have i: "event_info T ev' = event_info T ev" by (simp add: event_info_def assms(1))
  have e: "decode_error ev' = decode_error ev" by (simp add: decode_error_def event_errno_def is_error_def assms(3))
  have r: "decode_raw ev' = decode_raw ev" unfolding decode_raw_def assms(2) ..
  have t: "decode_typed n m ev' mem = decode_typed n m ev mem" for n m
    by (simp add: decode_typed_def decode_one_def [abs_def] render_arg_cong [OF assms(2)] assms(2))
  show ?thesis
    using assms(4) assms(5) [unfolded decode_def i e r t assms(1-3)]
    by (auto simp: decode_def Let_def bind_eq_Some_conv)
qed

subsection \<open>Concrete systems\<close>

text \<open>
  A set-up that succeeds in everything, a ring without samples whose program is over, and two
  systems: the scripted ptrace world, and one that logs what is started and lacks a map.
\<close>

definition idle_setup :: "'w setup_os" where
  "idle_setup =
     \<lparr>so_btf_exists = (\<lambda>w. (True, w)), so_geteuid = (\<lambda>w. (0, w)), so_self_status = (\<lambda>w. (None, w)),
      so_setrlimit = (\<lambda>w. w), so_load = (\<lambda>w. (Inr (), w)), so_program = (\<lambda>_ w. (True, w)),
      so_as_tracepoint = (\<lambda>_ w. (Inr (), w)), so_prog_load = (\<lambda>_ w. (Inr (), w)),
      so_prog_attach = (\<lambda>_ _ _ w. (Inr (), w)), so_map = (\<lambda>_ w. (True, w)), so_map_as = (\<lambda>_ w. (Inr (), w)),
      so_patharg_set = (\<lambda>_ _ w. (Inr (), w)), so_target_insert = (\<lambda>_ _ w. (Inr (), w)),
      so_clock = (\<lambda>w. ((1, 5), w)), so_metadata = (\<lambda>_ w. (Some (True, 73), w)), so_path_var = (\<lambda>w. (Some ''/bin'', w)),
      so_pipe2 = (\<lambda>w. (Inr (3, 4), w)), so_fork = (\<lambda>_ _ _ w. (Inr 7, w)),
      so_write = (\<lambda>_ _ w. w), so_close = (\<lambda>_ w. w)\<rparr>"

definition idle_ring :: "'w ring_os" where
  "idle_ring = \<lparr>ro_next = (\<lambda>w. (None, w)), ro_waitpid_nohang = (\<lambda>p w. (Inr (Exited p 3), w)),
     ro_kill0 = (\<lambda>_ w. (Inl 3, w)), ro_poll = (\<lambda>_ w. w)\<rparr>"

definition log_ptrace :: "string list ptrace_os" where
  "log_ptrace =
     \<lparr>os_fork_exec = (\<lambda>p _ w. (Inr 9, w @ [''fork_exec '' @ p])), os_attach = (\<lambda>_ w. (Inr (), w)),
      os_waitpid = (\<lambda>p w. (Inr (Stopped p SIGTRAP), w)), os_wait_any = (\<lambda>w. (Inl ECHILD, w)),
      os_setoptions = (\<lambda>_ _ w. (Inr (), w)), os_resume = (\<lambda>_ _ w. (Inr (), w)),
      os_getregs = (\<lambda>_ w. (Inr no_regs, w)), os_getevent = (\<lambda>_ w. (Inr 8, w)),
      os_elapsed_ns = (\<lambda>w. (0, w)), os_proc_status = (\<lambda>_ w. (None, w))\<rparr>"

definition scripted_system :: "script system" where
  "scripted_system = \<lparr>sy_ptrace = scripted, sy_setup = idle_setup, sy_ring = idle_ring,
     sy_open_mem = (\<lambda>_ _. Inl (OsErr 2)), sy_io_text = (\<lambda>_. []), sy_nix_text = (\<lambda>_. []),
     sy_serde_text = (\<lambda>_. []), sy_eprintln = (\<lambda>_ w. w)\<rparr>"

definition failing_system :: "string list system" where
  "failing_system = \<lparr>sy_ptrace = log_ptrace, sy_setup = demo_setup False, sy_ring = idle_ring,
     sy_open_mem = (\<lambda>_ _. Inl (OsErr 2)), sy_io_text = (\<lambda>_. []), sy_nix_text = (\<lambda>_. []),
     sy_serde_text = (\<lambda>_. []), sy_eprintln = (\<lambda>_ w. w)\<rparr>"

definition demo_outputs :: "string outputs" where
  "demo_outputs = \<lparr>ou_is_terminal = (\<lambda>_. False), ou_no_color = False, ou_create = (\<lambda>_ v. (Inr (), v)),
     ou_write = (\<lambda>_. vec_write), ou_flush = (\<lambda>_. io_ok), ou_drop = (\<lambda>_ v. v)\<rparr>"

declare log_ptrace_def [exec]

end
