(* ===== verification/Ptrace_Calls.thy ===== *)
theory Ptrace_Calls
  imports Ptrace_Session
begin

section \<open>The calls of a ptrace session\<close>

text \<open>
  The specification the ptrace backend implements: a machine that knows, for each task inside
  a call, the registers it entered with, and completes the call at the task's next syscall
  stop.  The tracer refines it round by round, so the calls of a whole session are those of
  the machine on the stops the session saw, task by task.
\<close>

subsection \<open>The machine of open calls\<close>

definition regs_args :: "regs \<Rightarrow> args6" where
  "regs_args r = Args (r_rdi r) (r_rsi r) (r_rdx r) (r_r10 r) (r_r8 r) (r_r9 r)"

type_synonym open_calls = "i32 \<rightharpoonup> regs"
type_synonym done_call = "i32 \<times> regs \<times> regs"

fun call_step :: "open_calls \<Rightarrow> wait_status \<times> regs \<Rightarrow> open_calls \<times> done_call list" where
  "call_step m (PtraceSyscall p, r) =
     (case m p of None \<Rightarrow> (m(p \<mapsto> r), []) | Some r0 \<Rightarrow> (m(p := None), [(p, r0, r)]))"
| "call_step m (Exited p _, _) = (m(p := None), [])"
| "call_step m (Signaled p _ _, _) = (m(p := None), [])"
| "call_step m (PtraceEvent p _ e, _) = (if e = EVENT_EXEC then m(p := None) else m, [])"
| "call_step m (Stopped _ _, _) = (m, [])"
| "call_step m (Continued _, _) = (m, [])"
| "call_step m (StillAlive, _) = (m, [])"

fun calls_of :: "open_calls \<Rightarrow> (wait_status \<times> regs) list \<Rightarrow> done_call list" where
  "calls_of m [] = []"
| "calls_of m (x # xs) = snd (call_step m x) @ calls_of (fst (call_step m x)) xs"

text \<open>The same task by task: one register set is remembered, nothing of other tasks matters.\<close>

fun task_calls :: "i32 \<Rightarrow> regs option \<Rightarrow> (wait_status \<times> regs) list \<Rightarrow> (regs \<times> regs) list" where
  "task_calls p b [] = []"
| "task_calls p b (x # xs) =
     (if fst x = PtraceSyscall p then
        (case b of None \<Rightarrow> task_calls p (Some (snd x)) xs
         | Some r0 \<Rightarrow> (r0, snd x) # task_calls p None xs)
      else task_calls p (if touches p (fst x) then None else b) xs)"

lemma call_step_task:
  "map snd (filter (\<lambda>c. fst c = p) (snd (call_step m x))) @ task_calls p (fst (call_step m x) p) xs
     = task_calls p (m p) (x # xs)"
  by (cases "(m, x)" rule: call_step.cases) (auto split: option.split)

lemma calls_of_task:
  "map snd (filter (\<lambda>c. fst c = p) (calls_of m xs)) = task_calls p (m p) xs"
proof (induction xs arbitrary: m)
  case (Cons x xs)
  then show ?case using call_step_task [of p m x xs] by simp
qed simp

text \<open>A task that is never reset and whose stops come in pairs makes the calls they spell.\<close>

definition stops_of :: "i32 \<Rightarrow> (wait_status \<times> regs) list \<Rightarrow> (wait_status \<times> regs) list" where
  "stops_of p xs = filter (\<lambda>x. touches p (fst x)) xs"

definition stop_pair :: "i32 \<Rightarrow> regs \<times> regs \<Rightarrow> (wait_status \<times> regs) list" where
  "stop_pair p c = [(PtraceSyscall p, fst c), (PtraceSyscall p, snd c)]"

lemma task_calls_stops: "task_calls p b xs = task_calls p b (stops_of p xs)"
proof (induction xs arbitrary: b)
  case (Cons x xs)
  then show ?case by (cases "fst x") (auto simp: stops_of_def split: option.split)
qed (simp add: stops_of_def)

lemma task_calls_pairs:
  assumes "stops_of p xs = concat (map (stop_pair p) cs)"
  shows "task_calls p None xs = cs"
proof -
  have "task_calls p None (concat (map (stop_pair p) cs)) = cs"
    by (induction cs) (simp_all add: stop_pair_def)
  then show ?thesis unfolding task_calls_stops [of p None xs] assms .
qed

subsection \<open>What a session sees\<close>

text \<open>The registers read in a round (zeros where none are), and a session with all of them.\<close>

definition stop_view :: "'w ptrace_os \<Rightarrow> ptrace_tracer \<times> 'w \<Rightarrow> wait_status \<Rightarrow> regs" where
  "stop_view os s st =
     (case st of PtraceSyscall p \<Rightarrow> (case stop_regs os p s of Inr r \<Rightarrow> r | Inl _ \<Rightarrow> no_regs) | _ \<Rightarrow> no_regs)"

fun pt_seen ::
    "'w ptrace_os \<Rightarrow> ptrace_tracer \<times> 'w \<Rightarrow> ((wait_status \<times> regs) \<times> event option) list \<Rightarrow> ptrace_tracer \<times> 'w \<Rightarrow> bool"
  where
  "pt_seen os s [] s' \<longleftrightarrow> s' = s"
| "pt_seen os s (x # xs) s' \<longleftrightarrow>
     (\<exists>s1. pt_step os s (fst (fst x)) (snd x) s1 \<and> snd (fst x) = stop_view os s (fst (fst x)) \<and> pt_seen os s1 xs s')"

lemma pt_seen_trace:
  "pt_trace os s tr s' \<longleftrightarrow> (\<exists>obs. pt_seen os s obs s' \<and> map (\<lambda>x. (fst (fst x), snd x)) obs = tr)"
proof (induction tr arbitrary: s)
  case (Cons x tr)
  show ?case
  proof
    assume "pt_trace os s (x # tr) s'"
    then obtain s1 where a: "pt_step os s (fst x) (snd x) s1" and "pt_trace os s1 tr s'"
      unfolding pt_trace_Cons by blast
    with Cons.IH obtain obs where "pt_seen os s1 obs s'" "map (\<lambda>x. (fst (fst x), snd x)) obs = tr" by blast
    with a show "\<exists>obs. pt_seen os s obs s' \<and> map (\<lambda>x. (fst (fst x), snd x)) obs = x # tr"
      by (intro exI [of _ "((fst x, stop_view os s (fst x)), snd x) # obs"])
        (simp del: split_paired_Ex, blast)
  next
    assume "\<exists>obs. pt_seen os s obs s' \<and> map (\<lambda>x. (fst (fst x), snd x)) obs = x # tr"
    then obtain y obs s1 where y: "(fst (fst y), snd y) = x" "pt_step os s (fst (fst y)) (snd y) s1"
      and "pt_seen os s1 obs s'" "map (\<lambda>x. (fst (fst x), snd x)) obs = tr"
      by (auto simp: map_eq_Cons_conv simp del: split_paired_Ex)
    with Cons.IH have "pt_trace os s1 tr s'" by blast
    with y show "pt_trace os s (x # tr) s'" unfolding pt_trace_Cons by (auto simp del: split_paired_Ex)
  qed
qed auto

subsection \<open>The tracer refines the machine\<close>

text \<open>The tracer's entries hold what the machine's registers say.\<close>

definition same_call :: "inflight \<Rightarrow> regs \<Rightarrow> bool" where
  "same_call i r \<longleftrightarrow> in_nr i = r_orig_rax r \<and> in_args i = regs_args r"

definition implements :: "ptrace_tracer \<Rightarrow> open_calls \<Rightarrow> bool" where
  "implements t m \<longleftrightarrow> (\<forall>p. rel_option same_call (pt_inflight t p) (m p))"

text \<open>What is compared: task, number, arguments and result of a call.\<close>

definition call_view :: "done_call \<Rightarrow> i32 \<times> u64 \<times> args6 \<times> i64" where
  "call_view c = (fst c, r_orig_rax (fst (snd c)), regs_args (fst (snd c)), r_rax (snd (snd c)))"

definition event_calls :: "event option \<Rightarrow> (i32 \<times> u64 \<times> args6 \<times> i64) list" where
  "event_calls ev = (case ev of Some (SyscallEv e) \<Rightarrow> [(ev_tid e, ev_nr e, ev_args e, ev_retval e)] | _ \<Rightarrow> [])"

lemma implements_upd:
  assumes "implements t m" "\<And>q. q \<noteq> p \<Longrightarrow> pt_inflight t' q = pt_inflight t q"
    and "rel_option same_call (pt_inflight t' p) x"
  shows "implements t' (m(p := x))"
  using assms by (simp add: implements_def)

lemma pt_step_no_call:
  assumes "pt_step os s st ev s'" "\<forall>p. st \<noteq> PtraceSyscall p"
  shows "event_calls ev = []"
proof -
  from assms(1) obtain t w where h: "handle os st (t, w) = (Inr ev, s')" by (auto simp: pt_step_def)
  obtain t' w2 where s': "s' = (t', w2)" by (cases s')
  from h [unfolded s'] assms(2) show ?thesis
    by (cases st) (auto simp: event_calls_def dest!: handle_exited handle_signaled handle_event
      handle_stopped handle_other split: if_splits)
qed

lemma pt_step_resets:
  assumes "pt_step os s st ev s'" "touches p st" "st \<noteq> PtraceSyscall p"
  shows "pt_inflight (fst s') p = None"
  using pt_step_inside [OF assms(1), of p] assms(2,3) by (cases st) auto

lemma pt_step_implements:
  assumes "pt_step os s st ev s'" "implements (fst s) m"
  shows "implements (fst s') (fst (call_step m (st, stop_view os s st)))
     \<and> event_calls ev = map call_view (snd (call_step m (st, stop_view os s st)))"
proof -
  have other: "pt_inflight (fst s') q = pt_inflight (fst s) q" if "\<not> touches q st" for q
    by (rule pt_step_other [OF assms(1) that])
  have keep: "implements (fst s') m" if "\<forall>q. \<not> touches q st"
    using that other assms(2) by (simp add: implements_def)
  have reset: "implements (fst s') (m(p := None))" if "touches p st" "\<forall>q. q \<noteq> p \<longrightarrow> \<not> touches q st" "st \<noteq> PtraceSyscall p" for p
    by (rule implements_upd [OF assms(2)]) (use that other pt_step_resets [OF assms(1) that(1,3)] in auto)
  show ?thesis
  proof (cases "\<exists>p. st = PtraceSyscall p")
    case True
    then obtain p where st: "st = PtraceSyscall p" by blast
    have rel: "rel_option same_call (pt_inflight (fst s) p) (m p)" using assms(2) by (simp add: implements_def)
    have oth: "pt_inflight (fst s') q = pt_inflight (fst s) q" if "q \<noteq> p" for q
      using other that st by auto
    show ?thesis
    proof (cases "pt_inflight (fst s) p")
      case None
      from pt_step_entry [OF assms(1) [unfolded st] None] obtain r now where ev: "ev = None"
        and r: "stop_regs os p s = Inr r"
        and i: "pt_inflight (fst s') p = Some \<lparr>in_nr = r_orig_rax r, in_args = regs_args r, in_enter_ns = now\<rparr>"
        by (auto simp: regs_args_def)
      have "implements (fst s') (m(p \<mapsto> r))"
        by (rule implements_upd [OF assms(2) oth]) (simp_all add: i same_call_def)
      with rel None ev r show ?thesis by (simp add: st stop_view_def event_calls_def)
    next
      case (Some i)
      with rel obtain r0 where r0: "m p = Some r0" and i: "same_call i r0" by (cases "m p") auto
      from pt_step_exit [OF assms(1) [unfolded st] Some] obtain e r where e: "ev = Some (SyscallEv e)"
        and r: "stop_regs os p s = Inr r" and f: "ev_tid e = p" "ev_nr e = in_nr i" "ev_args e = in_args i"
          "ev_retval e = r_rax r" "pt_inflight (fst s') p = None" by blast
      have "implements (fst s') (m(p := None))"
        by (rule implements_upd [OF assms(2) oth]) (simp_all add: f)
      with r0 i e r f show ?thesis by (simp add: st stop_view_def event_calls_def call_view_def same_call_def)
    qed
  next
    case False
    then have none: "event_calls ev = []" using pt_step_no_call [OF assms(1)] by blast
    show ?thesis
      by (cases st) (use False none reset keep in \<open>auto simp del: fun_upd_apply split: if_splits\<close>)
  qed
qed

lemma pt_seen_implements:
  "pt_seen os s obs s' \<Longrightarrow> implements (fst s) m \<Longrightarrow>
     concat (map event_calls (map snd obs)) = map call_view (calls_of m (map fst obs))"
proof (induction obs arbitrary: s m)
  case (Cons x obs)
  obtain st r ev where x: "x = ((st, r), ev)" by (metis prod.exhaust)
  from Cons.prems(1) x obtain s1 where a: "pt_step os s st ev s1" and r: "r = stop_view os s st"
    and b: "pt_seen os s1 obs s'" by auto
  from pt_step_implements [OF a Cons.prems(2)] Cons.IH [OF b, of "fst (call_step m (st, r))"]
  show ?case by (simp add: x r)
qed simp

declare call_step.simps [exec] calls_of.simps [exec] stop_view_def [exec] stop_regs_def [exec]
  regs_args_def [exec]

text \<open>A fresh tracer implements the machine with no open call.\<close>

lemma implements_empty: "pt_inflight t = Map.empty \<Longrightarrow> implements t Map.empty"
  by (simp add: implements_def)

lemma session_refines:
  assumes "pt_trace os s tr s'" "pt_inflight (fst s) = Map.empty"
  shows "\<exists>obs. pt_seen os s obs s' \<and> map (\<lambda>x. (fst (fst x), snd x)) obs = tr
     \<and> concat (map event_calls (map snd tr)) = map call_view (calls_of Map.empty (map fst obs))"
proof -
  from assms(1) obtain obs where o: "pt_seen os s obs s'" "map (\<lambda>x. (fst (fst x), snd x)) obs = tr"
    unfolding pt_seen_trace by blast
  have "map snd tr = map snd obs" unfolding o(2) [symmetric] by simp
  with pt_seen_implements [OF o(1) implements_empty [OF assms(2)]] o show ?thesis
    by (intro exI [of _ obs]) (simp only: simp_thms)
qed

lemma task_calls_reported:
  assumes "pt_seen os s obs s'" "pt_inflight (fst s) = Map.empty"
  shows "filter (\<lambda>c. fst c = p) (concat (map event_calls (map snd obs)))
     = map (\<lambda>c. call_view (p, c)) (task_calls p None (map fst obs))"
proof -
  have "filter (\<lambda>c. fst c = p) (map call_view cs) = map (\<lambda>c. call_view (p, c)) (map snd (filter (\<lambda>c. fst c = p) cs))" for cs
    by (induction cs) (auto simp: call_view_def)
  then show ?thesis
    unfolding pt_seen_implements [OF assms(1) implements_empty [OF assms(2)]]
    by (simp only: calls_of_task)
qed

subsection \<open>Properties\<close>

text \<open>
  C4. The calls of a session: whatever tasks run, in whatever order their stops come in, the
  syscall events of a session are, in order, the calls of the machine of open calls on the
  stops and registers the session saw; and for every task they are its own syscall stops
  taken in pairs, started afresh when the task ends or executes a program.
\<close>

theorem session_calls:
  assumes "pt_trace os s tr s'" "pt_inflight (fst s) = Map.empty"
  shows "\<exists>obs. pt_seen os s obs s' \<and> map (\<lambda>x. (fst (fst x), snd x)) obs = tr
     \<and> concat (map event_calls (map snd tr)) = map call_view (calls_of Map.empty (map fst obs))
     \<and> (\<forall>p. filter (\<lambda>c. fst c = p) (concat (map event_calls (map snd tr)))
          = map (\<lambda>c. call_view (p, c)) (task_calls p None (map fst obs)))"
proof -
  from session_refines [OF assms] obtain obs where o: "pt_seen os s obs s'" "map (\<lambda>x. (fst (fst x), snd x)) obs = tr"
    "concat (map event_calls (map snd tr)) = map call_view (calls_of Map.empty (map fst obs))" by blast
  have tr: "map snd tr = map snd obs" unfolding o(2) [symmetric] by simp
  show ?thesis using o task_calls_reported [OF o(1) assms(2)] unfolding tr by blast
qed

theorem session_calls_witness:
  "\<exists>obs s'. pt_seen scripted (tracing, script_of
       [(PtraceSyscall 7, no_regs\<lparr>r_orig_rax := 3, r_rdi := 5\<rparr>), (PtraceSyscall 9, no_regs\<lparr>r_orig_rax := 39\<rparr>),
        (PtraceSyscall 9, no_regs\<lparr>r_rax := 9\<rparr>), (PtraceSyscall 7, no_regs\<lparr>r_rax := 1\<rparr>)]) obs s'
     \<and> map call_view (calls_of Map.empty (map fst obs)) = [(9, 39, Args 0 0 0 0 0 0, 9), (7, 3, Args 5 0 0 0 0 0, 1)]"
proof -
  define s0 where "s0 = (tracing, script_of
       [(PtraceSyscall 7, no_regs\<lparr>r_orig_rax := 3, r_rdi := 5\<rparr>), (PtraceSyscall 9, no_regs\<lparr>r_orig_rax := 39\<rparr>),
        (PtraceSyscall 9, no_regs\<lparr>r_rax := 9\<rparr>), (PtraceSyscall 7, no_regs\<lparr>r_rax := 1\<rparr>)])"
  let ?e9 = "SyscallEv \<lparr>ev_pid = 7, ev_tid = 9, ev_nr = 39, ev_args = Args 0 0 0 0 0 0, ev_retval = 9,
      ev_ts_enter_ns = 110, ev_duration_ns = 10\<rparr>"
  let ?e7 = "SyscallEv \<lparr>ev_pid = 7, ev_tid = 7, ev_nr = 3, ev_args = Args 5 0 0 0 0 0, ev_retval = 1,
      ev_ts_enter_ns = 100, ev_duration_ns = 30\<rparr>"
  have a: "pt_step scripted s0 (PtraceSyscall 7) None (after_rounds 1 scripted s0)"
    by (simp add: s0_def pt_step_code exec)
  have b: "pt_step scripted (after_rounds 1 scripted s0) (PtraceSyscall 9) None (after_rounds 2 scripted s0)"
    by (simp add: s0_def pt_step_code exec)
  have c: "pt_step scripted (after_rounds 2 scripted s0) (PtraceSyscall 9) (Some ?e9) (after_rounds 3 scripted s0)"
    by (simp add: s0_def pt_step_code exec)
  have d: "pt_step scripted (after_rounds 3 scripted s0) (PtraceSyscall 7) (Some ?e7) (after_rounds 4 scripted s0)"
    by (simp add: s0_def pt_step_code exec)
  have "pt_trace scripted s0 ([] @ [(PtraceSyscall 7, None)]) (after_rounds 1 scripted s0)"
    by (rule trace_step [OF trace_start a])
  from trace_step [OF trace_step [OF trace_step [OF this b] c] d]
  have t: "pt_trace scripted s0 [(PtraceSyscall 7, None), (PtraceSyscall 9, None), (PtraceSyscall 9, Some ?e9),
      (PtraceSyscall 7, Some ?e7)] (after_rounds 4 scripted s0)" by simp
  have "pt_inflight (fst s0) = Map.empty" by (simp add: s0_def exec)
  from session_calls [OF t this] obtain obs where "pt_seen scripted s0 obs (after_rounds 4 scripted s0)"
    and "concat (map event_calls [None, None, Some ?e9, Some ?e7]) = map call_view (calls_of Map.empty (map fst obs))"
    by auto
  then show ?thesis unfolding s0_def [symmetric]
    by (intro exI [of _ obs] exI [of _ "after_rounds 4 scripted s0"]) (simp add: event_calls_def)
qed

end
