(* ===== verification/Kernel_Calls.thy ===== *)
theory Kernel_Calls
  imports Kernel_Ebpf
begin

section \<open>The calls the in-kernel programs record\<close>

text \<open>
  The records a run submits for one task, as a function of that task's own tracepoint hits:
  an entry is remembered until the task's next exit, which completes it.
\<close>

subsection \<open>The calls of a task\<close>

definition entry_of :: "kenv \<Rightarrow> enter option" where
  "entry_of en =
     (case read_raw_enter en 8 of Inl _ \<Rightarrow> None
      | Inr raw \<Rightarrow> Some \<lparr>e_nr = re_id raw, e_args = re_args raw, e_ts = kv_now en\<rparr>)"

text \<open>An exit without room in the ring consumes the entry and submits nothing.\<close>

fun task_records :: "u32 \<Rightarrow> enter option \<Rightarrow> hit list \<Rightarrow> (enter \<times> kenv) list" where
  "task_records t b [] = []"
| "task_records t b (HitEnter en # hs) =
     task_records t (if env_tid en = t then (case entry_of en of Some e \<Rightarrow> Some e | None \<Rightarrow> b) else b) hs"
| "task_records t b (HitExit ex # hs) =
     (if env_tid ex = t then
        (case b of Some e \<Rightarrow> if kv_reserve ex = None then [] else [(e, ex)] | None \<Rightarrow> []) @ task_records t None hs
      else task_records t b hs)"
| "task_records t b (HitFork env # hs) = task_records t b hs"

text \<open>What a record says: identifiers, number, arguments, result, entry time and duration.\<close>

definition record_view :: "bpf_record \<Rightarrow> u32 \<times> u32 \<times> u64 \<times> args6 \<times> i64 \<times> u64 \<times> u64" where
  "record_view r = (rec_pid r, rec_tid r, rec_nr r, rec_args r, rec_retval r, rec_ts_enter_ns r, rec_duration_ns r)"

definition done_view :: "enter \<times> kenv \<Rightarrow> u32 \<times> u32 \<times> u64 \<times> args6 \<times> i64 \<times> u64 \<times> u64" where
  "done_view c = (case c of (e, ex) \<Rightarrow>
     (env_tgid ex, env_tid ex, e_nr e, e_args e, of_nat (read_or 0 (read_word ex 16 8)), e_ts e,
      saturating_sub (kv_now ex) (e_ts e)))"

subsection \<open>Room for the entries\<close>

text \<open>The tasks that have or will have a pending entry; while they fit, no entry is lost.\<close>

definition callers :: "hit list \<Rightarrow> u32 set" where
  "callers hits = {t. \<exists>en. HitEnter en \<in> set hits \<and> env_tid en = t}"

definition pending :: "kernel \<Rightarrow> u32 set" where
  "pending k = fst ` set (k_enters k)"

definition roomy :: "u32 set \<Rightarrow> kernel \<Rightarrow> bool" where
  "roomy S k \<longleftrightarrow> finite S \<and> card S \<le> ENTERS_MAX \<and> distinct (map fst (k_enters k)) \<and> pending k \<subseteq> S"

lemma roomy_fits:
  assumes "roomy S k" "t \<in> S"
  shows "fits ENTERS_MAX t (k_enters k)"
proof (cases "t \<in> pending k")
  case True
  then show ?thesis by (simp add: fits_def pending_def map_of_eq_None_iff)
next
  case False
  have "length (k_enters k) = card (pending k)"
    using assms(1) distinct_card [of "map fst (k_enters k)"] by (simp add: roomy_def pending_def)
  also have "\<dots> < card S" using assms False by (intro psubset_card_mono) (auto simp: roomy_def)
  finally show ?thesis using assms(1) by (simp add: fits_def roomy_def)
qed

lemma bpf_insert_keys:
  "fst ` set (snd (bpf_insert cap k v m)) \<subseteq> insert k (fst ` set m)
   \<and> (distinct (map fst m) \<longrightarrow> distinct (map fst (snd (bpf_insert cap k v m))))"
  by (auto simp: bpf_insert_def dom_update distinct_update)

lemma delete_keys: "fst ` set (AList.delete k m) \<subseteq> fst ` set m"
  by (auto simp: AList.delete_eq)

lemma enter_enters:
  "k_enters (snd (try_enter b env k)) =
     (if is_target (if b then selfarm env (env_tid env) k else k) (env_tid env)
      then (case entry_of env of None \<Rightarrow> k_enters k
            | Some e \<Rightarrow> snd (bpf_insert ENTERS_MAX (env_tid env) e (k_enters k)))
      else k_enters k)"
  by (auto simp: try_enter_def Let_def env_tid_def entry_of_def split: sum.split)

lemma exit_pending:
  "k_enters (snd (try_exit env k)) = k_enters k \<or> k_enters (snd (try_exit env k)) = AList.delete (env_tid env) (k_enters k)"
  by (auto simp: try_exit_def Let_def env_tid_def split: option.split)

lemma roomy_shrinks:
  assumes "roomy S k" "fst ` set (k_enters k') \<subseteq> S" "distinct (map fst (k_enters k'))"
  shows "roomy S k'"
  using assms by (simp add: roomy_def pending_def)

lemma roomy_insert:
  assumes "roomy S k" "t \<in> S"
  shows "fst ` set (snd (bpf_insert ENTERS_MAX t e (k_enters k))) \<subseteq> S
    \<and> distinct (map fst (snd (bpf_insert ENTERS_MAX t e (k_enters k))))"
  using bpf_insert_keys [of ENTERS_MAX t e "k_enters k"] assms by (auto simp: roomy_def pending_def)

lemma roomy_step:
  assumes "roomy S k" "\<And>en. h = HitEnter en \<Longrightarrow> env_tid en \<in> S"
  shows "roomy S (k_step b f h k)"
proof -
  have own: "fst ` set (k_enters k) \<subseteq> S" "distinct (map fst (k_enters k))"
    using assms(1) by (simp_all add: roomy_def pending_def)
  show ?thesis
  proof (cases h)
    case (HitEnter en)
    then have "env_tid en \<in> S" using assms(2) by simp
    note ins = roomy_insert [OF assms(1) this]
    show ?thesis
      by (rule roomy_shrinks [OF assms(1)])
        (simp_all add: HitEnter sys_enter_def enter_enters own ins split: option.split)
  next
    case (HitExit ex)
    have "fst ` set (AList.delete (env_tid ex) (k_enters k)) \<subseteq> S"
      using delete_keys own(1) by (rule subset_trans)
    with exit_pending [of ex k] own
    have "fst ` set (k_enters (snd (try_exit ex k))) \<subseteq> S \<and> distinct (map fst (k_enters (snd (try_exit ex k))))"
      by (elim disjE) (simp_all add: distinct_delete)
    then show ?thesis by (intro roomy_shrinks [OF assms(1)]) (simp_all add: HitExit sys_exit_def)
  next
    case (HitFork env)
    with own show ?thesis by (intro roomy_shrinks [OF assms(1)]) (simp_all add: sched_process_fork_def)
  qed
qed

subsection \<open>The records of a run\<close>

lemma step_target: "is_target k t \<Longrightarrow> is_target (k_step b f h k) t"
  using k_step_targets_mono [of k b f h] by (auto simp: targets_def)

lemma enter_own:
  assumes "is_target k t" "env_tid en = t" "roomy S k" "t \<in> S"
  shows "map_of (k_enters (snd (try_enter b en k))) t =
     (case entry_of en of Some e \<Rightarrow> Some e | None \<Rightarrow> map_of (k_enters k) t)"
proof -
  have "is_target (if b then selfarm en (env_tid en) k else k) (env_tid en)"
    using assms(1,2) selfarm_target by auto
  then show ?thesis
    using roomy_fits [OF assms(3,4)] assms(2)
    by (auto simp: enter_enters bpf_insert_lookup split: option.split)
qed

lemma k_step_records:
  assumes "is_target k t" "roomy S k" "t \<in> S"
  shows "\<exists>rs. k_events (k_step b f h k) = k_events k @ rs
     \<and> map record_view (filter (\<lambda>r. rec_tid r = t) rs)
         @ map done_view (task_records t (map_of (k_enters (k_step b f h k)) t) hs)
       = map done_view (task_records t (map_of (k_enters k) t) (h # hs))"
proof (cases h)
  case (HitEnter en)
  show ?thesis
  proof (cases "env_tid en = t")
    case True
    with enter_own [OF assms(1) True assms(2,3), of b] HitEnter show ?thesis by (simp add: sys_enter_def)
  next
    case False
    with HitEnter enter_enters_other [of t en b k] show ?thesis by (simp add: sys_enter_def)
  qed
next
  case (HitExit ex)
  show ?thesis
  proof (cases "map_of (k_enters k) (env_tid ex)")
    case None
    with HitExit exit_silent [OF None] show ?thesis by (auto simp: sys_exit_def exit_enters)
  next
    case (Some en)
    show ?thesis
    proof (cases "kv_reserve ex")
      case None
      then have "k_events (snd (try_exit ex k)) = k_events k"
        using Some by (simp add: try_exit_def env_tid_def Let_def)
      with HitExit None Some show ?thesis by (auto simp: sys_exit_def exit_enters)
    next
      case slot: (Some r0)
      from exit_emits [OF Some slot] HitExit Some slot show ?thesis
        by (auto simp: sys_exit_def exit_enters record_view_def done_view_def)
    qed
  qed
next
  case (HitFork env)
  then show ?thesis by (simp add: sched_process_fork_def)
qed

lemma k_run_records:
  "is_target k t \<Longrightarrow> roomy S k \<Longrightarrow> t \<in> S \<Longrightarrow> callers hits \<subseteq> S \<Longrightarrow>
     \<exists>rs. k_events (k_run b f hits k) = k_events k @ rs
       \<and> map record_view (filter (\<lambda>r. rec_tid r = t) rs) = map done_view (task_records t (map_of (k_enters k) t) hits)"
proof (induction hits arbitrary: k)
  case (Cons h hits)
  let ?k = "k_step b f h k"
  from k_step_records [OF Cons.prems(1-3), of b f h hits] obtain rs where
    a: "k_events ?k = k_events k @ rs" "map record_view (filter (\<lambda>r. rec_tid r = t) rs)
         @ map done_view (task_records t (map_of (k_enters ?k) t) hits)
       = map done_view (task_records t (map_of (k_enters k) t) (h # hits))" by blast
  have "roomy S ?k" by (rule roomy_step [OF Cons.prems(2)]) (use Cons.prems(4) in \<open>auto simp: callers_def\<close>)
  from Cons.IH [OF step_target [OF Cons.prems(1)] this Cons.prems(3)] Cons.prems(4) obtain rs' where
    "k_events (k_run b f hits ?k) = k_events ?k @ rs'"
    "map record_view (filter (\<lambda>r. rec_tid r = t) rs') = map done_view (task_records t (map_of (k_enters ?k) t) hits)"
    by (auto simp: callers_def)
  with a show ?case by (intro exI [of _ "rs @ rs'"]) simp
qed simp

lemma roomy_callers:
  assumes "distinct (map fst (k_enters k))" "card (insert t (pending k \<union> callers hits)) \<le> ENTERS_MAX"
  shows "roomy (insert t (pending k \<union> callers hits)) k"
proof -
  have "callers hits = env_tid ` {en. HitEnter en \<in> set hits}" by (auto simp: callers_def)
  moreover have "finite {en. HitEnter en \<in> set hits}"
    by (rule finite_subset [of _ "hit_env ` set hits"]) (auto dest: imageI [where f = hit_env])
  ultimately show ?thesis using assms by (auto simp: roomy_def pending_def)
qed

lemma k_run_calls:
  assumes "is_target k t" "distinct (map fst (k_enters k))" "card (insert t (pending k \<union> callers hits)) \<le> ENTERS_MAX"
  shows "\<exists>rs. k_events (k_run b f hits k) = k_events k @ rs
    \<and> map record_view (filter (\<lambda>r. rec_tid r = t) rs) = map done_view (task_records t (map_of (k_enters k) t) hits)"
  using k_run_records [OF assms(1) roomy_callers [OF assms(2,3)]] by blast

text \<open>A task whose hits come in pairs makes the calls they spell.\<close>

definition hit_pair :: "kenv \<times> kenv \<Rightarrow> hit list" where
  "hit_pair c = [HitEnter (fst c), HitExit (snd c)]"

definition pair_entry :: "kenv \<times> kenv \<Rightarrow> (enter \<times> kenv) list" where
  "pair_entry c = (case entry_of (fst c) of Some e \<Rightarrow> if kv_reserve (snd c) = None then [] else [(e, snd c)] | None \<Rightarrow> [])"

lemma task_records_own: "task_records t b hs = task_records t b (filter (call_of t) hs)"
  by (induction t b hs rule: task_records.induct) simp_all

lemma task_records_pairs:
  assumes "filter (call_of t) hits = concat (map hit_pair cs)"
  shows "task_records t None hits = concat (map pair_entry cs)"
proof -
  have "filter (call_of t) (concat (map hit_pair cs)) = concat (map hit_pair cs)"
    unfolding assms [symmetric] by simp
  then have "\<forall>c\<in>set cs. env_tid (fst c) = t \<and> env_tid (snd c) = t"
    by (auto simp: filter_id_conv hit_pair_def)
  then have "task_records t None (concat (map hit_pair cs)) = concat (map pair_entry cs)"
    by (induction cs) (auto simp: hit_pair_def pair_entry_def split: option.split)
  then show ?thesis unfolding task_records_own [of t None hits] assms .
qed

subsection \<open>Properties\<close>

text \<open>
  C5. The records of a run: while the tasks that make calls fit into the table of pending
  calls, the records submitted for a traced task are, in order, its own entries and exits in
  pairs: the identifiers of the exiting task, the number and arguments of the latest entry,
  the value returned and the times.  Hits of other tasks, forks and newly armed tasks make no
  difference, and a full ring loses the call it is full for and no other.
\<close>

theorem kernel_calls:
  assumes "is_target k t" "distinct (map fst (k_enters k))" "card (insert t (pending k \<union> callers hits)) \<le> ENTERS_MAX"
  shows "\<exists>rs. k_events (k_run b f hits k) = k_events k @ rs
    \<and> map record_view (filter (\<lambda>r. rec_tid r = t) rs) = map done_view (task_records t (map_of (k_enters k) t) hits)"
  using assms by (rule k_run_calls)

theorem kernel_calls_witness:
  "\<exists>rs. k_events (k_run False True [HitEnter (demo_env 9 50 open_ctx), HitEnter (demo_env 8 60 open_ctx),
        HitExit (demo_env 9 80 open_ctx)] demo_kernel) = rs
     \<and> map record_view (filter (\<lambda>r. rec_tid r = 9) rs) = [(0, 9, 2, Args 4096 0 0 0 0 0, 4096, 50, 30)]"
proof -
  let ?hits = "[HitEnter (demo_env 9 50 open_ctx), HitEnter (demo_env 8 60 open_ctx), HitExit (demo_env 9 80 open_ctx)]"
  have a: "is_target demo_kernel 9" "distinct (map fst (k_enters demo_kernel))" by (simp_all add: exec)
  have "callers ?hits \<subseteq> {9, 8}" by (auto simp: callers_def exec)
  then have "card (insert 9 (pending demo_kernel \<union> callers ?hits)) \<le> card {9, 8 :: u32}"
    by (intro card_mono) (auto simp: pending_def demo_kernel_def)
  then have c: "card (insert 9 (pending demo_kernel \<union> callers ?hits)) \<le> ENTERS_MAX" by (simp add: ENTERS_MAX_def)
  have e: "entry_of (demo_env 9 50 open_ctx) = Some \<lparr>e_nr = 2, e_args = Args 4096 0 0 0 0 0, e_ts = 50\<rparr>"
    by (simp add: entry_of_def demo_raw) (simp add: demo_env_def)
  have t: "env_tid (demo_env 9 50 open_ctx) = 9" "env_tid (demo_env 8 60 open_ctx) = 8" "env_tid (demo_env 9 80 open_ctx) = 9"
    "kv_reserve (demo_env 9 80 open_ctx) = Some blank_record" "k_enters demo_kernel = []" "k_events demo_kernel = []"
    by (simp_all add: demo_env_def env_tid_def demo_kernel_def)
  have d: "map done_view (task_records 9 (map_of (k_enters demo_kernel) 9) ?hits) = [(0, 9, 2, Args 4096 0 0 0 0 0, 4096, 50, 30)]"
    by (simp add: t e done_view_def) (simp add: exec)
  from kernel_calls [OF a c, of False True] show ?thesis unfolding d by (simp add: t(6))
qed

end
