(* ===== verification/Agreement.thy ===== *)
theory Agreement
  imports Syren Ptrace_Calls Kernel_Calls
begin

section \<open>Both backends on the same program\<close>

text \<open>
  One program traced by either backend: the ptrace backend sees its tasks stop with their
  registers, the in-kernel programs see their tracepoints.  When both sources show the same
  calls, both backends report calls that decode alike.
\<close>

subsection \<open>The syscall events of a session\<close>

definition session_syscalls :: "event option list \<Rightarrow> syscall_event list" where
  "session_syscalls evs = concat (map (\<lambda>ev. case ev of Some (SyscallEv e) \<Rightarrow> [e] | _ \<Rightarrow> []) evs)"

definition event_view :: "syscall_event \<Rightarrow> i32 \<times> u64 \<times> args6 \<times> i64" where
  "event_view e = (ev_tid e, ev_nr e, ev_args e, ev_retval e)"

lemma event_calls_view: "concat (map event_calls evs) = map event_view (session_syscalls evs)"
  by (induction evs) (auto simp: session_syscalls_def event_calls_def event_view_def split: option.split event.split)

text \<open>
  What decoding depends on: number, arguments and result of the call, and what it reads of the
  memory, the strings at path arguments and at most 33 bytes at buffers and socket options.
\<close>

definition event_triple :: "syscall_event \<Rightarrow> u64 \<times> args6 \<times> i64" where
  "event_triple e = (ev_nr e, ev_args e, ev_retval e)"

lemma task_triples:
  assumes "pt_seen os s obs s'" "pt_inflight (fst s) = Map.empty" "stops_of p (map fst obs) = concat (map (stop_pair p) cs)"
  shows "map event_triple (filter (\<lambda>e. ev_tid e = p) (session_syscalls (map snd obs)))
     = map (\<lambda>c. (r_orig_rax (fst c), regs_args (fst c), r_rax (snd c))) cs"
proof -
  have "map event_view (filter (\<lambda>e. ev_tid e = p) (session_syscalls (map snd obs)))
      = filter (\<lambda>c. fst c = p) (concat (map event_calls (map snd obs)))"
    unfolding event_calls_view by (simp add: filter_map o_def event_view_def)
  also have "\<dots> = map (\<lambda>c. call_view (p, c)) cs"
    unfolding task_calls_reported [OF assms(1,2)] task_calls_pairs [OF assms(3)] ..
  finally have "map snd (map event_view (filter (\<lambda>e. ev_tid e = p) (session_syscalls (map snd obs))))
      = map snd (map (\<lambda>c. call_view (p, c)) cs)" by simp
  then show ?thesis by (simp add: o_def event_view_def event_triple_def [abs_def] call_view_def)
qed

subsection \<open>The same calls at the tracepoints\<close>

text \<open>The tracepoints of a call show the registers the tracer reads, and the ring has room.\<close>

definition sees_same :: "regs \<times> regs \<Rightarrow> kenv \<times> kenv \<Rightarrow> bool" where
  "sees_same c h \<longleftrightarrow> read_raw_enter (fst h) 8 = Inr \<lparr>re_id = r_orig_rax (fst c), re_args = regs_args (fst c)\<rparr>
     \<and> read_word (snd h) 16 8 = Inr (unat (r_rax (snd c))) \<and> kv_reserve (snd h) \<noteq> None"

lemma sees_same_views:
  assumes "list_all2 sees_same cs hs"
  shows "map (\<lambda>c. (r_orig_rax (fst c), regs_args (fst c), r_rax (snd c))) cs
     = map (\<lambda>v. (fst (snd (snd v)), fst (snd (snd (snd v))), fst (snd (snd (snd (snd v))))))
         (map done_view (concat (map pair_entry hs)))"
  using assms
  by (induction rule: list_all2_induct)
    (auto simp: sees_same_def pair_entry_def entry_of_def done_view_def read_or_def)

definition reads_alike :: "syscall_info list \<Rightarrow> syscall_event \<Rightarrow> reader \<Rightarrow> reader \<Rightarrow> bool" where
  "reads_alike T ev mem mem' \<longleftrightarrow>
     (case event_info T ev of
        None \<Rightarrow> True
      | Some info \<Rightarrow> list_all (\<lambda>(meta, a).
          (ai_ty meta = TyPath \<longrightarrow> read_cstr mem a PATH_CAP = read_cstr mem' a PATH_CAP)
          \<and> (ai_ty meta = TyBuf \<longrightarrow> (\<forall>n \<le> MAX_STR + 1. mem a n = mem' a n))
          \<and> (ai_name meta = ''optval'' \<longrightarrow> mem (arg3 (ev_args ev)) 4 = mem' (arg3 (ev_args ev)) 4)) (zip (si_args info) (args_list (ev_args ev))))"

lemma reads_alike_refl: "reads_alike T ev mem mem"
  by (auto simp: reads_alike_def list_all_iff split: option.split)

lemma decode_one_reads:
  assumes "event_info T ev = Some info" "reads_alike T ev mem mem'"
  shows "decode_one syscall (si_args info) ev mem i = decode_one syscall (si_args info) ev mem' i"
proof (cases "i < length (si_args info) \<and> i < 6")
  case True
  let ?meta = "si_args info ! i" and ?a = "args_list (ev_args ev) ! i"
  have len: "length (args_list (ev_args ev)) = 6" by (cases "ev_args ev") simp
  have "(?meta, ?a) \<in> set (zip (si_args info) (args_list (ev_args ev)))"
    using True len by (auto simp: in_set_zip intro!: exI [of _ i])
  with assms have alike: "ai_ty ?meta = TyPath \<longrightarrow> read_cstr mem ?a PATH_CAP = read_cstr mem' ?a PATH_CAP"
    "ai_ty ?meta = TyBuf \<longrightarrow> (\<forall>n \<le> MAX_STR + 1. mem ?a n = mem' ?a n)" "ai_name ?meta = ''optval'' \<longrightarrow> mem (arg3 (ev_args ev)) 4 = mem' (arg3 (ev_args ev)) 4"
    unfolding reads_alike_def list_all_iff by auto
  then have opt: "ai_name ?meta = ''optval'' \<Longrightarrow> render_sockopt_optval ev mem = render_sockopt_optval ev mem'"
    by (simp add: render_sockopt_optval_def Let_def)
  have "min bound (MAX_STR + 1) \<le> MAX_STR + 1" for bound by simp
  with alike(2) True have buf: "ai_ty ?meta = TyBuf \<Longrightarrow> render_buf (si_args info) i ev mem = render_buf (si_args info) i ev mem'"
    by (auto simp: render_buf_def arg_at_Some Let_def simp del: min_le_iff_disj)
  have "render_typed syscall (si_args info) i ev mem ?meta ?a = render_typed syscall (si_args info) i ev mem' ?meta ?a"
    using alike(1) buf by (cases "ai_ty ?meta") (simp_all add: render_typed_def)
  with True opt have "render_arg syscall (si_args info) i ev mem = render_arg syscall (si_args info) i ev mem'"
    by (simp add: render_arg_def arg_at_Some nth_opt_Some)
  then show ?thesis by (simp add: decode_one_def)
next
  case False
  then show ?thesis by (auto simp: decode_one_def render_arg_def nth_opt_def arg_at_def)
qed

lemma decode_reads:
  assumes "reads_alike T ev mem mem'"
  shows "decode T ev mem = decode T ev mem'"
proof (cases "event_info T ev")
  case None
  then show ?thesis by (simp add: decode_def)
next
  case (Some info)
  have "decode_typed name (si_args info) ev mem = decode_typed name (si_args info) ev mem'" for name
    unfolding decode_typed_def by (simp add: decode_one_reads [OF Some assms] cong: map_cong)
  with Some show ?thesis by (simp add: decode_def Let_def)
qed

text \<open>What is shown of a call: its number, name, arguments, result and error.\<close>

definition shown :: "syscall_info list \<Rightarrow> reader \<Rightarrow> syscall_event \<Rightarrow> (u64 \<times> string \<times> decoded_arg list \<times> i64 \<times> decoded_error option) option" where
  "shown T mem e = map_option (\<lambda>d. (ds_nr d, ds_name d, ds_args d, ds_retval d, ds_error d)) (decode T e mem)"

definition shows_same :: "syscall_info list \<Rightarrow> syscall_event \<Rightarrow> syscall_event \<Rightarrow> bool" where
  "shows_same T e e' \<longleftrightarrow> (\<forall>mem mem'. reads_alike T e mem mem' \<longrightarrow> shown T mem e = shown T mem' e' \<and> shown T mem e \<noteq> None)"

lemma shows_same_triple:
  assumes "table_arity_ok T" "event_triple e = event_triple e'"
  shows "shows_same T e e'"
  unfolding shows_same_def
proof (intro allI impI)
  fix mem mem' assume alike: "reads_alike T e mem mem'"
  from decode_total [OF assms(1)] obtain d d' where d: "decode T e' mem' = Some d" "decode T e mem' = Some d'" by blast
  from assms(2) decode_cong [OF _ _ _ d] d have "shown T mem' e = shown T mem' e' \<and> shown T mem' e \<noteq> None"
    by (simp add: event_triple_def shown_def)
  then show "shown T mem e = shown T mem' e' \<and> shown T mem e \<noteq> None"
    unfolding shown_def decode_reads [OF alike] .
qed

lemma records_agree:
  assumes "pt_seen os s obs s'" "pt_inflight (fst s) = Map.empty" "stops_of p (map fst obs) = concat (map (stop_pair p) cs)"
    and "map record_view rs = map done_view (concat (map pair_entry hs))" "list_all2 sees_same cs hs" "table_arity_ok T"
  shows "list_all2 (\<lambda>e r. shows_same T e (record_to_event r base))
      (filter (\<lambda>e. ev_tid e = p) (session_syscalls (map snd obs))) rs \<and> length rs = length cs"
proof -
  let ?es = "filter (\<lambda>e. ev_tid e = p) (session_syscalls (map snd obs))"
  have "map event_triple ?es = map event_triple (map (\<lambda>r. record_to_event r base) rs)"
    unfolding task_triples [OF assms(1-3)] sees_same_views [OF assms(5)] assms(4) [symmetric]
    by (simp add: o_def record_view_def event_triple_def record_to_event_def)
  then have "list_all2 (\<lambda>x y. event_triple x = event_triple y) ?es (map (\<lambda>r. record_to_event r base) rs)"
    by (simp add: list.rel_eq [symmetric] list_all2_map1 list_all2_map2)
  then have "list_all2 (\<lambda>e r. event_triple e = event_triple (record_to_event r base)) ?es rs"
    by (simp add: list_all2_map2)
  then have "list_all2 (\<lambda>e r. shows_same T e (record_to_event r base)) ?es rs"
    by (rule list_all2_mono) (use shows_same_triple [OF assms(6)] in blast)
  moreover from this have "length rs = length (map event_triple ?es)" by (simp add: list_all2_lengthD)
  then have "length rs = length cs" unfolding task_triples [OF assms(1-3)] by simp
  ultimately show ?thesis by simp
qed

subsection \<open>A single call\<close>

text \<open>The same for one call in the middle of a session, where other calls may still be open.\<close>

lemma backends_agree:
  assumes "pt_step os s0 (PtraceSyscall p) ev0 s1" "pt_inflight (fst s0) p = None"
    and "pt_trace os s1 tr s2" "\<forall>x\<in>set tr. \<not> touches p (fst x)" "pt_step os s2 (PtraceSyscall p) (Some e) s3"
    and "is_target k t" "env_tid en = t" "fits ENTERS_MAX t (k_enters k)" "\<forall>h\<in>set mid. \<not> call_of t h" "env_tid ex = t"
    and "kv_reserve ex = Some slot"
    and "stop_regs os p s0 = Inr r0" "stop_regs os p s2 = Inr r"
    and "read_raw_enter en 8 = Inr \<lparr>re_id = r_orig_rax r0,
          re_args = Args (r_rdi r0) (r_rsi r0) (r_rdx r0) (r_r10 r0) (r_r8 r0) (r_r9 r0)\<rparr>"
    and "read_word ex 16 8 = Inr (unat (r_rax r))" "table_arity_ok T"
  shows "\<exists>pe rec d d'. e = SyscallEv pe
     \<and> k_events (k_run b f (HitEnter en # mid @ [HitExit ex]) k) = k_events (k_run b f (HitEnter en # mid) k) @ [rec]
     \<and> decode T pe mem = Some d \<and> decode T (record_to_event rec base) mem = Some d'
     \<and> ds_name d' = ds_name d \<and> ds_args d' = ds_args d \<and> ds_retval d' = ds_retval d \<and> ds_error d' = ds_error d"
proof -
  from pt_pairing [OF assms(1-5)] assms(12,13) obtain pe where e: "e = SyscallEv pe"
    and p: "ev_nr pe = r_orig_rax r0" "ev_retval pe = r_rax r"
      "ev_args pe = Args (r_rdi r0) (r_rsi r0) (r_rdx r0) (r_r10 r0) (r_r8 r0) (r_r9 r0)" by auto
  from k_pairing [OF assms(6,7,14,8,9,10,11), of b f] obtain rec where
    k: "k_events (k_run b f (HitEnter en # mid @ [HitExit ex]) k) = k_events (k_run b f (HitEnter en # mid) k) @ [rec]"
    and rec: "rec_nr rec = r_orig_rax r0" "rec_retval rec = of_nat (read_or 0 (read_word ex 16 8))"
      "rec_args rec = Args (r_rdi r0) (r_rsi r0) (r_rdx r0) (r_r10 r0) (r_r8 r0) (r_r9 r0)" by auto
  from decode_total [OF assms(16)] obtain d d' where d: "decode T pe mem = Some d"
    and d': "decode T (record_to_event rec base) mem = Some d'" by blast
  have "rec_retval rec = r_rax r" using rec(2) assms(15) by (simp add: read_or_def)
  then have "ev_nr (record_to_event rec base) = ev_nr pe" "ev_args (record_to_event rec base) = ev_args pe"
    "ev_retval (record_to_event rec base) = ev_retval pe"
    using p rec by (simp_all add: record_to_event_def)
  from decode_cong [OF this d d'] e k d d' show ?thesis by blast
qed

end
