(* ===== verification/Ebpf_Liveness.thy ===== *)
theory Ebpf_Liveness
  imports Ebpf_Session
begin

section \<open>Every sample is delivered\<close>

text \<open>
  Liveness of the eBPF backend over a ring buffer that keeps its order: the session ends, and
  every sample submitted before its last look at the ring is delivered, those submitted before
  the program was seen to be over in front of the exit of the leader.
\<close>

subsection \<open>A ring in order\<close>

text \<open>
  \<open>held w\<close> are the samples in the ring, oldest first, and \<open>sent w\<close> all that were ever submitted
  to it.  Any call may see further samples arrive; only \<open>ro_next\<close> removes one, the oldest, and
  finds none only when there is none.  What arrives after a look that found nothing is seen by
  the next call.
\<close>

definition arrive ::
    "('w \<Rightarrow> u8 list list) \<Rightarrow> ('w \<Rightarrow> u8 list list) \<Rightarrow> 'w \<Rightarrow> u8 list list \<Rightarrow> 'w \<Rightarrow> bool" where
  "arrive held sent w left w' \<longleftrightarrow> (\<exists>new. held w' = left @ new \<and> sent w' = sent w @ new)"

definition fifo :: "'w ring_os \<Rightarrow> ('w \<Rightarrow> u8 list list) \<Rightarrow> ('w \<Rightarrow> u8 list list) \<Rightarrow> bool" where
  "fifo os held sent \<longleftrightarrow>
     (\<forall>w item w'. ro_next os w = (Some item, w') \<longrightarrow> (\<exists>rest. held w = item # rest \<and> arrive held sent w rest w'))
     \<and> (\<forall>w w'. ro_next os w = (None, w') \<longrightarrow> held w = [] \<and> held w' = [] \<and> sent w' = sent w)
     \<and> (\<forall>p w r w'. ro_waitpid_nohang os p w = (r, w') \<longrightarrow> arrive held sent w (held w) w')
     \<and> (\<forall>p w r w'. ro_kill0 os p w = (r, w') \<longrightarrow> arrive held sent w (held w) w')
     \<and> (\<forall>w. arrive held sent w (held w) (ro_poll os 100 w))"

text \<open>What was submitted is what was taken, then what is in the ring.\<close>

lemma fifoD:
  assumes "fifo os held sent"
  shows "ro_next os w = (Some item, w') \<Longrightarrow> \<exists>rest. held w = item # rest \<and> arrive held sent w rest w'"
    "ro_next os w = (None, w') \<Longrightarrow> held w = [] \<and> held w' = [] \<and> sent w' = sent w"
    "ro_waitpid_nohang os p w = (r, w') \<Longrightarrow> arrive held sent w (held w) w'"
    "ro_kill0 os p w = (k, w') \<Longrightarrow> arrive held sent w (held w) w'"
    "arrive held sent w (held w) (ro_poll os 100 w)"
  using assms unfolding fifo_def by blast+

lemma fifo_look:
  assumes "fifo os held sent" "look_at os w l w'" "sent w = past @ held w"
  shows "sent w' = past @ took [l] @ held w' \<and> (\<exists>new. sent w' = sent w @ new) \<and> (l = Bare \<longrightarrow> held w' = [])"
proof (cases l)
  case (Took item)
  with assms(2) fifoD(1) [OF assms(1)] obtain rest where "held w = item # rest" "arrive held sent w rest w'"
    unfolding Took look_at.simps by blast
  with assms(3) Took show ?thesis by (auto simp: arrive_def)
next
  case Bare
  with assms(2,3) fifoD(2) [OF assms(1)] show ?thesis by simp
next
  case (Waited p r)
  with assms(2) fifoD(3) [OF assms(1)] have "arrive held sent w (held w) w'" by simp
  with assms(3) Waited show ?thesis by (auto simp: arrive_def)
next
  case (Killed p k)
  with assms(2) fifoD(4) [OF assms(1)] have "arrive held sent w (held w) w'" by simp
  with assms(3) Killed show ?thesis by (auto simp: arrive_def)
next
  case Polled
  with assms(2) fifoD(5) [OF assms(1)] have "arrive held sent w (held w) w'" by simp
  with assms(3) Polled show ?thesis by (auto simp: arrive_def)
qed

lemma fifo_path:
  assumes "fifo os held sent" "ring_path os w ls w'" "sent w = past @ held w"
  shows "sent w' = past @ took ls @ held w' \<and> (\<exists>new. sent w' = sent w @ new) \<and> (ls \<noteq> [] \<and> last ls = Bare \<longrightarrow> held w' = [])"
  using assms(2,3)
proof (induction ls arbitrary: w past)
  case (Cons l ls)
  then obtain w1 where l: "look_at os w l w1" and p: "ring_path os w1 ls w'" by auto
  from fifo_look [OF assms(1) l Cons.prems(2)] have
    1: "sent w1 = (past @ took [l]) @ held w1" "\<exists>new. sent w1 = sent w @ new" "l = Bare \<longrightarrow> held w1 = []"
    unfolding append_assoc by blast+
  from Cons.IH [OF p 1(1)] have
    2: "sent w' = (past @ took [l]) @ took ls @ held w'" "\<exists>new. sent w' = sent w1 @ new"
      "ls \<noteq> [] \<and> last ls = Bare \<longrightarrow> held w' = []" by blast+
  have "took (l # ls) = took [l] @ took ls" by (simp only: took_append [symmetric] append_Cons append_Nil)
  moreover have "\<exists>new. sent w' = sent w @ new" using 1(2) 2(2) by auto
  moreover have "l # ls \<noteq> [] \<and> last (l # ls) = Bare \<longrightarrow> held w' = []"
    using 1(3) 2(3) p by (cases "ls = []") simp_all
  ultimately show ?case using 2(1) by simp
qed simp

subsection \<open>The session to its end\<close>

lemma eb_session_ends:
  assumes "ring_runs_down os \<mu>" "armed (fst s)"
  shows "\<exists>xs s'. eb_session os s xs s'"
  using assms(2)
proof (induction "eb_left \<mu> s" arbitrary: s rule: less_induct)
  case less
  from eb.next_total [of os \<mu> s] assms(1) less.prems obtain r s1 where n: "eb_next_event os s = Some (r, s1)" by auto
  from eb_next_event_stretch [OF n] obtain e where r: "r = Inr e" by auto
  show ?case
  proof (cases e)
    case (Some ev)
    from eb.next_left [of os \<mu> s ev s1] n r Some assms(1) less.prems have "armed (fst s1)" "eb_left \<mu> s1 < eb_left \<mu> s" by auto
    from less.hyps [OF this(2,1)] obtain xs s' where "eb_session os s1 xs s'" by blast
    with n r Some have "eb_session os s ((ev, eb_current (fst s1)) # xs) s'" by (auto simp: eb_session_def)
    then show ?thesis by blast
  next
    case None
    with n r have "eb_session os s [] s1" by (simp add: eb_session_def)
    then show ?thesis by blast
  qed
qed

lemma eb_session_delivers:
  assumes "eb_session os (t, w) xs s'" "fifo os held sent" "eb_queue t = []" "\<not> eb_finished t" "sent w = held w"
  shows "\<exists>before over code at_end rest at_drain late more unseen.
    ring_path os w (before @ over) at_end \<and> sees_over t over code
    \<and> ring_path os at_end rest at_drain \<and> ring_path os at_drain late (snd s')
    \<and> sent at_drain = sent at_end @ more \<and> held at_drain = []
    \<and> sent (snd s') = sent at_drain @ unseen \<and> held (snd s') = []
    \<and> xs = entries (eb_baseline t) (sent at_drain) @ exit_entry (eb_leader t) code @ entries (eb_baseline t) unseen"
proof -
  let ?b = "eb_baseline t"
  from eb_session_looks [OF assms(1)] assms(3,4) obtain before over rest late code where
    p: "ring_path os w (before @ over @ rest @ Bare # late) (snd s')" and o: "sees_over t over code"
    and l: "last (Bare # late) = Bare"
    and xs: "xs = entries ?b (took (before @ over @ rest)) @ exit_entry (eb_leader t) code @ entries ?b (took late)"
    unfolding fst_conv snd_conv by blast
  have "before @ over @ rest @ Bare # late = (before @ over) @ (rest @ [Bare]) @ late" by simp
  from p [unfolded this] obtain at_end at_drain where a: "ring_path os w (before @ over) at_end"
    and d: "ring_path os at_end (rest @ [Bare]) at_drain" and e: "ring_path os at_drain late (snd s')"
    unfolding ring_path_append by blast
  from fifo_path [OF assms(2) a, of "[]"] assms(5) have 1: "sent at_end = took (before @ over) @ held at_end" by simp
  from fifo_path [OF assms(2) d 1] have
    "sent at_drain = took (before @ over) @ took (rest @ [Bare]) @ held at_drain" "held at_drain = []" by simp_all
  moreover from fifo_path [OF assms(2) d 1] obtain more where "sent at_drain = sent at_end @ more" by blast
  ultimately have 2: "sent at_drain = took (before @ over) @ took rest @ held at_drain" "sent at_drain = sent at_end @ more"
    "held at_drain = []" by simp_all
  then have 3: "sent at_drain = took (before @ over @ rest) @ held at_drain" by simp
  from fifo_path [OF assms(2) e 3] 2(3) l have
    4: "sent (snd s') = took (before @ over @ rest) @ took late @ held (snd s')" "late \<noteq> [] \<longrightarrow> held (snd s') = []" by auto
  have "late = [] \<Longrightarrow> held (snd s') = []" using e 2(3) by simp
  with 4 have 5: "sent (snd s') = sent at_drain @ took late" "held (snd s') = []" using 3 2(3) by auto
  have "sent at_drain = took (before @ over @ rest)" using 3 2(3) by simp
  then have "xs = entries ?b (sent at_drain) @ exit_entry (eb_leader t) code @ entries ?b (took late)" using xs by simp
  with a o d e 2(2,3) 5 show ?thesis by blast
qed

subsection \<open>A concrete ring\<close>

text \<open>Records come back from their bytes.\<close>

definition record_entry :: "u64 \<Rightarrow> bpf_record \<Rightarrow> event \<times> capture option" where
  "record_entry base r = (SyscallEv (record_to_event r base), record_capture r)"

lemma entries_records:
  "\<forall>r\<in>set rs. rec_ok r \<Longrightarrow> entries base (map rec_to_bytes rs) = map (record_entry base) rs"
  by (induction rs) (simp_all add: item_entry_def rec_from_to_bytes [where rest = "[]", simplified] record_entry_def)

text \<open>
  A ring into which further samples arrive during the calls that do not look at it; the program
  has exited with status 3 once all have arrived.
\<close>

record late_world =
  lw_held :: "u8 list list"
  lw_sent :: "u8 list list"
  lw_later :: "u8 list list list"

definition land :: "late_world \<Rightarrow> late_world" where
  "land w = (case lw_later w of
     [] \<Rightarrow> w | new # later \<Rightarrow> \<lparr>lw_held = lw_held w @ new, lw_sent = lw_sent w @ new, lw_later = later\<rparr>)"

definition late_ring :: "late_world ring_os" where
  "late_ring = \<lparr>ro_next = (\<lambda>w. case lw_held w of [] \<Rightarrow> (None, w) | x # xs \<Rightarrow> (Some x, w\<lparr>lw_held := xs\<rparr>)),
     ro_waitpid_nohang = (\<lambda>p w. (Inr (if lw_later (land w) = [] then Exited p 3 else StillAlive), land w)),
     ro_kill0 = (\<lambda>p w. (if lw_later (land w) = [] then Inl 3 else Inr (), land w)), ro_poll = (\<lambda>n w. land w)\<rparr>"

definition late_measure :: "late_world \<Rightarrow> nat" where
  "late_measure w = length (lw_held w) + length (concat (lw_later w)) + length (lw_later w)"

lemma land_measure: "late_measure (land w) \<le> late_measure w - (if lw_later w = [] then 0 else 1)"
  by (cases "lw_later w") (simp_all add: late_measure_def land_def)

lemma land_measure_le: "late_measure (land w) \<le> late_measure w"
  using land_measure [of w] by simp

lemma late_ring_runs_down: "ring_runs_down late_ring late_measure"
proof -
  have "late_measure w' < late_measure w" if "ro_next late_ring w = (Some item, w')" for w item w'
    using that by (auto simp: late_ring_def late_measure_def split: list.splits)
  moreover have "late_measure (land w) < late_measure w \<or> lw_held (land w) \<noteq> []" if "0 < late_measure w" for w
    using that by (cases "lw_later w") (simp_all add: land_def late_measure_def)
  moreover have "late_measure w = 0 \<Longrightarrow> lw_later (land w) = []" for w by (simp add: late_measure_def land_def)
  ultimately show ?thesis
    by (auto simp: ring_runs_down_def quiet_def late_ring_def EPERM_def land_measure_le split: list.split)
qed

lemma arrive_land: "arrive lw_held lw_sent w (lw_held w) (land w)"
  by (simp add: arrive_def land_def split: list.split)

lemma late_ring_fifo: "fifo late_ring lw_held lw_sent"
  using arrive_land by (auto simp: fifo_def late_ring_def arrive_def split: list.splits)

text \<open>Two records of \<^verbatim>\<open>close\<close>: one in the ring, one that arrives while the exit is collected.\<close>

definition close_record :: "u64 \<Rightarrow> bpf_record" where
  "close_record fd = \<lparr>rec_pid = 7, rec_tid = 7, rec_nr = 3, rec_args = Args fd 0 0 0 0 0, rec_retval = 0,
     rec_ts_enter_ns = 200, rec_duration_ns = 10, rec_cap_addr = 0, rec_cap_len = 0, rec_pad = 0,
     rec_cap = replicate CAP_BYTES 0\<rparr>"

definition two_closes :: late_world where
  "two_closes = \<lparr>lw_held = [rec_to_bytes (close_record 4)], lw_sent = [rec_to_bytes (close_record 4)],
     lw_later = [[rec_to_bytes (close_record 5)]]\<rparr>"

subsection \<open>Properties\<close>



end
