(* ===== verification/Ebpf_Pipeline.thy ===== *)
theory Ebpf_Pipeline
  imports Ebpf_Liveness Kernel_Calls
begin

section \<open>The kernel and the tracer together\<close>

text \<open>
  The ring buffer with the in-kernel programs behind it, as a model of the operating system: its
  world is the kernel's maps and the tracepoints still to be hit, in batches.  Whenever the
  tracer waits, tests a task or takes a sample, the next batch happens first or with it, so the
  batches are an arbitrary interleaving of the traced tasks with the tracer; only a look that
  finds the ring empty is over before the next batch.  A task \<open>p\<close> is gone when at most
  \<open>left_at p\<close> batches are still to come: what is left then are the hits of tasks that outlive
  it, as children do that are still traced when the leader exits.  A spawned child that is gone
  is reported with \<open>fate\<close>.
\<close>

type_synonym kworld = "kernel \<times> hit list list"

fun tick :: "bool \<Rightarrow> bool \<Rightarrow> kworld \<Rightarrow> kworld" where
  "tick b f (k, []) = (k, [])"
| "tick b f (k, hs # batches) = (k_run b f hs k, batches)"

definition kernel_ring :: "bool \<Rightarrow> bool \<Rightarrow> i32 + wait_status \<Rightarrow> (i32 \<Rightarrow> nat) \<Rightarrow> kworld ring_os" where
  "kernel_ring b f fate left_at =
     \<lparr>ro_next = (\<lambda>w. case k_events (fst w) of
         [] \<Rightarrow> (None, w)
       | r # rs \<Rightarrow> (Some (rec_to_bytes r), tick b f ((fst w)\<lparr>k_events := rs\<rparr>, snd w))),
      ro_waitpid_nohang = (\<lambda>p w. (if length (snd (tick b f w)) \<le> left_at p then fate else Inr StillAlive, tick b f w)),
      ro_kill0 = (\<lambda>p w. (if length (snd (tick b f w)) \<le> left_at p then Inl 3 else Inr (), tick b f w)),
      ro_poll = (\<lambda>n w. tick b f w)\<rparr>"

subsection \<open>Events only grow\<close>

lemma exit_prefix:
  "try_exit env (k\<lparr>k_events := r # k_events k\<rparr>) =
     (case try_exit env k of (x, k') \<Rightarrow> (x, k'\<lparr>k_events := r # k_events k'\<rparr>))"
  by (simp add: try_exit_def Let_def split: option.split)

lemma selfarm_prefix:
  "selfarm env tid (k\<lparr>k_events := es\<rparr>) = (selfarm env tid k)\<lparr>k_events := es\<rparr>"
  by (simp add: selfarm_def arm_target_def Let_def)

lemma enter_prefix:
  "snd (try_enter b env (k\<lparr>k_events := es\<rparr>)) = (snd (try_enter b env k))\<lparr>k_events := es\<rparr>"
  by (cases b) (simp_all add: try_enter_def Let_def selfarm_prefix is_target_def split: sum.split)

lemma fork_prefix:
  "snd (try_fork env (k\<lparr>k_events := es\<rparr>)) = (snd (try_fork env k))\<lparr>k_events := es\<rparr>"
  by (simp add: try_fork_def arm_target_def is_target_def Let_def)

lemma k_step_prefix:
  "k_step b f h (k\<lparr>k_events := r # k_events k\<rparr>) = (k_step b f h k)\<lparr>k_events := r # k_events (k_step b f h k)\<rparr>"
  by (cases h) (simp_all add: sys_enter_def sys_exit_def sched_process_fork_def enter_prefix fork_prefix exit_prefix split: prod.split)

lemma k_run_prefix:
  "k_events (k_run b f hs (k\<lparr>k_events := r # k_events k\<rparr>)) = r # k_events (k_run b f hs k)"
proof (induction hs arbitrary: k)
  case (Cons h hs)
  then show ?case by (simp add: k_step_prefix)
qed simp

lemma k_step_length: "length (k_events (k_step b f h k)) \<le> Suc (length (k_events k))
    \<and> (\<exists>new. k_events (k_step b f h k) = k_events k @ new)"
  by (cases h) (auto simp: sys_enter_def sys_exit_def sched_process_fork_def try_exit_def Let_def split: option.split)

lemma k_run_events: "length (k_events (k_run b f hs k)) \<le> length (k_events k) + length hs
    \<and> (\<exists>new. k_events (k_run b f hs k) = k_events k @ new)"
proof (induction hs arbitrary: k)
  case (Cons h hs)
  from k_step_length [of b f h k] Cons.IH [of "k_step b f h k"] show ?case by auto
qed simp

text \<open>A tick runs some of the batches, at most one.\<close>

lemma tick_run: "\<exists>past. snd w = past @ snd (tick b f w) \<and> fst (tick b f w) = k_run b f (concat past) (fst w)"
proof (cases "(b, f, w)" rule: tick.cases)
  case (2 b f k hs batches)
  then show ?thesis by (auto intro!: exI [of _ "[hs]"])
qed simp

subsection \<open>A ring that runs down\<close>

definition still_to_come :: "kworld \<Rightarrow> nat" where
  "still_to_come w = length (k_events (fst w)) + length (concat (snd w)) + length (snd w)"

lemma tick_comes: "still_to_come (tick b f w) \<le> still_to_come w - (if snd w = [] then 0 else 1)"
proof (cases "(b, f, w)" rule: tick.cases)
  case (2 b f k hs batches)
  with k_run_events [of b f hs k] show ?thesis by (auto simp: still_to_come_def)
qed (simp add: still_to_come_def)

lemma tick_comes_le: "still_to_come (tick b f w) \<le> still_to_come w"
  using tick_comes [of b f w] by simp

lemma tick_done: "still_to_come w = 0 \<Longrightarrow> snd (tick b f w) = []"
  by (cases "(b, f, w)" rule: tick.cases) (simp_all add: still_to_come_def)

lemma kernel_ring_runs_down:
  assumes "over_code fate \<noteq> None"
  shows "ring_runs_down (kernel_ring b f fate left_at) still_to_come"
  unfolding ring_runs_down_def
proof (intro conjI allI impI)
  fix w w' item
  assume "ro_next (kernel_ring b f fate left_at) w = (Some item, w')"
  then obtain r rs where e: "k_events (fst w) = r # rs" and w': "w' = tick b f ((fst w)\<lparr>k_events := rs\<rparr>, snd w)"
    by (auto simp: kernel_ring_def split: list.splits)
  show "still_to_come w' < still_to_come w"
    using tick_comes_le [of b f "((fst w)\<lparr>k_events := rs\<rparr>, snd w)"] by (simp add: w' still_to_come_def e)
next
  fix w w'
  assume "ro_next (kernel_ring b f fate left_at) w = (None, w')"
  then show "still_to_come w' \<le> still_to_come w" by (auto simp: kernel_ring_def split: list.splits)
next
  fix w :: kworld
  assume pos: "0 < still_to_come w"
  show "still_to_come (ro_poll (kernel_ring b f fate left_at) 100 w) < still_to_come w
      \<or> fst (ro_next (kernel_ring b f fate left_at) (ro_poll (kernel_ring b f fate left_at) 100 w)) \<noteq> None"
  proof (cases "snd w = []")
    case True
    with pos have "tick b f w = w" "k_events (fst w) \<noteq> []"
      by (cases w, simp, simp add: still_to_come_def)
    then show ?thesis by (simp add: kernel_ring_def split: list.split)
  next
    case False
    with pos tick_comes [of b f w] have "still_to_come (tick b f w) < still_to_come w" by simp
    then show ?thesis by (simp add: kernel_ring_def)
  qed
next
  fix p and w :: kworld
  assume "still_to_come w = 0"
  then show "over_status (fst (ro_waitpid_nohang (kernel_ring b f fate left_at) p w))"
    "\<exists>e. fst (ro_kill0 (kernel_ring b f fate left_at) p w) = Inl e \<and> e \<noteq> EPERM"
    using assms by (simp_all add: kernel_ring_def tick_done over_status_def EPERM_def)
qed (simp_all add: kernel_ring_def quiet_def tick_comes_le)

subsection \<open>What a session hands out\<close>

text \<open>
  Along any path some batches happen; the samples taken and those left in the ring are the
  records these submit.
\<close>

lemma kernel_look:
  assumes "look_at (kernel_ring b f fate left_at) w l w'"
  shows "\<exists>past k. snd w = past @ snd w' \<and> fst w' = k_run b f (concat past) k
     \<and> (\<forall>hs. map rec_to_bytes (k_events (k_run b f hs (fst w))) = took [l] @ map rec_to_bytes (k_events (k_run b f hs k)))
     \<and> (l = Bare \<longrightarrow> k_events (fst w') = [])"
proof (cases l)
  case (Took item)
  with assms obtain r rs where e: "k_events (fst w) = r # rs" and i: "item = rec_to_bytes r"
    and w': "w' = tick b f ((fst w)\<lparr>k_events := rs\<rparr>, snd w)"
    by (auto simp: kernel_ring_def split: list.splits)
  let ?k = "(fst w)\<lparr>k_events := rs\<rparr>"
  have "fst w = ?k\<lparr>k_events := r # k_events ?k\<rparr>" using e by simp
  then have "k_events (k_run b f hs (fst w)) = r # k_events (k_run b f hs ?k)" for hs
    by (metis k_run_prefix)
  with tick_run [of "(?k, snd w)" b f] Took i w' show ?thesis
    by (metis fst_conv snd_conv list.simps(9) took.simps(1,2) append_Cons append_Nil look.distinct(1))
next
  case Bare
  with assms have "w' = w" "k_events (fst w) = []" by (auto simp: kernel_ring_def split: list.splits)
  with Bare show ?thesis by (intro exI [of _ "[]"] exI [of _ "fst w"]) simp
qed (use assms tick_run [of w b f] in \<open>auto simp: kernel_ring_def intro: exI [of _ "fst w"]\<close>)

lemma kernel_path:
  assumes "ring_path (kernel_ring b f fate left_at) w ls w'"
  shows "\<exists>past. snd w = past @ snd w'
     \<and> map rec_to_bytes (k_events (k_run b f (concat past) (fst w))) = took ls @ map rec_to_bytes (k_events (fst w'))
     \<and> (ls \<noteq> [] \<and> last ls = Bare \<longrightarrow> k_events (fst w') = [])"
  using assms
proof (induction ls arbitrary: w)
  case Nil
  then show ?case by simp
next
  case (Cons l ls)
  then obtain w1 where l: "look_at (kernel_ring b f fate left_at) w l w1"
    and p: "ring_path (kernel_ring b f fate left_at) w1 ls w'" by auto
  from kernel_look [OF l] obtain past k where 1: "snd w = past @ snd w1" "fst w1 = k_run b f (concat past) k"
    "\<And>hs. map rec_to_bytes (k_events (k_run b f hs (fst w))) = took [l] @ map rec_to_bytes (k_events (k_run b f hs k))"
    "l = Bare \<longrightarrow> k_events (fst w1) = []" by blast
  from Cons.IH [OF p] obtain past' where 2: "snd w1 = past' @ snd w'"
    "map rec_to_bytes (k_events (k_run b f (concat past') (fst w1))) = took ls @ map rec_to_bytes (k_events (fst w'))"
    "ls \<noteq> [] \<and> last ls = Bare \<longrightarrow> k_events (fst w') = []" by blast
  have "took (l # ls) = took [l] @ took ls" by (simp only: took_append [symmetric] append_Cons append_Nil)
  with 1(3) [of "concat (past @ past')"] 2(2)
  have "map rec_to_bytes (k_events (k_run b f (concat (past @ past')) (fst w))) = took (l # ls) @ map rec_to_bytes (k_events (fst w'))"
    by (simp add: 1(2))
  moreover have "last (l # ls) = Bare \<longrightarrow> k_events (fst w') = []" using 1(4) 2(3) p by (cases "ls = []") simp_all
  ultimately show ?case using 1(1) 2(1) by (intro exI [of _ "past @ past'"]) simp
qed

text \<open>The traced task, or every watched one, is gone when so many batches are left.\<close>

definition tasks_over :: "ebpf_tracer \<Rightarrow> (i32 \<Rightarrow> nat) \<Rightarrow> nat \<Rightarrow> bool" where
  "tasks_over t left_at n \<longleftrightarrow>
     (case eb_child t of Some child \<Rightarrow> n \<le> left_at child | None \<Rightarrow> \<forall>p\<in>set (eb_watch t). n \<le> left_at p)"

lemma kernel_gone:
  assumes "list_all2 gone ps ls" "ring_path (kernel_ring b f fate left_at) w ls w'"
  shows "\<forall>p\<in>set ps. length (snd w') \<le> left_at p"
  using assms
proof (induction ps ls arbitrary: w rule: list_all2_induct)
  case (Cons p ps l ls)
  then obtain w1 where l: "look_at (kernel_ring b f fate left_at) w l w1"
    and p: "ring_path (kernel_ring b f fate left_at) w1 ls w'" by auto
  from l Cons.hyps(1) have "length (snd w1) \<le> left_at p" by (auto simp: gone_def kernel_ring_def split: if_splits)
  moreover from kernel_path [OF p] have "length (snd w') \<le> length (snd w1)" by auto
  ultimately show ?case using Cons.IH [OF p] by simp
qed simp

lemma kernel_over:
  assumes "sees_over t over code" "ring_path (kernel_ring b f fate left_at) w over w'" "over_code fate = Some x"
  shows "tasks_over t left_at (length (snd w')) \<and> code = (if eb_child t = None then 0 else x)"
proof (cases "eb_child t")
  case (Some child)
  with assms show ?thesis by (auto simp: sees_over_def tasks_over_def kernel_ring_def split: if_splits)
next
  case None
  with assms(1) have "list_all2 gone (eb_watch t) over" "code = 0" by (simp_all add: sees_over_def)
  with kernel_gone [OF this(1) assms(2)] None show ?thesis by (simp add: tasks_over_def)
qed

lemma tasks_over_less: "tasks_over t left_at n \<Longrightarrow> m \<le> n \<Longrightarrow> tasks_over t left_at m"
  by (auto simp: tasks_over_def split: option.splits)

lemma kernel_run_ok:
  assumes "kernel_ok k" "\<forall>h\<in>set hs. env_ok (hit_env h)"
  shows "\<forall>r\<in>set (k_events (k_run b f hs k)). rec_ok r"
  using k_run_ok [OF assms(2,1), of b f] by (auto simp: kernel_ok_def record_fine_def)

text \<open>
  A whole session: the batches before \<open>seen\<close> ends happen before the program is found over and
  the ring empty, those of \<open>late\<close> before the last look, and the rest later.
\<close>

lemma kernel_session:
  assumes "eb_session (kernel_ring b f fate left_at) (t, (k, batches)) ys s'" "eb_queue t = []" "\<not> eb_finished t"
    and "over_code fate = Some x" "kernel_ok k" "\<forall>h\<in>set (concat batches). env_ok (hit_env h)"
  shows "\<exists>seen late new. batches = seen @ late @ snd (snd s')
    \<and> tasks_over t left_at (length (late @ snd (snd s')))
    \<and> k_events (k_run b f (concat (seen @ late)) k) = k_events (k_run b f (concat seen) k) @ new
    \<and> ys = map (record_entry (eb_baseline t)) (k_events (k_run b f (concat seen) k))
        @ exit_entry (eb_leader t) (if eb_child t = None then 0 else x) @ map (record_entry (eb_baseline t)) new"
proof -
  let ?os = "kernel_ring b f fate left_at" and ?b = "eb_baseline t" and ?run = "\<lambda>hs. k_events (k_run b f (concat hs) k)"
  from eb_session_looks [OF assms(1)] assms(2,3) obtain before over rest lt code where
    p: "ring_path ?os (k, batches) (before @ over @ rest @ Bare # lt) (snd s')" and o: "sees_over t over code"
    and l: "last (Bare # lt) = Bare"
    and ys: "ys = entries ?b (took (before @ over @ rest)) @ exit_entry (eb_leader t) code @ entries ?b (took lt)"
    unfolding fst_conv snd_conv by blast
  have "before @ over @ rest @ Bare # lt = before @ over @ (rest @ [Bare]) @ lt" by simp
  from p [unfolded this] obtain w1 we wd where 1: "ring_path ?os (k, batches) before w1" and o': "ring_path ?os w1 over we"
    and d: "ring_path ?os we (rest @ [Bare]) wd" and e: "ring_path ?os wd lt (snd s')"
    unfolding ring_path_append by blast
  have to_drain: "ring_path ?os (k, batches) (before @ over @ rest @ [Bare]) wd"
    using 1 o' d unfolding ring_path_append by blast
  from kernel_path [OF to_drain] obtain seen where
    seen: "batches = seen @ snd wd" "map rec_to_bytes (?run seen) = took (before @ over @ rest)" by auto
  from kernel_path [OF e] obtain late where late: "snd wd = late @ snd (snd s')" by blast
  from kernel_path [OF p] l obtain all where
    all: "batches = all @ snd (snd s')" "map rec_to_bytes (?run all) = took (before @ over @ rest @ Bare # lt)" by auto
  from all(1) seen(1) late have all': "all = seen @ late" by simp
  from k_run_events [of b f "concat late" "k_run b f (concat seen) k"] obtain new where
    new: "?run (seen @ late) = ?run seen @ new" by auto
  with all(2) seen(2) all' have tk: "took lt = map rec_to_bytes new" by simp
  have ok: "\<forall>r\<in>set (?run (seen @ late)). rec_ok r"
    using assms(5,6) seen(1) late by (intro kernel_run_ok) auto
  have over: "tasks_over t left_at (length (snd we))" and code: "code = (if eb_child t = None then 0 else x)"
    using kernel_over [OF o o' assms(4)] by simp_all
  from kernel_path [OF d] have "length (snd wd) \<le> length (snd we)" by auto
  with tasks_over_less [OF over] late have "tasks_over t left_at (length (late @ snd (snd s')))" by simp
  moreover have "ys = map (record_entry ?b) (?run seen) @ exit_entry (eb_leader t) code @ map (record_entry ?b) new"
    using ok unfolding ys tk seen(2) [symmetric] new by (simp add: entries_records)
  ultimately show ?thesis using seen(1) late new code
    by (intro exI [of _ seen] exI [of _ late] exI [of _ new]) simp
qed

end
