(* ===== verification/Syren_Runs.thy ===== *)
theory Syren_Runs
  imports Agreement Ebpf_Pipeline
begin

section \<open>Runs of the program\<close>

text \<open>
  The driver on top of a backend, from the arguments to the output: what a run prints is the
  chosen sink's text of the session the backend saw, whether the session ends or breaks off.
\<close>

subsection \<open>The loop over a tracer that comes to an end\<close>

context finite_tracer
begin

lemma delivers_to_end:
  assumes "lo_next ops = nxt" "good s"
  shows "\<exists>xs s1 r s2. delivers ops s xs s1 \<and> nxt s1 = Some (r, s2) \<and> (\<forall>e. r \<noteq> Inr (Some e))"
  using assms(2)
proof (induction "left s" arbitrary: s rule: less_induct)
  case less
  from next_total [OF less.prems] obtain r s1 where n: "nxt s = Some (r, s1)" by auto
  show ?case
  proof (cases "\<exists>e. r = Inr (Some e)")
    case True
    then obtain e where r: "r = Inr (Some e)" by blast
    from next_left [OF less.prems n [unfolded r]] have g: "good s1" "left s1 < left s" by auto
    from less.hyps [OF g(2,1)] obtain xs s2 r' s3 where
      "delivers ops s1 xs s2" "nxt s2 = Some (r', s3)" "\<forall>e. r' \<noteq> Inr (Some e)" by blast
    moreover from this(1) n r have "delivers ops s ((e, memory_of ops s1 e) # xs) s2"
      by (auto simp: assms(1))
    ultimately show ?thesis by blast
  next
    case False
    moreover have "delivers ops s [] s" by simp
    ultimately show ?thesis using n by blast
  qed
qed

text \<open>
  Everything delivered before the end or the error has been recorded; an error of the tracer
  ends the loop with that error and the sink as it is.
\<close>

lemma run_loop_records:
  assumes "lo_next ops = nxt" "good s" "lo_write ops = vec_write" "table_arity_ok T"
  shows "\<exists>xs s1 r s2. delivers ops s xs s1 \<and> nxt s1 = Some (r, s2) \<and> (\<forall>e. r \<noteq> Inr (Some e))
     \<and> run_loop ops T filt leader s (build_sink c [] color) 0 =
       Some ((case r of Inl e \<Rightarrow> Inl (Failed (trace_chain e)) | Inr _ \<Rightarrow> Inr (final_status leader xs 0)), s2,
         sink_after c (lo_json ops) color (records_of T filt xs))"
proof -
  from delivers_to_end [OF assms(1,2)] obtain xs s1 r s2 where d: "delivers ops s xs s1"
    and n: "nxt s1 = Some (r, s2)" and r: "\<forall>e. r \<noteq> Inr (Some e)" by blast
  let ?sink = "sink_after c (lo_json ops) color (records_of T filt xs)"
  have "feed (lo_write ops) (lo_json ops) (records_of T filt xs) (build_sink c [] color) = (Inr (), ?sink)"
    unfolding build_sink_after [of c color "lo_json ops"] assms(3) feed_after by simp
  from run_loop_delivers [OF assms(4) d this]
  have "run_loop ops T filt leader s (build_sink c [] color) 0
      = run_loop ops T filt leader s1 ?sink (final_status leader xs 0)" .
  also have "\<dots> = Some ((case r of Inl e \<Rightarrow> Inl (Failed (trace_chain e)) | Inr _ \<Rightarrow> Inr (final_status leader xs 0)), s2, ?sink)"
    using n r by (auto simp: run_loop.simps [of ops T filt leader s1] assms(1) split: sum.split option.split)
  finally show ?thesis using d n r by blast
qed

end

subsection \<open>From the arguments to the output\<close>

text \<open>What reaches the destination: the records, and the summary only when the run finishes.\<close>

definition printed :: "cli \<Rightarrow> (json_value \<Rightarrow> string) \<Rightarrow> bool \<Rightarrow> out_record list \<Rightarrow> trace_error + event option \<Rightarrow> string" where
  "printed c to_json color recs r =
     (case r of Inl _ \<Rightarrow> stream_text c to_json color recs | Inr _ \<Rightarrow> output_text c to_json color recs)"

definition run_result :: "u32 option \<Rightarrow> (event \<times> reader) list \<Rightarrow> trace_error + event option \<Rightarrow> run_error + u8" where
  "run_result leader xs r =
     (case r of Inl e \<Rightarrow> Inl (Failed (trace_chain e)) | Inr _ \<Rightarrow> Inr (exit_status (final_status leader xs 0)))"

lemma sink_out_after: "sink_out (sink_after c js color recs) = stream_text c js color recs"
  by (simp add: sink_out_def sink_after_def Let_def)

text \<open>A run that gets as far as the loop.\<close>

definition started ::
    "('p, 'e, 'w) backends \<Rightarrow> string outputs \<Rightarrow> syscall_info list \<Rightarrow> cli \<Rightarrow> 'w \<Rightarrow> string \<Rightarrow>
     sys_filter \<Rightarrow> ('p, 'e) boxed \<times> 'w \<Rightarrow> dest \<times> bool \<Rightarrow> bool" where
  "started bk ou T c w v filt s out \<longleftrightarrow>
     \<not> c_list_syscalls c \<and> from_exprs T (c_exprs c) = Inr filt
     \<and> (\<exists>tgt. build_target c = Inr tgt \<and> build_tracer bk (c_backend c) tgt \<lparr>follow_forks = c_follow c\<rparr> w = (Inr (fst s), snd s))
     \<and> open_output ou c v = (Inr out, []) \<and> ou_write ou (fst out) = vec_write"

lemma run_started:
  assumes "started bk ou T c w v filt s out" "finite_tracer (box_next bk) good left" "good s" "table_arity_ok T"
  defines "color \<equiv> color_resolve (ou_no_color ou) (c_color c) (snd out)"
  shows "\<exists>xs s1 r s2. delivers (driver_ops bk ou js (fst out)) s xs s1 \<and> box_next bk s1 = Some (r, s2)
    \<and> (\<forall>e. r \<noteq> Inr (Some e))
    \<and> run bk ou js T c w v = Some (run_result (box_leader bk (fst s)) xs r, snd s2,
        ou_drop ou (fst out) (printed c js color (records_of T filt xs) r))"
proof -
  obtain d tty where out: "out = (d, tty)" by (cases out)
  obtain b w1 where s: "s = (b, w1)" by (cases s)
  let ?ops = "driver_ops bk ou js d"
  have ops: "lo_next ?ops = box_next bk" "lo_write ?ops = vec_write" "lo_json ?ops = js"
    using assms(1) by (simp_all add: driver_ops_def started_def out)
  from finite_tracer.run_loop_records [OF assms(2) ops(1) assms(3) ops(2) assms(4), of filt "box_leader bk b" c color]
  obtain xs s1 r s2 where d: "delivers ?ops s xs s1" and n: "box_next bk s1 = Some (r, s2)" and r: "\<forall>e. r \<noteq> Inr (Some e)"
    and l: "run_loop ?ops T filt (box_leader bk b) s (build_sink c [] color) 0 =
       Some ((case r of Inl e \<Rightarrow> Inl (Failed (trace_chain e)) | Inr _ \<Rightarrow> Inr (final_status (box_leader bk b) xs 0)), s2,
         sink_after c js color (records_of T filt xs))"
    unfolding ops(3) by blast
  from assms(1) obtain tgt where st: "\<not> c_list_syscalls c" "from_exprs T (c_exprs c) = Inr filt"
    "build_target c = Inr tgt" "build_tracer bk (c_backend c) tgt \<lparr>follow_forks = c_follow c\<rparr> w = (Inr b, w1)"
    "open_output ou c v = (Inr (d, tty), [])" "ou_write ou d = vec_write"
    unfolding started_def out s by auto
  note color = color_def [unfolded out snd_conv]
  have "run bk ou js T c w v = Some (run_result (box_leader bk b) xs r, snd s2,
      ou_drop ou d (printed c js color (records_of T filt xs) r))"
  proof (cases r)
    case (Inl e)
    with st l show ?thesis
      by (simp add: run_def s color [symmetric] Let_def run_result_def printed_def sink_out_after)
  next
    case (Inr x)
    from sink_finish_after [of c js color "records_of T filt xs"] obtain sink' where
      "sink_finish vec_write (sink_after c js color (records_of T filt xs)) = (Inr (), sink')"
      "sink_out sink' = output_text c js color (records_of T filt xs)" by blast
    with st l Inr show ?thesis
      by (simp add: run_def s color [symmetric] Let_def run_result_def printed_def)
  qed
  with d n r show ?thesis unfolding out s fst_conv by blast
qed

subsection \<open>Over the ptrace backend\<close>

text \<open>
  A session of the tracer with the memory each event is read through: that of the task of a
  call, opened in the world the call left, and none for other events.
\<close>

fun pt_delivers ::
    "'w ptrace_os \<Rightarrow> ('w \<Rightarrow> u32 \<Rightarrow> io_error + (u64 \<Rightarrow> nat \<Rightarrow> io_error + u8 list)) \<Rightarrow>
     ptrace_tracer \<times> 'w \<Rightarrow> (event \<times> reader) list \<Rightarrow> ptrace_tracer \<times> 'w \<Rightarrow> bool" where
  "pt_delivers os open_mem s [] s' \<longleftrightarrow> s' = s"
| "pt_delivers os open_mem s (x # xs) s' \<longleftrightarrow>
     (\<exists>s1. pt_next_event os s = Some (Inr (Some (fst x)), s1)
        \<and> snd x = (case fst x of SyscallEv ev \<Rightarrow> default_memory (open_mem (snd s1)) ev | _ \<Rightarrow> null_read)
        \<and> pt_delivers os open_mem s1 xs s')"

text \<open>A whole session: what it delivers, and the answer that ends it, the end or an error.\<close>

definition pt_session ::
    "'w ptrace_os \<Rightarrow> ('w \<Rightarrow> u32 \<Rightarrow> io_error + (u64 \<Rightarrow> nat \<Rightarrow> io_error + u8 list)) \<Rightarrow>
     ptrace_tracer \<times> 'w \<Rightarrow> (event \<times> reader) list \<Rightarrow> ptrace_tracer \<times> 'w \<Rightarrow>
     trace_error + event option \<Rightarrow> ptrace_tracer \<times> 'w \<Rightarrow> bool" where
  "pt_session os open_mem s xs s1 r s2 \<longleftrightarrow>
     pt_delivers os open_mem s xs s1 \<and> pt_next_event os s1 = Some (r, s2) \<and> (\<forall>e. r \<noteq> Inr (Some e))"

lemma pt_delivers_returns: "pt_delivers os open_mem s xs s1 \<Longrightarrow> pt_returns os s (map fst xs) s1"
  by (induction xs arbitrary: s) auto

lemma delivers_ptrace:
  "delivers (driver_ops (syren_backends feature T sy) ou js d) (PtraceBox t, w) xs s1 \<Longrightarrow>
     \<exists>t1 w1. s1 = (PtraceBox t1, w1) \<and> pt_delivers (sy_ptrace sy) (sy_open_mem sy) (t, w) xs (t1, w1)"
proof (induction xs arbitrary: t w)
  case (Cons x xs)
  let ?ops = "driver_ops (syren_backends feature T sy) ou js d"
  from Cons.prems obtain s' where n: "box_next (syren_backends feature T sy) (PtraceBox t, w) = Some (Inr (Some (fst x)), s')"
    and m: "snd x = memory_of ?ops s' (fst x)" and rest: "delivers ?ops s' xs s1" by (auto simp: driver_ops_def)
  from n obtain t' w' where s': "s' = (PtraceBox t', w')"
    and p: "pt_next_event (sy_ptrace sy) (t, w) = Some (Inr (Some (fst x)), (t', w'))"
    by (auto simp: box_next_def syren_backends_def split: option.splits)
  have "snd x = (case fst x of SyscallEv ev \<Rightarrow> default_memory (sy_open_mem sy w') ev | _ \<Rightarrow> null_read)"
    unfolding m s' by (simp add: memory_of_def driver_ops_def box_memory_def syren_backends_def split: event.split)
  with Cons.IH [OF rest [unfolded s']] p show ?case by (auto cong: event.case_cong)
qed auto

lemma session_syscalls_events:
  "session_syscalls (map Some (trace_events tr)) = session_syscalls (map snd tr)"
  by (induction tr) (auto simp: session_syscalls_def trace_events_def split: option.split)

text \<open>The events of a session, and the calls among what is delivered.\<close>

definition events_seen :: "((wait_status \<times> regs) \<times> event option) list \<Rightarrow> event list" where
  "events_seen obs = trace_events (map (\<lambda>x. (fst (fst x), snd x)) obs)"

definition syscalls_in :: "event list \<Rightarrow> syscall_event list" where
  "syscalls_in es = session_syscalls (map Some es)"

lemma delivers_session:
  assumes "delivers (driver_ops (syren_backends feature T sy) ou js d) (PtraceBox t, w) xs s1" "pt_inflight t = Map.empty"
  shows "\<exists>obs t1 w1. s1 = (PtraceBox t1, w1) \<and> pt_delivers (sy_ptrace sy) (sy_open_mem sy) (t, w) xs (t1, w1)
    \<and> pt_seen (sy_ptrace sy) (t, w) obs (t1, w1) \<and> map fst xs = events_seen obs
    \<and> map event_view (syscalls_in (map fst xs)) = map call_view (calls_of Map.empty (map fst obs))"
proof -
  from delivers_ptrace [OF assms(1)] obtain t1 w1 where s1: "s1 = (PtraceBox t1, w1)"
    and dl: "pt_delivers (sy_ptrace sy) (sy_open_mem sy) (t, w) xs (t1, w1)" by blast
  note r = pt_delivers_returns [OF dl]
  from pt_returns_trace [OF r] obtain tr where tr: "pt_trace (sy_ptrace sy) (t, w) tr (t1, w1)"
    "trace_events tr = map fst xs" by blast
  from session_refines [OF tr(1)] assms(2) obtain obs where o: "pt_seen (sy_ptrace sy) (t, w) obs (t1, w1)"
    "map (\<lambda>x. (fst (fst x), snd x)) obs = tr"
    "concat (map event_calls (map snd tr)) = map call_view (calls_of Map.empty (map fst obs))" by auto
  have "map event_view (syscalls_in (map fst xs)) = concat (map event_calls (map snd tr))"
    unfolding syscalls_in_def tr(2) [symmetric] session_syscalls_events event_calls_view ..
  with o(3) have "map event_view (syscalls_in (map fst xs)) = map call_view (calls_of Map.empty (map fst obs))" by simp
  moreover have "map fst xs = events_seen obs" by (simp add: events_seen_def o(2) tr(2))
  ultimately show ?thesis using s1 dl o(1) by blast
qed

text \<open>A tracer that has just been built has no call open.\<close>

definition leaves_inflight :: "(ptrace_tracer \<times> 'w, 'a) op \<Rightarrow> bool" where
  "leaves_inflight m \<longleftrightarrow> (\<forall>s r s'. m s = (r, s') \<longrightarrow> pt_inflight (fst s') = pt_inflight (fst s))"

lemma leaves_basic [intro!]:
  "leaves_inflight (ret x)" "leaves_inflight (fail e)" "leaves_inflight (gets f)" "leaves_inflight (sys g)"
  "(\<And>t. pt_inflight (h t) = pt_inflight t) \<Longrightarrow> leaves_inflight (modify h)"
  by (auto simp: leaves_inflight_def op_defs split: prod.splits sum.splits)

lemma leavesD: "leaves_inflight m \<Longrightarrow> m s = (r, s') \<Longrightarrow> pt_inflight (fst s') = pt_inflight (fst s)"
  unfolding leaves_inflight_def by blast

lemma leaves_seq [intro!]:
  assumes "leaves_inflight m" "\<And>x. leaves_inflight (k x)"
  shows "leaves_inflight (seq m k)"
  unfolding leaves_inflight_def
proof (intro allI impI)
  fix s r s' assume *: "seq m k s = (r, s')"
  obtain r1 s1 where m: "m s = (r1, s1)" by (metis prod.exhaust)
  note m1 = leavesD [OF assms(1) m]
  show "pt_inflight (fst s') = pt_inflight (fst s)"
  proof (cases r1)
    case (Inr x)
    with * m have "k x s1 = (r, s')" by (simp add: seq_def)
    from leavesD [OF assms(2) this] m1 show ?thesis by simp
  qed (use * m m1 in \<open>simp add: seq_def\<close>)
qed

lemma leaves_cstrings [intro!]: "leaves_inflight (cstring b)" "leaves_inflight (cstrings bs)"
proof -
  show *: "leaves_inflight (cstring b)" for b :: string by (auto simp: cstring_def)
  show "leaves_inflight (cstrings bs)" by (induction bs) (auto intro: *)
qed

lemma leaves_setup [intro!]:
  "leaves_inflight (resume os p sig)" "leaves_inflight (configure os p)" "leaves_inflight (attach_one os p)"
  by (auto simp: resume_def configure_def attach_one_def Let_def)

lemma leaves_new:
  "leaves_inflight (pt_spawn os prog args)" "leaves_inflight (pt_attach os ps)"
proof -
  show "leaves_inflight (pt_spawn os prog args)"
    unfolding pt_spawn_def by (intro leaves_seq) (auto split: wait_status.split)
  have "leaves_inflight (each (attach_one os) qs)" for qs by (induction qs) auto
  then show "leaves_inflight (pt_attach os ps)" by (auto simp: pt_attach_def split: list.split)
qed

lemma pt_new_inflight:
  assumes "pt_new os tgt opts w = (Inr t, w')"
  shows "pt_inflight t = Map.empty"
proof -
  let ?m = "case tgt of Spawn p a \<Rightarrow> pt_spawn os p a | Attach ps \<Rightarrow> pt_attach os ps"
  have l: "leaves_inflight ?m" using leaves_new by (cases tgt) simp_all
  from assms obtain u where "?m (pt_empty opts, w) = (Inr u, (t, w'))"
    by (auto simp: pt_new_def split: prod.splits sum.splits)
  from leavesD [OF l this] show ?thesis by (simp add: pt_empty_def)
qed

lemma started_ptrace_inflight:
  assumes "started (syren_backends feature T sy) ou T c w v filt (PtraceBox t, w1) out"
  shows "pt_inflight t = Map.empty"
proof -
  from assms obtain tgt where "build_tracer (syren_backends feature T sy) (c_backend c) tgt \<lparr>follow_forks = c_follow c\<rparr> w
      = (Inr (PtraceBox t), w1)" by (auto simp: started_def)
  from build_tracer_Inr [OF this] obtain b' w0 where
    "make_tracer feature (pt_new (sy_ptrace sy)) (eb_new (sy_setup sy) T) b' tgt \<lparr>follow_forks = c_follow c\<rparr> w0
      = (Inr (PtraceBox t), w1)" by (auto simp: syren_backends_def)
  from make_tracer_Inr [OF this] show ?thesis by (auto dest: pt_new_inflight)
qed

lemma started_good:
  assumes "started (syren_backends feature T sy) ou T c w v filt s out"
    and "runs_down (sy_ptrace sy) \<mu>" "ring_runs_down (sy_ring sy) \<nu>"
  shows "box_good (\<lambda>s. runs_down (sy_ptrace sy) \<mu>) (\<lambda>s. ring_runs_down (sy_ring sy) \<nu> \<and> armed (fst s)) s"
proof -
  from assms(1) obtain tgt where "build_tracer (syren_backends feature T sy) (c_backend c) tgt \<lparr>follow_forks = c_follow c\<rparr> w
      = (Inr (fst s), snd s)" by (auto simp: started_def)
  from built_tracer_good [OF this assms(2,3)] show ?thesis by simp
qed

subsection \<open>Over the eBPF backend\<close>

text \<open>
  What the loop takes for an event and what the session delivered for it: the same event, and
  a reader over the capture that came with it.
\<close>

definition read_through :: "('w \<Rightarrow> u32 \<Rightarrow> io_error + (u64 \<Rightarrow> nat \<Rightarrow> io_error + u8 list)) \<Rightarrow> event \<times> reader \<Rightarrow> event \<times> capture option \<Rightarrow> bool" where
  "read_through open_mem x y \<longleftrightarrow> fst x = fst y
     \<and> (\<forall>ev. fst x = SyscallEv ev \<longrightarrow> (\<exists>w. snd x = ebpf_read (open_mem w) (ev_tid ev) (snd y)))"

lemma delivers_ebpf:
  "delivers (driver_ops (syren_backends feature T sy) ou js d) (EbpfBox t, w) xs s1 \<Longrightarrow>
     \<exists>t1 w1 ys. s1 = (EbpfBox t1, w1) \<and> eb_returns (sy_ring sy) (t, w) ys (t1, w1) \<and> list_all2 (read_through (sy_open_mem sy)) xs ys"
proof (induction xs arbitrary: t w)
  case (Cons x xs)
  let ?ops = "driver_ops (syren_backends feature T sy) ou js d"
  from Cons.prems obtain s' where n: "box_next (syren_backends feature T sy) (EbpfBox t, w) = Some (Inr (Some (fst x)), s')"
    and m: "snd x = memory_of ?ops s' (fst x)" and rest: "delivers ?ops s' xs s1" by (auto simp: driver_ops_def)
  from n obtain t' w' where s': "s' = (EbpfBox t', w')"
    and p: "eb_next_event (sy_ring sy) (t, w) = Some (Inr (Some (fst x)), (t', w'))"
    by (auto simp: box_next_def syren_backends_def split: option.splits)
  from Cons.IH [OF rest [unfolded s']] obtain t1 w1 ys where IH: "s1 = (EbpfBox t1, w1)"
    "eb_returns (sy_ring sy) (t', w') ys (t1, w1)" "list_all2 (read_through (sy_open_mem sy)) xs ys" by blast
  have "snd x = ebpf_read (sy_open_mem sy w') (ev_tid ev) (eb_current t')" if "fst x = SyscallEv ev" for ev
    using m that by (simp add: s' memory_of_def driver_ops_def box_memory_def syren_backends_def ebpf_memory_def)
  then have "read_through (sy_open_mem sy) x (fst x, eb_current t')" by (auto simp: read_through_def)
  with IH p have "eb_returns (sy_ring sy) (t, w) ((fst x, eb_current t') # ys) (t1, w1)"
    "list_all2 (read_through (sy_open_mem sy)) (x # xs) ((fst x, eb_current t') # ys)" by auto
  with IH(1) show ?case by blast
qed auto

lemma started_ebpf_fields:
  assumes "started (syren_backends feature T sy) ou T c w v filt (EbpfBox t, w1) out"
  shows "armed t \<and> eb_leader t \<noteq> None \<and> eb_queue t = [] \<and> \<not> eb_finished t"
proof -
  from assms obtain tgt where "build_tracer (syren_backends feature T sy) (c_backend c) tgt \<lparr>follow_forks = c_follow c\<rparr> w
      = (Inr (EbpfBox t), w1)" by (auto simp: started_def)
  from build_tracer_Inr [OF this] obtain b' w0 where
    "make_tracer feature (pt_new (sy_ptrace sy)) (eb_new (sy_setup sy) T) b' tgt \<lparr>follow_forks = c_follow c\<rparr> w0
      = (Inr (EbpfBox t), w1)" by (auto simp: syren_backends_def)
  from make_tracer_Inr [OF this] show ?thesis by (auto dest: eb_new_is_armed)
qed

lemma final_status_exit:
  assumes "list_all2 (read_through om) xs ys" "ys = map (record_entry base) rs @ exit_entry (Some l) code @ map (record_entry base) rs'"
  shows "final_status (Some l) xs 0 = code"
proof -
  have same: "next_status leader (fst x) st = next_status leader (fst y) st" if "read_through om x y" for leader st x y
    using that by (simp add: read_through_def)
  have "final_status leader xs st = fold (\<lambda>y. next_status leader (fst y)) ys st" for leader st
    using assms(1) unfolding final_status_def
    by (induction arbitrary: st rule: list_all2_induct) (simp_all add: same)
  moreover have "fold (\<lambda>y. next_status leader (fst y)) (map (record_entry base) qs) st = st" for qs leader st
    by (induction qs arbitrary: st) (simp_all add: next_status_def record_entry_def)
  ultimately show ?thesis using assms(2) by (simp add: next_status_def exit_entry_def)
qed

text \<open>A run over the kernel: it returns, and prints what the session delivers.\<close>

lemma ebpf_run:
  assumes "started (syren_backends feature T sy) ou T c w v filt (EbpfBox t, (k, batches)) out" "table_arity_ok T"
    and "sy_ring sy = kernel_ring b f fate left_at" "over_code fate = Some x" "runs_down (sy_ptrace sy) \<mu>"
    and "kernel_ok k" "\<forall>h\<in>set (concat batches). env_ok (hit_env h)"
  defines "code \<equiv> if eb_child t = None then 0 else x"
  shows "\<exists>xs ys seen late rest new. run (syren_backends feature T sy) ou js T c w v = Some (Inr (exit_status code), rest,
        ou_drop ou (fst out) (output_text c js (color_resolve (ou_no_color ou) (c_color c) (snd out)) (records_of T filt xs)))
    \<and> list_all2 (read_through (sy_open_mem sy)) xs ys \<and> batches = seen @ late @ snd rest
    \<and> tasks_over t left_at (length (late @ snd rest))
    \<and> k_events (k_run b f (concat (seen @ late)) k) = k_events (k_run b f (concat seen) k) @ new
    \<and> ys = map (record_entry (eb_baseline t)) (k_events (k_run b f (concat seen) k))
        @ exit_entry (eb_leader t) code @ map (record_entry (eb_baseline t)) new"
proof -
  let ?bk = "syren_backends feature T sy"
  have down: "ring_runs_down (sy_ring sy) still_to_come"
    unfolding assms(3) by (rule kernel_ring_runs_down) (simp add: assms(4))
  note fields = started_ebpf_fields [OF assms(1)]
  from run_started [OF assms(1) syren_box_finite [of feature T sy \<mu> still_to_come] started_good [OF assms(1,5) down] assms(2), of js]
  obtain xs s1 r s2 where d: "delivers (driver_ops ?bk ou js (fst out)) (EbpfBox t, (k, batches)) xs s1"
    and n: "box_next ?bk s1 = Some (r, s2)" and r: "\<forall>e. r \<noteq> Inr (Some e)"
    and run: "run ?bk ou js T c w v = Some (run_result (box_leader ?bk (EbpfBox t)) xs r, snd s2,
        ou_drop ou (fst out) (printed c js (color_resolve (ou_no_color ou) (c_color c) (snd out)) (records_of T filt xs) r))"
    by auto
  from delivers_ebpf [OF d] obtain t1 w2 ys where s1: "s1 = (EbpfBox t1, w2)"
    and ret: "eb_returns (sy_ring sy) (t, (k, batches)) ys (t1, w2)"
    and through: "list_all2 (read_through (sy_open_mem sy)) xs ys" by blast
  from n obtain t2 w3 where n': "eb_next_event (sy_ring sy) (t1, w2) = Some (r, (t2, w3))" and s2: "snd s2 = w3"
    by (auto simp: s1 box_next_def syren_backends_def split: option.splits)
  from eb_next_event_stretch [OF n'] r have rN: "r = Inr None" by auto
  from ret n' have "eb_session (kernel_ring b f fate left_at) (t, (k, batches)) ys (t2, w3)"
    unfolding eb_session_def rN assms(3) by blast
  from kernel_session [OF this _ _ assms(4,6,7)] fields obtain seen late new where
    ks: "batches = seen @ late @ snd w3" "tasks_over t left_at (length (late @ snd w3))"
      "k_events (k_run b f (concat (seen @ late)) k) = k_events (k_run b f (concat seen) k) @ new"
      "ys = map (record_entry (eb_baseline t)) (k_events (k_run b f (concat seen) k))
        @ exit_entry (eb_leader t) code @ map (record_entry (eb_baseline t)) new"
    unfolding code_def snd_conv by blast
  from fields obtain ld where ld: "eb_leader t = Some ld" by auto
  from final_status_exit [OF through] ks(4) ld have "final_status (Some ld) xs 0 = code" by simp
  with run rN s2 ld have "run ?bk ou js T c w v = Some (Inr (exit_status code), w3,
        ou_drop ou (fst out) (output_text c js (color_resolve (ou_no_color ou) (c_color c) (snd out)) (records_of T filt xs)))"
    by (simp add: run_result_def printed_def box_leader_def syren_backends_def)
  with through ks show ?thesis by blast
qed

subsection \<open>A concrete system\<close>

text \<open>The kernel with two hits to come, and a ptrace side on which nothing ever happens.\<close>

definition idle_ptrace :: "'w ptrace_os" where
  "idle_ptrace =
     \<lparr>os_fork_exec = (\<lambda>_ _ w. (Inr 9, w)), os_attach = (\<lambda>_ w. (Inr (), w)),
      os_waitpid = (\<lambda>p w. (Inr (Stopped p SIGTRAP), w)), os_wait_any = (\<lambda>w. (Inl ECHILD, w)),
      os_setoptions = (\<lambda>_ _ w. (Inr (), w)), os_resume = (\<lambda>_ _ w. (Inr (), w)),
      os_getregs = (\<lambda>_ w. (Inr no_regs, w)), os_getevent = (\<lambda>_ w. (Inr 8, w)),
      os_elapsed_ns = (\<lambda>w. (0, w)), os_proc_status = (\<lambda>_ w. (None, w))\<rparr>"

text \<open>The leader is gone when one batch is left: a task it forked has a call that comes later.\<close>

definition kernel_system :: "kworld system" where
  "kernel_system = \<lparr>sy_ptrace = idle_ptrace, sy_setup = idle_setup,
     sy_ring = kernel_ring False False (Inr (Exited 7 3)) (\<lambda>_. 1),
     sy_open_mem = (\<lambda>_ _. Inl (OsErr 2)), sy_io_text = (\<lambda>_. []), sy_nix_text = (\<lambda>_. []),
     sy_serde_text = (\<lambda>_. []), sy_eprintln = (\<lambda>_ w. w)\<rparr>"

definition two_hits :: "hit list list" where
  "two_hits = [[HitEnter (demo_env 9 50 open_ctx)], [HitExit (demo_env 9 80 open_ctx)], [HitEnter (demo_env 9 90 open_ctx)]]"

definition ebpf_args :: cli where
  "ebpf_args = no_args\<lparr>c_command := [''x''], c_backend := Ebpf\<rparr>"

subsection \<open>Properties\<close>

text \<open>
  C9. What a run over ptrace prints: it returns, and its output is the chosen sink's text of the
  events of the whole session, filtered, each read through the memory of its task; the syscall
  events of that session are exactly the calls its stops spell, so every call that returned is
  printed once, in the order of the returns.  The session ends with the answer the tracer gives
  when it has no event left; the status is the leader's.  When that answer is an error, the
  run fails with it and has printed everything up to there, except a summary.
\<close>

theorem ptrace_run_reports:
  assumes "started (syren_backends feature T sy) ou T c w v filt (PtraceBox t, w1) out" "table_arity_ok T"
    and "runs_down (sy_ptrace sy) \<mu>" "ring_runs_down (sy_ring sy) \<nu>"
  shows "\<exists>obs s1 xs r s2. pt_session (sy_ptrace sy) (sy_open_mem sy) (t, w1) xs s1 r s2
    \<and> pt_seen (sy_ptrace sy) (t, w1) obs s1 \<and> map fst xs = events_seen obs
    \<and> map event_view (syscalls_in (map fst xs)) = map call_view (calls_of Map.empty (map fst obs))
    \<and> run (syren_backends feature T sy) ou js T c w v = Some (run_result (pt_leader t) xs r, snd s2,
        ou_drop ou (fst out) (printed c js (color_resolve (ou_no_color ou) (c_color c) (snd out)) (records_of T filt xs) r))"
proof -
  let ?bk = "syren_backends feature T sy"
  from run_started [OF assms(1) syren_box_finite [of feature T sy \<mu> \<nu>] started_good [OF assms(1,3,4)] assms(2), of js] obtain xs s1 r s2 where
    d: "delivers (driver_ops ?bk ou js (fst out)) (PtraceBox t, w1) xs s1"
    and n: "box_next ?bk s1 = Some (r, s2)" and r: "\<forall>e. r \<noteq> Inr (Some e)"
    and run: "run ?bk ou js T c w v = Some (run_result (box_leader ?bk (PtraceBox t)) xs r, snd s2,
        ou_drop ou (fst out) (printed c js (color_resolve (ou_no_color ou) (c_color c) (snd out)) (records_of T filt xs) r))"
    by auto
  have ld: "box_leader ?bk (PtraceBox t) = pt_leader t" by (simp add: box_leader_def syren_backends_def)
  from delivers_session [OF d started_ptrace_inflight [OF assms(1)]] obtain obs t1 w2 where
    s1: "s1 = (PtraceBox t1, w2)" and o: "pt_delivers (sy_ptrace sy) (sy_open_mem sy) (t, w1) xs (t1, w2)"
    "pt_seen (sy_ptrace sy) (t, w1) obs (t1, w2)" "map fst xs = events_seen obs"
    "map event_view (syscalls_in (map fst xs)) = map call_view (calls_of Map.empty (map fst obs))" by blast
  from n obtain t3 w3 where "pt_next_event (sy_ptrace sy) (t1, w2) = Some (r, (t3, w3))" "snd s2 = w3"
    by (auto simp: s1 box_next_def syren_backends_def split: option.splits)
  with o(1) r run have "pt_session (sy_ptrace sy) (sy_open_mem sy) (t, w1) xs (t1, w2) r (t3, w3)"
    "run ?bk ou js T c w v = Some (run_result (pt_leader t) xs r, snd (t3, w3),
        ou_drop ou (fst out) (printed c js (color_resolve (ou_no_color ou) (c_color c) (snd out)) (records_of T filt xs) r))"
    by (simp_all add: pt_session_def ld)
  with o(2-4) show ?thesis by blast
qed

theorem ptrace_run_reports_witness:
  "\<exists>w t w1 obs s1 xs r s2. pt_session scripted (sy_open_mem scripted_system) (t, w1) xs s1 r s2
     \<and> pt_seen scripted (t, w1) obs s1 \<and> map fst xs = events_seen obs
     \<and> w = script_of [(PtraceSyscall 7, no_regs\<lparr>r_orig_rax := 2\<rparr>), (PtraceSyscall 7, no_regs\<lparr>r_rax := 3\<rparr>), (Exited 7 3, no_regs)]
     \<and> run (syren_backends False [open_info] scripted_system) demo_outputs (\<lambda>_. ''{}'') [open_info] (no_args\<lparr>c_command := [''x'']\<rparr>) w []
       = Some (run_result (Some 7) xs r, snd s2, printed (no_args\<lparr>c_command := [''x'']\<rparr>) (\<lambda>_. ''{}'') False (records_of [open_info] AllCalls xs) r)"
proof -
  define w where "w = script_of [(PtraceSyscall 7, no_regs\<lparr>r_orig_rax := 2\<rparr>), (PtraceSyscall 7, no_regs\<lparr>r_rax := 3\<rparr>), (Exited 7 3, no_regs)]"
  let ?c = "no_args\<lparr>c_command := [''x'']\<rparr>"
  let ?bk = "syren_backends False [open_info] scripted_system"
  define t where "t = (pt_empty \<lparr>follow_forks = False\<rparr>)\<lparr>pt_live := {7}, pt_tgid := [7 \<mapsto> 7], pt_leader := Some 7\<rparr>"
  have "build_tracer ?bk Ptrace (Spawn ''x'' []) \<lparr>follow_forks = False\<rparr> w = (Inr (PtraceBox t), w)"
    by (simp add: exec scripted_system_def t_def w_def)
  then have s: "started ?bk demo_outputs [open_info] ?c w [] AllCalls (PtraceBox t, w) (Stderr, False)"
    unfolding started_def by (simp add: exec demo_outputs_def)
  have ar: "table_arity_ok [open_info]" by (simp add: table_arity_ok_def open_info_def)
  have down: "runs_down (sy_ptrace scripted_system) (\<lambda>w. length (sc_next w))" "ring_runs_down (sy_ring scripted_system) (\<lambda>_. 0)"
    using scripted_runs_down
    by (auto simp: scripted_system_def idle_ring_def ring_runs_down_def quiet_def EPERM_def)
  have sel: "sy_ptrace scripted_system = scripted" "pt_leader t = Some 7" "ou_drop demo_outputs (fst (Stderr, False)) v = v"
    "color_resolve (ou_no_color demo_outputs) (c_color ?c) (snd (Stderr, False)) = False" for v
    by (simp_all add: scripted_system_def t_def demo_outputs_def exec)
  from ptrace_run_reports [OF s ar down, of "\<lambda>_. ''{}''"] show ?thesis unfolding sel w_def [symmetric] by blast
qed



end
