(* ===== verification/Bench_Overhead.thy ===== *)
theory Bench_Overhead
  imports Syren_Runs Output_Num Gen_Codegen
begin

section \<open>The benchmarks (\<^verbatim>\<open>crates/syren-trace/examples\<close>)\<close>

text \<open>
  Two programs that measure the tracing backends: \<^verbatim>\<open>overhead.rs\<close> runs a workload of system calls
  untraced and under each backend and prints the times side by side, \<^verbatim>\<open>profile.rs\<close> prints the
  run-time statistics of the in-kernel programs.  Both count the calls a tracer delivers, and
  both are their own workload when started with \<^verbatim>\<open>--workload\<close>.

  Clock, processes and output are the system's, a record of functions over its state.  A
  failed \<^verbatim>\<open>expect\<close> or \<^verbatim>\<open>assert\<close> is the \<open>Inl\<close> of its message (without the debug text of the
  error), a loop that does not end is \<open>None\<close>.  Durations are in nanoseconds.
\<close>

record 'w bench_os =
  be_println :: "string \<Rightarrow> 'w \<Rightarrow> 'w"
  be_env_set :: "string \<Rightarrow> 'w \<Rightarrow> bool"
  be_current_exe :: "'w \<Rightarrow> string option"
  be_now :: "'w \<Rightarrow> nat \<times> 'w"
  be_status :: "string \<Rightarrow> string list \<Rightarrow> 'w \<Rightarrow> bool option \<times> 'w"
  be_syscall :: "u64 \<Rightarrow> u64 list \<Rightarrow> 'w \<Rightarrow> 'w"

definition elapsed :: "'w bench_os \<Rightarrow> nat \<Rightarrow> 'w \<Rightarrow> nat \<times> 'w" where
  "elapsed os start w = (case be_now os w of (now, w') \<Rightarrow> (now - start, w'))"

subsection \<open>The workload\<close>

definition SYS_getpid :: u64 where "SYS_getpid = 39"
definition SYS_personality :: u64 where "SYS_personality = 135"

definition workload :: "'w bench_os \<Rightarrow> u64 \<Rightarrow> 'w \<Rightarrow> 'w" where
  "workload os n w =
     (let w1 = (if be_env_set os ''SYREN_BENCH_SELFARM'' w then be_syscall os SYS_personality [MAGIC] w else w) in
      (be_syscall os SYS_getpid [] ^^ unat n) w1)"

subsection \<open>Counting what a tracer delivers\<close>

record bench_run =
  br_wall :: nat
  br_seen :: u64

partial_function (option) count_events ::
    "string \<Rightarrow> ('s \<Rightarrow> ((trace_error + event option) \<times> 's) option) \<Rightarrow> 's \<Rightarrow> u64 \<Rightarrow> ((string + u64) \<times> 's) option" where
  "count_events msg nxt s n =
     (case nxt s of
        None \<Rightarrow> None
      | Some r \<Rightarrow>
          (case fst r of
             Inl e \<Rightarrow> Some (Inl msg, snd r)
           | Inr None \<Rightarrow> Some (Inr n, snd r)
           | Inr (Some event) \<Rightarrow> count_events msg nxt (snd r) (if is_call event then n + 1 else n)))"

definition drain_events ::
    "('s \<Rightarrow> ((trace_error + event option) \<times> 's) option) \<Rightarrow> 's \<Rightarrow> ((string + u64) \<times> 's) option" where
  "drain_events nxt s = count_events ''tracer error'' nxt s 0"

text \<open>One traced run after the other; the fastest is kept.\<close>

fun trace_reps ::
    "'w bench_os \<Rightarrow> ('p, 'e, 'w) backends \<Rightarrow> backend \<Rightarrow> string \<Rightarrow> string \<Rightarrow> nat \<Rightarrow> bench_run option \<Rightarrow> 'w \<Rightarrow>
     ((string + (trace_error + bench_run)) \<times> 'w) option" where
  "trace_reps os bk b exe cnt 0 best w =
     (case best of None \<Rightarrow> Some (Inl ''reps >= 1'', w) | Some r \<Rightarrow> Some (Inr (Inr r), w))"
| "trace_reps os bk b exe cnt (Suc reps) best w =
     (case make_tracer (bk_ebpf_feature bk) (bk_new_ptrace bk) (bk_new_ebpf bk) b
             (Spawn exe [''--workload'', cnt]) \<lparr>follow_forks = False\<rparr> w of
        (Inl e, w1) \<Rightarrow> Some (Inr (Inl e), w1)
      | (Inr t, w1) \<Rightarrow>
          (case be_now os w1 of (start, w2) \<Rightarrow>
           (case drain_events (box_next bk) (t, w2) of
              None \<Rightarrow> None
            | Some (Inl msg, s) \<Rightarrow> Some (Inl msg, snd s)
            | Some (Inr seen, s) \<Rightarrow>
                (case elapsed os start (snd s) of (wall, w3) \<Rightarrow>
                 trace_reps os bk b exe cnt reps
                   (if (case best of None \<Rightarrow> True | Some r \<Rightarrow> wall < br_wall r)
                    then Some \<lparr>br_wall = wall, br_seen = seen\<rparr> else best) w3))))"

definition trace_run ::
    "'w bench_os \<Rightarrow> ('p, 'e, 'w) backends \<Rightarrow> nat \<Rightarrow> backend \<Rightarrow> string \<Rightarrow> string \<Rightarrow> 'w \<Rightarrow>
     ((string + (trace_error + bench_run)) \<times> 'w) option" where
  "trace_run os bk reps b exe cnt w = trace_reps os bk b exe cnt reps None w"

text \<open>\<^verbatim>\<open>best\<close>: the shortest of some runs.\<close>

fun repeat_run :: "nat \<Rightarrow> ('w \<Rightarrow> (string + nat) \<times> 'w) \<Rightarrow> 'w \<Rightarrow> (string + nat list) \<times> 'w" where
  "repeat_run 0 f w = (Inr [], w)"
| "repeat_run (Suc reps) f w =
     (case f w of
        (Inl msg, w1) \<Rightarrow> (Inl msg, w1)
      | (Inr d, w1) \<Rightarrow>
          (case repeat_run reps f w1 of (Inl msg, w2) \<Rightarrow> (Inl msg, w2) | (Inr ds, w2) \<Rightarrow> (Inr (d # ds), w2)))"

definition best_of :: "nat \<Rightarrow> ('w \<Rightarrow> (string + nat) \<times> 'w) \<Rightarrow> 'w \<Rightarrow> (string + nat) \<times> 'w" where
  "best_of reps f w =
     (case repeat_run reps f w of
        (Inl msg, w1) \<Rightarrow> (Inl msg, w1)
      | (Inr [], w1) \<Rightarrow> (Inl ''reps >= 1'', w1)
      | (Inr (d # ds), w1) \<Rightarrow> (Inr (fold min ds d), w1))"

text \<open>The closure of the untraced run.\<close>

definition base_run :: "'w bench_os \<Rightarrow> string \<Rightarrow> string \<Rightarrow> 'w \<Rightarrow> (string + nat) \<times> 'w" where
  "base_run os exe cnt w =
     (case be_now os w of (start, w1) \<Rightarrow>
      (case be_status os exe [''--workload'', cnt] w1 of
         (None, w2) \<Rightarrow> (Inl ''spawn workload'', w2)
       | (Some ok, w2) \<Rightarrow>
           if \<not> ok then (Inl ''workload exited non-zero'', w2)
           else (case elapsed os start w2 of (d, w3) \<Rightarrow> (Inr d, w3))))"

subsection \<open>The table\<close>

definition f64_add :: "f64 \<Rightarrow> f64 \<Rightarrow> f64" where
  "f64_add x y = round_f64 (fst x * snd y + fst y * snd x) (snd x * snd y)"

text \<open>\<^verbatim>\<open>Duration::as_secs_f64\<close>: seconds and the fraction are converted apart.\<close>

definition secs_f64 :: "nat \<Rightarrow> f64" where
  "secs_f64 d = f64_add (f64_of_nat (d div 1000000000)) (f64_div (f64_of_nat (d mod 1000000000)) (1000000000, 1))"

definition ms :: "nat \<Rightarrow> f64" where
  "ms d = f64_mul (secs_f64 d) (1000, 1)"

text \<open>A quotient as it is printed, with the infinity and the undefined value of a zero divisor.\<close>

definition quot_text :: "nat \<Rightarrow> f64 \<Rightarrow> f64 \<Rightarrow> string" where
  "quot_text n x y =
     (if fst y = 0 then (if fst x = 0 then ''NaN'' else ''inf'')
      else if n = 0 then dec (fixed_units 0 (f64_div x y)) else fmt_fixed n (f64_div x y))"

definition times_sign :: string where
  "times_sign = [CHR 0xC3, CHR 0x97]"

definition bench_report ::
    "(trace_error \<Rightarrow> string) \<Rightarrow> string \<Rightarrow> u64 \<Rightarrow> nat \<Rightarrow> trace_error + bench_run \<Rightarrow> string" where
  "bench_report err_text name syscalls base outcome =
     (case outcome of
        Inr r \<Rightarrow>
          pad_right (CHR '' '') 8 name @ '' '' @ pad_left (CHR '' '') 11 (fmt_fixed 1 (ms (br_wall r))) @ ''  ''
          @ pad_left (CHR '' '') 7 (quot_text 1 (secs_f64 (br_wall r)) (secs_f64 base)) @ times_sign @ ''  ''
          @ pad_left (CHR '' '') 10 (dec (unat (br_seen r))) @ ''  ''
          @ pad_left (CHR '' '') 13 (quot_text 0 (f64_of_nat (br_wall r - base)) (f64_of_nat (unat syscalls)))
      | Inl e \<Rightarrow> pad_right (CHR '' '') 8 name @ '' unavailable '' @ em_dash @ '' '' @ err_text e)"

definition bench_heading :: "string list" where
  "bench_heading =
     [pad_right (CHR '' '') 8 ''backend'' @ '' '' @ pad_left (CHR '' '') 11 ''wall (ms)'' @ ''  ''
        @ pad_left (CHR '' '') 8 ''vs base'' @ ''  '' @ pad_left (CHR '' '') 10 ''syscalls'' @ ''  ''
        @ pad_left (CHR '' '') 13 ''ns/syscall'',
      pad_right (CHR ''-'') 8 [] @ '' '' @ pad_left (CHR ''-'') 11 [] @ ''  ''
        @ pad_left (CHR ''-'') 8 [] @ ''  '' @ pad_left (CHR ''-'') 10 [] @ ''  '' @ pad_left (CHR ''-'') 13 []]"

text \<open>A dash takes one column of its field.\<close>

definition base_line :: "nat \<Rightarrow> string" where
  "base_line base =
     pad_right (CHR '' '') 8 ''none'' @ '' '' @ pad_left (CHR '' '') 11 (fmt_fixed 1 (ms base)) @ ''  ''
     @ pad_left (CHR '' '') 7 (fmt_fixed 1 (1, 1)) @ times_sign @ ''  '' @ replicate 9 (CHR '' '') @ em_dash @ ''  ''
     @ replicate 12 (CHR '' '') @ em_dash"

subsection \<open>The program\<close>

definition parse_or :: "nat \<Rightarrow> nat \<Rightarrow> string option \<Rightarrow> nat" where
  "parse_or bits d arg =
     (case arg of None \<Rightarrow> d | Some s \<Rightarrow> (case parse_uint bits 10 s of Some n \<Rightarrow> n | None \<Rightarrow> d))"

definition argv_at :: "nat \<Rightarrow> string list \<Rightarrow> string option" where
  "argv_at i argv = (if i < length argv then Some (argv ! i) else None)"

definition bench_title :: "nat \<Rightarrow> nat \<Rightarrow> string" where
  "bench_title syscalls reps = ''syscall-heavy workload: '' @ dec syscalls @ '' '' @ times_sign
     @ '' getpid(), best of '' @ dec reps @ [newline]"

definition bench_traced ::
    "'w bench_os \<Rightarrow> ('p, 'e, 'w) backends \<Rightarrow> nat \<Rightarrow> backend \<Rightarrow> string \<Rightarrow> nat \<Rightarrow> nat \<Rightarrow> 'w \<Rightarrow> ((string + unit) \<times> 'w) option" where
  "bench_traced os bk reps b exe syscalls base w =
     (case trace_run os bk reps b exe (dec syscalls) w of
        None \<Rightarrow> None
      | Some (Inl msg, w1) \<Rightarrow> Some (Inl msg, w1)
      | Some (Inr outcome, w1) \<Rightarrow>
          Some (Inr (), be_println os (bench_report (error_text (bk_io_text bk) (bk_nix_text bk))
            (backend_as_str b) (of_nat syscalls) base outcome) w1))"

definition bench_main ::
    "'w bench_os \<Rightarrow> ('p, 'e, 'w) backends \<Rightarrow> string list \<Rightarrow> 'w \<Rightarrow> ((string + unit) \<times> 'w) option" where
  "bench_main os bk argv w =
     (if argv_at 0 argv = Some ''--workload'' then
        Some (Inr (), workload os (of_nat (parse_or 64 0 (argv_at 1 argv))) w)
      else
        let syscalls = parse_or 64 200000 (argv_at 0 argv); reps = max 1 (parse_or 32 3 (argv_at 1 argv)) in
        case be_current_exe os w of
          None \<Rightarrow> Some (Inl ''locate own executable'', w)
        | Some exe \<Rightarrow>
            (let w1 = fold (be_println os) (bench_title syscalls reps # bench_heading) w in
             case best_of reps (base_run os exe (dec syscalls)) w1 of
               (Inl msg, w2) \<Rightarrow> Some (Inl msg, w2)
             | (Inr base, w2) \<Rightarrow>
                 (case bench_traced os bk reps Ptrace exe syscalls base (be_println os (base_line base) w2) of
                    None \<Rightarrow> None
                  | Some (Inl msg, w3) \<Rightarrow> Some (Inl msg, w3)
                  | Some (Inr _, w3) \<Rightarrow> bench_traced os bk reps Ebpf exe syscalls base w3)))"

section \<open>The statistics of the in-kernel programs (\<^verbatim>\<open>examples/profile.rs\<close>)\<close>

text \<open>What the \<^verbatim>\<open>aya\<close> library says of a loaded program.\<close>

record prog_info =
  pi_name :: "string option"
  pi_run_count :: u64
  pi_run_time :: nat
  pi_insns :: "u32 option"

record 'w profile_os =
  pe_bench :: "'w bench_os"
  pe_enable_stats :: "'w \<Rightarrow> bool \<times> 'w"
  pe_eprintln :: "string \<Rightarrow> 'w \<Rightarrow> 'w"
  pe_programs :: "'w \<Rightarrow> prog_info list"

definition profile_workload :: "'w bench_os \<Rightarrow> u64 \<Rightarrow> 'w \<Rightarrow> 'w" where
  "profile_workload os n w = (be_syscall os SYS_getpid [] ^^ unat n) (be_syscall os SYS_personality [MAGIC] w)"

definition profiled :: "string \<Rightarrow> bool" where
  "profiled name \<longleftrightarrow>
     list_ex (\<lambda>p. strip_prefix p name \<noteq> None) [''sys_enter'', ''sys_exit'', ''sched_proce'', ''sched_process_fork'']"

definition profile_row :: "prog_info \<Rightarrow> string option" where
  "profile_row i =
     (let name = (case pi_name i of Some s \<Rightarrow> s | None \<Rightarrow> []) in
      if \<not> profiled name then None
      else
        let runs = pi_run_count i; total = of_nat (pi_run_time i) :: u64;
            avg = (if runs = 0 then 0 else total div runs);
            insns = (case pi_insns i of Some n \<Rightarrow> n | None \<Rightarrow> 0) in
        Some (pad_right (CHR '' '') 22 name @ '' '' @ pad_left (CHR '' '') 12 (dec (unat runs)) @ '' ''
          @ pad_left (CHR '' '') 14 (dec (unat total)) @ '' '' @ pad_left (CHR '' '') 10 (dec (unat avg)) @ '' ''
          @ pad_left (CHR '' '') 10 (dec (unat insns))))"

definition profile_head :: "u64 \<Rightarrow> u64 \<Rightarrow> nat \<Rightarrow> string list" where
  "profile_head n seen wall =
     [[newline] @ ''workload syscalls requested = '' @ dec (unat n) @ '', traced = '' @ dec (unat seen),
      ''wall (trace loop) = '' @ fmt_fixed 1 (ms wall) @ '' ms'',
      [newline] @ pad_right (CHR '' '') 22 ''program'' @ '' '' @ pad_left (CHR '' '') 12 ''run_count'' @ '' ''
        @ pad_left (CHR '' '') 14 ''run_time_ns'' @ '' '' @ pad_left (CHR '' '') 10 ''avg_ns'' @ '' ''
        @ pad_left (CHR '' '') 10 ''insns'',
      pad_right (CHR ''-'') 22 [] @ '' '' @ pad_left (CHR ''-'') 12 [] @ '' '' @ pad_left (CHR ''-'') 14 [] @ '' ''
        @ pad_left (CHR ''-'') 10 [] @ '' '' @ pad_left (CHR ''-'') 10 []]"

definition profile_main ::
    "'w profile_os \<Rightarrow> ('p, 'e, 'w) backends \<Rightarrow> string list \<Rightarrow> 'w \<Rightarrow> ((string + unit) \<times> 'w) option" where
  "profile_main pe bk argv w =
     (let os = pe_bench pe in
      if argv_at 0 argv = Some ''--workload'' then
        Some (Inr (), profile_workload os (of_nat (parse_or 64 0 (argv_at 1 argv))) w)
      else
        let n = of_nat (parse_or 64 3000000 (argv_at 0 argv)) :: u64 in
        case pe_enable_stats pe w of
          (False, w1) \<Rightarrow> Some (Inl ''enable bpf run-time stats (needs root)'', w1)
        | (True, w1) \<Rightarrow>
       (case be_current_exe os w1 of
          None \<Rightarrow> Some (Inl ''called `Result::unwrap()` on an `Err` value'', w1)
        | Some exe \<Rightarrow>
       (case make_tracer (bk_ebpf_feature bk) (bk_new_ptrace bk) (bk_new_ebpf bk) Ebpf
               (Spawn exe [''--workload'', dec (unat n)]) \<lparr>follow_forks = False\<rparr> w1 of
          (Inl e, w2) \<Rightarrow> Some (Inl ''ebpf setup'', w2)
        | (Inr t, w2) \<Rightarrow>
       (case be_now os w2 of (start, w3) \<Rightarrow>
       (case count_events ''next'' (box_next bk) (t, w3) 0 of
          None \<Rightarrow> None
        | Some (Inl msg, s) \<Rightarrow> Some (Inl msg, snd s)
        | Some (Inr seen, s) \<Rightarrow>
       (case elapsed os start (snd s) of (wall, w4) \<Rightarrow>
          let w5 = fold (pe_eprintln pe) (profile_head n seen wall) w4 in
          Some (Inr (), fold (pe_eprintln pe) (List.map_filter profile_row (pe_programs pe w5)) w5)))))))"

declare elapsed_def [exec] SYS_getpid_def [exec] SYS_personality_def [exec] workload_def [exec] drain_events_def [exec]
  trace_reps.simps [exec] trace_run_def [exec] repeat_run.simps [exec] best_of_def [exec] base_run_def [exec]
  f64_add_def [exec] secs_f64_def [exec] ms_def [exec] quot_text_def [exec] times_sign_def [exec] bench_report_def [exec]
  bench_heading_def [exec] base_line_def [exec] parse_or_def [exec] argv_at_def [exec] bench_title_def [exec]
  bench_traced_def [exec] bench_main_def [exec] profile_workload_def [exec] profiled_def [exec] profile_row_def [exec]
  profile_head_def [exec] profile_main_def [exec]

end
