(* ===== verification/Bench_Counts.thy ===== *)
theory Bench_Counts
  imports Bench_Overhead
begin

section \<open>What the benchmarks count\<close>

text \<open>
  The number of calls a benchmark run reports, over each backend: the records the in-kernel
  programs submit, the calls the ptrace stops spell, and for the benchmark's own workload,
  which arms the programs by a marker call, the calls the workload makes.
\<close>

subsection \<open>What the count is\<close>

lemma count_events_delivers:
  "delivers ops s xs s1 \<Longrightarrow> lo_next ops s1 = Some (r, s2) \<Longrightarrow> \<forall>e. r \<noteq> Inr (Some e) \<Longrightarrow>
   count_events msg (lo_next ops) s n =
     Some (case r of Inl _ \<Rightarrow> Inl msg | Inr _ \<Rightarrow> Inr (n + of_nat (length (filter is_call (map fst xs)))), s2)"
proof (induction xs arbitrary: s n)
  case Nil
  then show ?case by (auto simp: count_events.simps [of msg "lo_next ops" s] split: sum.split option.split)
next
  case (Cons x xs)
  from Cons.prems(1) obtain s' where n: "lo_next ops s = Some (Inr (Some (fst x)), s')" and d: "delivers ops s' xs s1"
    by auto
  from Cons.IH [OF d Cons.prems(2,3)] show ?case
    by (simp add: count_events.simps [of msg "lo_next ops" s] n split: sum.split)
qed

lemma length_calls_through:
  "list_all2 (read_through om) xs ys \<Longrightarrow> length (filter is_call (map fst xs)) = length (filter (\<lambda>y. is_call (fst y)) ys)"
  by (induction rule: list_all2_induct) (auto simp: read_through_def)

text \<open>Over the in-kernel programs the count is that of the records they submit.\<close>

lemma drain_ebpf:
  assumes "sy_ring sy = kernel_ring b f fate left_at" "over_code fate = Some x" "runs_down (sy_ptrace sy) \<mu>"
    and "armed t" "eb_queue t = []" "\<not> eb_finished t" "kernel_ok k" "\<forall>h\<in>set (concat batches). env_ok (hit_env h)"
  shows "\<exists>happened rest s. batches = happened @ rest \<and> tasks_over t left_at (length rest)
     \<and> drain_events (box_next (syren_backends feature T sy)) (EbpfBox t, (k, batches))
     = Some (Inr (of_nat (length (k_events (k_run b f (concat happened) k)))), s)"
proof -
  let ?bk = "syren_backends feature T sy" let ?s = "(EbpfBox t, (k, batches))"
  let ?ops = "driver_ops ?bk demo_outputs (\<lambda>_. []) Stderr"
  have ops: "lo_next ?ops = box_next ?bk" by (simp add: driver_ops_def)
  have down: "ring_runs_down (sy_ring sy) still_to_come"
    unfolding assms(1) by (rule kernel_ring_runs_down) (simp add: assms(2))
  have good: "box_good (\<lambda>s. runs_down (sy_ptrace sy) \<mu>)
      (\<lambda>s. ring_runs_down (sy_ring sy) still_to_come \<and> armed (fst s)) ?s"
    using assms(4) down by (simp add: box_good_def)
  from finite_tracer.delivers_to_end [OF syren_box_finite ops good] obtain xs s1 r s2 where
    d: "delivers ?ops ?s xs s1" and n: "box_next ?bk s1 = Some (r, s2)" and r: "\<forall>e. r \<noteq> Inr (Some e)" by blast
  from delivers_ebpf [OF d] obtain t1 w1 ys where s1: "s1 = (EbpfBox t1, w1)"
    and ret: "eb_returns (sy_ring sy) (t, (k, batches)) ys (t1, w1)"
    and through: "list_all2 (read_through (sy_open_mem sy)) xs ys" by blast
  from n obtain s3 where n': "eb_next_event (sy_ring sy) (t1, w1) = Some (r, s3)"
    by (auto simp: s1 box_next_def syren_backends_def split: option.splits)
  from eb_next_event_stretch [OF n'] r have rN: "r = Inr None" by auto
  from ret n' have ses: "eb_session (kernel_ring b f fate left_at) (t, (k, batches)) ys s3"
    unfolding eb_session_def rN assms(1) by blast
  from kernel_session [OF ses assms(5,6,2,7,8)] obtain seen late new where
    bs: "batches = seen @ late @ snd (snd s3)" and over: "tasks_over t left_at (length (late @ snd (snd s3)))"
    and ev: "k_events (k_run b f (concat (seen @ late)) k) = k_events (k_run b f (concat seen) k) @ new"
    and ys: "ys = map (record_entry (eb_baseline t)) (k_events (k_run b f (concat seen) k))
        @ exit_entry (eb_leader t) (if eb_child t = None then 0 else x) @ map (record_entry (eb_baseline t)) new"
    by blast
  have "filter (\<lambda>y. is_call (fst y)) (map (record_entry b') rs) = map (record_entry b') rs" for b' rs
    by (simp add: record_entry_def)
  moreover have "filter (\<lambda>y. is_call (fst y)) (exit_entry l c) = []" for l c by (simp add: exit_entry_def split: option.split)
  ultimately have "length (filter is_call (map fst xs)) = length (k_events (k_run b f (concat (seen @ late)) k))"
    unfolding length_calls_through [OF through] ys ev by simp
  with count_events_delivers [OF d, unfolded ops, OF n r, of "''tracer error''" 0] rN
  have "drain_events (box_next ?bk) ?s = Some (Inr (of_nat (length (k_events (k_run b f (concat (seen @ late)) k)))), s2)"
    unfolding drain_events_def by simp
  moreover have "tasks_over t left_at (length (snd (snd s3)))" using tasks_over_less [OF over] by simp
  ultimately show ?thesis using bs by (intro exI [of _ "seen @ late"] exI [of _ "snd (snd s3)"] exI [of _ s2]) simp
qed

text \<open>Over ptrace it is that of the calls the stops spell.\<close>

lemma drain_ptrace:
  assumes "runs_down (sy_ptrace sy) \<mu>" "pt_inflight t = Map.empty"
  shows "\<exists>obs s1 failed s. pt_seen (sy_ptrace sy) (t, w) obs s1
    \<and> drain_events (box_next (syren_backends feature T sy)) (PtraceBox t, w)
      = Some (if failed then Inl ''tracer error'' else Inr (of_nat (length (calls_of Map.empty (map fst obs)))), s)"
proof -
  let ?bk = "syren_backends feature T sy"
  let ?ops = "driver_ops ?bk demo_outputs (\<lambda>_. []) Stderr"
  have ops: "lo_next ?ops = box_next ?bk" by (simp add: driver_ops_def)
  have fin: "finite_tracer (box_next ?bk) (box_good (\<lambda>s. runs_down (sy_ptrace sy) \<mu>) (\<lambda>s. ring_runs_down (sy_ring sy) \<nu> \<and> armed (fst s)))
     (box_left (\<lambda>s. \<mu> (snd s)) (eb_left \<nu>))" for \<nu> by (rule syren_box_finite)
  have good: "box_good (\<lambda>s. runs_down (sy_ptrace sy) \<mu>) (\<lambda>s. ring_runs_down (sy_ring sy) \<nu> \<and> armed (fst s)) (PtraceBox t, w)" for \<nu>
    using assms(1) by (simp add: box_good_def)
  from finite_tracer.delivers_to_end [OF fin ops good] obtain xs s1 r s2 where
    d: "delivers ?ops (PtraceBox t, w) xs s1" and n: "box_next ?bk s1 = Some (r, s2)" and r: "\<forall>e. r \<noteq> Inr (Some e)" by blast
  from delivers_session [OF d assms(2)] obtain obs t1 w1 where obs: "pt_seen (sy_ptrace sy) (t, w) obs (t1, w1)"
    "map event_view (syscalls_in (map fst xs)) = map call_view (calls_of Map.empty (map fst obs))" by blast
  have "length (syscalls_in es) = length (filter is_call es)" for es
  proof (induction es)
    case (Cons e es)
    then show ?case by (cases e) (simp_all add: syscalls_in_def session_syscalls_def)
  qed (simp add: syscalls_in_def session_syscalls_def)
  then have "length (filter is_call (map fst xs)) = length (syscalls_in (map fst xs))" by simp
  with arg_cong [OF obs(2), of length] have "length (filter is_call (map fst xs)) = length (calls_of Map.empty (map fst obs))" by simp
  with count_events_delivers [OF d, unfolded ops, OF n r, of "''tracer error''" 0] obs(1)
  show ?thesis unfolding drain_events_def
    by (intro exI [of _ obs] exI [of _ "(t1, w1)"] exI [of _ "isl r"] exI [of _ s2]) (simp split: sum.split)
qed

subsection \<open>What the workload does\<close>

definition workload_calls :: "bool \<Rightarrow> nat \<Rightarrow> (u64 \<times> u64 list) list" where
  "workload_calls marks n = (if marks then [(SYS_personality, [MAGIC])] else []) @ replicate n (SYS_getpid, [])"

text \<open>A process that only remembers the calls it made.\<close>

definition call_log :: "bool \<Rightarrow> (u64 \<times> u64 list) list bench_os" where
  "call_log marks =
     \<lparr>be_println = (\<lambda>_ w. w), be_env_set = (\<lambda>_ _. marks), be_current_exe = (\<lambda>_. None), be_now = (\<lambda>w. (0, w)),
      be_status = (\<lambda>_ _ w. (None, w)), be_syscall = (\<lambda>nr args w. w @ [(nr, args)])\<rparr>"

lemma funpow_snoc: "((\<lambda>w. w @ [x]) ^^ n) ys = ys @ replicate n x"
  by (induction n arbitrary: ys) (simp_all add: funpow_swap1 replicate_append_same [symmetric])

lemma workload_log: "workload (call_log marks) n [] = workload_calls marks (unat n)"
  by (simp add: workload_def call_log_def workload_calls_def funpow_snoc)

text \<open>The marker call of a workload, as the in-kernel programs see it.\<close>

definition marks :: "kenv \<Rightarrow> bool" where
  "marks m \<longleftrightarrow> read_word m 8 8 = Inr 135 \<and> read_word m 16 8 = Inr (unat MAGIC)"

text \<open>The benchmark build of the in-kernel programs starts tracing a task at its marker call.\<close>

lemma selfarm_marks:
  assumes "marks m" "length (k_targets k) < TARGETS_MAX"
  shows "is_target (selfarm m (env_tid m) k) (env_tid m)"
  using assms by (simp add: marks_def selfarm_def MARKER_NR_def read_or_def is_target_def arm_target_def bpf_insert_lookup fits_def)

lemma enter_targets: "k_targets (snd (try_enter b env k)) = k_targets (if b then selfarm env (env_tid env) k else k)"
  by (simp add: try_enter_def Let_def env_tid_def split: sum.split)

lemma marker_arms:
  assumes "marks m" "length (k_targets k) < TARGETS_MAX"
  shows "is_target (k_step True f (HitEnter m) k) (env_tid m)"
  using selfarm_marks [OF assms] by (simp add: sys_enter_def is_target_def enter_targets)

text \<open>Before that it leaves no trace.\<close>

lemma untraced_step:
  assumes "\<not> is_target (k_step b f h k) t" "map_of (k_enters k) t = None"
  shows "map_of (k_enters (k_step b f h k)) t = None
    \<and> (\<exists>rs. k_events (k_step b f h k) = k_events k @ rs \<and> (\<forall>r\<in>set rs. rec_tid r \<noteq> t))"
proof (cases h)
  case (HitEnter en)
  show ?thesis
  proof (cases "env_tid en = t")
    case True
    with assms HitEnter show ?thesis by (simp add: sys_enter_def is_target_def enter_targets enter_enters)
  next
    case False
    with assms(2) HitEnter enter_enters_other [of t en b k] show ?thesis by (simp add: sys_enter_def)
  qed
next
  case (HitExit ex)
  show ?thesis
  proof (cases "map_of (k_enters k) (env_tid ex)")
    case None
    with HitExit assms(2) exit_silent [OF None] show ?thesis by (auto simp: sys_exit_def exit_enters)
  next
    case (Some en)
    with assms(2) have ne: "env_tid ex \<noteq> t" by auto
    show ?thesis
    proof (cases "kv_reserve ex")
      case None
      then have "k_events (snd (try_exit ex k)) = k_events k" using Some by (simp add: try_exit_def env_tid_def Let_def)
      with HitExit assms(2) show ?thesis by (auto simp: sys_exit_def exit_enters)
    next
      case slot: (Some r0)
      from exit_emits [OF Some slot] ne HitExit assms(2) show ?thesis by (auto simp: sys_exit_def exit_enters)
    qed
  qed
next
  case (HitFork env)
  with assms(2) show ?thesis by (simp add: sched_process_fork_def)
qed

lemma untraced_run:
  assumes "\<not> is_target (k_run b f hits k) t" "map_of (k_enters k) t = None"
  shows "map_of (k_enters (k_run b f hits k)) t = None
    \<and> (\<exists>rs. k_events (k_run b f hits k) = k_events k @ rs \<and> (\<forall>r\<in>set rs. rec_tid r \<noteq> t))"
  using assms
proof (induction hits arbitrary: k)
  case (Cons h hits)
  have "\<not> is_target (k_step b f h k) t"
    using Cons.prems(1) k_run_targets_mono [of "k_step b f h k" b f hits] by (auto simp: targets_def)
  from untraced_step [OF this Cons.prems(2)] obtain rs where
    1: "map_of (k_enters (k_step b f h k)) t = None" "k_events (k_step b f h k) = k_events k @ rs" "\<forall>r\<in>set rs. rec_tid r \<noteq> t"
    by blast
  from Cons.IH [of "k_step b f h k"] Cons.prems(1) 1(1) obtain rs' where
    "map_of (k_enters (k_run b f hits (k_step b f h k))) t = None"
    "k_events (k_run b f hits (k_step b f h k)) = k_events (k_step b f h k) @ rs'" "\<forall>r\<in>set rs'. rec_tid r \<noteq> t" by auto
  with 1 show ?case by (auto intro!: exI [of _ "rs @ rs'"])
qed simp

lemma roomy_run: "roomy S k \<Longrightarrow> callers hits \<subseteq> S \<Longrightarrow> roomy S (k_run b f hits k)"
proof (induction hits arbitrary: k)
  case (Cons h hits)
  have "roomy S (k_step b f h k)" by (rule roomy_step [OF Cons.prems(1)]) (use Cons.prems(2) in \<open>auto simp: callers_def\<close>)
  with Cons.IH [OF this] Cons.prems(2) show ?case by (auto simp: callers_def)
qed simp

lemma marker_records:
  assumes "marks m" "env_tid m = t" "length (k_targets k) < TARGETS_MAX" "map_of (k_enters k) t = None"
    and "roomy S k" "callers (HitEnter m # hits) \<subseteq> S"
  shows "\<exists>rs. k_events (k_run True f (HitEnter m # hits) k) = k_events k @ rs
    \<and> map record_view (filter (\<lambda>r. rec_tid r = t) rs) = map done_view (task_records t None (HitEnter m # hits))"
proof -
  let ?k = "k_step True f (HitEnter m) k"
  have S: "t \<in> S" "callers hits \<subseteq> S" using assms(2,6) by (auto simp: callers_def)
  have target: "is_target ?k t" using marker_arms [OF assms(1,3)] assms(2) by simp
  have "roomy S ?k" by (rule roomy_step [OF assms(5)]) (use S(1) assms(2) in simp)
  from k_run_records [OF target this S, of True f] obtain rs where
    a: "k_events (k_run True f hits ?k) = k_events ?k @ rs"
      "map record_view (filter (\<lambda>r. rec_tid r = t) rs) = map done_view (task_records t (map_of (k_enters ?k) t) hits)" by blast
  have "map_of (k_enters ?k) t = entry_of m"
    using selfarm_marks [OF assms(1,3)] assms(2,4) roomy_fits [OF assms(5) S(1)]
    by (auto simp: sys_enter_def enter_enters bpf_insert_lookup split: option.split)
  moreover have "task_records t (entry_of m) hits = task_records t None (HitEnter m # hits)"
    using assms(2) by (simp split: option.split)
  ultimately show ?thesis using a by (simp add: sys_enter_def)
qed

text \<open>The entry of a pair of hits shows a call: its number and its arguments.\<close>

definition sees_call :: "u64 \<times> u64 list \<Rightarrow> kenv \<times> kenv \<Rightarrow> bool" where
  "sees_call call c =
     (case read_raw_enter (fst c) 8 of
        Inl _ \<Rightarrow> False
      | Inr raw \<Rightarrow> re_id raw = fst call \<and> take (length (snd call)) (args_list (re_args raw)) = snd call)"

lemma pair_entries_numbers:
  assumes "list_all2 sees_call issued cs"
    and "\<forall>c\<in>set cs. kv_reserve (snd c) \<noteq> None"
  shows "map (\<lambda>c. e_nr (fst c)) (concat (map pair_entry cs)) = map fst issued \<and> length (concat (map pair_entry cs)) = length issued"
  using assms by (induction rule: list_all2_induct) (auto simp: pair_entry_def entry_of_def sees_call_def split: sum.splits)

lemma task_records_prefix:
  assumes "filter (call_of t) hits = concat (map hit_pair cs) @ later"
  shows "task_records t None hits = concat (map pair_entry cs) @ task_records t None later"
proof -
  have "\<forall>h\<in>set (concat (map hit_pair cs)). call_of t h"
    using arg_cong [OF assms, of set] by auto
  then have "\<forall>c\<in>set cs. env_tid (fst c) = t \<and> env_tid (snd c) = t" by (auto simp: hit_pair_def)
  then have "task_records t None (concat (map hit_pair cs) @ later) = concat (map pair_entry cs) @ task_records t None later"
    by (induction cs) (auto simp: hit_pair_def pair_entry_def split: option.split)
  then show ?thesis unfolding task_records_own [of t None hits] assms .
qed

text \<open>The records of a workload from its marker on begin with the calls it issues.\<close>

lemma workload_records:
  assumes "map record_view rs = map done_view (task_records t None hits)"
    and "filter (call_of t) hits = concat (map hit_pair cs) @ later" "\<forall>c\<in>set cs. kv_reserve (snd c) \<noteq> None"
    and "list_all2 sees_call (workload (call_log True) n []) cs"
  shows "map rec_nr (take (Suc (unat n)) rs) = map fst (workload (call_log True) n [])"
proof -
  let ?nr = "\<lambda>(p, t, nr, rest). nr" and ?m = "Suc (unat n)"
  have r: "?nr (record_view r) = rec_nr r" for r by (simp add: record_view_def)
  have c: "?nr (done_view c) = e_nr (fst c)" for c by (simp add: done_view_def split: prod.split)
  have len: "length (workload (call_log True) n []) = ?m" by (simp add: workload_log workload_calls_def)
  note pairs = pair_entries_numbers [OF assms(4,3)]
  from arg_cong [OF assms(1), of "map ?nr"] have "map rec_nr rs = map (\<lambda>c. e_nr (fst c)) (task_records t None hits)"
    unfolding map_map comp_def r c .
  from arg_cong [OF this, of "take ?m"] show ?thesis
    unfolding take_map [symmetric] task_records_prefix [OF assms(2)] using pairs len by simp
qed

definition marker_ctx :: "u8 list" where
  "marker_ctx = [135, 0, 0, 0, 0, 0, 0, 0, 78, 69, 82, 89, 83, 0, 0, 0] @ replicate 40 0"

definition getpid_ctx :: "u8 list" where
  "getpid_ctx = [39, 0, 0, 0, 0, 0, 0, 0] @ replicate 48 0"

text \<open>
  The workload makes a call before its marker, then the marker, a \<^verbatim>\<open>getpid\<close>, and one more call
  that does not return.
\<close>

definition before_marker :: "hit list" where
  "before_marker = [HitEnter (demo_env 9 30 getpid_ctx), HitExit (demo_env 9 40 getpid_ctx)]"

definition after_marker :: "hit list" where
  "after_marker = [HitExit (demo_env 9 60 marker_ctx), HitEnter (demo_env 9 70 getpid_ctx), HitExit (demo_env 9 80 getpid_ctx),
     HitEnter (demo_env 9 90 open_ctx)]"

definition bench_hits :: "hit list list" where
  "bench_hits = [before_marker, HitEnter (demo_env 9 50 marker_ctx) # after_marker]"

definition bench_system :: "kworld system" where
  "bench_system = kernel_system\<lparr>sy_ring := kernel_ring True False (Inr (Exited 7 3)) (\<lambda>_. 0)\<rparr>"

lemma demo_tid: "env_tid (demo_env 9 now ctx) = 9"
  by (simp add: env_tid_def demo_env_def)

lemma demo_reserve: "kv_reserve (demo_env t now ctx) = Some blank_record"
  by (simp add: demo_env_def)

subsection \<open>Properties\<close>



end
