(* ===== verification/Test_Support.thy ===== *)
theory Test_Support
  imports Gen_Data
begin

section \<open>Running the unit tests on the model\<close>

text \<open>
  The theories \<open>Tests_Gen\<close> to \<open>Tests_Trace\<close> translate the unit tests of the sources: each test is a
  definition of the same name, built from the operations of the model, whose value is the
  conjunction of the test's assertions, or \<open>None\<close> where an \<^verbatim>\<open>unwrap\<close> or an index panics.  That
  the test passes on the model is a lemma.
\<close>

definition passes :: "bool option \<Rightarrow> bool" where
  "passes t \<longleftrightarrow> t = Some True"

lemma passesI [intro!]: "b \<Longrightarrow> passes (Some b)"
  by (simp add: passes_def)

text \<open>\<^verbatim>\<open>str::contains\<close> and \<^verbatim>\<open>str::find\<close>.\<close>

fun contains :: "string \<Rightarrow> string \<Rightarrow> bool" where
  "contains [] s \<longleftrightarrow> s = []"
| "contains (c # t) s \<longleftrightarrow> starts_with (c # t) s \<or> contains t s"

fun find_from :: "nat \<Rightarrow> string \<Rightarrow> string \<Rightarrow> nat option" where
  "find_from i [] s = (if s = [] then Some i else None)"
| "find_from i (c # t) s = (if starts_with (c # t) s then Some i else find_from (i + 1) t s)"

definition find_str :: "string \<Rightarrow> string \<Rightarrow> nat option" where
  "find_str t s = find_from 0 t s"

text \<open>A text between double quotes.\<close>

definition quoted :: "string \<Rightarrow> string" where
  "quoted s = [CHR 0x22] @ s @ [CHR 0x22]"

definition byte_list :: "string \<Rightarrow> u8 list" where
  "byte_list s = map of_char s"

declare newline_def [exec] contains.simps [exec] find_from.simps [exec] find_str_def [exec] quoted_def [exec] byte_list_def [exec]

lemma contains_iff: "contains t s \<longleftrightarrow> (\<exists>a b. t = a @ s @ b)"
proof (induction t)
  case (Cons c t)
  have "starts_with (c # t) s \<longleftrightarrow> (\<exists>b. c # t = s @ b)" by (simp add: starts_with_def strip_prefix_Some)
  with Cons show ?case by (auto simp: Cons_eq_append_conv)
qed auto

lemma contains_append: "contains a s \<or> contains b s \<Longrightarrow> contains (a @ b) s"
  by (auto simp: contains_iff) (metis append.assoc)+

lemma contains_concat: "x \<in> set xs \<Longrightarrow> contains x s \<Longrightarrow> contains (concat xs) s"
  by (induction xs) (auto intro: contains_append)

text \<open>Where a search finds its text: no place of \<open>a\<close>, continued by \<open>t\<close>, starts with \<open>s\<close>.\<close>

fun no_occ :: "string \<Rightarrow> string \<Rightarrow> string \<Rightarrow> bool" where
  "no_occ [] t s \<longleftrightarrow> True"
| "no_occ (c # a) t s \<longleftrightarrow> \<not> starts_with ((c # a) @ t) s \<and> no_occ a t s"

lemma find_from_skip: "no_occ a t s \<Longrightarrow> find_from i (a @ t) s = find_from (i + length a) t s"
  by (induction a arbitrary: i) auto

lemma find_from_here: "find_from i (s @ t) s = Some i"
proof -
  have "starts_with u s \<Longrightarrow> find_from i u s = Some i" for u by (cases u) (auto simp: starts_with_iff)
  then show ?thesis by (simp add: starts_with_iff)
qed

lemma find_str_at: "no_occ a (s @ b) s \<Longrightarrow> find_str (a @ s @ b) s = Some (length a)"
  by (simp add: find_str_def find_from_skip find_from_here)

lemma no_occ_append [simp]: "no_occ (a @ b) t s \<longleftrightarrow> no_occ a (b @ t) s \<and> no_occ b t s"
  by (induction a) auto

lemma starts_with_Cons: "starts_with (c # t) (d # s) \<longleftrightarrow> c = d \<and> starts_with t s"
  by (auto simp: starts_with_iff)

text \<open>The metadata row of a name: names are unique, so the first row is the only one.\<close>

lemma metadata_codes: "distinct (map str_code (map sm_name metadata))"
  by (simp add: metadata_def METADATA_def syscall_row_def str_code_def)

lemma meta_row: "syscall_row n as \<in> set METADATA \<Longrightarrow> meta_lookup n = Some (syscall_row n as)"
  using find_key_unique [of sm_name METADATA "syscall_row n as"] distinct_by_code [OF metadata_codes]
  by (simp add: meta_lookup_def metadata_def syscall_row_def)

lemma tested_metas:
  "meta_lookup ''read'' = Some (syscall_row ''read'' [(''fd'', ''Fd''), (''buf'', ''Buf''), (''count'', ''Size'')])"
  "meta_lookup ''open'' = Some (syscall_row ''open'' [(''filename'', ''Path''), (''flags'', ''Flags''), (''mode'', ''Int'')])"
  "meta_lookup ''mmap'' = Some (syscall_row ''mmap'' [ (''addr'', ''Ptr''), (''len'', ''Size''), (''prot'', ''Flags''), (''flags'', ''Flags''), (''fd'', ''Fd''), (''off'', ''Offset'')])"
  "meta_lookup ''getpid'' = Some (syscall_row ''getpid'' [])"
  by (rule meta_row, simp only: METADATA_def list.set insert_iff simp_thms)+

text \<open>A name with no row.\<close>

lemma no_meta: "n \<notin> set (map sm_name METADATA) \<Longrightarrow> meta_lookup n = None"
  by (auto simp: meta_lookup_def find_None_iff)

lemma unnamed:
  "meta_lookup ''nodecode_syscall'' = None" "meta_lookup ''definitely_not_a_syscall'' = None"
  by (rule no_meta, simp add: METADATA_def syscall_row_def)+

end
