(* ===== verification/Tests_Gen.thy ===== *)
theory Tests_Gen
  imports Test_Support Gen_Codegen "HOL-Library.List_Lexorder" "HOL-Library.Char_ord"
begin

section \<open>The tests of \<^verbatim>\<open>syren-gen\<close>\<close>

text \<open>
  The tests of the table parser, the categories, the metadata and the generator.  The tests that
  search the generated text do so part by part: a text in one part of it is a text in the whole.
\<close>

subsection \<open>\<^verbatim>\<open>table.rs\<close>\<close>

definition tab_row :: "string list \<Rightarrow> string" where
  "tab_row cols = join [CHR 0x09] cols @ [newline]"

definition SAMPLE :: string where
  "SAMPLE = ''# comment line'' @ [newline] @ ''#'' @ [newline]
     @ tab_row [''0'', ''common'', ''read'', [], [], ''sys_read'']
     @ tab_row [''1'', ''common'', ''write'', [], [], ''sys_write'']
     @ tab_row [''2'', ''common'', ''open'', [], [], ''sys_open'']
     @ tab_row [''59'', ''common'', ''execve'', [], [], ''sys_execve'']
     @ ''   # indented comment'' @ [newline]
     @ tab_row [''512'', ''x32'', ''rt_sigaction'', [], ''compat_sys_rt_sigaction'']
     @ tab_row [''314'', ''64'', ''sched_setattr'', [], ''sys_sched_setattr'']"

definition parses_common_and_64_skips_x32 :: "bool option" where
  "parses_common_and_64_skips_x32 =
     (let names = map ent_name (parse_tbl SAMPLE) in
      Some (names = [''read'', ''write'', ''open'', ''execve'', ''sched_setattr''] \<and> ''rt_sigaction'' \<notin> set names))"

definition parses_numbers_entry_and_abi :: "bool option" where
  "parses_numbers_entry_and_abi =
     (let entries = parse_tbl SAMPLE in do {
        execve \<leftarrow> find (\<lambda>e. ent_name e = ''execve'') entries;
        sched \<leftarrow> find (\<lambda>e. ent_name e = ''sched_setattr'') entries;
        Some (ent_number execve = 59 \<and> ent_abi execve = Common \<and> ent_entry execve = Some ''sys_execve''
          \<and> ent_abi sched = B64)
      })"

definition result_is_sorted_by_number :: "bool option" where
  "result_is_sorted_by_number =
     (let entries = parse_tbl SAMPLE in
      Some (list_all (\<lambda>(a, b). ent_number a < ent_number b) (zip entries (tl entries))))"

definition ignores_blank_and_comment_lines :: "bool option" where
  "ignores_blank_and_comment_lines =
     Some (parse_tbl ([newline, newline] @ ''# nothing here'' @ [newline] @ ''   '' @ [newline]) = [])"

text \<open>Parsing the lines one by one.\<close>

lemma parse_tab_rows:
  "parse_line (join [CHR 0x09] [''0'', ''common'', ''read'', [], [], ''sys_read'']) = Some (row 0 Common ''read'' (Some ''sys_read''))"
  "parse_line (join [CHR 0x09] [''1'', ''common'', ''write'', [], [], ''sys_write'']) = Some (row 1 Common ''write'' (Some ''sys_write''))"
  "parse_line (join [CHR 0x09] [''2'', ''common'', ''open'', [], [], ''sys_open'']) = Some (row 2 Common ''open'' (Some ''sys_open''))"
  "parse_line (join [CHR 0x09] [''9'', ''common'', ''mmap'', [], [], ''sys_mmap'']) = Some (row 9 Common ''mmap'' (Some ''sys_mmap''))"
  "parse_line (join [CHR 0x09] [''39'', ''common'', ''getpid'', [], [], ''sys_getpid'']) = Some (row 39 Common ''getpid'' (Some ''sys_getpid''))"
  "parse_line (join [CHR 0x09] [''59'', ''common'', ''execve'', [], [], ''sys_execve'']) = Some (row 59 Common ''execve'' (Some ''sys_execve''))"
  "parse_line (join [CHR 0x09] [''999'', ''common'', ''nodecode_syscall'', ''sys_nodecode'']) = Some (row 999 Common ''nodecode_syscall'' (Some ''sys_nodecode''))"
  "parse_line (join [CHR 0x09] [''512'', ''x32'', ''rt_sigaction'', [], ''compat_sys_rt_sigaction'']) = Some (row 512 X32 ''rt_sigaction'' (Some ''compat_sys_rt_sigaction''))"
  "parse_line (join [CHR 0x09] [''314'', ''64'', ''sched_setattr'', [], ''sys_sched_setattr'']) = Some (row 314 B64 ''sched_setattr'' (Some ''sys_sched_setattr''))"
  "parse_line (join [CHR 0x09] [''0'', ''common'', ''read'', ''sys_read'']) = Some (row 0 Common ''read'' (Some ''sys_read''))"
  "parse_line (join [CHR 0x09] [''1'', ''common'', ''write'', ''sys_write'']) = Some (row 1 Common ''write'' (Some ''sys_write''))"
  "parse_line ''# comment line'' = None" "parse_line ''#'' = None" "parse_line ''   # indented comment'' = None"
  by (simp_all add: row_def exec)

lemma parse_tbl_lines:
  assumes "tbl = concat (map (\<lambda>l. l @ [newline]) ls)" "list_all (\<lambda>l. newline \<notin> set l \<and> CHR 0x0D \<notin> set l) ls"
  shows "parse_tbl tbl = sort_key ent_number (filter (\<lambda>e. ent_abi e \<noteq> X32) (List.map_filter parse_line ls))"
proof -
  have "str_lines tbl = ls"
    using assms str_lines_concat [of ls] by (simp add: newline_def list_all_iff)
  then show ?thesis by (simp add: parse_tbl_def)
qed

lemma parse_SAMPLE:
  "parse_tbl SAMPLE = [row 0 Common ''read'' (Some ''sys_read''), row 1 Common ''write'' (Some ''sys_write''),
     row 2 Common ''open'' (Some ''sys_open''), row 59 Common ''execve'' (Some ''sys_execve''),
     row 314 B64 ''sched_setattr'' (Some ''sys_sched_setattr'')]"
proof -
  let ?tab = "join [CHR 0x09]"
  let ?ls = "[''# comment line'', ''#'', ?tab [''0'', ''common'', ''read'', [], [], ''sys_read''], ?tab [''1'', ''common'', ''write'', [], [], ''sys_write''],
    ?tab [''2'', ''common'', ''open'', [], [], ''sys_open''], ?tab [''59'', ''common'', ''execve'', [], [], ''sys_execve''], ''   # indented comment'',
    ?tab [''512'', ''x32'', ''rt_sigaction'', [], ''compat_sys_rt_sigaction''], ?tab [''314'', ''64'', ''sched_setattr'', [], ''sys_sched_setattr'']]"
  have "parse_tbl SAMPLE = sort_key ent_number (filter (\<lambda>e. ent_abi e \<noteq> X32) (List.map_filter parse_line ?ls))"
    by (rule parse_tbl_lines) (simp_all add: SAMPLE_def tab_row_def newline_def)
  then show ?thesis by (simp only: List.map_filter_simps parse_tab_rows option.case) (simp add: row_def)
qed

lemma table_tests_pass:
  "passes parses_common_and_64_skips_x32" "passes parses_numbers_entry_and_abi" "passes result_is_sorted_by_number"
  by (simp_all add: passes_def parses_common_and_64_skips_x32_def parses_numbers_entry_and_abi_def
      result_is_sorted_by_number_def parse_SAMPLE row_def)

lemma blank_lines_test_passes: "passes ignores_blank_and_comment_lines"
  by (simp add: passes_def ignores_blank_and_comment_lines_def exec)

subsection \<open>\<^verbatim>\<open>category.rs\<close>\<close>

definition well_known_syscalls_are_classified :: "bool option" where
  "well_known_syscalls_are_classified = Some
     (categorize ''openat'' = GFs \<and> categorize ''read'' = GFs \<and> categorize ''connect'' = GNet \<and> categorize ''mmap'' = GMemory
      \<and> categorize ''execve'' = GProcess \<and> categorize ''rt_sigaction'' = GSignal \<and> categorize ''futex'' = GIpc
      \<and> categorize ''nanosleep'' = GTime \<and> categorize ''setuid'' = GSecurity \<and> categorize ''ioctl'' = GSystem)"

definition prefix_fallbacks_apply :: "bool option" where
  "prefix_fallbacks_apply = Some
     (categorize ''clock_gettime'' = GTime \<and> categorize ''timer_create'' = GTime \<and> categorize ''sched_yield'' = GSystem
      \<and> categorize ''inotify_add_watch'' = GFs \<and> categorize ''epoll_wait'' = GFs \<and> categorize ''io_uring_setup'' = GFs)"

definition unknown_is_other :: "bool option" where
  "unknown_is_other = Some (categorize ''totally_made_up_syscall'' = GOther)"

text \<open>The derived \<^verbatim>\<open>Debug\<close> of the enum: the name of the variant.\<close>

definition category_debug :: "gen_category \<Rightarrow> string" where
  "category_debug c = (case c of GFs \<Rightarrow> ''Fs'' | GNet \<Rightarrow> ''Net'' | GMemory \<Rightarrow> ''Memory'' | GProcess \<Rightarrow> ''Process''
     | GSignal \<Rightarrow> ''Signal'' | GIpc \<Rightarrow> ''Ipc'' | GTime \<Rightarrow> ''Time'' | GSecurity \<Rightarrow> ''Security'' | GSystem \<Rightarrow> ''System'' | GOther \<Rightarrow> ''Other'')"

definition ident_matches_debug_name :: "bool option" where
  "ident_matches_debug_name = Some (list_all (\<lambda>cat. ident cat = category_debug cat)
     [GFs, GNet, GMemory, GProcess, GSignal, GIpc, GTime, GSecurity, GSystem, GOther])"

lemma category_tests_pass:
  "passes well_known_syscalls_are_classified" "passes prefix_fallbacks_apply" "passes unknown_is_other" "passes ident_matches_debug_name"
  by (simp_all add: passes_def well_known_syscalls_are_classified_def prefix_fallbacks_apply_def unknown_is_other_def
      ident_matches_debug_name_def category_debug_def exec)

subsection \<open>\<^verbatim>\<open>meta.rs\<close>\<close>

definition lookup_finds_known_syscall :: "bool option" where
  "lookup_finds_known_syscall = do {
     read \<leftarrow> meta_lookup ''read'';
     Some (length (sm_args read) = 3 \<and> am_name (sm_args read ! 0) = ''fd'' \<and> am_kind (sm_args read ! 0) = ''Fd''
       \<and> am_kind (sm_args read ! 2) = ''Size'')
   }"

definition lookup_misses_unknown_syscall :: "bool option" where
  "lookup_misses_unknown_syscall = Some (meta_lookup ''definitely_not_a_syscall'' = None)"

definition zero_arg_syscalls_are_representable :: "bool option" where
  "zero_arg_syscalls_are_representable = do { m \<leftarrow> meta_lookup ''getpid''; Some (length (sm_args m) = 0) }"

definition no_syscall_exceeds_six_args :: "bool option" where
  "no_syscall_exceeds_six_args = Some (list_all (\<lambda>m. length (sm_args m) \<le> 6) metadata)"

definition metadata_names_are_unique :: "bool option" where
  "metadata_names_are_unique =
     (let names = sort (map sm_name metadata) in Some (length names = length (remdups_adj names)))"

lemma meta_tests_pass:
  "passes lookup_finds_known_syscall" "passes lookup_misses_unknown_syscall" "passes zero_arg_syscalls_are_representable"
  "passes no_syscall_exceeds_six_args"
proof -
  have "list_all (\<lambda>m. length (sm_args m) \<le> 6) METADATA" by (simp add: METADATA_def syscall_row_def)
  then show "passes no_syscall_exceeds_six_args" by (simp add: passes_def no_syscall_exceeds_six_args_def metadata_def)
qed (simp_all add: passes_def lookup_finds_known_syscall_def lookup_misses_unknown_syscall_def
      zero_arg_syscalls_are_representable_def tested_metas unnamed syscall_row_def a_meta_def)

lemma unique_names_test_passes: "passes metadata_names_are_unique"
proof -
  have "distinct (sort (map sm_name metadata))" using distinct_by_code [OF metadata_codes] by simp
  then show ?thesis by (simp add: passes_def metadata_names_are_unique_def remdups_adj_distinct)
qed

subsection \<open>\<^verbatim>\<open>codegen.rs\<close> and \<^verbatim>\<open>lib.rs\<close>\<close>

definition TBL :: string where
  "TBL = tab_row [''0'', ''common'', ''read'', [], [], ''sys_read''] @ tab_row [''2'', ''common'', ''open'', [], [], ''sys_open'']
     @ tab_row [''39'', ''common'', ''getpid'', [], [], ''sys_getpid''] @ tab_row [''9'', ''common'', ''mmap'', [], [], ''sys_mmap'']
     @ tab_row [''999'', ''common'', ''nodecode_syscall'', ''sys_nodecode'']"

definition emits_count_and_entries :: "bool option" where
  "emits_count_and_entries =
     (let src = generate TBL in
      Some (contains src ''pub const SYSCALL_COUNT: usize = 5;'' \<and> contains src (''number: 0, name: '' @ quoted ''read'')
        \<and> contains src ''crate::Category::Fs'' \<and> contains src ''crate::Category::Memory''))"

definition known_syscall_gets_typed_args :: "bool option" where
  "known_syscall_gets_typed_args =
     (let src = generate TBL in
      Some (contains src (''crate::ArgInfo { name: '' @ quoted ''fd'' @ '', ty: crate::ArgType::Fd }'')
        \<and> contains src ''crate::ArgType::Size''))"

definition unknown_syscalls_empty_args :: "bool option" where
  "unknown_syscalls_empty_args =
     (let src = generate TBL in
      Some (contains src (''name: '' @ quoted ''getpid'' @ '', category: crate::Category::Process, args: &[]'')
        \<and> contains src (''name: '' @ quoted ''nodecode_syscall'') \<and> contains src ''args: &[]''))"

definition output_is_sorted_by_number :: "bool option" where
  "output_is_sorted_by_number =
     (let src = generate TBL in do {
        read_at \<leftarrow> find_str src (''name: '' @ quoted ''read'');
        mmap_at \<leftarrow> find_str src (''name: '' @ quoted ''mmap'');
        getpid_at \<leftarrow> find_str src (''name: '' @ quoted ''getpid'');
        Some (read_at < mmap_at \<and> mmap_at < getpid_at)
      })"

definition TBL_2 :: string where
  "TBL_2 = tab_row [''0'', ''common'', ''read'', ''sys_read''] @ tab_row [''1'', ''common'', ''write'', ''sys_write'']"

definition generate_is_consistent_with_parse :: "bool option" where
  "generate_is_consistent_with_parse =
     (let entries = parse_tbl TBL_2; src = generate TBL_2 in
      Some (contains src (''SYSCALL_COUNT: usize = '' @ dec (length entries))
        \<and> list_all (\<lambda>e. contains src (''name: '' @ debug_str (ent_name e))) entries))"

lemma parse_TBL:
  "parse_tbl TBL = [row 0 Common ''read'' (Some ''sys_read''), row 2 Common ''open'' (Some ''sys_open''),
     row 9 Common ''mmap'' (Some ''sys_mmap''), row 39 Common ''getpid'' (Some ''sys_getpid''),
     row 999 Common ''nodecode_syscall'' (Some ''sys_nodecode'')]"
proof -
  let ?tab = "join [CHR 0x09]"
  let ?ls = "[?tab [''0'', ''common'', ''read'', [], [], ''sys_read''], ?tab [''2'', ''common'', ''open'', [], [], ''sys_open''],
    ?tab [''39'', ''common'', ''getpid'', [], [], ''sys_getpid''], ?tab [''9'', ''common'', ''mmap'', [], [], ''sys_mmap''],
    ?tab [''999'', ''common'', ''nodecode_syscall'', ''sys_nodecode'']]"
  have "parse_tbl TBL = sort_key ent_number (filter (\<lambda>e. ent_abi e \<noteq> X32) (List.map_filter parse_line ?ls))"
    by (rule parse_tbl_lines) (simp_all add: TBL_def tab_row_def newline_def)
  then show ?thesis by (simp only: List.map_filter_simps parse_tab_rows option.case) (simp add: row_def)
qed

lemma generate_contains:
  "contains (header (length (parse_tbl tbl))) s \<Longrightarrow> contains (generate tbl) s"
  "e \<in> set (parse_tbl tbl) \<Longrightarrow> contains (generate_row e) s \<Longrightarrow> contains (generate tbl) s"
proof -
  have g: "generate tbl = header (length (parse_tbl tbl)) @ concat (map generate_row (parse_tbl tbl)) @ ''];'' @ [CHR 0x0A]"
    by (simp add: generate_def Let_def)
  show "contains (header (length (parse_tbl tbl))) s \<Longrightarrow> contains (generate tbl) s"
    unfolding g by (rule contains_append) (rule disjI1)
  assume "e \<in> set (parse_tbl tbl)" "contains (generate_row e) s"
  then have "contains (concat (map generate_row (parse_tbl tbl))) s"
    by (intro contains_concat [of "generate_row e"]) auto
  then show "contains (generate tbl) s" unfolding g by (intro contains_append disjI2 disjI1)
qed

text \<open>The rows of the generated file, up to the argument list of \<open>open\<close> and \<open>mmap\<close>.\<close>

lemma generated_rows:
  "generate_row (row 0 Common ''read'' x) = ''    crate::SyscallInfo { number: 0, name: '' @ quoted ''read''
     @ '', category: crate::Category::Fs, args: &[crate::ArgInfo { name: '' @ quoted ''fd'' @ '', ty: crate::ArgType::Fd }, crate::ArgInfo { name: ''
     @ quoted ''buf'' @ '', ty: crate::ArgType::Buf }, crate::ArgInfo { name: '' @ quoted ''count'' @ '', ty: crate::ArgType::Size }] },'' @ [newline]"
  "generate_row (row 39 Common ''getpid'' x) = ''    crate::SyscallInfo { number: 39, name: '' @ quoted ''getpid''
     @ '', category: crate::Category::Process, args: &[] },'' @ [newline]"
  "generate_row (row 999 Common ''nodecode_syscall'' x) = ''    crate::SyscallInfo { number: 999, name: '' @ quoted ''nodecode_syscall''
     @ '', category: crate::Category::Other, args: &[] },'' @ [newline]"
  by (simp_all add: row_def generate_row_def render_args_def tested_metas unnamed del: append.simps)
    (simp_all add: syscall_row_def a_meta_def exec)

lemma generated_rows_open_mmap:
  "generate_row (row 2 Common ''open'' x) = ''    crate::SyscallInfo { number: 2, name: '' @ quoted ''open''
     @ '', category: crate::Category::Fs, args: '' @ render_args ''open'' @ '' },'' @ [newline]"
  "generate_row (row 9 Common ''mmap'' x) = ''    crate::SyscallInfo { number: 9, name: '' @ quoted ''mmap''
     @ '', category: crate::Category::Memory, args: '' @ render_args ''mmap'' @ '' },'' @ [newline]"
  by (simp add: row_def generate_row_def, simp add: exec)+

lemma generate_TBL_contains:
  "contains (header 5) s \<Longrightarrow> contains (generate TBL) s"
  "contains (generate_row (row 0 Common ''read'' (Some ''sys_read''))) s \<Longrightarrow> contains (generate TBL) s"
  "contains (generate_row (row 9 Common ''mmap'' (Some ''sys_mmap''))) s \<Longrightarrow> contains (generate TBL) s"
  "contains (generate_row (row 39 Common ''getpid'' (Some ''sys_getpid''))) s \<Longrightarrow> contains (generate TBL) s"
  "contains (generate_row (row 999 Common ''nodecode_syscall'' (Some ''sys_nodecode''))) s \<Longrightarrow> contains (generate TBL) s"
proof -
  have h: "contains (header 5) s \<Longrightarrow> contains (generate TBL) s"
  proof -
    have "length (parse_tbl TBL) = 5" by (simp add: parse_TBL)
    with generate_contains(1) [where tbl = TBL and s = s] show "contains (header 5) s \<Longrightarrow> contains (generate TBL) s" by metis
  qed
  have r: "e \<in> set (parse_tbl TBL) \<Longrightarrow> contains (generate_row e) s \<Longrightarrow> contains (generate TBL) s" for e
    by (rule generate_contains(2))
  show "contains (header 5) s \<Longrightarrow> contains (generate TBL) s" by (rule h)
  show "contains (generate_row (row 0 Common ''read'' (Some ''sys_read''))) s \<Longrightarrow> contains (generate TBL) s"
    "contains (generate_row (row 9 Common ''mmap'' (Some ''sys_mmap''))) s \<Longrightarrow> contains (generate TBL) s"
    "contains (generate_row (row 39 Common ''getpid'' (Some ''sys_getpid''))) s \<Longrightarrow> contains (generate TBL) s"
    "contains (generate_row (row 999 Common ''nodecode_syscall'' (Some ''sys_nodecode''))) s \<Longrightarrow> contains (generate TBL) s"
    by (rule r; simp only: parse_TBL list.set insert_iff simp_thms)+
qed

lemma codegen_tests_pass:
  "passes emits_count_and_entries" "passes known_syscall_gets_typed_args" "passes unknown_syscalls_empty_args"
proof -
  have "contains (generate TBL) ''pub const SYSCALL_COUNT: usize = 5;''"
    by (rule generate_TBL_contains(1)) (simp add: exec)
  moreover have "contains (generate TBL) (''number: 0, name: '' @ quoted ''read'')" "contains (generate TBL) ''crate::Category::Fs''"
    "contains (generate TBL) (''crate::ArgInfo { name: '' @ quoted ''fd'' @ '', ty: crate::ArgType::Fd }'')"
    "contains (generate TBL) ''crate::ArgType::Size''"
    by (rule generate_TBL_contains(2), simp only: generated_rows, simp add: exec)+
  moreover have "contains (generate TBL) ''crate::Category::Memory''"
    by (rule generate_TBL_contains(3), simp only: generated_rows_open_mmap, rule contains_append, rule disjI2, rule contains_append,
        rule disjI2, rule contains_append, rule disjI1) (simp add: exec)
  moreover have "contains (generate TBL) (''name: '' @ quoted ''getpid'' @ '', category: crate::Category::Process, args: &[]'')"
    "contains (generate TBL) ''args: &[]''"
    by (rule generate_TBL_contains(4), simp only: generated_rows, simp add: exec)+
  moreover have "contains (generate TBL) (''name: '' @ quoted ''nodecode_syscall'')"
    by (rule generate_TBL_contains(5), simp only: generated_rows, simp add: exec)
  ultimately show "passes emits_count_and_entries" "passes known_syscall_gets_typed_args" "passes unknown_syscalls_empty_args"
    by (simp_all only: emits_count_and_entries_def known_syscall_gets_typed_args_def unknown_syscalls_empty_args_def Let_def passes_def simp_thms)
qed

lemma generate_TBL: "generate TBL = header (length (parse_tbl TBL)) @ generate_row (row 0 Common ''read'' (Some ''sys_read''))
   @ generate_row (row 2 Common ''open'' (Some ''sys_open''))
   @ generate_row (row 9 Common ''mmap'' (Some ''sys_mmap'')) @ generate_row (row 39 Common ''getpid'' (Some ''sys_getpid''))
   @ generate_row (row 999 Common ''nodecode_syscall'' (Some ''sys_nodecode'')) @ ''];'' @ [newline]"
  by (simp add: generate_def parse_TBL Let_def newline_def)

lemma rendered_args:
  "render_args ''open'' = ''&[crate::ArgInfo { name: '' @ quoted ''filename'' @ '', ty: crate::ArgType::Path }, crate::ArgInfo { name: ''
     @ quoted ''flags'' @ '', ty: crate::ArgType::Flags }, crate::ArgInfo { name: '' @ quoted ''mode'' @ '', ty: crate::ArgType::Int }]''"
  "render_args ''mmap'' = ''&[crate::ArgInfo { name: '' @ quoted ''addr'' @ '', ty: crate::ArgType::Ptr }, crate::ArgInfo { name: ''
     @ quoted ''len'' @ '', ty: crate::ArgType::Size }, crate::ArgInfo { name: '' @ quoted ''prot'' @ '', ty: crate::ArgType::Flags }, crate::ArgInfo { name: ''
     @ quoted ''flags'' @ '', ty: crate::ArgType::Flags }, crate::ArgInfo { name: '' @ quoted ''fd'' @ '', ty: crate::ArgType::Fd }, crate::ArgInfo { name: ''
     @ quoted ''off'' @ '', ty: crate::ArgType::Offset }]''"
  by (simp_all only: render_args_def tested_metas option.case) (simp_all add: syscall_row_def a_meta_def exec)

lemma header_5: "header (length (parse_tbl TBL)) = header 5"
  by (simp add: parse_TBL eval_nat_numeral)

lemma no_name_in_header: "no_occ (header (length (parse_tbl TBL))) t (''name: '' @ s)"
  by (simp only: header_5) (simp add: exec starts_with_Cons)

lemma no_occ_rows:
  "no_occ (generate_row (row 0 Common ''read'' x)) t (''name: '' @ quoted ''mmap'')"
  "no_occ (generate_row (row 0 Common ''read'' x)) t (''name: '' @ quoted ''getpid'')"
  "no_occ (generate_row (row 2 Common ''open'' x)) t (''name: '' @ quoted ''mmap'')"
  "no_occ (generate_row (row 2 Common ''open'' x)) t (''name: '' @ quoted ''getpid'')"
  "no_occ (generate_row (row 9 Common ''mmap'' x)) t (''name: '' @ quoted ''getpid'')"
  by (simp only: generated_rows generated_rows_open_mmap rendered_args, simp add: quoted_def newline_def starts_with_Cons)+

abbreviation row_start :: string where
  "row_start \<equiv> ''    crate::SyscallInfo { number: ''"

lemma TBL_positions:
  "find_str (generate TBL) (''name: '' @ quoted ''read'') = Some (length (header 5) + 36)"
  "find_str (generate TBL) (''name: '' @ quoted ''mmap'')
     = Some (length (header 5) + length (generate_row (row 0 Common ''read'' (Some ''sys_read'')))
         + length (generate_row (row 2 Common ''open'' (Some ''sys_open''))) + 36)"
  "find_str (generate TBL) (''name: '' @ quoted ''getpid'')
     = Some (length (header 5) + length (generate_row (row 0 Common ''read'' (Some ''sys_read'')))
         + length (generate_row (row 2 Common ''open'' (Some ''sys_open'')))
         + length (generate_row (row 9 Common ''mmap'' (Some ''sys_mmap''))) + 37)"
proof -
  let ?h = "header (length (parse_tbl TBL))" and ?r0 = "generate_row (row 0 Common ''read'' (Some ''sys_read''))"
  let ?r2 = "generate_row (row 2 Common ''open'' (Some ''sys_open''))" and ?r9 = "generate_row (row 9 Common ''mmap'' (Some ''sys_mmap''))"
  note row_text = generated_rows generated_rows_open_mmap
  obtain b where b: "generate TBL = (?h @ row_start @ ''0, '') @ (''name: '' @ quoted ''read'') @ b"
    by (simp add: generate_TBL generated_rows)
  have "find_str (generate TBL) (''name: '' @ quoted ''read'') = Some (length (?h @ row_start @ ''0, ''))"
    by (simp only: b, rule find_str_at, simp only: no_occ_append no_name_in_header simp_thms) (simp add: starts_with_Cons)
  then show "find_str (generate TBL) (''name: '' @ quoted ''read'') = Some (length (header 5) + 36)"
    by (simp add: header_5)
  obtain b where b: "generate TBL = (?h @ ?r0 @ ?r2 @ row_start @ ''9, '') @ (''name: '' @ quoted ''mmap'') @ b"
    by (simp add: generate_TBL generated_rows_open_mmap)
  have "find_str (generate TBL) (''name: '' @ quoted ''mmap'') = Some (length (?h @ ?r0 @ ?r2 @ row_start @ ''9, ''))"
    by (simp only: b, rule find_str_at, simp only: no_occ_append no_occ_rows no_name_in_header simp_thms) (simp add: starts_with_Cons)
  then show "find_str (generate TBL) (''name: '' @ quoted ''mmap'')
     = Some (length (header 5) + length ?r0 + length ?r2 + 36)"
    by (simp add: header_5)
  obtain b where b: "generate TBL = (?h @ ?r0 @ ?r2 @ ?r9 @ row_start @ ''39, '') @ (''name: '' @ quoted ''getpid'') @ b"
    by (simp add: generate_TBL generated_rows)
  have "find_str (generate TBL) (''name: '' @ quoted ''getpid'') = Some (length (?h @ ?r0 @ ?r2 @ ?r9 @ row_start @ ''39, ''))"
    by (simp only: b, rule find_str_at, simp only: no_occ_append no_occ_rows no_name_in_header simp_thms) (simp add: starts_with_Cons)
  then show "find_str (generate TBL) (''name: '' @ quoted ''getpid'')
     = Some (length (header 5) + length ?r0 + length ?r2 + length ?r9 + 37)"
    by (simp add: header_5)
qed

lemma order_test_passes: "passes output_is_sorted_by_number"
proof -
  have "0 < length (generate_row (row 0 Common ''read'' (Some ''sys_read'')))" by (simp add: generated_rows)
  then show ?thesis by (simp only: passes_def output_is_sorted_by_number_def Let_def TBL_positions Option.bind.simps) simp
qed

lemma parse_TBL_2:
  "parse_tbl TBL_2 = [row 0 Common ''read'' (Some ''sys_read''), row 1 Common ''write'' (Some ''sys_write'')]"
proof -
  let ?ls = "[join [CHR 0x09] [''0'', ''common'', ''read'', ''sys_read''], join [CHR 0x09] [''1'', ''common'', ''write'', ''sys_write'']]"
  have "parse_tbl TBL_2 = sort_key ent_number (filter (\<lambda>e. ent_abi e \<noteq> X32) (List.map_filter parse_line ?ls))"
    by (rule parse_tbl_lines) (simp_all add: TBL_2_def tab_row_def newline_def)
  then show ?thesis by (simp only: List.map_filter_simps parse_tab_rows option.case) (simp add: row_def)
qed

lemma consistency_test_passes: "passes generate_is_consistent_with_parse"
proof -
  have "contains (generate TBL_2) (''SYSCALL_COUNT: usize = '' @ dec (length (parse_tbl TBL_2)))"
    by (rule generate_contains(1), simp only: parse_TBL_2) (simp add: exec)
  moreover have "contains (generate TBL_2) (''name: '' @ debug_str (ent_name e))" if "e \<in> set (parse_tbl TBL_2)" for e
  proof (rule generate_contains(2) [OF that])
    show "contains (generate_row e) (''name: '' @ debug_str (ent_name e))"
      unfolding contains_iff generate_row_def
      by (rule exI [of _ "''    crate::SyscallInfo { number: '' @ dec (unat (ent_number e)) @ '', ''"], rule exI, simp)
  qed
  ultimately show ?thesis
    by (simp add: passes_def generate_is_consistent_with_parse_def Let_def list_all_iff)
qed

end
