(* ===== verification/Tests_Common.thy ===== *)
theory Tests_Common
  imports Test_Support Common_Record
begin

section \<open>The tests of \<^verbatim>\<open>syren-common\<close>\<close>

text \<open>
  The tests of the syscall table, of error numbers, signals and events.  The tests look calls up
  by name in the shipped table: the first part proves what the lookups return for those names.
\<close>

subsection \<open>The rows of the shipped table the tests use\<close>

definition arg_meta_of :: "string \<times> arg_type \<Rightarrow> arg_info" where
  "arg_meta_of a = \<lparr>ai_name = fst a, ai_ty = snd a\<rparr>"

definition row_info :: "u32 \<Rightarrow> string \<Rightarrow> category \<Rightarrow> (string \<times> arg_type) list \<Rightarrow> syscall_info" where
  "row_info n nm c as = \<lparr>si_number = n, si_name = nm, si_category = c, si_args = map arg_meta_of as\<rparr>"

definition row_read :: syscall_info where
  "row_read = row_info 0 ''read'' Fs [(''fd'', TyFd), (''buf'', TyBuf), (''count'', TySize)]"

definition row_write :: syscall_info where
  "row_write = row_info 1 ''write'' Fs [(''fd'', TyFd), (''buf'', TyBuf), (''count'', TySize)]"

definition row_open :: syscall_info where
  "row_open = row_info 2 ''open'' Fs [(''filename'', TyPath), (''flags'', TyFlags), (''mode'', TyInt)]"

definition row_close :: syscall_info where
  "row_close = row_info 3 ''close'' Fs [(''fd'', TyFd)]"

definition row_mmap :: syscall_info where
  "row_mmap = row_info 9 ''mmap'' Memory [(''addr'', TyPtr), (''len'', TySize), (''prot'', TyFlags), (''flags'', TyFlags), (''fd'', TyFd), (''off'', TyOffset)]"

definition row_access :: syscall_info where
  "row_access = row_info 21 ''access'' Fs [(''filename'', TyPath), (''mode'', TyInt)]"

definition row_getpid :: syscall_info where
  "row_getpid = row_info 39 ''getpid'' Process []"

definition row_socket :: syscall_info where
  "row_socket = row_info 41 ''socket'' Net [(''family'', TyInt), (''type'', TyInt), (''protocol'', TyInt)]"

definition row_connect :: syscall_info where
  "row_connect = row_info 42 ''connect'' Net [(''fd'', TyFd), (''uservaddr'', TyPtr), (''addrlen'', TyInt)]"

definition row_setsockopt :: syscall_info where
  "row_setsockopt = row_info 54 ''setsockopt'' Net [(''fd'', TyFd), (''level'', TyInt), (''optname'', TyInt), (''optval'', TyPtr), (''optlen'', TyInt)]"

definition row_execve :: syscall_info where
  "row_execve = row_info 59 ''execve'' Process [(''filename'', TyPath), (''argv'', TyPtr), (''envp'', TyPtr)]"

definition row_exit :: syscall_info where
  "row_exit = row_info 60 ''exit'' Process [(''status'', TyInt)]"

definition row_kill :: syscall_info where
  "row_kill = row_info 62 ''kill'' Signal [(''pid'', TyInt), (''sig'', TyInt)]"

definition row_openat :: syscall_info where
  "row_openat = row_info 257 ''openat'' Fs [(''dfd'', TyFd), (''filename'', TyPath), (''flags'', TyFlags), (''mode'', TyInt)]"

definition row_execveat :: syscall_info where
  "row_execveat = row_info 322 ''execveat'' Process [(''dfd'', TyFd), (''filename'', TyPath), (''argv'', TyPtr), (''envp'', TyPtr), (''flags'', TyFlags)]"

lemmas hot_info_defs = row_read_def row_write_def row_open_def row_close_def row_mmap_def row_access_def row_getpid_def row_socket_def row_connect_def row_setsockopt_def row_execve_def row_exit_def row_kill_def row_openat_def row_execveat_def

definition hot_rows :: "(syscall_entry \<times> syscall_info) list" where
  "hot_rows = [
    (row 0 Common ''read'' (Some ''sys_read''), row_read),
    (row 1 Common ''write'' (Some ''sys_write''), row_write),
    (row 2 Common ''open'' (Some ''sys_open''), row_open),
    (row 3 Common ''close'' (Some ''sys_close''), row_close),
    (row 9 Common ''mmap'' (Some ''sys_mmap''), row_mmap),
    (row 21 Common ''access'' (Some ''sys_access''), row_access),
    (row 39 Common ''getpid'' (Some ''sys_getpid''), row_getpid),
    (row 41 Common ''socket'' (Some ''sys_socket''), row_socket),
    (row 42 Common ''connect'' (Some ''sys_connect''), row_connect),
    (row 54 B64 ''setsockopt'' (Some ''sys_setsockopt''), row_setsockopt),
    (row 59 B64 ''execve'' (Some ''sys_execve''), row_execve),
    (row 60 Common ''exit'' (Some ''sys_exit''), row_exit),
    (row 62 Common ''kill'' (Some ''sys_kill''), row_kill),
    (row 257 Common ''openat'' (Some ''sys_openat''), row_openat),
    (row 322 B64 ''execveat'' (Some ''sys_execveat''), row_execveat)
  ]"

lemma denotes_read: "info_of (row 0 Common ''read'' (Some ''sys_read'')) = Some row_read"
proof -
  have "syscall_row ''read'' [(''fd'', ''Fd''), (''buf'', ''Buf''), (''count'', ''Size'')] \<in> set METADATA"
    by (simp only: METADATA_def list.set insert_iff simp_thms)
  from meta_row [OF this] show ?thesis
    by (simp add: info_of_def args_of_def row_def)
      (simp add: row_read_def row_info_def arg_meta_of_def syscall_row_def a_meta_def arg_info_of_def arg_type_of_ident_def exec del: METADATA_def)
qed

lemma denotes_write: "info_of (row 1 Common ''write'' (Some ''sys_write'')) = Some row_write"
proof -
  have "syscall_row ''write'' [(''fd'', ''Fd''), (''buf'', ''Buf''), (''count'', ''Size'')] \<in> set METADATA"
    by (simp only: METADATA_def list.set insert_iff simp_thms)
  from meta_row [OF this] show ?thesis
    by (simp add: info_of_def args_of_def row_def)
      (simp add: row_write_def row_info_def arg_meta_of_def syscall_row_def a_meta_def arg_info_of_def arg_type_of_ident_def exec del: METADATA_def)
qed

lemma denotes_open: "info_of (row 2 Common ''open'' (Some ''sys_open'')) = Some row_open"
proof -
  have "syscall_row ''open'' [(''filename'', ''Path''), (''flags'', ''Flags''), (''mode'', ''Int'')] \<in> set METADATA"
    by (simp only: METADATA_def list.set insert_iff simp_thms)
  from meta_row [OF this] show ?thesis
    by (simp add: info_of_def args_of_def row_def)
      (simp add: row_open_def row_info_def arg_meta_of_def syscall_row_def a_meta_def arg_info_of_def arg_type_of_ident_def exec del: METADATA_def)
qed

lemma denotes_close: "info_of (row 3 Common ''close'' (Some ''sys_close'')) = Some row_close"
proof -
  have "syscall_row ''close'' [(''fd'', ''Fd'')] \<in> set METADATA"
    by (simp only: METADATA_def list.set insert_iff simp_thms)
  from meta_row [OF this] show ?thesis
    by (simp add: info_of_def args_of_def row_def)
      (simp add: row_close_def row_info_def arg_meta_of_def syscall_row_def a_meta_def arg_info_of_def arg_type_of_ident_def exec del: METADATA_def)
qed

lemma denotes_mmap: "info_of (row 9 Common ''mmap'' (Some ''sys_mmap'')) = Some row_mmap"
proof -
  have "syscall_row ''mmap'' [(''addr'', ''Ptr''), (''len'', ''Size''), (''prot'', ''Flags''), (''flags'', ''Flags''), (''fd'', ''Fd''), (''off'', ''Offset'')] \<in> set METADATA"
    by (simp only: METADATA_def list.set insert_iff simp_thms)
  from meta_row [OF this] show ?thesis
    by (simp add: info_of_def args_of_def row_def)
      (simp add: row_mmap_def row_info_def arg_meta_of_def syscall_row_def a_meta_def arg_info_of_def arg_type_of_ident_def exec del: METADATA_def)
qed

lemma denotes_access: "info_of (row 21 Common ''access'' (Some ''sys_access'')) = Some row_access"
proof -
  have "syscall_row ''access'' [(''filename'', ''Path''), (''mode'', ''Int'')] \<in> set METADATA"
    by (simp only: METADATA_def list.set insert_iff simp_thms)
  from meta_row [OF this] show ?thesis
    by (simp add: info_of_def args_of_def row_def)
      (simp add: row_access_def row_info_def arg_meta_of_def syscall_row_def a_meta_def arg_info_of_def arg_type_of_ident_def exec del: METADATA_def)
qed

lemma denotes_getpid: "info_of (row 39 Common ''getpid'' (Some ''sys_getpid'')) = Some row_getpid"
proof -
  have "syscall_row ''getpid'' [] \<in> set METADATA"
    by (simp only: METADATA_def list.set insert_iff simp_thms)
  from meta_row [OF this] show ?thesis
    by (simp add: info_of_def args_of_def row_def)
      (simp add: row_getpid_def row_info_def arg_meta_of_def syscall_row_def a_meta_def arg_info_of_def arg_type_of_ident_def exec del: METADATA_def)
qed

lemma denotes_socket: "info_of (row 41 Common ''socket'' (Some ''sys_socket'')) = Some row_socket"
proof -
  have "syscall_row ''socket'' [(''family'', ''Int''), (''type'', ''Int''), (''protocol'', ''Int'')] \<in> set METADATA"
    by (simp only: METADATA_def list.set insert_iff simp_thms)
  from meta_row [OF this] show ?thesis
    by (simp add: info_of_def args_of_def row_def)
      (simp add: row_socket_def row_info_def arg_meta_of_def syscall_row_def a_meta_def arg_info_of_def arg_type_of_ident_def exec del: METADATA_def)
qed

lemma denotes_connect: "info_of (row 42 Common ''connect'' (Some ''sys_connect'')) = Some row_connect"
proof -
  have "syscall_row ''connect'' [(''fd'', ''Fd''), (''uservaddr'', ''Ptr''), (''addrlen'', ''Int'')] \<in> set METADATA"
    by (simp only: METADATA_def list.set insert_iff simp_thms)
  from meta_row [OF this] show ?thesis
    by (simp add: info_of_def args_of_def row_def)
      (simp add: row_connect_def row_info_def arg_meta_of_def syscall_row_def a_meta_def arg_info_of_def arg_type_of_ident_def exec del: METADATA_def)
qed

lemma denotes_setsockopt: "info_of (row 54 B64 ''setsockopt'' (Some ''sys_setsockopt'')) = Some row_setsockopt"
proof -
  have "syscall_row ''setsockopt'' [(''fd'', ''Fd''), (''level'', ''Int''), (''optname'', ''Int''), (''optval'', ''Ptr''), (''optlen'', ''Int'')] \<in> set METADATA"
    by (simp only: METADATA_def list.set insert_iff simp_thms)
  from meta_row [OF this] show ?thesis
    by (simp add: info_of_def args_of_def row_def)
      (simp add: row_setsockopt_def row_info_def arg_meta_of_def syscall_row_def a_meta_def arg_info_of_def arg_type_of_ident_def exec del: METADATA_def)
qed

lemma denotes_execve: "info_of (row 59 B64 ''execve'' (Some ''sys_execve'')) = Some row_execve"
proof -
  have "syscall_row ''execve'' [(''filename'', ''Path''), (''argv'', ''Ptr''), (''envp'', ''Ptr'')] \<in> set METADATA"
    by (simp only: METADATA_def list.set insert_iff simp_thms)
  from meta_row [OF this] show ?thesis
    by (simp add: info_of_def args_of_def row_def)
      (simp add: row_execve_def row_info_def arg_meta_of_def syscall_row_def a_meta_def arg_info_of_def arg_type_of_ident_def exec del: METADATA_def)
qed

lemma denotes_exit: "info_of (row 60 Common ''exit'' (Some ''sys_exit'')) = Some row_exit"
proof -
  have "syscall_row ''exit'' [(''status'', ''Int'')] \<in> set METADATA"
    by (simp only: METADATA_def list.set insert_iff simp_thms)
  from meta_row [OF this] show ?thesis
    by (simp add: info_of_def args_of_def row_def)
      (simp add: row_exit_def row_info_def arg_meta_of_def syscall_row_def a_meta_def arg_info_of_def arg_type_of_ident_def exec del: METADATA_def)
qed

lemma denotes_kill: "info_of (row 62 Common ''kill'' (Some ''sys_kill'')) = Some row_kill"
proof -
  have "syscall_row ''kill'' [(''pid'', ''Int''), (''sig'', ''Int'')] \<in> set METADATA"
    by (simp only: METADATA_def list.set insert_iff simp_thms)
  from meta_row [OF this] show ?thesis
    by (simp add: info_of_def args_of_def row_def)
      (simp add: row_kill_def row_info_def arg_meta_of_def syscall_row_def a_meta_def arg_info_of_def arg_type_of_ident_def exec del: METADATA_def)
qed

lemma denotes_openat: "info_of (row 257 Common ''openat'' (Some ''sys_openat'')) = Some row_openat"
proof -
  have "syscall_row ''openat'' [(''dfd'', ''Fd''), (''filename'', ''Path''), (''flags'', ''Flags''), (''mode'', ''Int'')] \<in> set METADATA"
    by (simp only: METADATA_def list.set insert_iff simp_thms)
  from meta_row [OF this] show ?thesis
    by (simp add: info_of_def args_of_def row_def)
      (simp add: row_openat_def row_info_def arg_meta_of_def syscall_row_def a_meta_def arg_info_of_def arg_type_of_ident_def exec del: METADATA_def)
qed

lemma denotes_execveat: "info_of (row 322 B64 ''execveat'' (Some ''sys_execveat'')) = Some row_execveat"
proof -
  have "syscall_row ''execveat'' [(''dfd'', ''Fd''), (''filename'', ''Path''), (''argv'', ''Ptr''), (''envp'', ''Ptr''), (''flags'', ''Flags'')] \<in> set METADATA"
    by (simp only: METADATA_def list.set insert_iff simp_thms)
  from meta_row [OF this] show ?thesis
    by (simp add: info_of_def args_of_def row_def)
      (simp add: row_execveat_def row_info_def arg_meta_of_def syscall_row_def a_meta_def arg_info_of_def arg_type_of_ident_def exec del: METADATA_def)
qed

lemma hot_rows_denote: "list_all (\<lambda>(e, i). info_of e = Some i) hot_rows"
  by (simp only: hot_rows_def list.pred_inject prod.case simp_thms denotes_read denotes_write denotes_open denotes_close denotes_mmap denotes_access denotes_getpid denotes_socket denotes_connect denotes_setsockopt denotes_execve denotes_exit denotes_kill denotes_openat denotes_execveat)

lemma rows_subset:
  "set rows_1 \<union> set rows_2 \<union> set rows_3 \<union> set rows_8 \<union> set rows_10 \<subseteq> set SYSCALL_ROWS"
  unfolding SYSCALL_ROWS_def by auto

lemma hot_rows_mem: "list_all (\<lambda>(e, i). e \<in> set (kept SYSCALL_ROWS)) hot_rows"
proof -
  have "list_all (\<lambda>(e, i). e \<in> set rows_1 \<union> set rows_2 \<union> set rows_3 \<union> set rows_8 \<union> set rows_10 \<and> ent_abi e \<noteq> X32) hot_rows"
  proof -
    have "list_all (\<lambda>(e, i). e \<in> set rows_1 \<union> set rows_2 \<union> set rows_3 \<union> set rows_8 \<union> set rows_10) hot_rows"
      by (simp only: hot_rows_def rows_1_def rows_2_def rows_3_def rows_8_def rows_10_def list.pred_inject prod.case list.set
          Un_iff insert_iff simp_thms)
    moreover have "list_all (\<lambda>(e, i). ent_abi e \<noteq> X32) hot_rows" by (simp add: hot_rows_def row_def)
    ultimately show ?thesis by (auto simp: list_all_iff)
  qed
  then show ?thesis using rows_subset by (auto simp: list_all_iff kept_def)
qed

lemma hot_found:
  assumes "(e, i) \<in> set hot_rows"
  shows "syscall_by_number SYSCALLS (si_number i) = Some i" "syscall_by_name SYSCALLS (si_name i) = Some i" "i \<in> set SYSCALLS"
proof -
  show i: "i \<in> set SYSCALLS"
    using assms hot_rows_denote hot_rows_mem by (auto simp: list_all_iff intro!: SYSCALLS_mem [of e])
  then show "syscall_by_number SYSCALLS (si_number i) = Some i" by (simp add: syscall_by_number_iff [OF SYSCALLS_sorted])
  from i show "syscall_by_name SYSCALLS (si_name i) = Some i"
    using find_key_unique [OF SYSCALLS_distinct_names, of i] by (simp add: syscall_by_name_def)
qed

lemma hot_mem:
  "(row 0 Common ''read'' (Some ''sys_read''), row_read) \<in> set hot_rows"
  "(row 1 Common ''write'' (Some ''sys_write''), row_write) \<in> set hot_rows"
  "(row 2 Common ''open'' (Some ''sys_open''), row_open) \<in> set hot_rows"
  "(row 3 Common ''close'' (Some ''sys_close''), row_close) \<in> set hot_rows"
  "(row 9 Common ''mmap'' (Some ''sys_mmap''), row_mmap) \<in> set hot_rows"
  "(row 21 Common ''access'' (Some ''sys_access''), row_access) \<in> set hot_rows"
  "(row 39 Common ''getpid'' (Some ''sys_getpid''), row_getpid) \<in> set hot_rows"
  "(row 41 Common ''socket'' (Some ''sys_socket''), row_socket) \<in> set hot_rows"
  "(row 42 Common ''connect'' (Some ''sys_connect''), row_connect) \<in> set hot_rows"
  "(row 54 B64 ''setsockopt'' (Some ''sys_setsockopt''), row_setsockopt) \<in> set hot_rows"
  "(row 59 B64 ''execve'' (Some ''sys_execve''), row_execve) \<in> set hot_rows"
  "(row 60 Common ''exit'' (Some ''sys_exit''), row_exit) \<in> set hot_rows"
  "(row 62 Common ''kill'' (Some ''sys_kill''), row_kill) \<in> set hot_rows"
  "(row 257 Common ''openat'' (Some ''sys_openat''), row_openat) \<in> set hot_rows"
  "(row 322 B64 ''execveat'' (Some ''sys_execveat''), row_execveat) \<in> set hot_rows"
  by (simp_all only: hot_rows_def list.set insert_iff simp_thms)

lemma hot_fields:
  "si_number row_read = 0" "si_name row_read = ''read''"
  "si_number row_write = 1" "si_name row_write = ''write''"
  "si_number row_open = 2" "si_name row_open = ''open''"
  "si_number row_close = 3" "si_name row_close = ''close''"
  "si_number row_mmap = 9" "si_name row_mmap = ''mmap''"
  "si_number row_access = 21" "si_name row_access = ''access''"
  "si_number row_getpid = 39" "si_name row_getpid = ''getpid''"
  "si_number row_socket = 41" "si_name row_socket = ''socket''"
  "si_number row_connect = 42" "si_name row_connect = ''connect''"
  "si_number row_setsockopt = 54" "si_name row_setsockopt = ''setsockopt''"
  "si_number row_execve = 59" "si_name row_execve = ''execve''"
  "si_number row_exit = 60" "si_name row_exit = ''exit''"
  "si_number row_kill = 62" "si_name row_kill = ''kill''"
  "si_number row_openat = 257" "si_name row_openat = ''openat''"
  "si_number row_execveat = 322" "si_name row_execveat = ''execveat''"
  by (simp_all add: hot_info_defs row_info_def)

lemma by_name:
  "syscall_by_name SYSCALLS ''read'' = Some row_read"
  "syscall_by_name SYSCALLS ''write'' = Some row_write"
  "syscall_by_name SYSCALLS ''open'' = Some row_open"
  "syscall_by_name SYSCALLS ''close'' = Some row_close"
  "syscall_by_name SYSCALLS ''mmap'' = Some row_mmap"
  "syscall_by_name SYSCALLS ''access'' = Some row_access"
  "syscall_by_name SYSCALLS ''getpid'' = Some row_getpid"
  "syscall_by_name SYSCALLS ''socket'' = Some row_socket"
  "syscall_by_name SYSCALLS ''connect'' = Some row_connect"
  "syscall_by_name SYSCALLS ''setsockopt'' = Some row_setsockopt"
  "syscall_by_name SYSCALLS ''execve'' = Some row_execve"
  "syscall_by_name SYSCALLS ''exit'' = Some row_exit"
  "syscall_by_name SYSCALLS ''kill'' = Some row_kill"
  "syscall_by_name SYSCALLS ''openat'' = Some row_openat"
  "syscall_by_name SYSCALLS ''execveat'' = Some row_execveat"
  using hot_mem [THEN hot_found(2), unfolded hot_fields] by simp_all

lemma by_number:
  "syscall_by_number SYSCALLS 0 = Some row_read"
  "syscall_by_number SYSCALLS 1 = Some row_write"
  "syscall_by_number SYSCALLS 2 = Some row_open"
  "syscall_by_number SYSCALLS 3 = Some row_close"
  "syscall_by_number SYSCALLS 9 = Some row_mmap"
  "syscall_by_number SYSCALLS 21 = Some row_access"
  "syscall_by_number SYSCALLS 39 = Some row_getpid"
  "syscall_by_number SYSCALLS 41 = Some row_socket"
  "syscall_by_number SYSCALLS 42 = Some row_connect"
  "syscall_by_number SYSCALLS 54 = Some row_setsockopt"
  "syscall_by_number SYSCALLS 59 = Some row_execve"
  "syscall_by_number SYSCALLS 60 = Some row_exit"
  "syscall_by_number SYSCALLS 62 = Some row_kill"
  "syscall_by_number SYSCALLS 257 = Some row_openat"
  "syscall_by_number SYSCALLS 322 = Some row_execveat"
  using hot_mem [THEN hot_found(1), unfolded hot_fields] by simp_all

subsection \<open>\<^verbatim>\<open>lib.rs\<close>\<close>

text \<open>The count the generated file declares.\<close>

definition SYSCALL_COUNT :: nat where
  "SYSCALL_COUNT = length (parse_tbl SYSCALL_64_TBL)"

definition table_is_populated_and_sorted :: "bool option" where
  "table_is_populated_and_sorted = Some
     (length SYSCALLS = SYSCALL_COUNT \<and> length SYSCALLS \<ge> 300
      \<and> list_all (\<lambda>(a, b). si_number a < si_number b) (zip SYSCALLS (tl SYSCALLS)))"

definition canonical_numbers_correct :: "bool option" where
  "canonical_numbers_correct = do {
     r \<leftarrow> syscall_by_name SYSCALLS ''read''; w \<leftarrow> syscall_by_name SYSCALLS ''write'';
     op \<leftarrow> syscall_by_name SYSCALLS ''open''; c \<leftarrow> syscall_by_name SYSCALLS ''close'';
     m \<leftarrow> syscall_by_name SYSCALLS ''mmap''; ex \<leftarrow> syscall_by_name SYSCALLS ''execve'';
     et \<leftarrow> syscall_by_name SYSCALLS ''exit''; oa \<leftarrow> syscall_by_name SYSCALLS ''openat'';
     Some (si_number r = 0 \<and> si_number w = 1 \<and> si_number op = 2 \<and> si_number c = 3 \<and> si_number m = 9
       \<and> si_number ex = 59 \<and> si_number et = 60 \<and> si_number oa = 257)
   }"

definition lookup_round_trips :: "bool option" where
  "lookup_round_trips =
     map_option (list_all id)
       (those (map (\<lambda>s. map_option (\<lambda>f. si_name f = si_name s) (syscall_by_number SYSCALLS (si_number s))) SYSCALLS))"

definition categories_are_assigned :: "bool option" where
  "categories_are_assigned = do {
     oa \<leftarrow> syscall_by_name SYSCALLS ''openat''; c \<leftarrow> syscall_by_name SYSCALLS ''connect'';
     m \<leftarrow> syscall_by_name SYSCALLS ''mmap'';
     Some (si_category oa = Fs \<and> si_category c = Net \<and> si_category m = Memory)
   }"

definition typed_args_present_for_hot_syscalls :: "bool option" where
  "typed_args_present_for_hot_syscalls = do {
     read \<leftarrow> syscall_by_name SYSCALLS ''read'';
     Some (length (si_args read) = 3 \<and> ai_ty (si_args read ! 0) = TyFd)
   }"

definition unknown_number_placeholder :: "bool option" where
  "unknown_number_placeholder = Some
     (syscall_name SYSCALLS 999999 = ''syscall_999999'' \<and> syscall_name SYSCALLS 0 = ''read'')"

definition category_parse_round_trips :: "bool option" where
  "category_parse_round_trips = Some
     (list_all (\<lambda>c. category_parse (as_str c) = Some c) ALL_CATEGORIES
      \<and> category_parse ''NET'' = Some Net \<and> category_parse ''nonsense'' = None)"

lemma ascending_pairs: "sorted_wrt P xs \<Longrightarrow> list_all (\<lambda>(a, b). P a b) (zip xs (tl xs))"
proof (induction xs)
  case (Cons x xs)
  then show ?case by (cases xs) auto
qed simp

lemma populated_test_passes: "passes table_is_populated_and_sorted"
  using ascending_pairs [OF SYSCALLS_sorted [unfolded table_sorted_def]]
  by (simp add: passes_def table_is_populated_and_sorted_def SYSCALL_COUNT_def parse_tbl_data SYSCALLS_length rows_count)

lemma those_total: "list_all (\<lambda>x. f x = Some (g x)) xs \<Longrightarrow> those (map f xs) = Some (map g xs)"
  by (induction xs) auto

lemma round_trip_test_passes: "passes lookup_round_trips"
proof -
  have "list_all (\<lambda>s. map_option (\<lambda>f. si_name f = si_name s) (syscall_by_number SYSCALLS (si_number s)) = Some True) SYSCALLS"
    by (auto simp: list_all_iff syscall_by_number_iff [OF SYSCALLS_sorted])
  from those_total [OF this] show ?thesis by (simp add: passes_def lookup_round_trips_def list_all_iff)
qed

lemma lookup_tests_pass:
  "passes canonical_numbers_correct" "passes categories_are_assigned" "passes typed_args_present_for_hot_syscalls"
  by (simp_all add: passes_def canonical_numbers_correct_def categories_are_assigned_def
      typed_args_present_for_hot_syscalls_def by_name hot_fields)
    (simp_all add: hot_info_defs row_info_def arg_meta_of_def)

lemma numbers_below: "list_all (\<lambda>e. ent_number e < 512) (kept SYSCALL_ROWS)"
proof -
  have "list_all (\<lambda>n. n < 512) (map ent_number (kept SYSCALL_ROWS))"
    by (simp only: SYSCALL_ROWS_def kept_append map_append numbers_blocks list_all_append) simp
  then show ?thesis by (simp add: list.pred_map comp_def)
qed

lemma SYSCALLS_below: "s \<in> set SYSCALLS \<Longrightarrow> si_number s < 512"
proof -
  assume "s \<in> set SYSCALLS"
  then have "si_number s \<in> set (map ent_number (kept SYSCALL_ROWS))" by (simp flip: SYSCALLS_numbers)
  with numbers_below show ?thesis by (auto simp: list_all_iff)
qed

lemma unknown_number: "syscall_by_number SYSCALLS 999999 = None"
proof (cases "syscall_by_number SYSCALLS 999999")
  case (Some s)
  then have "s \<in> set SYSCALLS" "si_number s = 999999" by (auto dest: syscall_by_number_SomeD)
  with SYSCALLS_below [of s] show ?thesis by simp
qed

lemma placeholder_test_passes: "passes unknown_number_placeholder"
  by (simp add: passes_def unknown_number_placeholder_def syscall_name_def u32_try_from_def unknown_number by_number hot_fields)
    (simp add: exec)

lemma category_test_passes: "passes category_parse_round_trips"
proof -
  have "category_parse ''NET'' = Some Net" "category_parse ''nonsense'' = None" by (simp_all add: exec)
  then show ?thesis by (simp add: passes_def category_parse_round_trips_def list_all_iff category_parse_as_str)
qed

subsection \<open>\<^verbatim>\<open>errno.rs\<close> and \<^verbatim>\<open>signal.rs\<close>\<close>

definition resolves_common_errnos :: "bool option" where
  "resolves_common_errnos = do {
     e \<leftarrow> errno 2; f \<leftarrow> errno 9; g \<leftarrow> errno 13; h \<leftarrow> errno 110;
     Some (en_name e = ''ENOENT'' \<and> en_description e = ''No such file or directory'' \<and> en_name f = ''EBADF''
       \<and> en_name g = ''EACCES'' \<and> en_name h = ''ETIMEDOUT'')
   }"

definition unknown_and_gap_codes_are_none :: "bool option" where
  "unknown_and_gap_codes_are_none = Some (errno 0 = None \<and> errno 41 = None \<and> errno 58 = None \<and> errno 9999 = None)"

definition number_is_preserved :: "bool option" where
  "number_is_preserved = map_option (\<lambda>e. en_number e = 110) (errno 110)"

definition names_known_signals :: "bool option" where
  "names_known_signals = Some (signal_name 2 = Some ''SIGINT'' \<and> signal_name 9 = Some ''SIGKILL''
     \<and> signal_name 28 = Some ''SIGWINCH'' \<and> signal_name 31 = Some ''SIGSYS'')"

definition leaves_zero_and_realtime_unnamed :: "bool option" where
  "leaves_zero_and_realtime_unnamed = Some (signal_name 0 = None \<and> signal_name 34 = None \<and> signal_name 64 = None \<and> signal_name 99 = None)"

lemma tested_errnos:
  "map_of errno_table 2 = Some (''ENOENT'', ''No such file or directory'')" "map_of errno_table 9 = Some (''EBADF'', ''Bad file descriptor'')"
  "map_of errno_table 13 = Some (''EACCES'', ''Permission denied'')" "map_of errno_table 110 = Some (''ETIMEDOUT'', ''Connection timed out'')"
proof -
  have d: "distinct (map fst errno_table)" by (simp add: errno_table_keys)
  show "map_of errno_table 2 = Some (''ENOENT'', ''No such file or directory'')" "map_of errno_table 9 = Some (''EBADF'', ''Bad file descriptor'')"
    "map_of errno_table 13 = Some (''EACCES'', ''Permission denied'')" "map_of errno_table 110 = Some (''ETIMEDOUT'', ''Connection timed out'')"
    by (rule map_of_is_SomeI [OF d], simp only: errno_table_def list.set insert_iff simp_thms)+
qed

lemma errno_gaps: "k \<notin> set (map fst errno_table) \<longleftrightarrow> map_of errno_table k = None"
  by (simp add: map_of_eq_None_iff)

lemma errno_tests_pass:
  "passes resolves_common_errnos" "passes unknown_and_gap_codes_are_none" "passes number_is_preserved"
proof -
  have "map_of errno_table 0 = None" "map_of errno_table 41 = None" "map_of errno_table 58 = None" "map_of errno_table 9999 = None"
    by (simp_all only: errno_gaps [symmetric] errno_table_keys) simp_all
  then show "passes resolves_common_errnos" "passes unknown_and_gap_codes_are_none" "passes number_is_preserved"
    by (simp_all add: passes_def resolves_common_errnos_def unknown_and_gap_codes_are_none_def number_is_preserved_def
        errno_def name_and_desc_def tested_errnos)
qed

lemma signal_tests_pass: "passes names_known_signals" "passes leaves_zero_and_realtime_unnamed"
  by (simp_all add: passes_def names_known_signals_def leaves_zero_and_realtime_unnamed_def exec)

subsection \<open>\<^verbatim>\<open>event.rs\<close>\<close>

definition ev_of :: "u64 \<Rightarrow> i64 \<Rightarrow> syscall_event" where
  "ev_of nr retval = \<lparr>ev_pid = 1, ev_tid = 1, ev_nr = nr, ev_args = Args 0 0 0 0 0 0, ev_retval = retval,
     ev_ts_enter_ns = 0, ev_duration_ns = 0\<rparr>"

definition resolves_info_for_known_syscall :: "bool option" where
  "resolves_info_for_known_syscall = do {
     info \<leftarrow> event_info SYSCALLS (ev_of 0 0);
     Some (si_name info = ''read'' \<and> event_info SYSCALLS (ev_of 999999 0) = None)
   }"

definition error_detection :: "bool option" where
  "error_detection = Some
     (\<not> is_error (ev_of 0 5) \<and> \<not> is_error (ev_of 0 0) \<and> is_error (ev_of 0 (- 2)) \<and> event_errno (ev_of 0 (- 2)) = Some 2
      \<and> event_errno (ev_of 0 5) = None \<and> \<not> is_error (ev_of 9 (- 4096)))"

lemma u32_of_number: "u32_try_from (ucast (n :: u32)) = Some n"
proof -
  have n: "unat n < 2 ^ 32" using unsigned_less [of n] by simp
  then have "unat (ucast n :: u64) = unat n" by (simp add: unsigned_ucast_eq take_bit_nat_eq_self)
  moreover note n
  moreover have "ucast (ucast n :: u64) = n" by (rule bit_word_eqI) (simp add: bit_simps)
  ultimately show ?thesis by (simp add: u32_try_from_def)
qed

lemma event_tests_of_common_pass: "passes resolves_info_for_known_syscall" "passes error_detection"
  by (simp_all add: passes_def resolves_info_for_known_syscall_def error_detection_def event_info_def ev_of_def u32_try_from_def
      by_number hot_fields unknown_number is_error_def event_errno_def)

end
