(* ===== verification/Tests_Decode.thy ===== *)
theory Tests_Decode
  imports Tests_Common Decode_Lib
begin

section \<open>The tests of \<^verbatim>\<open>syren-decode\<close>\<close>

text \<open>
  The tests of the decoder and of its renderers, over the shipped table.
\<close>

text \<open>The mock memory of the tests: some bytes at some addresses.\<close>

fun mock_mem :: "(u64 \<times> u8 list) list \<Rightarrow> reader" where
  "mock_mem [] addr len = None"
| "mock_mem ((base, bytes) # ps) addr len =
     (if base \<le> addr \<and> unat addr < unat base + length bytes
      then Some (take len (drop (unat (addr - base)) bytes)) else mock_mem ps addr len)"

declare mock_mem.simps [exec]

text \<open>A text with its terminating zero.\<close>

definition c_text :: "string \<Rightarrow> u8 list" where
  "c_text s = byte_list s @ [0]"

declare c_text_def [exec]

subsection \<open>\<^verbatim>\<open>lib.rs\<close>\<close>

definition event_on :: "u32 \<Rightarrow> syscall_info \<Rightarrow> args6 \<Rightarrow> i64 \<Rightarrow> syscall_event" where
  "event_on p info as retval = \<lparr>ev_pid = p, ev_tid = p, ev_nr = ucast (si_number info), ev_args = as,
     ev_retval = retval, ev_ts_enter_ns = 0, ev_duration_ns = 0\<rparr>"

definition test_ev :: "string \<Rightarrow> args6 \<Rightarrow> i64 \<Rightarrow> syscall_event option" where
  "test_ev name as retval = map_option (\<lambda>info. event_on 7 info as retval) (syscall_by_name SYSCALLS name)"

definition openat_with_path_and_flags :: "bool option" where
  "openat_with_path_and_flags = do {
     let m = mock_mem [(0x2000, c_text ''/etc/passwd'')];
     e \<leftarrow> test_ev ''openat'' (Args (- 100) 0x2000 0x80000 0 0 0) 3;
     d \<leftarrow> decode SYSCALLS e m;
     Some (ds_name d = ''openat''
       \<and> signature d = ''openat(AT_FDCWD, '' @ quoted ''/etc/passwd'' @ '', O_RDONLY|O_CLOEXEC, 0)''
       \<and> retval_str d = ''3'' \<and> ds_error d = None)
   }"

definition error_return_strace_style :: "bool option" where
  "error_return_strace_style = do {
     let m = mock_mem [(0x3000, c_text ''/nope'')];
     e \<leftarrow> test_ev ''openat'' (Args (- 100) 0x3000 0 0 0 0) (- 2);
     d \<leftarrow> decode SYSCALLS e m;
     err \<leftarrow> ds_error d;
     Some (retval_str d = ''-1 ENOENT (No such file or directory)'' \<and> de_errno err = 2 \<and> de_name err = ''ENOENT'')
   }"

definition write_buffer_bounded_by_count :: "bool option" where
  "write_buffer_bounded_by_count = do {
     let m = mock_mem [(0x4000, byte_list ''hello world, this is a long line that exceeds the cap'')];
     e \<leftarrow> test_ev ''write'' (Args 1 0x4000 5 0 0 0) 5;
     d \<leftarrow> decode SYSCALLS e m;
     Some (signature d = ''write(1, '' @ quoted ''hello'' @ '', 5)'')
   }"

definition zero_extended_fd_sentinels_render_signed :: "bool option" where
  "zero_extended_fd_sentinels_render_signed = do {
     let m = mock_mem [(0x2000, c_text ''/x'')];
     e \<leftarrow> test_ev ''openat'' (Args 0xFFFFFF9C 0x2000 0 0 0 0) 3;
     d \<leftarrow> decode SYSCALLS e m;
     e' \<leftarrow> test_ev ''mmap'' (Args 0 4096 3 0x22 0xFFFFFFFF 0) 0x1000;
     d' \<leftarrow> decode SYSCALLS e' null_read;
     Some (signature d = ''openat(AT_FDCWD, '' @ quoted ''/x'' @ '', O_RDONLY, 0)''
       \<and> signature d' = ''mmap(NULL, 4096, PROT_READ|PROT_WRITE, MAP_PRIVATE|MAP_ANONYMOUS, -1, 0)'')
   }"

definition unreadable_pointer_falls_back_to_hex :: "bool option" where
  "unreadable_pointer_falls_back_to_hex = do {
     e \<leftarrow> test_ev ''openat'' (Args (- 100) 0xdead 0 0 0 0) (- 14);
     d \<leftarrow> decode SYSCALLS e null_read;
     Some (signature d = ''openat(AT_FDCWD, 0xdead, O_RDONLY, 0)'')
   }"

definition untyped_syscall_renders_registers_as_hex :: "bool option" where
  "untyped_syscall_renders_registers_as_hex = do {
     e \<leftarrow> test_ev ''getpid'' (Args 0 0 0 0 0 0) 1234;
     getpid \<leftarrow> decode SYSCALLS e null_read;
     Some (signature getpid = ''getpid()'' \<and> retval_str getpid = ''1234'')
   }"

definition mmap_return_is_hex :: "bool option" where
  "mmap_return_is_hex = do {
     e \<leftarrow> test_ev ''mmap'' (Args 0 4096 3 0x22 (- 1) 0) 0x7f001000;
     d \<leftarrow> decode SYSCALLS e null_read;
     Some (signature d = ''mmap(NULL, 4096, PROT_READ|PROT_WRITE, MAP_PRIVATE|MAP_ANONYMOUS, -1, 0)''
       \<and> retval_str d = ''0x7f001000'')
   }"

definition socket_renders_symbolic_constants :: "bool option" where
  "socket_renders_symbolic_constants = do {
     e \<leftarrow> test_ev ''socket'' (Args 10 2 0 0 0 0) 3;
     d \<leftarrow> decode SYSCALLS e null_read;
     Some (signature d = ''socket(AF_INET6, SOCK_DGRAM, IPPROTO_IP)'')
   }"

definition setsockopt_renders_level_optname_and_value :: "bool option" where
  "setsockopt_renders_level_optname_and_value = do {
     let one = le_bytes 4 1;
     let m = mock_mem [(0x5000, one)];
     e \<leftarrow> test_ev ''setsockopt'' (Args 4 6 1 0x5000 4 0) 0;
     d \<leftarrow> decode SYSCALLS e m;
     Some (signature d = ''setsockopt(4, SOL_TCP, TCP_NODELAY, [1], 4)'')
   }"

definition setsockopt_optval_falls_back_to_pointer_for_structs :: "bool option" where
  "setsockopt_optval_falls_back_to_pointer_for_structs = do {
     e \<leftarrow> test_ev ''setsockopt'' (Args 4 1 13 0xcafe 8 0) 0;
     d \<leftarrow> decode SYSCALLS e null_read;
     Some (signature d = ''setsockopt(4, SOL_SOCKET, SO_LINGER, 0xcafe, 8)'')
   }"

definition unknown_syscall_number :: "bool option" where
  "unknown_syscall_number = do {
     let raw = \<lparr>ev_pid = 1, ev_tid = 1, ev_nr = 999999, ev_args = Args 0 0 0 0 0 0, ev_retval = 0,
       ev_ts_enter_ns = 0, ev_duration_ns = 0\<rparr>;
     d \<leftarrow> decode SYSCALLS raw null_read;
     Some (ds_name d = ''syscall_999999'' \<and> signature d = ''syscall_999999()'')
   }"

text \<open>What the tests see of a decoded call.\<close>

definition decoded_as :: "syscall_info \<Rightarrow> syscall_event \<Rightarrow> decoded_arg list \<Rightarrow> decoded_syscall" where
  "decoded_as i e args = \<lparr>ds_pid = ev_pid e, ds_tid = ev_tid e, ds_nr = ev_nr e, ds_name = si_name i, ds_args = args,
     ds_retval = ev_retval e, ds_error = decode_error e, ds_duration_ns = ev_duration_ns e, ds_ts_enter_ns = ev_ts_enter_ns e\<rparr>"

lemma decode_on:
  assumes "syscall_by_number SYSCALLS (si_number i) = Some i"
  shows "decode SYSCALLS (event_on p i as retval) mem =
     (if si_args i = [] then Some (decoded_as i (event_on p i as retval) (decode_raw (event_on p i as retval)))
      else map_option (decoded_as i (event_on p i as retval)) (decode_typed (si_name i) (si_args i) (event_on p i as retval) mem))"
  using assms by (simp add: decode_def event_info_def syscall_name_def event_on_def u32_of_number decoded_as_def Let_def
      map_option_case split: option.split)

lemma minus_one_fd: "ucast (- 1 :: u64) = (- 1 :: i32)"
  by (rule bit_word_eqI) (simp add: bit_simps)

lemma one_bytes: "le_bytes 4 1 = [1, 0, 0, 0]"
proof -
  have four: "4 = Suc (Suc (Suc (Suc 0)))" by simp
  show ?thesis unfolding four by simp
qed

lemmas shown_defs = hot_info_defs row_info_def arg_meta_of_def event_on_def decoded_as_def

lemmas found_hot = hot_mem [THEN hot_found(1)]

lemmas decoded_hot = found_hot [THEN decode_on]


lemma openat_with_path_and_flags_passes: "passes openat_with_path_and_flags"
  by (simp only: passes_def openat_with_path_and_flags_def test_ev_def by_name option.map Option.bind.simps Let_def decoded_hot)
    (simp add: shown_defs exec char_of_eq_iff minus_one_fd)

lemma error_return_strace_style_passes: "passes error_return_strace_style"
  by (simp only: passes_def error_return_strace_style_def test_ev_def by_name option.map Option.bind.simps Let_def decoded_hot)
    (simp add: shown_defs exec char_of_eq_iff minus_one_fd)

lemma write_buffer_bounded_by_count_passes: "passes write_buffer_bounded_by_count"
  by (simp only: passes_def write_buffer_bounded_by_count_def test_ev_def by_name option.map Option.bind.simps Let_def decoded_hot)
    (simp add: shown_defs exec char_of_eq_iff minus_one_fd)

lemma zero_extended_fd_sentinels_render_signed_passes: "passes zero_extended_fd_sentinels_render_signed"
  by (simp only: passes_def zero_extended_fd_sentinels_render_signed_def test_ev_def by_name option.map Option.bind.simps Let_def decoded_hot)
    (simp add: shown_defs exec char_of_eq_iff minus_one_fd)

lemma unreadable_pointer_falls_back_to_hex_passes: "passes unreadable_pointer_falls_back_to_hex"
  by (simp only: passes_def unreadable_pointer_falls_back_to_hex_def test_ev_def by_name option.map Option.bind.simps Let_def decoded_hot)
    (simp add: shown_defs exec char_of_eq_iff minus_one_fd)

lemma untyped_syscall_renders_registers_as_hex_passes: "passes untyped_syscall_renders_registers_as_hex"
  by (simp only: passes_def untyped_syscall_renders_registers_as_hex_def test_ev_def by_name option.map Option.bind.simps Let_def decoded_hot)
    (simp add: shown_defs exec char_of_eq_iff minus_one_fd)

lemma mmap_return_is_hex_passes: "passes mmap_return_is_hex"
  by (simp only: passes_def mmap_return_is_hex_def test_ev_def by_name option.map Option.bind.simps Let_def decoded_hot)
    (simp add: shown_defs exec char_of_eq_iff minus_one_fd)

lemma socket_renders_symbolic_constants_passes: "passes socket_renders_symbolic_constants"
  by (simp only: passes_def socket_renders_symbolic_constants_def test_ev_def by_name option.map Option.bind.simps Let_def decoded_hot)
    (simp add: shown_defs exec char_of_eq_iff minus_one_fd)

lemma setsockopt_renders_level_optname_and_value_passes: "passes setsockopt_renders_level_optname_and_value"
  by (simp only: passes_def setsockopt_renders_level_optname_and_value_def test_ev_def by_name one_bytes option.map Option.bind.simps Let_def decoded_hot)
    (simp add: shown_defs exec char_of_eq_iff minus_one_fd)

lemma setsockopt_optval_falls_back_to_pointer_for_structs_passes: "passes setsockopt_optval_falls_back_to_pointer_for_structs"
  by (simp only: passes_def setsockopt_optval_falls_back_to_pointer_for_structs_def test_ev_def by_name option.map Option.bind.simps Let_def decoded_hot)
    (simp add: shown_defs exec char_of_eq_iff minus_one_fd)

lemma unknown_syscall_number_passes: "passes unknown_syscall_number"
  by (simp add: passes_def unknown_syscall_number_def decode_def event_info_def syscall_name_def u32_try_from_def unknown_number)
    (simp add: exec)

subsection \<open>\<^verbatim>\<open>consts.rs\<close>\<close>

definition consts_ev :: "string \<Rightarrow> args6 \<Rightarrow> syscall_event option" where
  "consts_ev name as = map_option (\<lambda>info. event_on 1 info as 0) (syscall_by_name SYSCALLS name)"

definition render_at :: "string \<Rightarrow> args6 \<Rightarrow> nat \<Rightarrow> string option option" where
  "render_at name as i = do {
     info \<leftarrow> syscall_by_name SYSCALLS name;
     e \<leftarrow> consts_ev name as;
     consts_render name (si_args info) i e
   }"

definition socket_family_type_protocol :: "bool option" where
  "socket_family_type_protocol = do {
     let as = Args 10 2 0 0 0 0;
     a \<leftarrow> render_at ''socket'' as 0; b \<leftarrow> render_at ''socket'' as 1; c \<leftarrow> render_at ''socket'' as 2;
     Some (a = Some ''AF_INET6'' \<and> b = Some ''SOCK_DGRAM'' \<and> c = Some ''IPPROTO_IP'')
   }"

definition socket_type_carries_flags_in_strace_order :: "bool option" where
  "socket_type_carries_flags_in_strace_order = do {
     let as = Args 10 526337 6 0 0 0;
     a \<leftarrow> render_at ''socket'' as 1; b \<leftarrow> render_at ''socket'' as 2;
     Some (a = Some ''SOCK_STREAM|SOCK_CLOEXEC|SOCK_NONBLOCK'' \<and> b = Some ''IPPROTO_TCP'')
   }"

definition protocol_is_family_aware :: "bool option" where
  "protocol_is_family_aware = map_option (\<lambda>r. r = None) (render_at ''socket'' (Args 16 3 0 0 0 0) 2)"

definition setsockopt_level_and_name :: "bool option" where
  "setsockopt_level_and_name = do {
     let tcp = Args 4 6 1 0 4 0;
     a \<leftarrow> render_at ''setsockopt'' tcp 1; b \<leftarrow> render_at ''setsockopt'' tcp 2;
     let so = Args 4 1 9 0 4 0;
     c \<leftarrow> render_at ''setsockopt'' so 1; d \<leftarrow> render_at ''setsockopt'' so 2;
     Some (a = Some ''SOL_TCP'' \<and> b = Some ''TCP_NODELAY'' \<and> c = Some ''SOL_SOCKET'' \<and> d = Some ''SO_KEEPALIVE'')
   }"

definition signal_arguments :: "bool option" where
  "signal_arguments = do {
     a \<leftarrow> render_at ''kill'' (Args 1234 15 0 0 0 0) 1; b \<leftarrow> render_at ''kill'' (Args 1234 0 0 0 0 0) 1;
     Some (a = Some ''SIGTERM'' \<and> b = None)
   }"

definition unknown_constants_fall_through :: "bool option" where
  "unknown_constants_fall_through = Some (address_family 0xabcd = None \<and> socket_type 0xabcd = None \<and> sockopt_level 9999 = None)"

lemma render_at_hot:
  assumes "syscall_by_name SYSCALLS name = Some i"
  shows "render_at name as k = consts_render name (si_args i) k (event_on 1 i as 0)"
  using assms by (simp add: render_at_def consts_ev_def)

lemma socket_consts_tests_pass:
  "passes socket_family_type_protocol" "passes socket_type_carries_flags_in_strace_order" "passes protocol_is_family_aware"
  by (simp_all only: passes_def socket_family_type_protocol_def socket_type_carries_flags_in_strace_order_def
      protocol_is_family_aware_def render_at_hot [OF by_name(8)])
    (simp_all add: shown_defs exec)

lemma setsockopt_consts_test_passes: "passes setsockopt_level_and_name"
  by (simp only: passes_def setsockopt_level_and_name_def render_at_hot [OF by_name(10)]) (simp add: shown_defs exec)

lemma signal_consts_test_passes: "passes signal_arguments"
  by (simp only: passes_def signal_arguments_def render_at_hot [OF by_name(13)]) (simp add: shown_defs exec)

lemma unknown_consts_test_passes: "passes unknown_constants_fall_through"
  by (simp add: passes_def unknown_constants_fall_through_def exec)

subsection \<open>\<^verbatim>\<open>flags.rs\<close>\<close>

definition open_flags_match_strace :: "bool option" where
  "open_flags_match_strace = Some
     (flags_render ''openat'' ''flags'' 0 = Some ''O_RDONLY'' \<and> flags_render ''openat'' ''flags'' 0x80000 = Some ''O_RDONLY|O_CLOEXEC''
      \<and> flags_render ''openat'' ''flags'' (or_all [0x80000, 0x10000]) = Some ''O_RDONLY|O_DIRECTORY|O_CLOEXEC''
      \<and> flags_render ''open'' ''flags'' 1 = Some ''O_WRONLY'' \<and> flags_render ''open'' ''flags'' 0x241 = Some ''O_WRONLY|O_CREAT|O_TRUNC'')"

definition unknown_open_bits_kept_as_hex :: "bool option" where
  "unknown_open_bits_kept_as_hex = do {
     got \<leftarrow> flags_render ''openat'' ''flags'' (or_all [0x80000, 0x80000000]);
     Some (got = ''O_RDONLY|O_CLOEXEC|0x80000000'')
   }"

definition prot_flags :: "bool option" where
  "prot_flags = Some
     (flags_render ''mmap'' ''prot'' 0 = Some ''PROT_NONE'' \<and> flags_render ''mmap'' ''prot'' 1 = Some ''PROT_READ''
      \<and> flags_render ''mprotect'' ''prot'' 3 = Some ''PROT_READ|PROT_WRITE'')"

definition map_flags :: "bool option" where
  "map_flags = Some
     (flags_render ''mmap'' ''flags'' 2 = Some ''MAP_PRIVATE''
      \<and> flags_render ''mmap'' ''flags'' (or_all [2, 0x20]) = Some ''MAP_PRIVATE|MAP_ANONYMOUS'')"

definition unrecognised_pair_is_none :: "bool option" where
  "unrecognised_pair_is_none = Some (flags_render ''ioctl'' ''request'' 0x5401 = None)"

lemma flags_tests_pass:
  "passes open_flags_match_strace" "passes unknown_open_bits_kept_as_hex" "passes prot_flags" "passes map_flags" "passes unrecognised_pair_is_none"
  by (simp_all add: passes_def open_flags_match_strace_def unknown_open_bits_kept_as_hex_def prot_flags_def map_flags_def
      unrecognised_pair_is_none_def or_all_def exec)

subsection \<open>\<^verbatim>\<open>render.rs\<close>\<close>

definition nul_terminated_string :: "bool option" where
  "nul_terminated_string = do {
     let m = mock_mem [(0x1000, c_text ''/etc/passwd'' @ byte_list ''and beyond'')];
     bytes \<leftarrow> read_cstr m 0x1000 PATH_CAP;
     Some (bytes = byte_list ''/etc/passwd'')
   }"

definition null_pointer :: "bool option" where
  "null_pointer = (let m = mock_mem [] in Some (read_cstr m 0 PATH_CAP = None))"

definition unmapped_pointer :: "bool option" where
  "unmapped_pointer = (let m = mock_mem [(0x1000, c_text ''x'')] in Some (read_cstr m 0x9999 PATH_CAP = None))"

definition quoting_escapes_and_truncates :: "bool option" where
  "quoting_escapes_and_truncates =
     (let backslash = CHR 0x5C; q = quote_bytes (replicate 40 (of_char (CHR ''a''))) in Some
       (quote_bytes (byte_list (''hi'' @ [newline])) = quoted (''hi'' @ [backslash] @ ''n'')
        \<and> quote_bytes (byte_list (''a'' @ [CHR 0x09] @ ''b'')) = quoted (''a'' @ [backslash] @ ''tb'')
        \<and> starts_with (rev q) (rev ([CHR 0x22] @ ''...''))
        \<and> length (filter (\<lambda>c. c = CHR ''a'') q) = MAX_STR))"

lemma render_tests_pass:
  "passes nul_terminated_string" "passes null_pointer" "passes unmapped_pointer"
  by (simp_all add: passes_def nul_terminated_string_def null_pointer_def unmapped_pointer_def exec char_of_eq_iff)

lemma quoting_test_passes: "passes quoting_escapes_and_truncates"
  by (simp add: passes_def quoting_escapes_and_truncates_def exec char_of_eq_iff)

end
