(* ===== verification/Tests_Output.thy ===== *)
theory Tests_Output
  imports Test_Support Output_Text Output_Json Output_Summary
begin

section \<open>The tests of \<^verbatim>\<open>syren-output\<close>\<close>

text \<open>
  The tests of the three sinks, over a vector as the writer.
\<close>

text \<open>Every sink of the tests writes to a vector; \<^verbatim>\<open>unwrap\<close> of a write.\<close>

definition unwrap_io :: "(io_error + unit) \<times> 's \<Rightarrow> 's option" where
  "unwrap_io r = (case fst r of Inl _ \<Rightarrow> None | Inr _ \<Rightarrow> Some (snd r))"

definition test_arg :: "string \<Rightarrow> string \<Rightarrow> decoded_arg" where
  "test_arg name value = \<lparr>da_name = Some name, da_value = value, da_raw = 0\<rparr>"

definition test_syscall :: "string \<Rightarrow> decoded_arg list \<Rightarrow> i64 \<Rightarrow> decoded_syscall" where
  "test_syscall name args retval = \<lparr>ds_pid = 100, ds_tid = 100, ds_nr = 0, ds_name = name, ds_args = args,
     ds_retval = retval, ds_error = None, ds_duration_ns = 1500, ds_ts_enter_ns = 0\<rparr>"

lemmas test_defs = unwrap_io_def test_arg_def test_syscall_def

subsection \<open>\<^verbatim>\<open>text.rs\<close>\<close>

definition strace_line_and_exit :: "bool option" where
  "strace_line_and_exit = do {
     let sink = text_new [];
     let s = test_syscall ''openat'' [test_arg ''dfd'' ''AT_FDCWD'', test_arg ''filename'' (quoted ''/x'')] 3;
     sink \<leftarrow> unwrap_io (text_record vec_write (RecSyscall s) sink);
     sink \<leftarrow> unwrap_io (text_record vec_write (RecExit 100 0) sink);
     let out = ts_out sink;
     Some (out = ''openat(AT_FDCWD, '' @ quoted ''/x'' @ '') = 3'' @ [newline] @ ''+++ exited with 0 +++'' @ [newline])
   }"

definition timing_and_pid_prefix :: "bool option" where
  "timing_and_pid_prefix = do {
     let opts = \<lparr>to_show_pid = True, to_show_timing = True, to_color = False\<rparr>;
     let sink = text_with_options [] opts;
     let s = test_syscall ''getpid'' [] 100;
     sink \<leftarrow> unwrap_io (text_record vec_write (RecSyscall s) sink);
     let out = ts_out sink;
     Some (starts_with out ''[pid   100] getpid() = 100 <0.0000'' \<and> starts_with (dropWhile is_ws (rev out)) ''>'')
   }"

definition signal_record_uses_name :: "bool option" where
  "signal_record_uses_name = do {
     let sink = text_new [];
     sink \<leftarrow> unwrap_io (text_record vec_write (RecSignal 100 2) sink);
     sink \<leftarrow> unwrap_io (text_record vec_write (RecSignal 100 99) sink);
     let out = ts_out sink;
     Some (out = ''--- SIGINT ---'' @ [newline] @ ''--- signal 99 ---'' @ [newline])
   }"

definition color_wraps_name_and_meta :: "bool option" where
  "color_wraps_name_and_meta = do {
     let esc = CHR 0x1B;
     let opts = \<lparr>to_show_pid = False, to_show_timing = False, to_color = True\<rparr>;
     let sink = text_with_options [] opts;
     let s = test_syscall ''getpid'' [] 100;
     sink \<leftarrow> unwrap_io (text_record vec_write (RecSyscall s) sink);
     sink \<leftarrow> unwrap_io (text_record vec_write (RecSignal 100 9) sink);
     let out = ts_out sink;
     Some (out = [esc] @ ''[36mgetpid'' @ [esc] @ ''[0m() = 100'' @ [newline] @ [esc] @ ''[33m--- SIGKILL ---'' @ [esc] @ ''[0m'' @ [newline])
   }"

lemma text_tests_pass:
  "passes strace_line_and_exit" "passes signal_record_uses_name" "passes color_wraps_name_and_meta"
  by (simp_all add: passes_def strace_line_and_exit_def signal_record_uses_name_def color_wraps_name_and_meta_def test_defs exec)

lemma tested_duration: "fmt_secs 1500 = ''0.000002''"
  by (simp add: exec)

lemma timing_test_passes: "passes timing_and_pid_prefix"
proof -
  let ?opts = "\<lparr>to_show_pid = True, to_show_timing = True, to_color = False\<rparr>"
  have "text_write vec_write ?opts PLAIN (RecSyscall (test_syscall ''getpid'' [] 100)) []
      = (Inr (), ''[pid   100] getpid() = 100 <'' @ fmt_secs 1500 @ ''>'' @ [newline])"
    by (simp add: test_defs exec del: fmt_secs_def)
  then have "unwrap_io (text_record vec_write (RecSyscall (test_syscall ''getpid'' [] 100)) (text_with_options [] ?opts))
      = Some \<lparr>ts_out = ''[pid   100] getpid() = 100 <0.000002>'' @ [newline], ts_opts = ?opts, ts_palette = PLAIN\<rparr>"
    by (simp add: unwrap_io_def text_record_def text_with_options_def palette_new_def tested_duration)
  then show ?thesis
    by (simp add: passes_def timing_and_pid_prefix_def starts_with_def is_ws_def whitespace_def newline_def)
qed

subsection \<open>\<^verbatim>\<open>json.rs\<close>\<close>

text \<open>
  The serialiser and its parser are parameters.  The tests rely on what they document: the
  compact form has no line break, shows each field of an object as its quoted name, a colon and
  the value, shows numbers in decimal and plain texts in quotes; and the parser reads it back.
\<close>

definition emits_one_json_object_per_line :: "(json_value \<Rightarrow> string) \<Rightarrow> bool option" where
  "emits_one_json_object_per_line to_json = do {
     let sink = json_new [];
     let s = test_syscall ''read'' [test_arg ''fd'' ''3''] 10;
     sink \<leftarrow> unwrap_io (json_sink_record vec_write to_json (RecSyscall s) sink);
     sink \<leftarrow> unwrap_io (json_sink_record vec_write to_json (RecSignal 100 2) sink);
     sink \<leftarrow> unwrap_io (json_sink_record vec_write to_json (RecExit 100 0) sink);
     let out = js_out sink;
     let lines = str_lines out;
     Some (length lines = 3
       \<and> contains (lines ! 0) (quoted ''type'' @ '':'' @ quoted ''syscall'') \<and> contains (lines ! 0) (quoted ''name'' @ '':'' @ quoted ''read'')
       \<and> contains (lines ! 1) (quoted ''type'' @ '':'' @ quoted ''signal'') \<and> contains (lines ! 1) (quoted ''signal'' @ '':2'')
       \<and> contains (lines ! 2) (quoted ''type'' @ '':'' @ quoted ''exit'') \<and> contains (lines ! 2) (quoted ''code'' @ '':0''))
   }"

definition json_index :: "nat \<Rightarrow> json_value \<Rightarrow> json_value option" where
  "json_index i v = (case v of JArr vs \<Rightarrow> (if i < length vs then Some (vs ! i) else None) | _ \<Rightarrow> None)"

definition syscall_line_is_valid_json :: "(json_value \<Rightarrow> string) \<Rightarrow> (string \<Rightarrow> json_value option) \<Rightarrow> bool option" where
  "syscall_line_is_valid_json to_json from_json = do {
     let sink = json_new [];
     let s = test_syscall ''read'' [test_arg ''fd'' ''3''] 10;
     sink \<leftarrow> unwrap_io (json_sink_record vec_write to_json (RecSyscall s) sink);
     let out = js_out sink;
     v \<leftarrow> from_json (trim out);
     Some (jget ''type'' v = Some (JStr ''syscall'') \<and> jget ''retval'' v = Some (JInt 10)
       \<and> Option.bind (Option.bind (jget ''args'' v) (json_index 0)) (jget ''value'') = Some (JStr ''3''))
   }"

definition compact_form :: "(json_value \<Rightarrow> string) \<Rightarrow> bool" where
  "compact_form to_json \<longleftrightarrow>
     (\<forall>v. newline \<notin> set (to_json v) \<and> CHR 0x0D \<notin> set (to_json v))
     \<and> (\<forall>fs k v. (k, v) \<in> set fs \<longrightarrow> contains (to_json (JObj fs)) (to_json (JStr k) @ '':'' @ to_json v))
     \<and> (\<forall>s. set s \<subseteq> set ''abcdefghijklmnopqrstuvwxyz_'' \<longrightarrow> to_json (JStr s) = quoted s)
     \<and> (\<forall>i. to_json (JInt i) = dec_int i)"

lemma json_test_lines:
  assumes "compact_form to_json"
  shows "str_lines (to_json a @ newline # to_json b @ newline # to_json c @ [newline]) = [to_json a, to_json b, to_json c]"
  using str_lines_concat [of "[to_json a, to_json b, to_json c]"] assms by (auto simp: compact_form_def newline_def)

lemma compact_field:
  assumes "compact_form to_json" "(k, v) \<in> set fs"
    "set k \<subseteq> set ''abcdefghijklmnopqrstuvwxyz_''"
  shows "contains (to_json (JObj fs)) (quoted k @ '':'' @ to_json v)"
  using assms by (metis compact_form_def)

lemma json_lines_test_passes:
  assumes "compact_form to_json"
  shows "passes (emits_one_json_object_per_line to_json)"
proof -
  let ?s = "record_value (RecSyscall (test_syscall ''read'' [test_arg ''fd'' ''3''] 10))"
  let ?g = "record_value (RecSignal 100 2)" and ?x = "record_value (RecExit 100 0)"
  have t: "to_json (JStr w) = quoted w" if "w \<in> {''syscall'', ''read'', ''signal'', ''exit''}" for w
    using assms that by (auto simp: compact_form_def)
  have number: "to_json (JInt 2) = ''2''" "to_json (JInt 0) = ''0''" using assms by (simp_all add: compact_form_def exec)
  have "contains (to_json ?s) (quoted ''type'' @ '':'' @ to_json (JStr ''syscall''))"
    "contains (to_json ?s) (quoted ''name'' @ '':'' @ to_json (JStr ''read''))"
    "contains (to_json ?g) (quoted ''type'' @ '':'' @ to_json (JStr ''signal''))"
    "contains (to_json ?g) (quoted ''signal'' @ '':'' @ to_json (JInt 2))"
    "contains (to_json ?x) (quoted ''type'' @ '':'' @ to_json (JStr ''exit''))"
    "contains (to_json ?x) (quoted ''code'' @ '':'' @ to_json (JInt 0))"
    by (simp_all only: record_value_def json_of_def record_json_def out_record.case json_record.case)
      (rule compact_field [OF assms]; simp add: syscall_fields_def test_syscall_def)+
  then show ?thesis
    by (simp add: passes_def emits_one_json_object_per_line_def unwrap_io_def json_sink_record_def json_write_vec json_new_def
        json_test_lines [OF assms] t number)
qed

lemma valid_json_test_passes:
  assumes "\<And>v. from_json (trim (to_json v @ [newline])) = Some v"
  shows "passes (syscall_line_is_valid_json to_json from_json)"
  using assms by (simp add: passes_def syscall_line_is_valid_json_def unwrap_io_def json_sink_record_def json_write_vec json_new_def
      jget_def json_index_def test_arg_def test_syscall_def exec)

subsection \<open>\<^verbatim>\<open>summary.rs\<close>\<close>

fun summary_each :: "out_record list \<Rightarrow> string summary_sink \<Rightarrow> string summary_sink option" where
  "summary_each [] sink = Some sink"
| "summary_each (r # rs) sink = do { sink \<leftarrow> unwrap_io (summary_record r sink); summary_each rs sink }"

definition trim_end :: "string \<Rightarrow> string" where
  "trim_end s = rev (dropWhile is_ws (rev s))"

definition row_named :: "string \<Rightarrow> string list \<Rightarrow> string option" where
  "row_named name lines = find (\<lambda>l. starts_with (rev (trim_end l)) (rev name)) lines"

definition last_line :: "string list \<Rightarrow> string option" where
  "last_line lines = (if lines = [] then None else Some (last lines))"

definition aggregates_counts_and_errors :: "bool option" where
  "aggregates_counts_and_errors = do {
     let sink = summary_new [];
     sink \<leftarrow> summary_each (replicate 3 (RecSyscall (test_syscall ''read'' [] 1))) sink;
     let bad = (test_syscall ''openat'' [] (- 2))\<lparr>ds_error := Some \<lparr>de_errno = 2, de_name = ''ENOENT'', de_description = ''No such file''\<rparr>\<rparr>;
     sink \<leftarrow> summary_each [RecSyscall bad, RecExit 100 0] sink;
     sink \<leftarrow> unwrap_io (summary_finish vec_write sink);
     let out = ss_out sink;
     l \<leftarrow> last_line (str_lines out);
     read_row \<leftarrow> row_named ''read'' (str_lines out);
     let fields = split_whitespace read_row;
     calls \<leftarrow> nth_opt fields 3;
     open_row \<leftarrow> row_named ''openat'' (str_lines out);
     let fields = split_whitespace open_row;
     open_calls \<leftarrow> nth_opt fields 3;
     open_errors \<leftarrow> nth_opt fields 4;
     Some (contains out ''% time'' \<and> contains out ''usecs/call'' \<and> contains l ''total'' \<and> calls = ''3'' \<and> open_calls = ''1'' \<and> open_errors = ''1'')
   }"

definition empty_summary :: "bool option" where
  "empty_summary = do {
     let sink = summary_new [];
     sink \<leftarrow> unwrap_io (summary_finish vec_write sink);
     let out = ss_out sink;
     Some (contains out ''% time'' \<and> contains out ''total'')
   }"

lemma table_numbers:
  "fmt_fixed 2 (percent 4500 6000) = ''75.00''" "fmt_fixed 2 (percent 1500 6000) = ''25.00''"
  "fmt_fixed 6 (seconds 4500) = ''0.000005''" "fmt_fixed 6 (seconds 1500) = ''0.000002''"
  "fmt_fixed 6 (seconds 6000) = ''0.000006''" "fmt_fixed 6 (seconds 0) = ''0.000000''"
  by (simp add: exec)+

lemma table_dec: "dec 0 = ''0''" "dec (Suc 0) = ''1''" "dec 3 = ''3''" "dec 4 = ''4''"
  by (simp_all add: exec)

lemmas padded = pad_left_def pad_right_def numeral_eq_Suc

lemma heading_text: "heading = ''% time     seconds  usecs/call     calls    errors syscall'' @ [newline]"
  by (simp add: heading_def padded)

lemma dashes_text: "dashes = ''------ ----------- ----------- --------- --------- ----------------'' @ [newline]"
  by (simp add: dashes_def padded)

lemma total_line_texts:
  "total_line 6000 4 1 = ''100.00    0.000006                     4         1 total'' @ [newline]"
  "total_line 0 0 0 = ''100.00    0.000000                     0           total'' @ [newline]"
  by (simp_all add: total_line_def table_numbers table_dec errors_text_def pad_left_def)
    (simp_all add: numeral_eq_Suc)

lemma row_texts:
  "row_line 6000 (''read'', \<lparr>st_calls = 3, st_errors = 0, st_total_ns = 4500\<rparr>)
     = '' 75.00    0.000005           1         3           read'' @ [newline]"
  "row_line 6000 (''openat'', \<lparr>st_calls = 1, st_errors = 1, st_total_ns = 1500\<rparr>)
     = '' 25.00    0.000002           1         1         1 openat'' @ [newline]"
  by (simp_all add: row_line_def table_numbers table_dec errors_text_def pad_left_def usecs_per_call_def)
    (simp_all add: numeral_eq_Suc)

definition test_stats :: stats where
  "test_stats = [(''read'', \<lparr>st_calls = 3, st_errors = 0, st_total_ns = 4500\<rparr>), (''openat'', \<lparr>st_calls = 1, st_errors = 1, st_total_ns = 1500\<rparr>)]"

lemma test_stats_sorted: "sorted_rows test_stats = test_stats" "grand_total test_stats = 6000"
  by (simp_all add: sorted_rows_def row_key_def test_stats_def grand_total_def)

definition table_lines :: "string list" where
  "table_lines = [''% time     seconds  usecs/call     calls    errors syscall'',
     ''------ ----------- ----------- --------- --------- ----------------'',
     '' 75.00    0.000005           1         3           read'',
     '' 25.00    0.000002           1         1         1 openat'',
     ''------ ----------- ----------- --------- --------- ----------------'',
     ''100.00    0.000006                     4         1 total'']"

lemma summary_text_lines: "summary_text test_stats = concat (map (\<lambda>l. l @ [newline]) table_lines)"
  by (simp add: summary_text_def test_stats_sorted Let_def)
    (simp add: test_stats_def row_texts heading_text dashes_text total_line_texts table_lines_def)

lemma summary_lines: "str_lines (summary_text test_stats) = table_lines"
  unfolding summary_text_lines newline_def by (rule str_lines_concat) (auto simp: table_lines_def)

text \<open>The sink after the calls of the test, and the text it prints.\<close>

abbreviation bad_open :: decoded_syscall where
  "bad_open \<equiv> (test_syscall ''openat'' [] (- 2))\<lparr>ds_error := Some \<lparr>de_errno = 2, de_name = ''ENOENT'', de_description = ''No such file''\<rparr>\<rparr>"

lemma counted:
  "summary_each (replicate 3 (RecSyscall (test_syscall ''read'' [] 1))) (summary_new [])
     = Some \<lparr>ss_out = [], ss_stats = [(''read'', \<lparr>st_calls = 3, st_errors = 0, st_total_ns = 4500\<rparr>)]\<rparr>"
  "summary_each [RecSyscall bad_open, RecExit 100 0]
       \<lparr>ss_out = [], ss_stats = [(''read'', \<lparr>st_calls = 3, st_errors = 0, st_total_ns = 4500\<rparr>)]\<rparr>
     = Some \<lparr>ss_out = [], ss_stats = test_stats\<rparr>"
  by (simp_all add: numeral_3_eq_3 unwrap_io_def test_syscall_def summary_new_def summary_record_def summary_count_def
      count_call_def stat_default_def test_stats_def)

lemma finished:
  "unwrap_io (summary_finish vec_write \<lparr>ss_out = [], ss_stats = stats\<rparr>) = Some \<lparr>ss_out = summary_text stats, ss_stats = stats\<rparr>"
  by (simp add: summary_finish_def vec_writer.summary_write_once unwrap_io_def vec_write_def)

lemma row_fields:
  "row_named ''read'' table_lines = Some '' 75.00    0.000005           1         3           read''"
  "row_named ''openat'' table_lines = Some '' 25.00    0.000002           1         1         1 openat''"
  by (simp_all add: table_lines_def row_named_def trim_end_def starts_with_def is_ws_def whitespace_def)

lemma row_columns:
  "split_whitespace '' 75.00    0.000005           1         3           read'' = [''75.00'', ''0.000005'', ''1'', ''3'', ''read'']"
  "split_whitespace '' 25.00    0.000002           1         1         1 openat'' = [''25.00'', ''0.000002'', ''1'', ''1'', ''1'', ''openat'']"
  by (simp_all add: split_whitespace_def is_ws_def whitespace_def)

lemma summary_test_passes: "passes aggregates_counts_and_errors"
proof -
  let ?out = "summary_text test_stats"
  have c: "contains ?out ''% time''" "contains ?out ''usecs/call''"
    unfolding summary_text_def Let_def heading_text by (rule contains_append, rule disjI1, simp add: starts_with_def)+
  have l: "last_line table_lines = Some ''100.00    0.000006                     4         1 total''"
    by (simp add: last_line_def table_lines_def)
  have t: "contains ''100.00    0.000006                     4         1 total'' ''total''"
    by (simp add: starts_with_def)
  show ?thesis
    by (simp only: passes_def aggregates_counts_and_errors_def Let_def counted finished Option.bind.simps summary_sink.simps
        summary_lines row_fields row_columns l)
      (simp add: c t nth_opt_def del: contains.simps)
qed

lemma empty_summary_passes: "passes empty_summary"
proof -
  have "summary_text [] = heading @ dashes @ dashes @ total_line 0 0 0"
    by (simp add: summary_text_def grand_total_def sorted_rows_def Let_def)
  moreover have "contains (heading @ t) ''% time''" for t
    unfolding heading_text by (rule contains_append, rule disjI1, simp add: starts_with_def)
  moreover have "contains (heading @ dashes @ dashes @ total_line 0 0 0) ''total''"
  proof -
    have "contains (total_line 0 0 0) ''total''"
      unfolding total_line_texts by (rule contains_append, rule disjI1) (simp add: starts_with_def)
    then show ?thesis by (simp add: contains_append del: contains.simps)
  qed
  ultimately show ?thesis
    by (simp only: passes_def empty_summary_def Let_def summary_new_def finished Option.bind.simps summary_sink.simps)
      (simp del: contains.simps)
qed

end
