(* ===== verification/Tests_Trace.thy ===== *)
theory Tests_Trace
  imports Tests_Common Ebpf_Setup Cli_Filter
begin

section \<open>The tests of the record, of the eBPF backend and of the filter\<close>

text \<open>
  The tests of the ring-buffer record, of what the eBPF backend makes of it, and of the
  \<^verbatim>\<open>-e\<close> expressions.
\<close>

subsection \<open>\<^verbatim>\<open>syren-common/src/ebpf.rs\<close>\<close>

text \<open>\<^verbatim>\<open>copy_from_slice\<close> into the first bytes of the capture array.\<close>

definition cap_set :: "u8 list \<Rightarrow> bpf_record \<Rightarrow> bpf_record" where
  "cap_set bytes r = r\<lparr>rec_cap := bytes @ drop (length bytes) (rec_cap r)\<rparr>"

definition etc_bytes :: "u8 list" where
  "etc_bytes = byte_list ''/etc'' @ [0]"

definition round_trips :: "bool option" where
  "round_trips = do {
     let rec = \<lparr>rec_pid = 42, rec_tid = 99, rec_nr = 257, rec_args = Args 1 2 3 4 5 6, rec_retval = - 2, rec_ts_enter_ns = 1000,
       rec_duration_ns = 250, rec_cap_addr = 0x2000, rec_cap_len = 5, rec_pad = 0, rec_cap = replicate CAP_BYTES 0\<rparr>;
     let rec = cap_set etc_bytes rec;
     let bytes = rec_to_bytes rec;
     back \<leftarrow> rec_from_bytes bytes;
     Some (rec_pid back = 42 \<and> rec_nr back = 257 \<and> rec_args back = Args 1 2 3 4 5 6 \<and> rec_retval back = - 2
       \<and> rec_duration_ns back = 250 \<and> captured back = etc_bytes)
   }"

definition short_slice_is_rejected :: "bool option" where
  "short_slice_is_rejected = Some (rec_from_bytes (replicate 8 0) = None)"

definition capture_length_is_clamped :: "bool option" where
  "capture_length_is_clamped =
     (let rec = \<lparr>rec_pid = 0, rec_tid = 0, rec_nr = 0, rec_args = Args 0 0 0 0 0 0, rec_retval = 0, rec_ts_enter_ns = 0,
        rec_duration_ns = 0, rec_cap_addr = 0, rec_cap_len = - 1, rec_pad = 0, rec_cap = replicate CAP_BYTES (of_char (CHR ''x''))\<rparr>
      in Some (length (captured rec) = CAP_BYTES))"

lemma record_round_trip_passes: "passes round_trips"
proof -
  have ok: "rec_ok (cap_set etc_bytes r)" if "rec_ok r" for r
    using that by (simp add: rec_ok_def cap_set_def etc_bytes_def byte_list_def CAP_BYTES_def)
  show ?thesis
    using rec_from_to_bytes [OF ok, of _ "[]"]
    by (simp add: passes_def round_trips_def Let_def rec_ok_def) (simp add: captured_def cap_set_def etc_bytes_def byte_list_def CAP_BYTES_def)
qed

lemma record_tests_pass: "passes short_slice_is_rejected" "passes capture_length_is_clamped"
  by (simp_all add: passes_def short_slice_is_rejected_def rec_from_bytes_def REC_SIZE_def capture_length_is_clamped_def
      captured_def CAP_BYTES_def unsigned_minus_1_eq_mask mask_eq_exp_minus_1)

subsection \<open>\<^verbatim>\<open>syren-trace/src/ebpf.rs\<close>\<close>

definition test_record :: "u64 \<Rightarrow> bpf_record" where
  "test_record nr = \<lparr>rec_pid = 100, rec_tid = 101, rec_nr = nr, rec_args = Args 1 2 3 4 5 6, rec_retval = - 2, rec_ts_enter_ns = 5000,
     rec_duration_ns = 250, rec_cap_addr = 0, rec_cap_len = 0, rec_pad = 0, rec_cap = replicate CAP_BYTES 0\<rparr>"

definition record_maps_onto_syscall_event :: "bool option" where
  "record_maps_onto_syscall_event =
     (let e = record_to_event (test_record 257) 1000 in
      Some (ev_pid e = 100 \<and> ev_tid e = 101 \<and> ev_nr e = 257 \<and> ev_args e = Args 1 2 3 4 5 6 \<and> ev_retval e = - 2
        \<and> ev_ts_enter_ns e = 4000 \<and> ev_duration_ns e = 250))"

definition timestamp_never_underflows :: "bool option" where
  "timestamp_never_underflows = (let e = record_to_event (test_record 0) 9000 in Some (ev_ts_enter_ns e = 0))"

definition selects_path_argument :: "bool option" where
  "selects_path_argument = do {
     op \<leftarrow> syscall_by_name SYSCALLS ''open''; oa \<leftarrow> syscall_by_name SYSCALLS ''openat'';
     ac \<leftarrow> syscall_by_name SYSCALLS ''access''; rd \<leftarrow> syscall_by_name SYSCALLS ''read'';
     Some (path_arg_slot op = Some 1 \<and> path_arg_slot oa = Some 2 \<and> path_arg_slot ac = Some 1 \<and> path_arg_slot rd = None)
   }"

definition execve_path_is_excluded :: "bool option" where
  "execve_path_is_excluded = do {
     execve \<leftarrow> syscall_by_name SYSCALLS ''execve''; execveat \<leftarrow> syscall_by_name SYSCALLS ''execveat'';
     Some (list_ex (\<lambda>a. ai_ty a = TyPath) (si_args execve) \<and> path_arg_slot execve = None \<and> path_arg_slot execveat = None)
   }"

text \<open>The memory files of the machine are a parameter; no process has the largest thread id.\<close>

definition memory_serves_captured_bytes ::
    "(u32 \<Rightarrow> io_error + (u64 \<Rightarrow> nat \<Rightarrow> io_error + u8 list)) \<Rightarrow> bool option" where
  "memory_serves_captured_bytes open_mem =
     (let mem = ebpf_read open_mem (- 1) (Some \<lparr>cap_addr = 0x4000, cap_bytes = byte_list ''0123456789''\<rparr>) in
      Some (mem 0x4000 4 = Some (byte_list ''0123'') \<and> mem (0x4000 + 8) 999 = Some (byte_list ''89'') \<and> mem 0x9999 4 = None))"

definition memory_without_capture ::
    "(u32 \<Rightarrow> io_error + (u64 \<Rightarrow> nat \<Rightarrow> io_error + u8 list)) \<Rightarrow> bool option" where
  "memory_without_capture open_mem = (let mem = ebpf_read open_mem (- 1) None in Some (mem 0x4000 4 = None))"

lemma event_tests_pass: "passes record_maps_onto_syscall_event" "passes timestamp_never_underflows"
  by (simp_all add: passes_def record_maps_onto_syscall_event_def timestamp_never_underflows_def test_record_def
      record_to_event_def saturating_sub_def)

lemma slot_tests_pass: "passes selects_path_argument" "passes execve_path_is_excluded"
  by (simp_all add: passes_def selects_path_argument_def execve_path_is_excluded_def by_name)
    (simp_all add: path_arg_slot_def hot_info_defs row_info_def arg_meta_of_def MAX_SYSCALLS_def)

lemma memory_tests_pass:
  assumes "open_mem (- 1) = Inl e"
  shows "passes (memory_serves_captured_bytes open_mem)" "passes (memory_without_capture open_mem)"
  using assms by (simp_all add: passes_def memory_serves_captured_bytes_def memory_without_capture_def ebpf_read_def
      proc_open_def byte_list_def)

subsection \<open>\<^verbatim>\<open>syren-cli/src/filter.rs\<close>\<close>

definition nr_of :: "string \<Rightarrow> u64 option" where
  "nr_of name = map_option (\<lambda>s. ucast (si_number s)) (syscall_by_name SYSCALLS name)"

definition result_ok :: "'e + 'a \<Rightarrow> 'a option" where
  "result_ok r = (case r of Inl _ \<Rightarrow> None | Inr x \<Rightarrow> Some x)"

definition empty_exprs :: "bool option" where
  "empty_exprs = do {
     f \<leftarrow> result_ok (from_exprs SYSCALLS []);
     r \<leftarrow> nr_of ''read''; oa \<leftarrow> nr_of ''openat'';
     Some (f = AllCalls \<and> allows f r \<and> allows f oa)
   }"

definition trace_named_syscalls :: "bool option" where
  "trace_named_syscalls = do {
     f \<leftarrow> result_ok (from_exprs SYSCALLS [''trace=read,write'']);
     r \<leftarrow> nr_of ''read''; w \<leftarrow> nr_of ''write''; oa \<leftarrow> nr_of ''openat'';
     Some (allows f r \<and> allows f w \<and> \<not> allows f oa)
   }"

definition omitting_trace_qualifier :: "bool option" where
  "omitting_trace_qualifier = do {
     f \<leftarrow> result_ok (from_exprs SYSCALLS [''openat'']);
     oa \<leftarrow> nr_of ''openat''; r \<leftarrow> nr_of ''read'';
     Some (allows f oa \<and> \<not> allows f r)
   }"

definition category_expands_to_members :: "bool option" where
  "category_expands_to_members = do {
     f \<leftarrow> result_ok (from_exprs SYSCALLS [''%fs'']);
     fs \<leftarrow> find (\<lambda>s. si_category s = Fs) SYSCALLS;
     other \<leftarrow> find (\<lambda>s. si_category s \<noteq> Fs) SYSCALLS;
     Some (allows f (ucast (si_number fs)) \<and> \<not> allows f (ucast (si_number other)))
   }"

definition all_to_all :: "bool option" where
  "all_to_all = do { f \<leftarrow> result_ok (from_exprs SYSCALLS [''trace=read,all'']); Some (f = AllCalls) }"

definition unknown_token :: "bool option" where
  "unknown_token = Some (result_ok (from_exprs SYSCALLS [''trace=definitely_not_a_syscall'']) = None)"

definition unsupported_qualifier :: "bool option" where
  "unsupported_qualifier = Some (result_ok (from_exprs SYSCALLS [''signal=SIGINT'']) = None)"

lemma tested_tokens:
  "expr_tokens ''trace=read,write'' = Inr [''read'', ''write'']" "expr_tokens ''openat'' = Inr [''openat'']"
  "expr_tokens ''%fs'' = Inr [''%fs'']" "expr_tokens ''trace=read,all'' = Inr [''read'', ''all'']"
  "expr_tokens ''trace=definitely_not_a_syscall'' = Inr [''definitely_not_a_syscall'']"
  "expr_tokens ''signal=SIGINT'' = Inl (UnsupportedQualifier ''signal'')"
  by (simp_all add: exec)

lemma tested_plain:
  "list_all (\<lambda>t. \<not> eq_ignore_ascii_case t ''all'' \<and> category_parse (bare_token t) = None)
     [''read'', ''write'', ''openat'', ''definitely_not_a_syscall'']"
  "\<not> eq_ignore_ascii_case ''%fs'' ''all''" "category_parse (bare_token ''%fs'') = Some Fs" "eq_ignore_ascii_case ''all'' ''all''"
  by (simp_all add: exec)

lemma unknown_name: "syscall_by_name SYSCALLS ''definitely_not_a_syscall'' = None"
proof -
  have "str_code ''definitely_not_a_syscall'' \<notin> set (map str_code (map ent_name (kept SYSCALL_ROWS)))"
    by (simp only: SYSCALL_ROWS_def kept_append map_append codes_blocks) (simp add: str_code_def)
  then have "''definitely_not_a_syscall'' \<notin> set (map si_name SYSCALLS)" by (auto simp: SYSCALLS_names)
  then show ?thesis by (force simp: syscall_by_name_def find_None_iff)
qed

lemma filter_tests_pass:
  "passes empty_exprs" "passes trace_named_syscalls" "passes omitting_trace_qualifier" "passes all_to_all"
  "passes unknown_token" "passes unsupported_qualifier"
  using tested_plain
  by (simp_all add: passes_def empty_exprs_def trace_named_syscalls_def omitting_trace_qualifier_def all_to_all_def unknown_token_def
      unsupported_qualifier_def result_ok_def from_exprs_def tested_tokens nr_of_def by_name unknown_name allows_def hot_fields u32_try_from_def)

lemma category_filter_test_passes: "passes category_expands_to_members"
proof -
  let ?f = "Numbers (set (map si_number (filter (\<lambda>s. si_category s = Fs) SYSCALLS)))"
  have f: "from_exprs SYSCALLS [''%fs''] = Inr ?f"
    by (simp add: from_exprs_def tested_tokens tested_plain)
  have "row_read \<in> set SYSCALLS" "si_category row_read = Fs" "row_connect \<in> set SYSCALLS" "si_category row_connect \<noteq> Fs"
    using hot_mem [THEN hot_found(3)] by (simp_all add: row_read_def row_connect_def row_info_def)
  then obtain a b where a: "find (\<lambda>s. si_category s = Fs) SYSCALLS = Some a" and b: "find (\<lambda>s. si_category s \<noteq> Fs) SYSCALLS = Some b"
    using find_None_iff [of "\<lambda>s. si_category s = Fs" SYSCALLS] find_None_iff [of "\<lambda>s. si_category s \<noteq> Fs" SYSCALLS] by fastforce
  then have ab: "a \<in> set SYSCALLS" "si_category a = Fs" "b \<in> set SYSCALLS" "si_category b \<noteq> Fs" by (auto dest: find_SomeD)
  have "s = b" if "s \<in> set SYSCALLS" "si_number s = si_number b" for s
  proof -
    have "syscall_by_number SYSCALLS (si_number b) = Some s" "syscall_by_number SYSCALLS (si_number b) = Some b"
      using that ab(3) by (simp_all add: syscall_by_number_iff [OF SYSCALLS_sorted])
    then show ?thesis by simp
  qed
  then have "si_number b \<notin> set (map si_number (filter (\<lambda>s. si_category s = Fs) SYSCALLS))" using ab(4) by auto
  moreover have "si_number a \<in> set (map si_number (filter (\<lambda>s. si_category s = Fs) SYSCALLS))" using ab(1,2) by simp
  ultimately have "allows ?f (ucast (si_number a))" "\<not> allows ?f (ucast (si_number b))" by (simp_all add: allows_def u32_of_number)
  then show ?thesis by (simp add: passes_def category_expands_to_members_def f a b result_ok_def)
qed

end
