(* ===== verification/Spec2Isabelle.thy ===== *)
theory Spec2Isabelle
  imports Gen_Build Output_Text Output_Json Output_Summary Syren_Runs Bench_Counts
    Tests_Gen Tests_Decode Tests_Output Tests_Trace
begin

text \<open>
  A verification development for \<^bold>\<open>syren\<close>, a strace-like syscall tracer for x86-64 Linux
  written in Rust (the crates under \<^verbatim>\<open>src/crates/\<close>).

  \<^bold>\<open>The program.\<close>  A build script turns the kernel's \<^verbatim>\<open>syscall_64.tbl\<close> into a table of
  numbers, names, categories and argument types.  At run time a tracer (ptrace, or eBPF
  with a fallback to ptrace) delivers a stream of events; a decoder turns each event into
  names and rendered arguments, reading strings from the traced task's memory; a filter
  selects calls; and a sink writes text, one JSON object per line, or a summary table.
  The driver puts these together and passes the traced program's exit status on.

  \<^bold>\<open>Theories and what they model.\<close>
  \<^item> \<open>Prelude\<close>: machine integers and the pieces of the Rust standard library the sources use
    on text (splitting, trimming, parsing and formatting numbers), with their lemmas.
  \<^item> \<open>Gen_Table\<close>, \<open>Gen_Category\<close>, \<open>Gen_Meta\<close>, \<open>Gen_Codegen\<close> (\<^verbatim>\<open>syren-gen\<close>): the parser of the
    table, the category rules, the argument metadata and the text of the generated file.
    \<open>Gen_Data\<close> holds the shipped input file and the table \<open>SYSCALLS\<close> it denotes (373 rows);
    \<open>Gen_Build\<close> is the build script (\<^verbatim>\<open>syren-common/build.rs\<close>) that writes the generated file.
  \<^item> \<open>Common_Table\<close>, \<open>Common_Errno\<close>, \<open>Common_Event\<close>, \<open>Common_Mem\<close>, \<open>Common_Record\<close>
    (\<^verbatim>\<open>syren-common\<close>): lookups, error and signal names, events, memory readers, and the
    232-byte record of the ring buffer.
  \<^item> \<open>Decode_Render\<close>, \<open>Decode_Flags\<close>, \<open>Decode_Consts\<close>, \<open>Decode_Lib\<close>, \<open>Decode_Printable\<close>
    (\<^verbatim>\<open>syren-decode\<close>): strings, flags, symbolic constants, and \<open>decode\<close> itself.
  \<^item> \<open>Output_Sink\<close>, \<open>Output_Num\<close>, \<open>Output_Text\<close>, \<open>Output_Json\<close>, \<open>Output_Summary\<close>
    (\<^verbatim>\<open>syren-output\<close>): writers and sinks; floating point formatting is exact rational
    arithmetic with the rounding of \<^verbatim>\<open>f64\<close> written out.
  \<^item> \<open>Trace_Iface\<close> (\<^verbatim>\<open>syren-trace/src/lib.rs\<close>): errors, targets, the sequencing of fallible
    operations, and the contract of a tracer that comes to an end.
  \<^item> \<open>Trace_Ptrace\<close>, \<open>Ptrace_Session\<close> (\<^verbatim>\<open>ptrace.rs\<close>): the tracer's maps, one operation per
    handler, the event loop; then its rounds as a step relation.  \<open>Ptrace_Calls\<close>: the abstract
    machine of open calls, which the sessions refine.
  \<^item> \<open>Kernel_Ebpf\<close> (\<^verbatim>\<open>syren-ebpf\<close>): the three in-kernel programs over their four maps.
    \<open>Kernel_Calls\<close>: the records of a whole run of them, as the pairs of each task's hits.
  \<^item> \<open>Trace_Ebpf\<close>, \<open>Ebpf_Session\<close>, \<open>Ebpf_Setup\<close> (\<^verbatim>\<open>ebpf.rs\<close>): draining the ring, liveness, the
    event loop and the captured memory; sessions; probing, loading, spawning, attaching.
    \<open>Ebpf_Liveness\<close>: sessions over a ring that keeps its order come to an end, and deliver what was
    submitted before their last look at it.
    \<open>Ebpf_Pipeline\<close>: an operating system whose ring the in-kernel programs fill while the tracer
    drains it, and whose tasks may outlive the leader.
  \<^item> \<open>Ebpf_Paths\<close>: a path argument from the kernel's copy to the rendered text.
  \<^item> \<open>Cli_Filter\<close>, \<open>Cli_Main\<close> (\<^verbatim>\<open>syren-cli\<close>): the \<^verbatim>\<open>-e\<close> expressions and the driver.
  \<^item> \<open>Syren\<close>: both backends over one operating system.  \<open>Agreement\<close>: the sessions of both show
    the same calls.  \<open>Syren_Runs\<close>: what a run of the whole program prints over each of them.
  \<^item> \<open>Bench_Overhead\<close>, \<open>Bench_Counts\<close> (\<^verbatim>\<open>syren-trace/examples\<close>): the two benchmark programs, and
    that the calls they count are those made.
  \<^item> \<open>Test_Support\<close>, \<open>Tests_Gen\<close>, \<open>Tests_Common\<close>, \<open>Tests_Decode\<close>, \<open>Tests_Output\<close>, \<open>Tests_Trace\<close>: the
    unit tests of the sources, one definition per test under the name of the test, with a lemma
    that it passes on the model.

  \<^bold>\<open>State and effects.\<close>  Structs are records, enums datatypes, maps are Isabelle maps or
  association lists, machine integers are words.  A backend operation takes the tracer
  paired with a world, and returns an error or a value with the new pair; what a failed
  operation has already done stays done.  The operating system, its wording of error numbers,
  the \<^verbatim>\<open>aya\<close> library and the serialiser \<^verbatim>\<open>serde_json\<close> are records of functions over the world, so every theorem holds for
  any behaviour of theirs except what its hypotheses say.  A run of an in-kernel program
  takes what it reads from outside (context bytes, clock, user memory, reserved storage) as
  a record.  The end of a slice and the panic of an index are \<open>None\<close>; the driver turns it into
  \<open>Panicked\<close>.

  \<^bold>\<open>Interfaces.\<close>  \<open>memory_reader\<close>, \<open>faithful_reader\<close> and \<open>mapped_reader\<close> are what the decoder relies
  on, interpreted by the readers of the program and by a reader of a live address space;
  \<open>writer\<close> is what the sinks rely on, interpreted by the byte vector and the closing pipe;
  \<open>finite_tracer\<close> is what the driver relies on to finish, interpreted by both backends.

  \<^bold>\<open>What is shown.\<close>  The table: parsing is characterised, the generated text denotes the table,
  binary search equals linear search, and the build script writes exactly that table.  The
  decoder: no panic for any table, event and memory; which registers, flags and strings can be read
  back from the text and which cannot.  The sinks: the line format, that a traced program cannot
  forge or break lines, the rows, order and sums of the summary, and JSON objects from which every
  record can be read back.  The backends: sessions refine a machine of open calls, every stop is
  answered once, every sample submitted before the tracer's last look at the ring is delivered,
  once and in order with its own captured memory, and before the exit of the leader when it was
  submitted before the program was seen to be over; the traced set is the tasks and their
  descendants, the maps stay within their bounds, and both backends show the same calls of a task
  whose stops come in pairs and for which the in-kernel tables have room.  The driver: what a run prints over either backend, from the stops or the
  tracepoints to the output, its status, that it starts nothing on bad arguments and says why,
  and that it ends.  The unit tests of the sources pass on the model, those of the JSON sink with
  any serialiser of the documented compact form.  Several theorems state where the code
  falls short: the exec event, the program started twice on fallback, ids and pending calls that
  are never removed, and the status of a JSON run whose reader goes away.  A task that outlives the
  leader is not traced to its end over eBPF: its records from after the last look are lost.

  \<^bold>\<open>Loops, bounds and fuel.\<close>  Nothing uses fuel.  The loops that may run forever (\<open>drain_ring\<close>,
  the two event loops, \<open>run_loop\<close> and the counting loop of the benchmarks) are partial functions
  whose \<open>None\<close> is not returning; that they return is proved from a measure of what the operating
  system has still to deliver (\<open>runs_down\<close>, \<open>ring_runs_down\<close>), which the scripted systems of the
  witnesses have.  The read loop for C strings recurses on the room left under its cap.

  \<^bold>\<open>Not modelled.\<close>  The crate roots (re-exports), argument
  parsing by \<^verbatim>\<open>clap\<close> (the model starts from the parsed record), logging, the child's side of
  \<^verbatim>\<open>fork\<close> (one call from the parent's view), the generic C library beyond the calls used, the
  integration tests, and three unit tests of what a library makes of a value: the parse of the
  embedded BPF object, and the JSON texts of an event and of a decoded call.  Printing to standard error is taken to succeed.  Text is bytes; Unicode white space is not considered.
  The sum of a capture's address and length wraps as in a release build.
\<close>

subsection \<open>Properties\<close>

text \<open>
  C10. A run comes to an end: whatever the arguments and whichever backend ends up tracing,
  the program terminates with a status when the operating system has only finitely many
  stops, samples and waits left to deliver.
\<close>

theorem syren_terminates:
  assumes "runs_down (sy_ptrace sy) \<mu>" "ring_runs_down (sy_ring sy) \<nu>"
  shows "\<exists>y. main_run (syren_backends feature T sy) ou js T c w v = Some y"
proof -
  let ?bk = "syren_backends feature T sy"
  have total: "\<exists>y. run_loop (driver_ops ?bk ou js d) T filt leader (t, w1) sink 0 = Some y"
    if "build_tracer ?bk (c_backend c) tgt \<lparr>follow_forks = c_follow c\<rparr> w = (Inr t, w1)" for tgt t w1 d filt leader sink
  proof -
    have n: "lo_next (driver_ops ?bk ou js d) = box_next ?bk" by (simp add: driver_ops_def)
    note fin = syren_box_finite [of feature T sy \<mu> \<nu>] and good = built_tracer_good [OF that assms]
    from finite_tracer.run_loop_total [OF fin n good] show ?thesis .
  qed
  have "\<exists>y. run ?bk ou js T c w v = Some y" by (rule run_total) (rule total)
  then show ?thesis by (auto simp: main_run_def)
qed

text \<open>The names of the shipped table are printable, as the line of a call needs them to be.\<close>

lemma rows_printable:
  "list_all (\<lambda>e. list_all (\<lambda>c. 0x20 \<le> (of_char c :: nat) \<and> (of_char c :: nat) \<le> 0x7E) (ent_name e)) SYSCALL_ROWS"
  by (simp only: SYSCALL_ROWS_def list_all_append)
    (simp add: rows_1_def rows_2_def rows_3_def rows_4_def rows_5_def rows_6_def rows_7_def rows_8_def
      rows_9_def rows_10_def rows_11_def rows_12_def row_def)

lemma SYSCALLS_printable: "table_printable SYSCALLS"
proof -
  have "printable_list (ent_name e)" if "e \<in> set (kept SYSCALL_ROWS)" for e
    using rows_printable that by (auto simp: kept_def list_all_iff printable_list_def printable_def)
  then have "\<forall>n \<in> set (map si_name SYSCALLS). printable_list n" by (auto simp: SYSCALLS_names)
  then show ?thesis by (auto simp: table_printable_def list_all_iff)
qed

text \<open>
  C26. When arming the in-kernel filter fails after the fork, the program is started twice:
  the eBPF attempt has already forked and released its child when the driver falls back to
  ptrace, which spawns the program again from the world that attempt left.
\<close>

theorem fallback_starts_twice:
  assumes "eb_prepare (sy_setup sy) T (follow_forks opts) ((), w) = (Inr base, ((), w0))"
    and "resolve_program (sy_setup sy) program (eb_empty base, w0) = (Inr (), (eb_empty base, w1))"
    and "\<forall>p\<in>set (program # args). CHR 0x00 \<notin> set p" "so_pipe2 (sy_setup sy) w1 = (Inr (rfd, wfd), w2)"
    and "so_fork (sy_setup sy) program (program # args) rfd w2 = (Inr child, w3)"
    and "arm (sy_setup sy) [child] ((eb_empty base)\<lparr>eb_leader := Some child, eb_child := Some child\<rparr>, so_close (sy_setup sy) rfd w3)
       = (Inl (EbpfUnsupported why), (t', w4))"
  shows "build_tracer (syren_backends True T sy) Ebpf (Spawn program args) opts w =
     (case pt_new (sy_ptrace sy) (Spawn program args) opts
        (sy_eprintln sy (''syren: eBPF backend unavailable: '' @ why @ ''; falling back to the ptrace backend'')
          (so_close (sy_setup sy) wfd (so_write (sy_setup sy) wfd [1] w4))) of
        (Inl e, w5) \<Rightarrow> (Inl (start_failed e), w5) | (Inr t, w5) \<Rightarrow> (Inr (PtraceBox t), w5))"
proof -
  have "eb_spawn (sy_setup sy) program args (eb_empty base, w0)
      = (Inl (EbpfUnsupported why), (t', so_close (sy_setup sy) wfd (so_write (sy_setup sy) wfd [1] w4)))"
    by (rule eb_spawn_releases [OF assms(2-6)])
  then show ?thesis using assms(1)
    by (simp add: build_tracer_def make_tracer_def syren_backends_def eb_new_def error_text_def Let_def
        split: prod.split sum.split)
qed

theorem fallback_starts_twice_witness:
  "snd (build_tracer (syren_backends True [] failing_system) Ebpf (Spawn ''ls'' []) no_follow [])
     = [''fork ls'', ''go'', ''fork_exec ls'']"
proof -
  have "build_tracer (syren_backends True [] failing_system) Ebpf (Spawn ''ls'' []) no_follow [] =
     (case pt_new (sy_ptrace failing_system) (Spawn ''ls'' []) no_follow
        (sy_eprintln failing_system (''syren: eBPF backend unavailable: '' @ ''TARGETS map missing'' @ ''; falling back to the ptrace backend'')
          (so_close (sy_setup failing_system) 4 (so_write (sy_setup failing_system) 4 [1] [''fork ls'']))) of
        (Inl e, w5) \<Rightarrow> (Inl (start_failed e), w5) | (Inr t, w5) \<Rightarrow> (Inr (PtraceBox t), w5))"
    by (rule fallback_starts_twice [where base = 1000000005 and rfd = 3 and child = 7 and ?w0.0 = "[]" and ?w1.0 = "[]"
          and ?w2.0 = "[]" and ?w3.0 = "[''fork ls'']"])
      (simp_all add: failing_system_def exec)
  then show ?thesis by (simp add: failing_system_def exec)
qed

theorem syren_terminates_witness:
  "\<exists>y. main_run (syren_backends True [] scripted_system) demo_outputs (\<lambda>_. ''{}'') [] (no_args\<lparr>c_command := [''ls'']\<rparr>) (script_of [(Stopped 7 SIGTRAP, no_regs), (Exited 7 3, no_regs)]) [] = Some y"
proof (rule syren_terminates)
  show "runs_down (sy_ptrace scripted_system) (\<lambda>w. length (sc_next w))"
    using scripted_runs_down by (simp add: scripted_system_def)
  show "ring_runs_down (sy_ring scripted_system) (\<lambda>_. 0)"
    by (auto simp: scripted_system_def idle_ring_def ring_runs_down_def quiet_def EPERM_def)
qed

text \<open>
  C1. A program traced by either backend shows the same calls.  Suppose that under ptrace the
  stops of a task come in pairs that spell the calls \<open>cs\<close> (every call returns, and no exec event
  comes between), that at its tracepoints the same numbers, arguments and results appear in
  pairs, that the ring has room for each record and the table of pending calls for every task
  that makes one.  Then the ptrace session and the in-kernel programs each report exactly these
  calls in this order, however the calls of other tasks are interleaved; and each pair decodes
  to the same name, arguments, result and error, also when the two are read through different
  readers, as long as these give the same strings at path arguments and the same bytes at
  buffers and socket options.
\<close>

theorem sessions_agree:
  assumes "pt_seen os s obs s'" "pt_inflight (fst s) = Map.empty" "stops_of p (map fst obs) = concat (map (stop_pair p) cs)"
    and "is_target k t" "distinct (map fst (k_enters k))" "map_of (k_enters k) t = None"
    and "card (insert t (pending k \<union> callers hits)) \<le> ENTERS_MAX"
    and "filter (call_of t) hits = concat (map hit_pair hs)" "list_all2 sees_same cs hs" "table_arity_ok T"
  shows "\<exists>rs. k_events (k_run b f hits k) = k_events k @ rs
    \<and> length (filter (\<lambda>r. rec_tid r = t) rs) = length cs
    \<and> list_all2 (\<lambda>e r. shows_same T e (record_to_event r base))
        (filter (\<lambda>e. ev_tid e = p) (session_syscalls (map snd obs))) (filter (\<lambda>r. rec_tid r = t) rs)"
proof -
  from k_run_calls [OF assms(4,5,7)] obtain rs where rs: "k_events (k_run b f hits k) = k_events k @ rs"
    "map record_view (filter (\<lambda>r. rec_tid r = t) rs) = map done_view (task_records t (map_of (k_enters k) t) hits)" by blast
  then have "map record_view (filter (\<lambda>r. rec_tid r = t) rs) = map done_view (concat (map pair_entry hs))"
    by (simp add: assms(6) task_records_pairs [OF assms(8)])
  from records_agree [OF assms(1-3) this assms(9,10)] rs(1) show ?thesis by blast
qed

theorem sessions_agree_witness:
  "\<exists>rs r e. k_events (k_run False True [HitEnter (demo_env 9 50 open_ctx), HitEnter (demo_env 8 60 open_ctx),
        HitExit (demo_env 9 80 open_ctx)] demo_kernel) = rs \<and> filter (\<lambda>r. rec_tid r = 9) rs = [r]
     \<and> ev_args e = Args 4096 0 0 0 0 0
     \<and> shown [open_info] (\<lambda>a n. Some (take n [47, 120, 0, 9])) e
       = shown [open_info] (\<lambda>a n. Some (take n [47, 120, 0])) (record_to_event r 0)
     \<and> shown [open_info] (\<lambda>a n. Some (take n [47, 120, 0, 9])) e \<noteq> None"
proof -
  let ?hits = "[HitEnter (demo_env 9 50 open_ctx), HitEnter (demo_env 8 60 open_ctx), HitExit (demo_env 9 80 open_ctx)]"
  define r0 where "r0 = no_regs\<lparr>r_orig_rax := 2, r_rdi := 4096\<rparr>"
  define r where "r = no_regs\<lparr>r_orig_rax := 2, r_rax := 4096\<rparr>"
  define s0 where "s0 = (tracing, script_of [(PtraceSyscall 7, r0), (PtraceSyscall 7, r)])"
  let ?pe = "\<lparr>ev_pid = 7, ev_tid = 7, ev_nr = 2, ev_args = Args 4096 0 0 0 0 0, ev_retval = 4096,
         ev_ts_enter_ns = 100, ev_duration_ns = 10\<rparr>"
  define s1 where "s1 = after_rounds 1 scripted s0"
  define s2 where "s2 = after_rounds 2 scripted s0"
  let ?obs = "[((PtraceSyscall 7, r0), None), ((PtraceSyscall 7, r), Some (SyscallEv ?pe))]"
  have a: "pt_step scripted s0 (PtraceSyscall 7) None s1"
    by (simp add: s1_def s0_def r0_def r_def pt_step_code exec)
  have b: "pt_step scripted s1 (PtraceSyscall 7) (Some (SyscallEv ?pe)) s2"
    by (simp add: s1_def s2_def s0_def r0_def r_def pt_step_code exec)
  have "r0 = stop_view scripted s0 (PtraceSyscall 7)" "r = stop_view scripted s1 (PtraceSyscall 7)"
    by (simp_all add: s1_def s0_def r0_def r_def exec)
  with a b have seen: "pt_seen scripted s0 ?obs s2" by (auto simp del: split_paired_Ex)
  have n: "pt_inflight (fst s0) = Map.empty" by (simp add: s0_def exec)
  have st: "stops_of 7 (map fst ?obs) = concat (map (stop_pair 7) [(r0, r)])" by (simp add: stops_of_def stop_pair_def)
  have t: "env_tid (demo_env 9 50 open_ctx) = 9" "env_tid (demo_env 8 60 open_ctx) = 8" "env_tid (demo_env 9 80 open_ctx) = 9"
    "kv_reserve (demo_env 9 80 open_ctx) = Some blank_record" "k_enters demo_kernel = []" "k_events demo_kernel = []"
    "is_target demo_kernel 9"
    by (simp_all add: demo_env_def env_tid_def demo_kernel_def is_target_def)
  have "callers ?hits \<subseteq> {9, 8}" using t by (auto simp: callers_def)
  then have "card (insert 9 (pending demo_kernel \<union> callers ?hits)) \<le> card {9, 8 :: u32}"
    by (intro card_mono) (auto simp: pending_def t)
  then have c: "card (insert 9 (pending demo_kernel \<union> callers ?hits)) \<le> ENTERS_MAX" by (simp add: ENTERS_MAX_def)
  have h: "filter (call_of 9) ?hits = concat (map hit_pair [(demo_env 9 50 open_ctx, demo_env 9 80 open_ctx)])"
    by (simp add: hit_pair_def t)
  have "read_word (demo_env 9 80 open_ctx) 16 8 = Inr (unat (r_rax r))" by (simp add: r_def exec)
  then have same: "list_all2 sees_same [(r0, r)] [(demo_env 9 50 open_ctx, demo_env 9 80 open_ctx)]"
    by (simp add: sees_same_def t demo_raw r0_def no_regs_def regs_args_def)
  have ar: "table_arity_ok [open_info]" by (simp add: table_arity_ok_def open_info_def)
  have alike: "reads_alike [open_info] ?pe (\<lambda>a n. Some (take n [47, 120, 0, 9])) (\<lambda>a n. Some (take n [47, 120, 0]))"
    by (simp add: reads_alike_def open_info_def exec)
  from sessions_agree [OF seen n st t(7) _ _ c h same ar, of False True 0] t(5,6) obtain rs where
    rs: "k_events (k_run False True ?hits demo_kernel) = rs" "length (filter (\<lambda>r. rec_tid r = 9) rs) = 1"
      "list_all2 (\<lambda>e r. shows_same [open_info] e (record_to_event r 0)) [?pe] (filter (\<lambda>r. rec_tid r = 9) rs)"
    by (auto simp: session_syscalls_def)
  from rs(2) obtain r where r: "filter (\<lambda>r. rec_tid r = 9) rs = [r]" by (auto simp: length_Suc_conv)
  with rs(3) have "shows_same [open_info] ?pe (record_to_event r 0)" by simp
  with alike have "shown [open_info] (\<lambda>a n. Some (take n [47, 120, 0, 9])) ?pe
       = shown [open_info] (\<lambda>a n. Some (take n [47, 120, 0])) (record_to_event r 0)
     \<and> shown [open_info] (\<lambda>a n. Some (take n [47, 120, 0, 9])) ?pe \<noteq> None"
    unfolding shows_same_def by blast
  moreover have "ev_args ?pe = Args 4096 0 0 0 0 0" by simp
  ultimately show ?thesis using rs(1) r by blast
qed

end
